(* ===== verification/Prelude.thy ===== *)
theory Prelude
  imports Main "HOL-Library.State_Monad"
begin

text \<open>
  Shared vocabulary of the WireChat development: Go error values, Go's decimal formatting,
  the state monad in which the store and the services are written, and the generic facts the
  component theories rest on.

  \<^item> \<open>goerr\<close> is Go's \<open>error\<close>: a sentinel made by \<open>errors.New\<close> (identified by the name of its
    variable), a plain text error, an error wrapped by \<open>fmt.Errorf\<close> with a \<open>%w\<close> verb, or a
    panic that leaves the function instead of returning.
  \<^item> \<open>effect_bound\<close> is the interface every "no operation does more than this" argument goes
    through: a reflexive and transitive relation between the state before and the state after.
  \<^item> \<open>inv_machine\<close> lifts an invariant from single steps to reachable states.
\<close>

section \<open>Names shared by the components\<close>

type_synonym time = int \<comment> \<open>nanoseconds since the Unix epoch\<close>
type_synonym int64 = int
type_synonym userID = int64
type_synonym roomID = int64
type_synonym callID = string

abbreviation return :: "'a \<Rightarrow> ('s, 'a) state" where
  "return \<equiv> State_Monad.return"

abbreviation get_st :: "('s, 's) state" where
  "get_st \<equiv> State_Monad.get"

abbreviation put_st :: "'s \<Rightarrow> ('s, unit) state" where
  "put_st \<equiv> State_Monad.set"

abbreviation result_of :: "('s, 'a) state \<Rightarrow> 's \<Rightarrow> 'a" where
  "result_of m s \<equiv> fst (run_state m s)"

abbreviation after :: "('s, 'a) state \<Rightarrow> 's \<Rightarrow> 's" where
  "after m s \<equiv> snd (run_state m s)"

text \<open>\<open>time.Time{}\<close>, the instant for which \<open>IsZero\<close> holds, and \<open>Time.Unix\<close>.\<close>

definition zero_time :: time where
  "zero_time = - 62135596800000000000"

definition Unix :: "time \<Rightarrow> int64" where
  "Unix t = t div 1000000000"

section \<open>Errors\<close>

datatype goerr =
    ErrNew string string   \<comment> \<open>the sentinel's variable and its text\<close>
  | ErrText string         \<comment> \<open>\<open>fmt.Errorf\<close> without \<open>%w\<close>, or an error of a library\<close>
  | ErrWrap string goerr   \<comment> \<open>\<open>fmt.Errorf("prefix: %w", err)\<close>\<close>
  | GoPanic string         \<comment> \<open>the call panicked\<close>

fun error_string :: "goerr \<Rightarrow> string" where
  "error_string (ErrNew v t) = t"
| "error_string (ErrText t) = t"
| "error_string (ErrWrap p e) = p @ '': '' @ error_string e"
| "error_string (GoPanic t) = t"

text \<open>\<open>errors.Is\<close>: some error of the chain of wrapped errors is the target.\<close>

fun errors_is :: "goerr \<Rightarrow> goerr \<Rightarrow> bool" where
  "errors_is (ErrWrap p e) target = (ErrWrap p e = target \<or> errors_is e target)"
| "errors_is e target = (e = target)"

lemma errors_is_refl [simp]: "errors_is e e"
  by (cases e) auto

section \<open>Decimal formatting\<close>

definition digit :: "nat \<Rightarrow> char" where
  "digit n = char_of (48 + n)"

fun digits10 :: "nat \<Rightarrow> string" where
  "digits10 n = (if n < 10 then [digit n] else digits10 (n div 10) @ [digit (n mod 10)])"

declare digits10.simps [simp del]

text \<open>The verb \<open>%d\<close> of \<open>fmt\<close>, also \<open>strconv.FormatInt\<close> in base ten.\<close>

definition itoa :: "int \<Rightarrow> string" where
  "itoa i = (if i < 0 then CHR ''-'' # digits10 (nat (- i)) else digits10 (nat i))"

definition is_digit :: "char \<Rightarrow> bool" where
  "is_digit c = (48 \<le> (of_char c :: nat) \<and> (of_char c :: nat) \<le> 57)"

definition digit_val :: "char \<Rightarrow> nat" where
  "digit_val c = of_char c - 48"

definition atoi_digits :: "string \<Rightarrow> nat" where
  "atoi_digits cs = foldl (\<lambda>a c. 10 * a + digit_val c) 0 cs"

lemma digit_facts:
  assumes "n < 10"
  shows "digit_val (digit n) = n" and "is_digit (digit n)"
  using assms by (simp_all add: digit_val_def digit_def is_digit_def)

lemma digits10_digits: "c \<in> set (digits10 n) \<Longrightarrow> is_digit c"
proof (induction n rule: digits10.induct)
  case (1 n)
  then show ?case
    by (subst (asm) (2) digits10.simps) (auto simp: digit_facts split: if_splits)
qed

lemma digits10_nonempty [simp]: "digits10 n \<noteq> []"
  by (subst digits10.simps) simp

lemma atoi_digits10: "atoi_digits (digits10 n) = n"
proof (induction n rule: digits10.induct)
  case (1 n)
  then show ?case
    by (subst digits10.simps) (auto simp: atoi_digits_def digit_facts)
qed

lemma digits10_inj: "digits10 m = digits10 n \<longleftrightarrow> m = n"
  by (metis atoi_digits10)

lemma minus_not_digit [simp]: "\<not> is_digit CHR ''-''" "\<not> is_digit CHR '':''"
  by (simp_all add: is_digit_def)

lemma itoa_inj: "itoa i = itoa j \<longleftrightarrow> i = j"
proof -
  have "digits10 m \<noteq> CHR ''-'' # xs" for m xs
    using digits10_digits[of "CHR ''-''" m] by auto
  then have "CHR ''-'' # xs \<noteq> digits10 m" for m xs
    by metis
  then show ?thesis
    using \<open>\<And>m xs. digits10 m \<noteq> CHR ''-'' # xs\<close>
    by (auto simp: itoa_def digits10_inj)
qed

lemma itoa_no_colon: "CHR '':'' \<notin> set (itoa i)"
  using digits10_digits[of "CHR '':''"] by (auto simp: itoa_def)

lemma append_sep_inj:
  assumes "c \<notin> set xs" and "c \<notin> set us"
  shows "xs @ c # ys = us @ c # vs \<longleftrightarrow> xs = us \<and> ys = vs"
  using assms by (auto simp: append_eq_append_conv2 append_eq_Cons_conv Cons_eq_append_conv)

section \<open>Lists that stand for tables and Go maps\<close>

lemma sorted_wrt_map_filter:
  "sorted_wrt P (map f xs) \<Longrightarrow> sorted_wrt P (map f (filter Q xs))"
  by (induction xs) auto

lemma distinct_map_filter_conv:
  "distinct (map f xs) \<Longrightarrow> distinct (map f (filter Q xs))"
  by (induction xs) auto

lemma filter_key_unique:
  assumes "distinct (map f xs)" and "x \<in> set xs"
  shows "filter (\<lambda>y. f y = f x) xs = [x]"
  using assms
proof (induction xs)
  case Nil
  then show ?case by simp
next
  case (Cons a xs)
  then show ?case
    by (cases "x = a") (auto simp: filter_empty_conv image_iff)
qed

lemma filter_key_unique':
  assumes "distinct (map f xs)" and "x \<in> set xs" and "f x = k"
  shows "filter (\<lambda>y. f y = k) xs = [x]"
  using filter_key_unique[OF assms(1,2)] assms(3) by simp

lemma map_upd_key_same:
  assumes "\<And>x. f (g x) = f x"
  shows "map f (map (\<lambda>x. if Q x then g x else x) xs) = map f xs"
  using assms by (induction xs) auto

section \<open>The state monad\<close>

lemma run_state_split:
  "P (run_state m s) \<longleftrightarrow> (\<forall>a t. run_state m s = (a, t) \<longrightarrow> P (a, t))"
  by (cases "run_state m s") simp

text \<open>
  \<open>effect_bound R\<close>: every piece of a computation moves the state along \<open>R\<close>; then so does the
  whole of it. The laws are the monad's combinators and Go's control flow.
\<close>

locale effect_bound =
  fixes R :: "'s \<Rightarrow> 's \<Rightarrow> bool"
  assumes R_refl: "R s s"
    and R_trans: "R s t \<Longrightarrow> R t u \<Longrightarrow> R s u"
begin

lemma eb_return: "state_io_rel R (State_Monad.return x)"
  by (simp add: state_io_rel_def R_refl)

lemma eb_get: "state_io_rel R State_Monad.get"
  by (simp add: state_io_rel_def R_refl)

lemma eb_bind:
  assumes "state_io_rel R m" and "\<And>x. state_io_rel R (f x)"
  shows "state_io_rel R (State_Monad.bind m f)"
  using assms by (auto simp: state_io_rel_def split: prod.splits intro: R_trans)

lemma eb_if:
  "(b \<Longrightarrow> state_io_rel R m) \<Longrightarrow> (\<not> b \<Longrightarrow> state_io_rel R n) \<Longrightarrow> state_io_rel R (if b then m else n)"
  by simp

lemma eb_sum:
  "(\<And>e. x = Inl e \<Longrightarrow> state_io_rel R (f e)) \<Longrightarrow> (\<And>v. x = Inr v \<Longrightarrow> state_io_rel R (g v)) \<Longrightarrow>
    state_io_rel R (case x of Inl e \<Rightarrow> f e | Inr v \<Rightarrow> g v)"
  by (cases x) auto

lemma eb_option:
  "(x = None \<Longrightarrow> state_io_rel R m) \<Longrightarrow> (\<And>v. x = Some v \<Longrightarrow> state_io_rel R (g v)) \<Longrightarrow>
    state_io_rel R (case x of None \<Rightarrow> m | Some v \<Rightarrow> g v)"
  by (cases x) auto

lemma eb_prod:
  "(\<And>a b. x = (a, b) \<Longrightarrow> state_io_rel R (f a b)) \<Longrightarrow>
    state_io_rel R (case x of (a, b) \<Rightarrow> f a b)"
  by (cases x) auto

lemma eb_traverse:
  "(\<And>x. state_io_rel R (f x)) \<Longrightarrow> state_io_rel R (traverse_list f xs)"
  by (induction xs) (auto intro!: eb_return eb_bind)

lemmas eb_rules = eb_return eb_get eb_bind eb_if eb_sum eb_option eb_prod eb_traverse

lemma eb_after: "state_io_rel R m \<Longrightarrow> R s (snd (run_state m s))"
  by (simp add: state_io_rel_def)

lemma eb_run: "state_io_rel R m \<Longrightarrow> run_state m s = (x, t) \<Longrightarrow> R s t"
  using eb_after[of m s] by simp

end

text \<open>A relation that keeps an invariant is one of them.\<close>

lemma effect_bound_keeps: "effect_bound (\<lambda>s t. I s \<longrightarrow> I t)"
  by unfold_locales auto

lemma effect_bound_frame: "effect_bound (\<lambda>s t. f t = f s)"
  by unfold_locales auto

text \<open>
  Pre- and postconditions, for arguments that need the value a call returned. A state
  predicate \<open>P\<close> that a call keeps is carried across it (\<open>hoare_keep\<close>).
\<close>

definition hoare :: "('s \<Rightarrow> bool) \<Rightarrow> ('s, 'a) state \<Rightarrow> ('a \<Rightarrow> 's \<Rightarrow> bool) \<Rightarrow> bool" where
  "hoare P m Q \<longleftrightarrow> (\<forall>s. P s \<longrightarrow> (case run_state m s of (a, t) \<Rightarrow> Q a t))"

lemma hoareD: "hoare P m Q \<Longrightarrow> P s \<Longrightarrow> run_state m s = (a, t) \<Longrightarrow> Q a t"
  by (auto simp: hoare_def split: prod.splits)

lemma hoare_after: "hoare P m (\<lambda>_. Q) \<Longrightarrow> P s \<Longrightarrow> Q (after m s)"
  by (cases "run_state m s") (auto simp: hoare_def)

lemma hoare_return: "(\<And>s. P s \<Longrightarrow> Q x s) \<Longrightarrow> hoare P (return x) Q"
  by (simp add: hoare_def)

lemma hoare_bind: "hoare P m R \<Longrightarrow> (\<And>x. hoare (R x) (f x) Q) \<Longrightarrow> hoare P (State_Monad.bind m f) Q"
  by (fastforce simp: hoare_def split: prod.splits)

lemma hoare_bind_pure:
  "hoare P m (\<lambda>x s. A x \<and> P s) \<Longrightarrow> (\<And>x. A x \<Longrightarrow> hoare P (f x) Q) \<Longrightarrow>
    hoare P (State_Monad.bind m f) Q"
  by (fastforce simp: hoare_def split: prod.splits)

lemma hoare_keep:
  "state_io_rel (\<lambda>s t. P s \<longrightarrow> P t) m \<Longrightarrow> (\<And>x. hoare P (f x) Q) \<Longrightarrow>
    hoare P (State_Monad.bind m f) Q"
  by (fastforce simp: hoare_def state_io_rel_def split: prod.splits)

lemma hoare_if:
  "(b \<Longrightarrow> hoare P m Q) \<Longrightarrow> (\<not> b \<Longrightarrow> hoare P n Q) \<Longrightarrow> hoare P (if b then m else n) Q"
  by simp

lemma hoare_sum:
  "(\<And>e. x = Inl e \<Longrightarrow> hoare P (f e) Q) \<Longrightarrow> (\<And>v. x = Inr v \<Longrightarrow> hoare P (g v) Q) \<Longrightarrow>
    hoare P (case x of Inl e \<Rightarrow> f e | Inr v \<Rightarrow> g v) Q"
  by (cases x) auto

lemma hoare_option:
  "(x = None \<Longrightarrow> hoare P m Q) \<Longrightarrow> (\<And>v. x = Some v \<Longrightarrow> hoare P (g v) Q) \<Longrightarrow>
    hoare P (case x of None \<Rightarrow> m | Some v \<Rightarrow> g v) Q"
  by (cases x) auto

lemma hoare_conseq:
  "hoare P m Q \<Longrightarrow> (\<And>a s. Q a s \<Longrightarrow> Q' a s) \<Longrightarrow> hoare P m Q'"
  by (fastforce simp: hoare_def split: prod.splits)

lemmas hoare_flow = hoare_if hoare_sum hoare_option

text \<open>Taking a run apart into the runs of its pieces.\<close>

lemma run_bind_eq:
  "run_state (State_Monad.bind m f) s = (y, t) \<longleftrightarrow>
     (\<exists>x s'. run_state m s = (x, s') \<and> run_state (f x) s' = (y, t))"
  by (auto split: prod.splits)

section \<open>Invariants of step relations\<close>

locale inv_machine =
  fixes step :: "'s \<Rightarrow> 's \<Rightarrow> bool" and inv :: "'s \<Rightarrow> bool"
  assumes step_inv: "step s t \<Longrightarrow> inv s \<Longrightarrow> inv t"
begin

lemma reach_inv: "step\<^sup>*\<^sup>* s t \<Longrightarrow> inv s \<Longrightarrow> inv t"
  by (induction rule: rtranclp_induct) (auto intro: step_inv)

end

section \<open>Functional refinement\<close>

text \<open>
  An implementation \<open>conc\<close> whose every operation commutes with the abstraction function: then
  every sequence of operations does.
\<close>

locale simulation =
  fixes conc :: "'op \<Rightarrow> 's \<Rightarrow> 's" and spec :: "'op \<Rightarrow> 'a \<Rightarrow> 'a"
    and abs :: "'s \<Rightarrow> 'a" and inv :: "'s \<Rightarrow> bool"
  assumes sim_inv: "inv s \<Longrightarrow> inv (conc op s)"
    and sim_abs: "inv s \<Longrightarrow> abs (conc op s) = spec op (abs s)"
begin

lemma run_inv: "inv s \<Longrightarrow> inv (fold conc ops s)"
  by (induction ops arbitrary: s) (auto simp: sim_inv)

lemma run_abs: "inv s \<Longrightarrow> abs (fold conc ops s) = fold spec ops (abs s)"
  by (induction ops arbitrary: s) (auto simp: sim_inv sim_abs)

end

end
