(* ===== verification/Store.thy ===== *)
theory Store
  imports Prelude
begin

text \<open>
  The persistence layer's data (\<open>internal/store/store.go\<close>, the schema under \<open>migrations/\<close>) and
  the database handle the SQLite store runs its statements on.

  A table is the list of its rows in the order of insertion, an \<open>AUTOINCREMENT\<close> column draws its
  values from a counter of its own (\<open>s_users\<close>, \<dots>), and a nullable column is an option. A
  \<open>UNIQUE\<close> or \<open>PRIMARY KEY\<close> constraint makes the statement fail; foreign keys are declared by
  the schema, but SQLite enforces them only on a connection that asks for it, which the code's
  data source name does not do.

  The database is a fallible service: \<open>faults\<close> says, call by call, whether and where the driver
  fails (before the statement, when the result or a row is read, after some rows). Theorems
  hold for every schedule of faults unless they ask for an empty one. \<open>clock\<close> is the current
  instant, read by \<open>time.Now\<close> and by \<open>CURRENT_TIMESTAMP\<close>.
\<close>

section \<open>Structs\<close>

record user =
  user_ID :: userID
  user_Username :: string
  user_PasswordHash :: string
  user_IsGuest :: bool
  user_SessionID :: string
  user_CreatedAt :: time

record room =
  room_ID :: roomID
  room_Name :: string
  room_Type :: string
  room_OwnerID :: "userID option"
  room_DirectKey :: "string option"
  room_CreatedAt :: time

definition RoomTypePublic :: string where [simp]: "RoomTypePublic = ''public''"
definition RoomTypePrivate :: string where [simp]: "RoomTypePrivate = ''private''"
definition RoomTypeDirect :: string where [simp]: "RoomTypeDirect = ''direct''"
definition RoomTypeChannel :: string where [simp]: "RoomTypeChannel = ''channel''"

record message =
  message_ID :: int64
  message_RoomID :: roomID
  message_UserID :: userID
  message_Body :: string
  message_CreatedAt :: time

record roomMember =
  member_UserID :: userID
  member_RoomID :: roomID
  member_JoinedAt :: time

definition FriendStatusPending :: string where [simp]: "FriendStatusPending = ''pending''"
definition FriendStatusAccepted :: string where [simp]: "FriendStatusAccepted = ''accepted''"
definition FriendStatusBlocked :: string where [simp]: "FriendStatusBlocked = ''blocked''"

record friend =
  friend_ID :: int64
  friend_UserID :: userID
  friend_FriendID :: userID
  friend_Status :: string
  friend_CreatedAt :: time
  friend_UpdatedAt :: time

definition CallTypeDirect :: string where [simp]: "CallTypeDirect = ''direct''"
definition CallTypeRoom :: string where [simp]: "CallTypeRoom = ''room''"
definition CallStatusRinging :: string where [simp]: "CallStatusRinging = ''ringing''"
definition CallStatusActive :: string where [simp]: "CallStatusActive = ''active''"
definition CallStatusEnded :: string where [simp]: "CallStatusEnded = ''ended''"
definition CallStatusFailed :: string where [simp]: "CallStatusFailed = ''failed''"
definition CallModeLiveKit :: string where [simp]: "CallModeLiveKit = ''livekit''"

record call =
  call_ID :: callID
  call_Type :: string
  call_Mode :: string
  call_InitiatorUserID :: userID
  call_RoomID :: "roomID option"
  call_Status :: string
  call_ExternalRoomID :: "string option"
  call_CreatedAt :: time
  call_UpdatedAt :: time
  call_EndedAt :: "time option"

record callParticipant =
  part_ID :: int64
  part_CallID :: callID
  part_UserID :: userID
  part_JoinedAt :: "time option"
  part_LeftAt :: "time option"
  part_Reason :: "string option"

definition AllowCallsFromEveryone :: string where [simp]: "AllowCallsFromEveryone = ''everyone''"
definition AllowCallsFromFriendsOnly :: string where
  [simp]: "AllowCallsFromFriendsOnly = ''friends_only''"

section \<open>Tables\<close>

text \<open>
  A row of \<open>users\<close> has two columns the struct has not: \<open>session_id\<close> may be null, and
  \<open>allow_calls_from\<close> is read on its own. The rows of the other tables are the structs.
\<close>

record user_row =
  u_id :: userID
  u_username :: string
  u_password_hash :: string
  u_is_guest :: bool
  u_session_id :: "string option"
  u_created_at :: time
  u_allow_calls_from :: string

datatype fault =
    FaultStmt string      \<comment> \<open>the statement is not run\<close>
  | FaultScan string      \<comment> \<open>reading the result, or the first row, fails\<close>
  | FaultRows nat string  \<comment> \<open>some rows are read, then the cursor fails\<close>

record db =
  t_users :: "user_row list"
  s_users :: int
  t_rooms :: "room list"
  s_rooms :: int
  t_room_members :: "roomMember list"
  t_messages :: "message list"
  s_messages :: int
  t_friends :: "friend list"
  s_friends :: int
  t_calls :: "call list"
  t_call_participants :: "callParticipant list"
  s_call_participants :: int
  clock :: time
  faults :: "fault option list"

type_synonym 'a dbm = "(db, 'a) state"
type_synonym 'a rows = "'a list \<times> goerr option"

text \<open>The database right after the migrations: one public room, \<open>general\<close>.\<close>

definition init_db :: "time \<Rightarrow> db" where
  "init_db t = \<lparr>t_users = [], s_users = 0,
     t_rooms = [\<lparr>room_ID = 1, room_Name = ''general'', room_Type = RoomTypePublic,
                room_OwnerID = None, room_DirectKey = None,
                room_CreatedAt = t div 1000000000 * 1000000000\<rparr>], s_rooms = 1,
     t_room_members = [], t_messages = [], s_messages = 0, t_friends = [], s_friends = 0,
     t_calls = [], t_call_participants = [], s_call_participants = 0,
     clock = t, faults = []\<rparr>"

section \<open>Running statements\<close>

definition sql_ErrNoRows :: goerr where
  "sql_ErrNoRows = ErrNew ''sql.ErrNoRows'' ''sql: no rows in result set''"

lemma text_not_NoRows [simp]: "ErrText t \<noteq> sql_ErrNoRows" "sql_ErrNoRows \<noteq> ErrText t"
  by (simp_all add: sql_ErrNoRows_def)

definition unique_failed :: "string \<Rightarrow> goerr" where
  "unique_failed col = ErrText (''UNIQUE constraint failed: '' @ col)"

text \<open>\<open>CURRENT_TIMESTAMP\<close> has a resolution of one second.\<close>

definition current_timestamp :: "db \<Rightarrow> time" where
  "current_timestamp d = clock d div 1000000000 * 1000000000"

definition time_Now :: "time dbm" where
  "time_Now = do { d \<leftarrow> get_st; return (clock d) }"

definition next_fault :: "fault option dbm" where
  "next_fault = do {
     d \<leftarrow> get_st;
     case faults d of
       [] \<Rightarrow> return None
     | f # fs \<Rightarrow> do { put_st (d\<lparr>faults := fs\<rparr>); return f } }"

fun fault_text :: "fault \<Rightarrow> string" where
  "fault_text (FaultStmt e) = e"
| "fault_text (FaultScan e) = e"
| "fault_text (FaultRows n e) = e"

text \<open>\<open>QueryRowContext(\<dots>).Scan(\<dots>)\<close>: the first row of the query, or \<open>sql.ErrNoRows\<close>.\<close>

definition query_row :: "(db \<Rightarrow> 'a list) \<Rightarrow> (goerr + 'a) dbm" where
  "query_row q = do {
     f \<leftarrow> next_fault;
     d \<leftarrow> get_st;
     return (case f of
         None \<Rightarrow> (case q d of [] \<Rightarrow> Inl sql_ErrNoRows | x # _ \<Rightarrow> Inr x)
       | Some e \<Rightarrow> Inl (ErrText (fault_text e))) }"

text \<open>
  \<open>QueryContext\<close> and the loop over \<open>rows.Next\<close>: the rows read and the error the function returns
  with them, wrapped with \<open>qmsg\<close> when the query fails, with \<open>smsg\<close> when a scan does, and bare
  when \<open>rows.Err\<close> reports it.
\<close>

definition query_rows :: "string \<Rightarrow> string \<Rightarrow> (db \<Rightarrow> 'a list) \<Rightarrow> 'a rows dbm" where
  "query_rows qmsg smsg q = do {
     f \<leftarrow> next_fault;
     d \<leftarrow> get_st;
     return (case f of
         None \<Rightarrow> (q d, None)
       | Some (FaultStmt e) \<Rightarrow> ([], Some (ErrWrap qmsg (ErrText e)))
       | Some (FaultScan e) \<Rightarrow> ([], Some (ErrWrap smsg (ErrText e)))
       | Some (FaultRows n e) \<Rightarrow> (take n (q d), Some (ErrText e))) }"

text \<open>
  \<open>ExecContext\<close>: a constraint violation or a fault before the statement leaves the tables alone
  and is wrapped with \<open>smsg\<close>. With \<open>rmsg = Some m\<close> the code reads the statement's result
  (\<open>LastInsertId\<close>, \<open>RowsAffected\<close>), which can fail after the statement has taken effect.
\<close>

definition exec_stmt ::
    "string \<Rightarrow> string option \<Rightarrow> (db \<Rightarrow> goerr + ('r \<times> db)) \<Rightarrow> (goerr + 'r) dbm" where
  "exec_stmt smsg rmsg st = do {
     f \<leftarrow> next_fault;
     d \<leftarrow> get_st;
     case f of
       Some (FaultStmt e) \<Rightarrow> return (Inl (ErrWrap smsg (ErrText e)))
     | _ \<Rightarrow>
       (case st d of
          Inl e \<Rightarrow> return (Inl (ErrWrap smsg e))
        | Inr (r, d') \<Rightarrow> do {
            put_st d';
            return (case (f, rmsg) of
                (Some e, Some m) \<Rightarrow> Inl (ErrWrap m (ErrText (fault_text e)))
              | _ \<Rightarrow> Inr r) }) }"

text \<open>The error handling shared by the store's single-row lookups.\<close>

definition not_found_or :: "string \<Rightarrow> string \<Rightarrow> goerr + 'a \<Rightarrow> goerr + 'a" where
  "not_found_or nf q r = (case r of
       Inr x \<Rightarrow> Inr x
     | Inl e \<Rightarrow> if errors_is e sql_ErrNoRows then Inl (ErrWrap nf e) else Inl (ErrWrap q e))"

definition sql_limit :: "int \<Rightarrow> 'a list \<Rightarrow> 'a list" where
  "sql_limit n xs = (if n < 0 then xs else take (nat n) xs)"

section \<open>What the primitives compute\<close>

named_theorems run_db \<open>evaluation of database statements\<close>

definition pop_fault :: "db \<Rightarrow> db" where
  "pop_fault d = d\<lparr>faults := tl (faults d)\<rparr>"

definition fault_now :: "db \<Rightarrow> fault option" where
  "fault_now d = (case faults d of [] \<Rightarrow> None | f # _ \<Rightarrow> f)"

lemma run_next_fault [run_db]: "run_state next_fault d = (fault_now d, pop_fault d)"
  by (cases "faults d") (simp_all add: next_fault_def fault_now_def pop_fault_def)

lemma run_time_Now [run_db]: "run_state time_Now d = (clock d, d)"
  by (simp add: time_Now_def)

lemma run_query_row [run_db]:
  "run_state (query_row q) d =
    ((case fault_now d of
        None \<Rightarrow> (case q (pop_fault d) of [] \<Rightarrow> Inl sql_ErrNoRows | x # _ \<Rightarrow> Inr x)
      | Some e \<Rightarrow> Inl (ErrText (fault_text e))), pop_fault d)"
  by (simp add: query_row_def run_db)

lemma run_query_rows [run_db]:
  "run_state (query_rows qm sm q) d =
    ((case fault_now d of
        None \<Rightarrow> (q (pop_fault d), None)
      | Some (FaultStmt e) \<Rightarrow> ([], Some (ErrWrap qm (ErrText e)))
      | Some (FaultScan e) \<Rightarrow> ([], Some (ErrWrap sm (ErrText e)))
      | Some (FaultRows n e) \<Rightarrow> (take n (q (pop_fault d)), Some (ErrText e))), pop_fault d)"
  by (simp add: query_rows_def run_db)

lemma run_exec_stmt [run_db]:
  "run_state (exec_stmt sm rm st) d =
    (case (fault_now d, st (pop_fault d)) of
       (Some (FaultStmt e), _) \<Rightarrow> (Inl (ErrWrap sm (ErrText e)), pop_fault d)
     | (f, Inl e) \<Rightarrow> (Inl (ErrWrap sm e), pop_fault d)
     | (f, Inr (r, d')) \<Rightarrow>
         ((case (f, rm) of
             (Some e, Some m) \<Rightarrow> Inl (ErrWrap m (ErrText (fault_text e)))
           | _ \<Rightarrow> Inr r), d'))"
  by (auto simp: exec_stmt_def run_db split: option.splits fault.splits sum.splits prod.splits)

lemma pop_fault_tables [simp]:
  "t_users (pop_fault d) = t_users d" "s_users (pop_fault d) = s_users d"
  "t_rooms (pop_fault d) = t_rooms d" "s_rooms (pop_fault d) = s_rooms d"
  "t_room_members (pop_fault d) = t_room_members d"
  "t_messages (pop_fault d) = t_messages d" "s_messages (pop_fault d) = s_messages d"
  "t_friends (pop_fault d) = t_friends d" "s_friends (pop_fault d) = s_friends d"
  "t_calls (pop_fault d) = t_calls d"
  "t_call_participants (pop_fault d) = t_call_participants d"
  "s_call_participants (pop_fault d) = s_call_participants d"
  "clock (pop_fault d) = clock d"
  by (simp_all add: pop_fault_def)

lemma current_timestamp_pop [simp]: "current_timestamp (pop_fault d) = current_timestamp d"
  by (simp add: current_timestamp_def)

lemma no_fault [simp]: "faults d = [] \<Longrightarrow> pop_fault d = d" "faults d = [] \<Longrightarrow> fault_now d = None"
  by (simp_all add: pop_fault_def fault_now_def)

text \<open>
  A relation that ignores the fault schedule bounds every read, and bounds a statement whenever
  it bounds the statement's own update.
\<close>

locale db_effect = effect_bound R for R :: "db \<Rightarrow> db \<Rightarrow> bool" +
  assumes R_pop: "R d (pop_fault d)"
begin

lemma de_query_row: "state_io_rel R (query_row q)"
  by (simp add: state_io_rel_def run_db R_pop)

lemma de_query_rows: "state_io_rel R (query_rows qm sm q)"
  by (simp add: state_io_rel_def run_db R_pop)

lemma de_time: "state_io_rel R time_Now"
  by (simp add: state_io_rel_def run_db R_refl)

lemma de_exec:
  assumes "\<And>d r d'. st d = Inr (r, d') \<Longrightarrow> R d d'"
  shows "state_io_rel R (exec_stmt sm rm st)"
  using assms R_pop R_trans
  by (fastforce simp: state_io_rel_def run_db split: option.splits fault.splits sum.splits prod.splits)

lemmas de_rules = eb_rules de_query_row de_query_rows de_time

end

section \<open>Table invariants\<close>

text \<open>An \<open>AUTOINCREMENT\<close> key: positive, increasing in the order of insertion, below the counter.\<close>

definition table_ok :: "('r \<Rightarrow> int) \<Rightarrow> 'r list \<Rightarrow> int \<Rightarrow> bool" where
  "table_ok rid rs sq \<longleftrightarrow>
     sorted_wrt (<) (map rid rs) \<and> (\<forall>r \<in> set rs. 0 < rid r \<and> rid r \<le> sq) \<and> 0 \<le> sq"

lemma table_ok_insert:
  "table_ok rid rs sq \<Longrightarrow> rid r = sq + 1 \<Longrightarrow> table_ok rid (rs @ [r]) (sq + 1)"
  by (force simp: table_ok_def sorted_wrt_append)

lemma table_ok_filter: "table_ok rid rs sq \<Longrightarrow> table_ok rid (filter P rs) sq"
  by (auto simp: table_ok_def sorted_wrt_map_filter)

lemma table_ok_map:
  "(\<And>r. rid (g r) = rid r) \<Longrightarrow> table_ok rid rs sq \<Longrightarrow>
    table_ok rid (map (\<lambda>r. if P r then g r else r) rs) sq"
  by (auto simp: table_ok_def map_upd_key_same simp del: map_map)

lemma table_ok_distinct: "table_ok rid rs sq \<Longrightarrow> distinct (map rid rs)"
  by (auto simp: table_ok_def strict_sorted_iff)

text \<open>
  The database invariant: the keys of every table and the \<open>UNIQUE\<close> constraints of the schema.
\<close>

definition users_ok :: "db \<Rightarrow> bool" where
  "users_ok d \<longleftrightarrow> table_ok u_id (t_users d) (s_users d) \<and> distinct (map u_username (t_users d))"

definition rooms_ok :: "db \<Rightarrow> bool" where
  "rooms_ok d \<longleftrightarrow> table_ok room_ID (t_rooms d) (s_rooms d) \<and> distinct (map room_Name (t_rooms d))
     \<and> distinct (filter (\<lambda>k. k \<noteq> None) (map room_DirectKey (t_rooms d)))"

definition members_ok :: "db \<Rightarrow> bool" where
  "members_ok d \<longleftrightarrow> distinct (map (\<lambda>m. (member_UserID m, member_RoomID m)) (t_room_members d))"

definition messages_ok :: "db \<Rightarrow> bool" where
  "messages_ok d \<longleftrightarrow> table_ok message_ID (t_messages d) (s_messages d)"

definition friends_ok :: "db \<Rightarrow> bool" where
  "friends_ok d \<longleftrightarrow> table_ok friend_ID (t_friends d) (s_friends d)
     \<and> distinct (map (\<lambda>f. (friend_UserID f, friend_FriendID f)) (t_friends d))"

definition calls_ok :: "db \<Rightarrow> bool" where
  "calls_ok d \<longleftrightarrow> distinct (map call_ID (t_calls d))"

definition participants_ok :: "db \<Rightarrow> bool" where
  "participants_ok d \<longleftrightarrow> table_ok part_ID (t_call_participants d) (s_call_participants d)
     \<and> distinct (map (\<lambda>p. (part_CallID p, part_UserID p)) (t_call_participants d))"

definition db_ok :: "db \<Rightarrow> bool" where
  "db_ok d \<longleftrightarrow> users_ok d \<and> rooms_ok d \<and> members_ok d \<and> messages_ok d \<and> friends_ok d
     \<and> calls_ok d \<and> participants_ok d"

lemmas table_oks = users_ok_def rooms_ok_def members_ok_def messages_ok_def friends_ok_def
  calls_ok_def participants_ok_def

lemma db_ok_pop [simp]: "db_ok (pop_fault d) = db_ok d"
  by (simp add: db_ok_def table_oks)

lemma db_ok_init: "db_ok (init_db t)"
  by (simp add: db_ok_def table_oks table_ok_def init_db_def)

interpretation dbk: db_effect "\<lambda>d d'. db_ok d \<longrightarrow> db_ok d'"
  by unfold_locales auto

end
