(* ===== verification/CallEngine.thy ===== *)
theory CallEngine
  imports Store
begin

text \<open>
  The media backend: the interface of \<open>internal/callengine/engine.go\<close> as a record of its methods,
  and the LiveKit implementation (\<open>internal/callengine/livekit/livekit.go\<close>). Signing an access
  token is the LiveKit SDK's \<open>AccessToken.ToJWT\<close> and an argument, given the key, the secret and
  the token's contents.
\<close>

record joinInfo =
  ji_URL :: string
  ji_Token :: string
  ji_RoomName :: string
  ji_Identity :: string

record engine =
  eng_CreateCall :: "call \<Rightarrow> goerr + string"
  eng_EndCall :: "call \<Rightarrow> goerr option"
  eng_GenerateJoinInfo :: "call \<Rightarrow> userID \<Rightarrow> string \<Rightarrow> goerr + joinInfo"

record livekitEngine =
  lk_apiKey :: string
  lk_apiSecret :: string
  lk_wsURL :: string

text \<open>What the code puts into an access token: a room-join grant for one room, who it is for, and
  its lifetime in nanoseconds.\<close>

record accessToken =
  at_RoomJoin :: bool
  at_Room :: string
  at_Identity :: string
  at_Name :: string
  at_ValidFor :: int

type_synonym token_signer = "string \<Rightarrow> string \<Rightarrow> accessToken \<Rightarrow> goerr + string"

definition livekit_New :: "string \<Rightarrow> string \<Rightarrow> string \<Rightarrow> livekitEngine" where
  "livekit_New apiKey apiSecret wsURL =
     \<lparr>lk_apiKey = apiKey, lk_apiSecret = apiSecret, lk_wsURL = wsURL\<rparr>"

definition livekit_CreateCall :: "livekitEngine \<Rightarrow> call \<Rightarrow> goerr + string" where
  "livekit_CreateCall e c = Inr (''wirechat-'' @ call_Type c @ ''-'' @ call_ID c)"

definition livekit_EndCall :: "livekitEngine \<Rightarrow> call \<Rightarrow> goerr option" where
  "livekit_EndCall e c = None"

definition livekit_GenerateJoinInfo ::
    "token_signer \<Rightarrow> livekitEngine \<Rightarrow> call \<Rightarrow> userID \<Rightarrow> string \<Rightarrow> goerr + joinInfo" where
  "livekit_GenerateJoinInfo toJWT e c userID username =
     (case call_ExternalRoomID c of
        None \<Rightarrow> Inl (ErrText ''call has no external room ID'')
      | Some ext \<Rightarrow>
        let identity = ''user-'' @ itoa userID in
        (case toJWT (lk_apiKey e) (lk_apiSecret e)
                \<lparr>at_RoomJoin = True, at_Room = ext, at_Identity = identity, at_Name = username,
                 at_ValidFor = 3600000000000\<rparr> of
           Inl err \<Rightarrow> Inl (ErrWrap ''generate token'' err)
         | Inr token \<Rightarrow> Inr \<lparr>ji_URL = lk_wsURL e, ji_Token = token, ji_RoomName = ext,
                            ji_Identity = identity\<rparr>))"

definition livekit_engine :: "token_signer \<Rightarrow> livekitEngine \<Rightarrow> engine" where
  "livekit_engine toJWT e = \<lparr>eng_CreateCall = livekit_CreateCall e, eng_EndCall = livekit_EndCall e,
     eng_GenerateJoinInfo = livekit_GenerateJoinInfo toJWT e\<rparr>"

section \<open>What the call service relies on\<close>

text \<open>
  An engine names its rooms after the call, never gives two calls the same room, and hands out
  credentials for the room of the call, under an identity that tells users apart.
\<close>

locale call_engine =
  fixes eng :: engine
  assumes room_inj: "eng_CreateCall eng c = Inr r \<Longrightarrow> eng_CreateCall eng c' = Inr r \<Longrightarrow>
      call_Type c = call_Type c' \<Longrightarrow> call_ID c = call_ID c'"
    and info_room: "eng_GenerateJoinInfo eng c u n = Inr ji \<Longrightarrow>
      call_ExternalRoomID c = Some (ji_RoomName ji)"
    and info_identity: "eng_GenerateJoinInfo eng c u n = Inr ji \<Longrightarrow>
      eng_GenerateJoinInfo eng c' u' n' = Inr ji' \<Longrightarrow> ji_Identity ji = ji_Identity ji' \<Longrightarrow> u = u'"
begin

text \<open>Two join infos that agree in room and identity were issued for the same user.\<close>

lemma info_for_user:
  assumes "eng_GenerateJoinInfo eng c u n = Inr ji" and "eng_GenerateJoinInfo eng c' u' n' = Inr ji'"
    and "ji_RoomName ji = ji_RoomName ji'" and "ji_Identity ji = ji_Identity ji'"
  shows "u = u' \<and> call_ExternalRoomID c = call_ExternalRoomID c'"
  using info_identity[OF assms(1,2,4)] info_room[OF assms(1)] info_room[OF assms(2)] assms(3) by simp

end

lemma livekit_info_Inr:
  "livekit_GenerateJoinInfo toJWT e c u n = Inr ji \<Longrightarrow>
     call_ExternalRoomID c = Some (ji_RoomName ji) \<and> ji_Identity ji = ''user-'' @ itoa u"
  by (auto simp: livekit_GenerateJoinInfo_def Let_def split: option.splits sum.splits)

interpretation livekit: call_engine "livekit_engine toJWT e" for toJWT e
proof
  fix c c' r
  assume "eng_CreateCall (livekit_engine toJWT e) c = Inr r"
    "eng_CreateCall (livekit_engine toJWT e) c' = Inr r" "call_Type c = call_Type c'"
  then show "call_ID c = call_ID c'"
    by (auto simp: livekit_engine_def livekit_CreateCall_def)
next
  fix c u n ji
  assume "eng_GenerateJoinInfo (livekit_engine toJWT e) c u n = Inr ji"
  then show "call_ExternalRoomID c = Some (ji_RoomName ji)"
    by (auto simp: livekit_engine_def dest: livekit_info_Inr)
next
  fix c u n ji c' u' n' ji'
  assume "eng_GenerateJoinInfo (livekit_engine toJWT e) c u n = Inr ji"
    "eng_GenerateJoinInfo (livekit_engine toJWT e) c' u' n' = Inr ji'" "ji_Identity ji = ji_Identity ji'"
  then show "u = u'"
    by (auto simp: livekit_engine_def itoa_inj dest!: livekit_info_Inr)
qed

end
