(* ===== verification/Sqlite.thy ===== *)
theory Sqlite
  imports Store "HOL-Library.List_Lexorder" "HOL-Library.Char_ord"
begin

text \<open>
  The SQLite store (\<open>internal/store/sqlite/sqlite.go\<close>), one definition per method, in the order
  of the file. Every SQL statement is written out as the rows it selects or the update it makes;
  an \<open>ORDER BY\<close> is a stable sort, so rows that tie come in the order of insertion. The pattern
  match of SQL's \<open>LIKE\<close> belongs to SQLite and is an argument.
\<close>

section \<open>UserStore\<close>

definition scan_user :: "user_row \<Rightarrow> user" where
  "scan_user u = \<lparr>user_ID = u_id u, user_Username = u_username u,
     user_PasswordHash = u_password_hash u, user_IsGuest = u_is_guest u,
     user_SessionID = (case u_session_id u of None \<Rightarrow> '''' | Some s \<Rightarrow> s),
     user_CreatedAt = u_created_at u\<rparr>"

definition insert_user ::
    "string \<Rightarrow> string \<Rightarrow> bool \<Rightarrow> string option \<Rightarrow> db \<Rightarrow> goerr + (int \<times> db)" where
  "insert_user name hash guest sess d =
     (if name \<in> set (map u_username (t_users d)) then Inl (unique_failed ''users.username'')
      else let i = s_users d + 1 in
        Inr (i, d\<lparr>t_users := t_users d @ [\<lparr>u_id = i, u_username = name, u_password_hash = hash,
                    u_is_guest = guest, u_session_id = sess, u_created_at = current_timestamp d,
                    u_allow_calls_from = AllowCallsFromEveryone\<rparr>],
                  s_users := i\<rparr>))"

definition GetUserByID :: "userID \<Rightarrow> (goerr + user) dbm" where
  "GetUserByID i = do {
     r \<leftarrow> query_row (\<lambda>d. map scan_user (filter (\<lambda>u. u_id u = i) (t_users d)));
     return (not_found_or ''user not found'' ''query user'' r) }"

definition CreateUser :: "string \<Rightarrow> string \<Rightarrow> (goerr + user) dbm" where
  "CreateUser username passwordHash = do {
     r \<leftarrow> exec_stmt ''insert user'' (Some ''get last insert id'')
            (insert_user username passwordHash False None);
     case r of Inl e \<Rightarrow> return (Inl e) | Inr i \<Rightarrow> GetUserByID i }"

text \<open>The slice \<open>sessionID[:8]\<close> panics on a shorter string.\<close>

definition CreateGuestUser :: "string \<Rightarrow> (goerr + user) dbm" where
  "CreateGuestUser sessionID =
     (if length sessionID < 8 then return (Inl (GoPanic ''slice bounds out of range''))
      else do {
        r \<leftarrow> exec_stmt ''insert guest user'' (Some ''get last insert id'')
               (insert_user (''guest_'' @ take 8 sessionID) '''' True (Some sessionID));
        case r of Inl e \<Rightarrow> return (Inl e) | Inr i \<Rightarrow> GetUserByID i })"

definition GetUserByUsername :: "string \<Rightarrow> (goerr + user) dbm" where
  "GetUserByUsername username = do {
     r \<leftarrow> query_row (\<lambda>d. map scan_user
            (filter (\<lambda>u. u_username u = username \<and> \<not> u_is_guest u) (t_users d)));
     return (not_found_or ''user not found'' ''query user'' r) }"

definition GetUserBySessionID :: "string \<Rightarrow> (goerr + user) dbm" where
  "GetUserBySessionID sessionID = do {
     r \<leftarrow> query_row (\<lambda>d. map scan_user
            (filter (\<lambda>u. u_session_id u = Some sessionID \<and> u_is_guest u) (t_users d)));
     return (not_found_or ''guest user not found'' ''query guest user'' r) }"

definition SearchUsers :: "(string \<Rightarrow> string \<Rightarrow> bool) \<Rightarrow> string \<Rightarrow> user rows dbm" where
  "SearchUsers like queryStr =
     query_rows ''query users'' ''scan user'' (\<lambda>d. map scan_user (sql_limit 20
       (sort_key u_username
         (filter (\<lambda>u. like (''%'' @ queryStr @ ''%'') (u_username u) \<and> \<not> u_is_guest u)
           (t_users d)))))"

section \<open>RoomStore\<close>

definition insert_room ::
    "string \<Rightarrow> string \<Rightarrow> userID option \<Rightarrow> string option \<Rightarrow> db \<Rightarrow> goerr + (int \<times> db)" where
  "insert_room name ty ownr key d =
     (if name \<in> set (map room_Name (t_rooms d)) then Inl (unique_failed ''rooms.name'')
      else if key \<noteq> None \<and> key \<in> set (map room_DirectKey (t_rooms d))
      then Inl (unique_failed ''rooms.direct_key'')
      else let i = s_rooms d + 1 in
        Inr (i, d\<lparr>t_rooms := t_rooms d @ [\<lparr>room_ID = i, room_Name = name, room_Type = ty,
                    room_OwnerID = ownr, room_DirectKey = key,
                    room_CreatedAt = current_timestamp d\<rparr>],
                  s_rooms := i\<rparr>))"

definition GetRoomByID :: "roomID \<Rightarrow> (goerr + room) dbm" where
  "GetRoomByID i = do {
     r \<leftarrow> query_row (\<lambda>d. filter (\<lambda>x. room_ID x = i) (t_rooms d));
     return (not_found_or ''room not found'' ''query room'' r) }"

definition CreateRoom :: "string \<Rightarrow> string \<Rightarrow> userID option \<Rightarrow> (goerr + room) dbm" where
  "CreateRoom name roomType ownerID = do {
     r \<leftarrow> exec_stmt ''insert room'' (Some ''get last insert id'')
            (insert_room name roomType ownerID None);
     case r of Inl e \<Rightarrow> return (Inl e) | Inr i \<Rightarrow> GetRoomByID i }"

definition GetRoomByName :: "string \<Rightarrow> (goerr + room) dbm" where
  "GetRoomByName name = do {
     r \<leftarrow> query_row (\<lambda>d. filter (\<lambda>x. room_Name x = name) (t_rooms d));
     return (not_found_or ''room not found'' ''query room'' r) }"

text \<open>
  \<open>rooms r LEFT JOIN room_members rm ON r.id = rm.room_id\<close>: a room with no member is paired with
  nulls.
\<close>

definition rooms_left_join_members :: "db \<Rightarrow> (room \<times> roomMember option) list" where
  "rooms_left_join_members d = concat (map (\<lambda>r.
     (case filter (\<lambda>m. member_RoomID m = room_ID r) (t_room_members d) of
        [] \<Rightarrow> [(r, None)]
      | ms \<Rightarrow> map (\<lambda>m. (r, Some m)) ms)) (t_rooms d))"

definition ListRooms :: "userID \<Rightarrow> room rows dbm" where
  "ListRooms userID =
     query_rows ''query rooms'' ''scan room'' (\<lambda>d.
       sort_key (\<lambda>r. - room_CreatedAt r) (remdups (map fst (filter (\<lambda>(r, m).
           room_Type r = RoomTypePublic
         \<or> (case m of None \<Rightarrow> False | Some x \<Rightarrow> member_UserID x = userID)
         \<or> room_OwnerID r = Some userID) (rooms_left_join_members d)))))"

definition GetRoomByDirectKey :: "string \<Rightarrow> (goerr + room) dbm" where
  "GetRoomByDirectKey directKey = do {
     r \<leftarrow> query_row (\<lambda>d. filter (\<lambda>x. room_DirectKey x = Some directKey) (t_rooms d));
     return (not_found_or ''room not found'' ''query room'' r) }"

definition insert_member :: "userID \<Rightarrow> roomID \<Rightarrow> db \<Rightarrow> goerr + (unit \<times> db)" where
  "insert_member u r d =
     (if (u, r) \<in> set (map (\<lambda>m. (member_UserID m, member_RoomID m)) (t_room_members d))
      then Inl (unique_failed ''room_members.user_id, room_members.room_id'')
      else Inr ((), d\<lparr>t_room_members := t_room_members d @
             [\<lparr>member_UserID = u, member_RoomID = r, member_JoinedAt = current_timestamp d\<rparr>]\<rparr>))"

text \<open>Begin and commit of a transaction can fail on their own; rolling back restores the tables.\<close>

definition tx_control :: "string \<Rightarrow> (goerr + unit) dbm" where
  "tx_control msg = do {
     f \<leftarrow> next_fault;
     return (case f of None \<Rightarrow> Inr () | Some e \<Rightarrow> Inl (ErrWrap msg (ErrText (fault_text e)))) }"

definition rollback_to :: "db \<Rightarrow> unit dbm" where
  "rollback_to d0 = do { d \<leftarrow> get_st; put_st (d0\<lparr>faults := faults d\<rparr>) }"

text \<open>
  The body of a transaction with its deferred \<open>Rollback\<close>: when the body returns an error the
  tables are as they were.
\<close>

definition in_tx :: "(goerr + 'a) dbm \<Rightarrow> (goerr + 'a) dbm" where
  "in_tx m = do {
     d0 \<leftarrow> get_st;
     r \<leftarrow> m;
     case r of
       Inl e \<Rightarrow> do { rollback_to d0; return (Inl e) }
     | Inr x \<Rightarrow> return (Inr x) }"

text \<open>The statements between \<open>BeginTx\<close> and \<open>Commit\<close>.\<close>

definition direct_room_tx :: "string \<Rightarrow> userID \<Rightarrow> userID \<Rightarrow> (goerr + roomID) dbm" where
  "direct_room_tx directKey user1ID user2ID = do {
     r \<leftarrow> exec_stmt ''insert room'' (Some ''get last insert id'')
            (insert_room (''dm-'' @ itoa user1ID @ ''-'' @ itoa user2ID) RoomTypeDirect None
               (Some directKey));
     case r of Inl e \<Rightarrow> return (Inl e) | Inr roomID \<Rightarrow> do {
     r \<leftarrow> exec_stmt ''add user1 to members'' None (insert_member user1ID roomID);
     case r of Inl e \<Rightarrow> return (Inl e) | Inr _ \<Rightarrow> do {
     r \<leftarrow> exec_stmt ''add user2 to members'' None (insert_member user2ID roomID);
     case r of Inl e \<Rightarrow> return (Inl e) | Inr _ \<Rightarrow> do {
     r \<leftarrow> tx_control ''commit transaction'';
     case r of Inl e \<Rightarrow> return (Inl e) | Inr _ \<Rightarrow> return (Inr roomID) }}}}"

definition CreateDirectRoom :: "string \<Rightarrow> userID \<Rightarrow> userID \<Rightarrow> (goerr + room) dbm" where
  "CreateDirectRoom directKey user1ID user2ID = do {
     room \<leftarrow> GetRoomByDirectKey directKey;
     case room of
       Inr r \<Rightarrow> return (Inr r)
     | Inl err \<Rightarrow>
       if \<not> errors_is err sql_ErrNoRows then return (Inl (ErrWrap ''check existing room'' err))
       else do {
         tx \<leftarrow> tx_control ''begin transaction'';
         case tx of Inl e \<Rightarrow> return (Inl e) | Inr _ \<Rightarrow> do {
         r \<leftarrow> in_tx (direct_room_tx directKey user1ID user2ID);
         case r of Inl e \<Rightarrow> return (Inl e) | Inr roomID \<Rightarrow> GetRoomByID roomID }} }"

text \<open>\<open>INSERT OR IGNORE\<close>: a duplicate is not an error.\<close>

definition AddMember :: "userID \<Rightarrow> roomID \<Rightarrow> (goerr + unit) dbm" where
  "AddMember userID roomID = exec_stmt ''insert room member'' None (\<lambda>d.
     case insert_member userID roomID d of Inl _ \<Rightarrow> Inr ((), d) | Inr x \<Rightarrow> Inr x)"

definition RemoveMember :: "userID \<Rightarrow> roomID \<Rightarrow> (goerr + unit) dbm" where
  "RemoveMember userID roomID = exec_stmt ''delete room member'' None (\<lambda>d.
     Inr ((), d\<lparr>t_room_members := filter (\<lambda>m. \<not> (member_UserID m = userID \<and>
                 member_RoomID m = roomID)) (t_room_members d)\<rparr>))"

definition IsMember :: "userID \<Rightarrow> roomID \<Rightarrow> (goerr + bool) dbm" where
  "IsMember userID roomID = do {
     r \<leftarrow> query_row (\<lambda>d. filter (\<lambda>m. member_UserID m = userID \<and> member_RoomID m = roomID)
            (t_room_members d));
     return (case r of
         Inl e \<Rightarrow> if errors_is e sql_ErrNoRows then Inr False
                  else Inl (ErrWrap ''query membership'' e)
       | Inr _ \<Rightarrow> Inr True) }"

definition ListMembers :: "roomID \<Rightarrow> userID rows dbm" where
  "ListMembers roomID =
     query_rows ''query members'' ''scan member'' (\<lambda>d.
       map member_UserID (sort_key member_JoinedAt
         (filter (\<lambda>m. member_RoomID m = roomID) (t_room_members d))))"

section \<open>MessageStore\<close>

text \<open>The id is written back into the caller's message: the result is the message with its id.\<close>

definition insert_message :: "message \<Rightarrow> db \<Rightarrow> goerr + (int \<times> db)" where
  "insert_message m d = (let i = s_messages d + 1 in
     Inr (i, d\<lparr>t_messages := t_messages d @ [m\<lparr>message_ID := i\<rparr>], s_messages := i\<rparr>))"

definition SaveMessage :: "message \<Rightarrow> (goerr + message) dbm" where
  "SaveMessage msg = do {
     r \<leftarrow> exec_stmt ''insert message'' (Some ''get last insert id'') (insert_message msg);
     return (case r of Inl e \<Rightarrow> Inl e | Inr i \<Rightarrow> Inr (msg\<lparr>message_ID := i\<rparr>)) }"

text \<open>The loop \<open>for i := range len(messages) / 2\<close> that swaps the elements \<open>i\<close> and \<open>len-1-i\<close>.\<close>

definition reverse_in_place :: "'a list \<Rightarrow> 'a list" where
  "reverse_in_place xs = foldl (\<lambda>ms i. ms[i := ms ! (length xs - 1 - i), length xs - 1 - i := ms ! i])
     xs [0..<length xs div 2]"

definition ListMessages :: "roomID \<Rightarrow> int \<Rightarrow> int64 option \<Rightarrow> message rows dbm" where
  "ListMessages roomID limit beforeID = do {
     r \<leftarrow> query_rows ''query messages'' ''scan message'' (\<lambda>d. sql_limit limit
       (sort_key (\<lambda>m. - message_ID m)
         (case beforeID of
            Some b \<Rightarrow> filter (\<lambda>m. message_RoomID m = roomID \<and> message_ID m < b) (t_messages d)
          | None \<Rightarrow> filter (\<lambda>m. message_RoomID m = roomID) (t_messages d))));
     return (reverse_in_place (fst r), snd r) }"

section \<open>User settings\<close>

definition GetUserCallSettings :: "userID \<Rightarrow> (goerr + string) dbm" where
  "GetUserCallSettings userID = do {
     r \<leftarrow> query_row (\<lambda>d. map u_allow_calls_from (filter (\<lambda>u. u_id u = userID) (t_users d)));
     return (not_found_or ''user not found'' ''query user settings'' r) }"

definition UpdateUserCallSettings :: "userID \<Rightarrow> string \<Rightarrow> (goerr + unit) dbm" where
  "UpdateUserCallSettings userID setting = do {
     r \<leftarrow> exec_stmt ''update user settings'' (Some ''get rows affected'') (\<lambda>d.
       Inr (length (filter (\<lambda>u. u_id u = userID) (t_users d)),
            d\<lparr>t_users := map (\<lambda>u. if u_id u = userID then u\<lparr>u_allow_calls_from := setting\<rparr> else u)
                 (t_users d)\<rparr>));
     return (case r of Inl e \<Rightarrow> Inl e
       | Inr n \<Rightarrow> if n = 0 then Inl (ErrText ''user not found'') else Inr ()) }"

section \<open>FriendStore\<close>

definition insert_friend :: "userID \<Rightarrow> userID \<Rightarrow> db \<Rightarrow> goerr + (int \<times> db)" where
  "insert_friend u f d =
     (if (u, f) \<in> set (map (\<lambda>x. (friend_UserID x, friend_FriendID x)) (t_friends d))
      then Inl (unique_failed ''friends.user_id, friends.friend_id'')
      else let i = s_friends d + 1 in
        Inr (i, d\<lparr>t_friends := t_friends d @ [\<lparr>friend_ID = i, friend_UserID = u,
                    friend_FriendID = f, friend_Status = FriendStatusPending,
                    friend_CreatedAt = current_timestamp d, friend_UpdatedAt = current_timestamp d\<rparr>],
                  s_friends := i\<rparr>))"

definition getFriendByID :: "int64 \<Rightarrow> (goerr + friend) dbm" where
  "getFriendByID i = do {
     r \<leftarrow> query_row (\<lambda>d. filter (\<lambda>f. friend_ID f = i) (t_friends d));
     return (not_found_or ''friend not found'' ''query friend'' r) }"

definition CreateFriendRequest :: "userID \<Rightarrow> userID \<Rightarrow> (goerr + friend) dbm" where
  "CreateFriendRequest userID friendID = do {
     r \<leftarrow> exec_stmt ''insert friend request'' (Some ''get last insert id'')
            (insert_friend userID friendID);
     case r of Inl e \<Rightarrow> return (Inl e) | Inr i \<Rightarrow> getFriendByID i }"

definition UpdateFriendStatus :: "userID \<Rightarrow> userID \<Rightarrow> string \<Rightarrow> (goerr + unit) dbm" where
  "UpdateFriendStatus userID friendID status = do {
     r \<leftarrow> exec_stmt ''update friend status'' (Some ''get rows affected'') (\<lambda>d.
       Inr (length (filter (\<lambda>f. friend_UserID f = userID \<and> friend_FriendID f = friendID) (t_friends d)),
            d\<lparr>t_friends := map (\<lambda>f. if friend_UserID f = userID \<and> friend_FriendID f = friendID
                 then f\<lparr>friend_Status := status, friend_UpdatedAt := current_timestamp d\<rparr> else f)
                 (t_friends d)\<rparr>));
     return (case r of Inl e \<Rightarrow> Inl e
       | Inr n \<Rightarrow> if n = 0 then Inl (ErrText ''friendship not found'') else Inr ()) }"

text \<open>The rows that connect two users, in either direction.\<close>

definition connects :: "userID \<Rightarrow> userID \<Rightarrow> friend \<Rightarrow> bool" where
  "connects a b f \<longleftrightarrow> friend_UserID f = a \<and> friend_FriendID f = b
                   \<or> friend_UserID f = b \<and> friend_FriendID f = a"

definition GetFriendship :: "userID \<Rightarrow> userID \<Rightarrow> (goerr + friend) dbm" where
  "GetFriendship userID friendID = do {
     r \<leftarrow> query_row (\<lambda>d. filter (connects userID friendID) (t_friends d));
     return (not_found_or ''friendship not found'' ''query friendship'' r) }"

definition store_ListFriends :: "userID \<Rightarrow> string option \<Rightarrow> friend rows dbm" where
  "store_ListFriends userID status =
     query_rows ''query friends'' ''scan friend'' (\<lambda>d.
       sort_key (\<lambda>f. - friend_UpdatedAt f)
         (filter (\<lambda>f. (friend_UserID f = userID \<or> friend_FriendID f = userID) \<and>
                     (case status of None \<Rightarrow> True | Some s \<Rightarrow> friend_Status f = s)) (t_friends d)))"

definition store_IsFriend :: "userID \<Rightarrow> userID \<Rightarrow> (goerr + bool) dbm" where
  "store_IsFriend userID friendID = do {
     r \<leftarrow> query_row (\<lambda>d. filter (\<lambda>f. connects userID friendID f \<and>
            friend_Status f = FriendStatusAccepted) (t_friends d));
     return (case r of
         Inl e \<Rightarrow> if errors_is e sql_ErrNoRows then Inr False
                  else Inl (ErrWrap ''query friendship'' e)
       | Inr _ \<Rightarrow> Inr True) }"

definition DeleteFriendship :: "userID \<Rightarrow> userID \<Rightarrow> (goerr + unit) dbm" where
  "DeleteFriendship userID friendID = exec_stmt ''delete friendship'' None (\<lambda>d.
     Inr ((), d\<lparr>t_friends := filter (\<lambda>f. \<not> (friend_UserID f = userID \<and>
                 friend_FriendID f = friendID)) (t_friends d)\<rparr>))"

section \<open>CallStore\<close>

text \<open>The columns the insert does not name take their defaults.\<close>

definition store_CreateCall :: "call \<Rightarrow> (goerr + unit) dbm" where
  "store_CreateCall call = exec_stmt ''insert call'' None (\<lambda>d.
     if call_ID call \<in> set (map call_ID (t_calls d)) then Inl (unique_failed ''calls.id'')
     else Inr ((), d\<lparr>t_calls := t_calls d @ [call\<lparr>call_CreatedAt := current_timestamp d,
                       call_UpdatedAt := current_timestamp d, call_EndedAt := None\<rparr>]\<rparr>))"

definition UpdateCall :: "call \<Rightarrow> (goerr + unit) dbm" where
  "UpdateCall call = exec_stmt ''update call'' None (\<lambda>d.
     Inr ((), d\<lparr>t_calls := map (\<lambda>c. if call_ID c = call_ID call
               then c\<lparr>call_Status := call_Status call, call_ExternalRoomID := call_ExternalRoomID call,
                      call_UpdatedAt := current_timestamp d, call_EndedAt := call_EndedAt call\<rparr>
               else c) (t_calls d)\<rparr>))"

definition store_GetCall :: "callID \<Rightarrow> (goerr + call) dbm" where
  "store_GetCall i = do {
     r \<leftarrow> query_row (\<lambda>d. filter (\<lambda>c. call_ID c = i) (t_calls d));
     return (not_found_or ''call not found'' ''query call'' r) }"

definition live_status :: "call \<Rightarrow> bool" where
  "live_status c \<longleftrightarrow> call_Status c = CallStatusRinging \<or> call_Status c = CallStatusActive"

text \<open>\<open>calls c JOIN call_participants cp ON c.id = cp.call_id\<close>, without duplicates.\<close>

definition store_ListActiveCalls :: "userID \<Rightarrow> call rows dbm" where
  "store_ListActiveCalls userID =
     query_rows ''query active calls'' ''scan call'' (\<lambda>d.
       sort_key (\<lambda>c. - call_CreatedAt c) (remdups (map fst
         (filter (\<lambda>(c, p). call_ID c = part_CallID p \<and> part_UserID p = userID \<and> live_status c)
           (List.product (t_calls d) (t_call_participants d))))))"

definition GetActiveCallForRoom :: "roomID \<Rightarrow> (goerr + call option) dbm" where
  "GetActiveCallForRoom roomID = do {
     r \<leftarrow> query_row (\<lambda>d. sql_limit 1 (sort_key (\<lambda>c. - call_CreatedAt c)
            (filter (\<lambda>c. call_RoomID c = Some roomID \<and> live_status c) (t_calls d))));
     return (case r of
         Inl e \<Rightarrow> if e = sql_ErrNoRows then Inr None
                  else Inl (ErrWrap ''query active call for room'' e)
       | Inr c \<Rightarrow> Inr (Some c)) }"

text \<open>The new id is written back into the caller's participant.\<close>

definition AddParticipant :: "callParticipant \<Rightarrow> (goerr + callParticipant) dbm" where
  "AddParticipant p = do {
     r \<leftarrow> exec_stmt ''insert participant'' (Some ''get last insert id'') (\<lambda>d.
       if (part_CallID p, part_UserID p) \<in>
            set (map (\<lambda>q. (part_CallID q, part_UserID q)) (t_call_participants d))
       then Inl (unique_failed ''call_participants.call_id, call_participants.user_id'')
       else let i = s_call_participants d + 1 in
         Inr (i, d\<lparr>t_call_participants := t_call_participants d @ [p\<lparr>part_ID := i\<rparr>],
                   s_call_participants := i\<rparr>));
     return (case r of Inl e \<Rightarrow> Inl e | Inr i \<Rightarrow> Inr (p\<lparr>part_ID := i\<rparr>)) }"

definition UpdateParticipant :: "callParticipant \<Rightarrow> (goerr + unit) dbm" where
  "UpdateParticipant p = exec_stmt ''update participant'' None (\<lambda>d.
     Inr ((), d\<lparr>t_call_participants := map (\<lambda>q.
         if part_CallID q = part_CallID p \<and> part_UserID q = part_UserID p
         then q\<lparr>part_JoinedAt := part_JoinedAt p, part_LeftAt := part_LeftAt p,
                part_Reason := part_Reason p\<rparr>
         else q) (t_call_participants d)\<rparr>))"

definition GetParticipant :: "callID \<Rightarrow> userID \<Rightarrow> (goerr + callParticipant) dbm" where
  "GetParticipant callID userID = do {
     r \<leftarrow> query_row (\<lambda>d. filter (\<lambda>p. part_CallID p = callID \<and> part_UserID p = userID)
            (t_call_participants d));
     return (not_found_or ''participant not found'' ''query participant'' r) }"

definition ListParticipants :: "callID \<Rightarrow> callParticipant rows dbm" where
  "ListParticipants callID =
     query_rows ''query participants'' ''scan participant'' (\<lambda>d.
       sort_key part_ID (filter (\<lambda>p. part_CallID p = callID) (t_call_participants d)))"

end
