(* ===== verification/Sqlite_Props.thy ===== *)
theory Sqlite_Props
  imports Sqlite "HOL-Library.Multiset"
begin

text \<open>
  What the SQLite store guarantees: every method keeps the database invariant whatever the
  driver does (\<open>db_keeps\<close>), reads change nothing (\<open>run_\<close> rules), a direct room is created
  with its two members or not at all, and the listings return what their queries promise.
\<close>

section \<open>Every method keeps the database invariant\<close>

named_theorems db_keeps \<open>store methods keep the database invariant\<close>

lemma insert_user_ok: "insert_user n h g s d = Inr (i, d') \<Longrightarrow> db_ok d \<Longrightarrow> db_ok d'"
  by (auto simp: insert_user_def db_ok_def table_oks Let_def intro!: table_ok_insert
      split: if_splits)

lemma insert_room_ok: "insert_room n t ow k d = Inr (i, d') \<Longrightarrow> db_ok d \<Longrightarrow> db_ok d'"
  by (auto simp: insert_room_def db_ok_def table_oks Let_def intro!: table_ok_insert
      split: if_splits)

lemma insert_member_ok: "insert_member u r d = Inr (i, d') \<Longrightarrow> db_ok d \<Longrightarrow> db_ok d'"
  by (auto simp: insert_member_def db_ok_def table_oks split: if_splits)

lemma insert_message_ok: "insert_message m d = Inr (i, d') \<Longrightarrow> db_ok d \<Longrightarrow> db_ok d'"
  by (auto simp: insert_message_def db_ok_def table_oks Let_def intro!: table_ok_insert)

lemma insert_friend_ok: "insert_friend u f d = Inr (i, d') \<Longrightarrow> db_ok d \<Longrightarrow> db_ok d'"
  by (auto simp: insert_friend_def db_ok_def table_oks Let_def intro!: table_ok_insert
      split: if_splits)

lemmas insert_oks = insert_user_ok insert_room_ok insert_member_ok insert_message_ok insert_friend_ok

lemma reads_keep [db_keeps]:
  "state_io_rel (\<lambda>d d'. db_ok d \<longrightarrow> db_ok d') (GetUserByID i)"
  "state_io_rel (\<lambda>d d'. db_ok d \<longrightarrow> db_ok d') (GetUserByUsername n)"
  "state_io_rel (\<lambda>d d'. db_ok d \<longrightarrow> db_ok d') (GetUserBySessionID n)"
  "state_io_rel (\<lambda>d d'. db_ok d \<longrightarrow> db_ok d') (SearchUsers like q)"
  "state_io_rel (\<lambda>d d'. db_ok d \<longrightarrow> db_ok d') (GetRoomByID i)"
  "state_io_rel (\<lambda>d d'. db_ok d \<longrightarrow> db_ok d') (GetRoomByName n)"
  "state_io_rel (\<lambda>d d'. db_ok d \<longrightarrow> db_ok d') (GetRoomByDirectKey n)"
  "state_io_rel (\<lambda>d d'. db_ok d \<longrightarrow> db_ok d') (ListRooms i)"
  "state_io_rel (\<lambda>d d'. db_ok d \<longrightarrow> db_ok d') (IsMember i j)"
  "state_io_rel (\<lambda>d d'. db_ok d \<longrightarrow> db_ok d') (ListMembers j)"
  "state_io_rel (\<lambda>d d'. db_ok d \<longrightarrow> db_ok d') (ListMessages i lim b)"
  "state_io_rel (\<lambda>d d'. db_ok d \<longrightarrow> db_ok d') (GetUserCallSettings i)"
  "state_io_rel (\<lambda>d d'. db_ok d \<longrightarrow> db_ok d') (getFriendByID i)"
  "state_io_rel (\<lambda>d d'. db_ok d \<longrightarrow> db_ok d') (GetFriendship i j)"
  "state_io_rel (\<lambda>d d'. db_ok d \<longrightarrow> db_ok d') (store_ListFriends i st)"
  "state_io_rel (\<lambda>d d'. db_ok d \<longrightarrow> db_ok d') (store_IsFriend i j)"
  "state_io_rel (\<lambda>d d'. db_ok d \<longrightarrow> db_ok d') (store_GetCall cid)"
  "state_io_rel (\<lambda>d d'. db_ok d \<longrightarrow> db_ok d') (store_ListActiveCalls i)"
  "state_io_rel (\<lambda>d d'. db_ok d \<longrightarrow> db_ok d') (GetActiveCallForRoom i)"
  "state_io_rel (\<lambda>d d'. db_ok d \<longrightarrow> db_ok d') (GetParticipant cid i)"
  "state_io_rel (\<lambda>d d'. db_ok d \<longrightarrow> db_ok d') (ListParticipants cid)"
  "state_io_rel (\<lambda>d d'. db_ok d \<longrightarrow> db_ok d') time_Now"
  unfolding GetUserByID_def GetUserByUsername_def GetUserBySessionID_def SearchUsers_def
    GetRoomByID_def GetRoomByName_def GetRoomByDirectKey_def ListRooms_def IsMember_def
    ListMembers_def ListMessages_def GetUserCallSettings_def getFriendByID_def GetFriendship_def
    store_ListFriends_def store_IsFriend_def store_GetCall_def store_ListActiveCalls_def
    GetActiveCallForRoom_def GetParticipant_def ListParticipants_def
  by (intro dbk.de_rules)+

lemma table_ok_upd_participants:
  "participants_ok d \<Longrightarrow> participants_ok (d\<lparr>t_call_participants := map (\<lambda>q. if P q
     then q\<lparr>part_JoinedAt := a, part_LeftAt := b, part_Reason := c\<rparr> else q) (t_call_participants d)\<rparr>)"
  by (auto simp: participants_ok_def table_ok_map map_upd_key_same simp del: map_map)

lemma writes_keep [db_keeps]:
  "state_io_rel (\<lambda>d d'. db_ok d \<longrightarrow> db_ok d') (CreateUser n h)"
  "state_io_rel (\<lambda>d d'. db_ok d \<longrightarrow> db_ok d') (CreateGuestUser n)"
  "state_io_rel (\<lambda>d d'. db_ok d \<longrightarrow> db_ok d') (CreateRoom n t ow)"
  "state_io_rel (\<lambda>d d'. db_ok d \<longrightarrow> db_ok d') (SaveMessage m)"
  "state_io_rel (\<lambda>d d'. db_ok d \<longrightarrow> db_ok d') (CreateFriendRequest i j)"
  unfolding CreateUser_def CreateGuestUser_def CreateRoom_def SaveMessage_def CreateFriendRequest_def
  by (intro dbk.de_rules dbk.de_exec db_keeps impI; (erule insert_oks; assumption)?)+

lemma member_writes_keep [db_keeps]:
  "state_io_rel (\<lambda>d d'. db_ok d \<longrightarrow> db_ok d') (AddMember i j)"
  "state_io_rel (\<lambda>d d'. db_ok d \<longrightarrow> db_ok d') (RemoveMember i j)"
  unfolding AddMember_def RemoveMember_def
  by (rule dbk.de_exec; auto simp: db_ok_def table_oks distinct_map_filter_conv
      insert_member_def split: sum.splits if_splits)+

lemma setting_writes_keep [db_keeps]:
  "state_io_rel (\<lambda>d d'. db_ok d \<longrightarrow> db_ok d') (UpdateUserCallSettings i s)"
  unfolding UpdateUserCallSettings_def
  by (intro dbk.de_rules dbk.de_exec)
    (auto simp: db_ok_def table_oks table_ok_map map_upd_key_same simp del: map_map)

lemma friend_writes_keep [db_keeps]:
  "state_io_rel (\<lambda>d d'. db_ok d \<longrightarrow> db_ok d') (UpdateFriendStatus i j s)"
  "state_io_rel (\<lambda>d d'. db_ok d \<longrightarrow> db_ok d') (DeleteFriendship i j)"
  unfolding UpdateFriendStatus_def DeleteFriendship_def
  by (intro dbk.de_rules dbk.de_exec;
      auto simp: db_ok_def table_oks table_ok_map table_ok_filter map_upd_key_same
        distinct_map_filter_conv simp del: map_map)+

lemma call_writes_keep [db_keeps]:
  "state_io_rel (\<lambda>d d'. db_ok d \<longrightarrow> db_ok d') (store_CreateCall c)"
  "state_io_rel (\<lambda>d d'. db_ok d \<longrightarrow> db_ok d') (UpdateCall c)"
  "state_io_rel (\<lambda>d d'. db_ok d \<longrightarrow> db_ok d') (AddParticipant p)"
  "state_io_rel (\<lambda>d d'. db_ok d \<longrightarrow> db_ok d') (UpdateParticipant p)"
  unfolding store_CreateCall_def UpdateCall_def AddParticipant_def UpdateParticipant_def
  by (intro dbk.de_rules dbk.de_exec;
      auto simp: db_ok_def table_oks table_ok_map map_upd_key_same Let_def
        intro!: table_ok_insert split: if_splits simp del: map_map)+

lemma tx_keep [db_keeps]:
  "state_io_rel (\<lambda>d d'. db_ok d \<longrightarrow> db_ok d') (tx_control m)"
  "state_io_rel (\<lambda>d d'. db_ok d \<longrightarrow> db_ok d') (direct_room_tx k a b)"
proof -
  show tx: "state_io_rel (\<lambda>d d'. db_ok d \<longrightarrow> db_ok d') (tx_control m)" for m
    by (simp add: tx_control_def state_io_rel_def run_db)
  show "state_io_rel (\<lambda>d d'. db_ok d \<longrightarrow> db_ok d') (direct_room_tx k a b)"
    unfolding direct_room_tx_def
    by (intro dbk.de_rules dbk.de_exec tx impI; (erule insert_oks; assumption)?)
qed

lemma run_rollback [run_db]: "run_state (rollback_to d0) d = ((), d0\<lparr>faults := faults d\<rparr>)"
  by (simp add: rollback_to_def)

lemma db_ok_faults [simp]: "db_ok (d\<lparr>faults := fs\<rparr>) = db_ok d"
  by (simp add: db_ok_def table_oks)

lemma run_in_tx [run_db]:
  "run_state (in_tx m) d = (case run_state m d of
      (Inl e, d') \<Rightarrow> (Inl e, d\<lparr>faults := faults d'\<rparr>) | (Inr x, d') \<Rightarrow> (Inr x, d'))"
  by (auto simp: in_tx_def run_db split: prod.splits sum.splits)

lemma in_tx_keeps [db_keeps]:
  assumes "state_io_rel (\<lambda>d d'. db_ok d \<longrightarrow> db_ok d') m"
  shows "state_io_rel (\<lambda>d d'. db_ok d \<longrightarrow> db_ok d') (in_tx m)"
  using dbk.eb_run[OF assms] by (auto simp: state_io_rel_def run_db split: prod.splits sum.splits)

lemma CreateDirectRoom_keeps [db_keeps]:
  "state_io_rel (\<lambda>d d'. db_ok d \<longrightarrow> db_ok d') (CreateDirectRoom k a b)"
  unfolding CreateDirectRoom_def by (intro dbk.de_rules db_keeps)

section \<open>Lookups\<close>

lemma not_found_or_Inr [simp]: "not_found_or nf q r = Inr x \<longleftrightarrow> r = Inr x"
  by (auto simp: not_found_or_def split: sum.splits if_splits)

lemma not_found_or_NoRows [simp]:
  "not_found_or nf q (Inl sql_ErrNoRows) = Inl (ErrWrap nf sql_ErrNoRows)"
  by (simp add: not_found_or_def)

lemma not_found_or_Inr_eq [simp]: "not_found_or nf q (Inr x) = Inr x"
  by (simp add: not_found_or_def)

text \<open>The row-level meaning of each single-row lookup, with the state it leaves.\<close>

lemma run_lookups [run_db]:
  "run_state (GetUserByID i) d = (not_found_or ''user not found'' ''query user''
     (result_of (query_row (\<lambda>d. map scan_user (filter (\<lambda>u. u_id u = i) (t_users d)))) d), pop_fault d)"
  "run_state (GetUserByUsername n) d = (not_found_or ''user not found'' ''query user''
     (result_of (query_row (\<lambda>d. map scan_user
        (filter (\<lambda>u. u_username u = n \<and> \<not> u_is_guest u) (t_users d)))) d), pop_fault d)"
  "run_state (GetRoomByID i) d = (not_found_or ''room not found'' ''query room''
     (result_of (query_row (\<lambda>d. filter (\<lambda>x. room_ID x = i) (t_rooms d))) d), pop_fault d)"
  "run_state (GetRoomByName n) d = (not_found_or ''room not found'' ''query room''
     (result_of (query_row (\<lambda>d. filter (\<lambda>x. room_Name x = n) (t_rooms d))) d), pop_fault d)"
  "run_state (GetRoomByDirectKey k) d = (not_found_or ''room not found'' ''query room''
     (result_of (query_row (\<lambda>d. filter (\<lambda>x. room_DirectKey x = Some k) (t_rooms d))) d), pop_fault d)"
  "run_state (GetFriendship a b) d = (not_found_or ''friendship not found'' ''query friendship''
     (result_of (query_row (\<lambda>d. filter (connects a b) (t_friends d))) d), pop_fault d)"
  "run_state (getFriendByID j) d = (not_found_or ''friend not found'' ''query friend''
     (result_of (query_row (\<lambda>d. filter (\<lambda>f. friend_ID f = j) (t_friends d))) d), pop_fault d)"
  "run_state (store_GetCall c) d = (not_found_or ''call not found'' ''query call''
     (result_of (query_row (\<lambda>d. filter (\<lambda>x. call_ID x = c) (t_calls d))) d), pop_fault d)"
  "run_state (GetParticipant c i) d = (not_found_or ''participant not found'' ''query participant''
     (result_of (query_row (\<lambda>d. filter (\<lambda>p. part_CallID p = c \<and> part_UserID p = i)
        (t_call_participants d))) d), pop_fault d)"
  "run_state (GetUserCallSettings i) d = (not_found_or ''user not found'' ''query user settings''
     (result_of (query_row (\<lambda>d. map u_allow_calls_from (filter (\<lambda>u. u_id u = i) (t_users d)))) d),
     pop_fault d)"
  by (simp_all add: GetUserByID_def GetUserByUsername_def GetRoomByID_def GetRoomByName_def
      GetRoomByDirectKey_def GetFriendship_def getFriendByID_def store_GetCall_def
      GetParticipant_def GetUserCallSettings_def run_query_row)

text \<open>A row that comes out of a lookup is a row of the table that matches.\<close>

lemma query_row_Inr:
  assumes "result_of (query_row q) d = Inr x"
  shows "\<exists>xs. q (pop_fault d) = x # xs" and "x \<in> set (q (pop_fault d))"
  using assms by (auto simp: run_db split: option.splits list.splits)

lemma query_row_ok:
  "faults d = [] \<Longrightarrow> q d = x # xs \<Longrightarrow> result_of (query_row q) d = Inr x"
  by (simp add: run_db)

lemma query_row_none:
  "faults d = [] \<Longrightarrow> q d = [] \<Longrightarrow> result_of (query_row q) d = Inl sql_ErrNoRows"
  by (simp add: run_db)

lemma query_row_key:
  assumes "faults d = []" and "distinct (map f (t d))" and "x \<in> set (t d)" and "f x = k"
  shows "result_of (query_row (\<lambda>d. filter (\<lambda>y. f y = k) (t d))) d = Inr x"
  using filter_key_unique'[OF assms(2-4)] assms(1) by (intro query_row_ok) auto

lemma IsMember_run:
  "run_state (IsMember u r) d =
    ((case fault_now d of
        None \<Rightarrow> Inr (\<exists>m \<in> set (t_room_members d). member_UserID m = u \<and> member_RoomID m = r)
      | Some e \<Rightarrow> Inl (ErrWrap ''query membership'' (ErrText (fault_text e)))), pop_fault d)"
  by (auto simp: IsMember_def run_query_row filter_empty_conv split: option.split list.split
      dest!: filter_eq_ConsD)

lemma IsFriend_run:
  "run_state (store_IsFriend a b) d =
    ((case fault_now d of
        None \<Rightarrow> Inr (\<exists>f \<in> set (t_friends d). connects a b f \<and> friend_Status f = FriendStatusAccepted)
      | Some e \<Rightarrow> Inl (ErrWrap ''query friendship'' (ErrText (fault_text e)))), pop_fault d)"
  by (auto simp: store_IsFriend_def run_query_row filter_empty_conv split: option.split list.split
      dest!: filter_eq_ConsD)

section \<open>Direct rooms are created whole or not at all\<close>

text \<open>Everything but the fault schedule.\<close>

definition tables :: "db \<Rightarrow> db" where
  "tables d = d\<lparr>faults := []\<rparr>"

lemma tables_pop [simp]: "tables (pop_fault d) = tables d"
  by (simp add: tables_def pop_fault_def)

lemma tables_faults [simp]: "tables (d\<lparr>faults := fs\<rparr>) = tables d"
  by (simp add: tables_def)

definition with_direct_room :: "string \<Rightarrow> userID \<Rightarrow> userID \<Rightarrow> db \<Rightarrow> db" where
  "with_direct_room k a b d = (let i = s_rooms d + 1; t = current_timestamp d in
     d\<lparr>t_rooms := t_rooms d @ [\<lparr>room_ID = i, room_Name = ''dm-'' @ itoa a @ ''-'' @ itoa b,
          room_Type = RoomTypeDirect, room_OwnerID = None, room_DirectKey = Some k,
          room_CreatedAt = t\<rparr>],
       s_rooms := i,
       t_room_members := t_room_members d @
         [\<lparr>member_UserID = a, member_RoomID = i, member_JoinedAt = t\<rparr>,
          \<lparr>member_UserID = b, member_RoomID = i, member_JoinedAt = t\<rparr>]\<rparr>)"

lemma run_tx_control [run_db]:
  "run_state (tx_control m) d = ((case fault_now d of None \<Rightarrow> Inr ()
     | Some e \<Rightarrow> Inl (ErrWrap m (ErrText (fault_text e)))), pop_fault d)"
  by (simp add: tx_control_def run_db)

lemma direct_room_tx_Inr:
  assumes "run_state (direct_room_tx k a b) d = (Inr i, d')"
  shows "tables d' = tables (with_direct_room k a b d) \<and> i = s_rooms d + 1"
  using assms
  by (auto simp: direct_room_tx_def run_db insert_room_def insert_member_def with_direct_room_def
      tables_def pop_fault_def current_timestamp_def Let_def
      split: if_splits option.splits fault.splits sum.splits prod.splits)

lemma CreateDirectRoom_tables:
  "tables (after (CreateDirectRoom k a b) d) \<in> {tables d, tables (with_direct_room k a b d)}"
proof -
  have tab: "tables (with_direct_room k a b x) = with_direct_room k a b (tables x)" for x
    by (simp add: with_direct_room_def tables_def current_timestamp_def Let_def)
  have "tables (after (do { r \<leftarrow> in_tx (direct_room_tx k a b);
          case r of Inl e \<Rightarrow> return (Inl e) | Inr roomID \<Rightarrow> GetRoomByID roomID }) x)
        \<in> {tables x, tables (with_direct_room k a b x)}" for x
    using direct_room_tx_Inr[of k a b x]
    by (auto simp: run_db split: prod.splits sum.splits)
  from this[of "pop_fault (pop_fault d)"] show ?thesis
    by (auto simp: CreateDirectRoom_def run_db tab split: sum.splits option.splits list.splits)
qed

text \<open>(C35) A direct room comes into being whole or not at all: whatever the driver does, after
  \<open>CreateDirectRoom\<close> the tables are either unchanged or have gained exactly the room and its two
  member rows.\<close>

theorem CreateDirectRoom_atomic:
  "tables (after (CreateDirectRoom k a b) d) \<in> {tables d, tables (with_direct_room k a b d)}"
  by (rule CreateDirectRoom_tables)

section \<open>Message history\<close>

text \<open>The swap loop at the end of \<open>ListMessages\<close> reverses the slice.\<close>

lemma swap_nth:
  assumes "length ms = n" and "k < n - 1 - k" and "i < n"
  shows "ms[k := ms ! (n - 1 - k), n - 1 - k := ms ! k] ! i =
     (if i = k then ms ! (n - 1 - k) else if i = n - 1 - k then ms ! k else ms ! i)"
  using assms by (simp add: nth_list_update)

lemma swaps_nth:
  assumes "k \<le> length xs div 2" and "i < length xs"
  shows "foldl (\<lambda>ms i. ms[i := ms ! (length xs - 1 - i), length xs - 1 - i := ms ! i]) xs [0..<k] ! i =
     (if i < k \<or> length xs - k \<le> i then xs ! (length xs - 1 - i) else xs ! i)"
  using assms
proof (induction k arbitrary: i)
  case 0
  then show ?case by simp
next
  case (Suc k)
  let ?ys = "foldl (\<lambda>ms i. ms[i := ms ! (length xs - 1 - i), length xs - 1 - i := ms ! i]) xs [0..<k]"
  have len: "length ?ys = length xs"
    by (induction k) auto
  have *: "k < length xs - 1 - k" "k < length xs" "length xs - 1 - k < length xs"
    using Suc.prems by linarith+
  have IH: "?ys ! j = (if j < k \<or> length xs - k \<le> j then xs ! (length xs - 1 - j) else xs ! j)"
    if "j < length xs" for j
    using Suc.IH[of j] Suc.prems that by simp
  have upper: "?ys ! (length xs - 1 - k) = xs ! (length xs - 1 - k)" and lower: "?ys ! k = xs ! k"
    using IH[OF *(3)] IH[OF *(2)] * by auto
  have last: "length xs - Suc k \<le> i \<longleftrightarrow> i = length xs - 1 - k \<or> length xs - k \<le> i"
    using * by linarith
  have mirror: "length xs - 1 - (length xs - 1 - k) = k"
    using * by linarith
  consider "i = k" | "i = length xs - 1 - k" | "i \<noteq> k" "i \<noteq> length xs - 1 - k" by blast
  then show ?case
  proof cases
    case 1
    then show ?thesis using swap_nth[OF len *(1) Suc.prems(2)] upper by simp
  next
    case 2
    then show ?thesis using swap_nth[OF len *(1) Suc.prems(2)] lower * last mirror by simp
  next
    case 3
    then show ?thesis
      using swap_nth[OF len *(1) Suc.prems(2)] IH[OF Suc.prems(2)] last by (simp add: less_Suc_eq)
  qed
qed

lemma reverse_in_place_rev: "reverse_in_place xs = rev xs"
proof (rule nth_equalityI)
  have "length (foldl (\<lambda>ms i. ms[i := f ms i, g i := h ms i]) ys js) = length ys" for f g h ys js
    by (induction js arbitrary: ys) auto
  then show len: "length (reverse_in_place xs) = length (rev xs)"
    by (simp add: reverse_in_place_def)
  fix i
  assume "i < length (reverse_in_place xs)"
  then have i: "i < length xs" by (simp add: len)
  then have "xs ! i = xs ! (length xs - 1 - i)" if "\<not> i < length xs div 2" "\<not> length xs - length xs div 2 \<le> i"
  proof -
    have "i = length xs - 1 - i" using that i by linarith
    then show ?thesis by metis
  qed
  then show "reverse_in_place xs ! i = rev xs ! i"
    using swaps_nth[OF order_refl i] i by (auto simp: reverse_in_place_def rev_nth)
qed

lemma insort_key_last:
  "(\<forall>y \<in> set ys. k y < k x) \<Longrightarrow> insort_key k x ys = ys @ [x]"
  by (induction ys) auto

lemma sort_key_desc:
  fixes f :: "'a \<Rightarrow> int"
  shows "sorted_wrt (<) (map f xs) \<Longrightarrow> sort_key (\<lambda>x. - f x) xs = rev xs"
  by (induction xs) (auto intro!: insort_key_last)

lemma sorted_sort_key_desc:
  fixes f :: "'a \<Rightarrow> int"
  shows "sorted_wrt (\<ge>) (map f (sort_key (\<lambda>x. - f x) xs))"
proof -
  have "sorted (map (\<lambda>x. - f x) ys) \<Longrightarrow> sorted_wrt (\<ge>) (map f ys)" for ys
    by (induction ys) auto
  then show ?thesis by simp
qed

text \<open>The messages of a room that a page may show.\<close>

definition history :: "db \<Rightarrow> roomID \<Rightarrow> int64 option \<Rightarrow> message list" where
  "history d r b = filter (\<lambda>m. message_RoomID m = r \<and>
      (case b of None \<Rightarrow> True | Some x \<Rightarrow> message_ID m < x)) (t_messages d)"

lemma ListMessages_run:
  assumes "messages_ok d" and "faults d = []" and "0 \<le> n"
  shows "run_state (ListMessages r n b) d =
     ((drop (length (history d r b) - nat n) (history d r b), None), d)"
proof -
  have "sorted_wrt (<) (map message_ID (t_messages d))"
    using assms(1) by (simp add: messages_ok_def table_ok_def)
  then have "sort_key (\<lambda>m. - message_ID m) (filter P (t_messages d)) = rev (filter P (t_messages d))"
    for P by (intro sort_key_desc sorted_wrt_map_filter)
  then show ?thesis
    using assms(2,3)
    by (cases b) (simp_all add: ListMessages_def run_db reverse_in_place_rev sql_limit_def rev_take
        history_def)
qed

text \<open>(C37) Message history: on a consistent database \<open>ListMessages\<close> returns, in chronological
  order, the newest \<open>limit\<close> messages of the room that are older than the cursor, and changes
  nothing.\<close>

theorem ListMessages_newest:
  assumes "db_ok d" and "faults d = []" and "0 \<le> n"
  shows "run_state (ListMessages r n b) d =
      ((drop (length (history d r b) - nat n) (history d r b), None), d)
    \<and> sorted_wrt (<) (map message_ID (fst (result_of (ListMessages r n b) d)))"
proof -
  have ok: "messages_ok d" using assms(1) by (simp add: db_ok_def)
  then have "sorted_wrt (<) (map message_ID (history d r b))"
    by (simp add: history_def messages_ok_def table_ok_def sorted_wrt_map_filter)
  then show ?thesis
    by (simp add: ListMessages_run[OF ok assms(2,3)] drop_map[symmetric] sorted_wrt_drop)
qed

definition chat_db :: db where
  "chat_db = (init_db 0)\<lparr>s_messages := 3, t_messages := map (\<lambda>(i, r, b).
     \<lparr>message_ID = i, message_RoomID = r, message_UserID = 7, message_Body = b, message_CreatedAt = i\<rparr>)
     [(1, 1, ''one''), (2, 1, ''two''), (3, 1, ''three'')]\<rparr>"

lemma chat_db_ok: "db_ok chat_db" "faults chat_db = []"
  by (simp_all add: chat_db_def init_db_def db_ok_def table_oks table_ok_def)

theorem ListMessages_newest_witness:
  "map message_Body (fst (result_of (ListMessages 1 2 None) chat_db)) = [''two'', ''three'']
   \<and> after (ListMessages 1 2 None) chat_db = chat_db"
  using ListMessages_newest[OF chat_db_ok, of 2 1 None] by (simp add: history_def chat_db_def init_db_def)

section \<open>Accessible rooms\<close>

definition room_access :: "db \<Rightarrow> userID \<Rightarrow> room \<Rightarrow> bool" where
  "room_access d u r \<longleftrightarrow> room_Type r = RoomTypePublic \<or> room_OwnerID r = Some u
     \<or> (\<exists>m \<in> set (t_room_members d). member_RoomID m = room_ID r \<and> member_UserID m = u)"

lemma set_left_join:
  "set (rooms_left_join_members d) =
     {(r, None) | r. r \<in> set (t_rooms d) \<and> (\<forall>m \<in> set (t_room_members d). member_RoomID m \<noteq> room_ID r)}
   \<union> {(r, Some m) | r m. r \<in> set (t_rooms d) \<and> m \<in> set (t_room_members d) \<and> member_RoomID m = room_ID r}"
  (is "?L = ?R")
proof -
  have *: "set (case filter P ms of [] \<Rightarrow> [(r, None)] | xs \<Rightarrow> map (\<lambda>m. (r, Some m)) xs) =
      (if \<forall>m \<in> set ms. \<not> P m then {(r, None)} else {(r, Some m) | m. m \<in> set ms \<and> P m})"
    for P :: "roomMember \<Rightarrow> bool" and ms and r :: room
  proof (cases "filter P ms")
    case Nil
    then show ?thesis by (auto simp: filter_empty_conv)
  next
    case (Cons x xs)
    then have "set (x # xs) = {m \<in> set ms. P m}" by (metis set_filter)
    with Cons show ?thesis by auto
  qed
  show ?thesis
    unfolding rooms_left_join_members_def by (auto simp: * split: if_splits)
qed

lemma ex_left_join:
  "(\<exists>m. (r, m) \<in> set (rooms_left_join_members d) \<and>
      (A \<or> (case m of None \<Rightarrow> False | Some x \<Rightarrow> Q x) \<or> B)) \<longleftrightarrow>
   r \<in> set (t_rooms d) \<and>
      (A \<or> (\<exists>m \<in> set (t_room_members d). member_RoomID m = room_ID r \<and> Q m) \<or> B)"
  unfolding set_left_join
  by (cases "\<exists>m \<in> set (t_room_members d). member_RoomID m = room_ID r") auto

text \<open>(C39) \<open>ListRooms\<close> returns every room the user may see exactly once, newest first: the public
  rooms, the rooms the user owns and the rooms the user is a member of.\<close>

theorem ListRooms_accessible:
  assumes "faults d = []"
  shows "\<exists>rs. run_state (ListRooms u) d = ((rs, None), d)
    \<and> set rs = {r \<in> set (t_rooms d). room_access d u r} \<and> distinct rs
    \<and> sorted_wrt (\<ge>) (map room_CreatedAt rs)"
proof -
  let ?sel = "\<lambda>(r, m). room_Type r = RoomTypePublic
         \<or> (case m of None \<Rightarrow> False | Some x \<Rightarrow> member_UserID x = u) \<or> room_OwnerID r = Some u"
  let ?rs = "sort_key (\<lambda>r. - room_CreatedAt r)
      (remdups (map fst (filter ?sel (rooms_left_join_members d))))"
  have "set ?rs = {r. \<exists>m. (r, m) \<in> set (rooms_left_join_members d) \<and> ?sel (r, m)}"
    by force
  then have "set ?rs = {r \<in> set (t_rooms d). room_access d u r}"
    by (simp only: prod.case ex_left_join) (auto simp: room_access_def)
  then show ?thesis
    using assms sorted_sort_key_desc by (intro exI[of _ ?rs]) (simp add: ListRooms_def run_db)
qed

theorem ListRooms_accessible_witness:
  "\<exists>rs. run_state (ListRooms 7) chat_db = ((rs, None), chat_db) \<and> map room_Name rs = [''general'']"
proof -
  obtain rs where rs: "run_state (ListRooms 7) chat_db = ((rs, None), chat_db)"
      "set rs = {r \<in> set (t_rooms chat_db). room_access chat_db 7 r}" "distinct rs"
    using ListRooms_accessible[OF chat_db_ok(2), of 7] by blast
  have "{r \<in> set (t_rooms chat_db). room_access chat_db 7 r} = {hd (t_rooms chat_db)}"
    by (auto simp: chat_db_def init_db_def room_access_def)
  with rs(2,3) have "rs = [hd (t_rooms chat_db)]"
    by (metis (no_types, lifting) distinct.simps(2) insertI1 insert_not_empty list.exhaust list.set(1) list.set(2) list.set_intros(1) list.set_intros(2) singletonD)
  with rs(1) show ?thesis by (simp add: chat_db_def init_db_def)
qed

end
