(* ===== verification/Friends.thy ===== *)
theory Friends
  imports Sqlite_Props
begin

text \<open>
  The friend service (\<open>internal/service/friends/service.go\<close>) and its contract.

  The contract is a state machine per pair of users: strangers, a request one of them has sent,
  friends, or a block one of them has set (\<open>relationship\<close>, \<open>friend_spec\<close>). The code keeps a pair's
  state in at most one row of \<open>friends\<close>, read in either direction; \<open>friends_inv\<close> is that
  representation invariant, and \<open>friend_simulation\<close> shows that every operation of the
  service is one transition of the pair's machine and leaves every other pair alone.
\<close>

section \<open>Errors\<close>

definition friends_ErrCannotFriendSelf :: goerr where
  "friends_ErrCannotFriendSelf =
     ErrNew ''friends.ErrCannotFriendSelf'' ''cannot send friend request to yourself''"
definition friends_ErrAlreadyFriends :: goerr where
  "friends_ErrAlreadyFriends = ErrNew ''friends.ErrAlreadyFriends'' ''already friends''"
definition friends_ErrRequestAlreadyExists :: goerr where
  "friends_ErrRequestAlreadyExists =
     ErrNew ''friends.ErrRequestAlreadyExists'' ''friend request already exists''"
definition friends_ErrRequestNotFound :: goerr where
  "friends_ErrRequestNotFound = ErrNew ''friends.ErrRequestNotFound'' ''friend request not found''"
definition friends_ErrUserNotFound :: goerr where
  "friends_ErrUserNotFound = ErrNew ''friends.ErrUserNotFound'' ''user not found''"
definition friends_ErrNotBlocked :: goerr where
  "friends_ErrNotBlocked = ErrNew ''friends.ErrNotBlocked'' ''user is not blocked''"

section \<open>Operations\<close>

definition SendRequest :: "userID \<Rightarrow> userID \<Rightarrow> (goerr + friend) dbm" where
  "SendRequest fromUserID toUserID =
     (if fromUserID = toUserID then return (Inl friends_ErrCannotFriendSelf)
      else do {
        u \<leftarrow> GetUserByID toUserID;
        case u of Inl _ \<Rightarrow> return (Inl friends_ErrUserNotFound) | Inr _ \<Rightarrow> do {
        ex \<leftarrow> GetFriendship fromUserID toUserID;
        let create = do {
          fr \<leftarrow> CreateFriendRequest fromUserID toUserID;
          case fr of Inl e \<Rightarrow> return (Inl (ErrWrap ''create friend request'' e))
                   | Inr f \<Rightarrow> return (Inr f) };
        case ex of
          Inr existing \<Rightarrow>
            if friend_Status existing = FriendStatusAccepted then return (Inl friends_ErrAlreadyFriends)
            else if friend_Status existing = FriendStatusPending
            then return (Inl friends_ErrRequestAlreadyExists)
            else if friend_Status existing = FriendStatusBlocked then
              (if friend_UserID existing = toUserID
               then return (Inl (ErrText ''you are blocked by this user''))
               else return (Inl (ErrText ''unblock user first before sending friend request'')))
            else create
        | Inl _ \<Rightarrow> create }})"

definition AcceptRequest :: "userID \<Rightarrow> userID \<Rightarrow> (goerr + unit) dbm" where
  "AcceptRequest userID fromUserID = do {
     ex \<leftarrow> GetFriendship fromUserID userID;
     case ex of Inl _ \<Rightarrow> return (Inl friends_ErrRequestNotFound) | Inr existing \<Rightarrow>
     if friend_Status existing \<noteq> FriendStatusPending then return (Inl friends_ErrRequestNotFound)
     else if friend_FriendID existing \<noteq> userID then return (Inl friends_ErrRequestNotFound)
     else do {
       r \<leftarrow> UpdateFriendStatus (friend_UserID existing) (friend_FriendID existing) FriendStatusAccepted;
       case r of Inl e \<Rightarrow> return (Inl (ErrWrap ''accept request'' e)) | Inr _ \<Rightarrow> return (Inr ()) }}"

definition RejectRequest :: "userID \<Rightarrow> userID \<Rightarrow> (goerr + unit) dbm" where
  "RejectRequest userID fromUserID = do {
     ex \<leftarrow> GetFriendship fromUserID userID;
     case ex of Inl _ \<Rightarrow> return (Inl friends_ErrRequestNotFound) | Inr existing \<Rightarrow>
     if friend_Status existing \<noteq> FriendStatusPending then return (Inl friends_ErrRequestNotFound)
     else if friend_FriendID existing \<noteq> userID then return (Inl friends_ErrRequestNotFound)
     else do {
       r \<leftarrow> DeleteFriendship (friend_UserID existing) (friend_FriendID existing);
       case r of Inl e \<Rightarrow> return (Inl (ErrWrap ''reject request'' e)) | Inr _ \<Rightarrow> return (Inr ()) }}"

definition BlockUser :: "userID \<Rightarrow> userID \<Rightarrow> (goerr + unit) dbm" where
  "BlockUser userID targetUserID =
     (if userID = targetUserID then return (Inl friends_ErrCannotFriendSelf)
      else do {
        u \<leftarrow> GetUserByID targetUserID;
        case u of Inl _ \<Rightarrow> return (Inl friends_ErrUserNotFound) | Inr _ \<Rightarrow> do {
        ex \<leftarrow> GetFriendship userID targetUserID;
        let createBlock = do {
          fr \<leftarrow> CreateFriendRequest userID targetUserID;
          case fr of Inl e \<Rightarrow> return (Inl (ErrWrap ''create block record'' e))
                   | Inr _ \<Rightarrow> UpdateFriendStatus userID targetUserID FriendStatusBlocked };
        case ex of
          Inl _ \<Rightarrow> createBlock
        | Inr existing \<Rightarrow>
            if friend_UserID existing = userID
            then UpdateFriendStatus userID targetUserID FriendStatusBlocked
            else do {
              r \<leftarrow> DeleteFriendship (friend_UserID existing) (friend_FriendID existing);
              case r of Inl e \<Rightarrow> return (Inl (ErrWrap ''delete existing friendship'' e))
                      | Inr _ \<Rightarrow> createBlock }}})"

definition UnblockUser :: "userID \<Rightarrow> userID \<Rightarrow> (goerr + unit) dbm" where
  "UnblockUser userID targetUserID = do {
     ex \<leftarrow> GetFriendship userID targetUserID;
     case ex of Inl _ \<Rightarrow> return (Inl friends_ErrNotBlocked) | Inr existing \<Rightarrow>
     if friend_Status existing \<noteq> FriendStatusBlocked \<or> friend_UserID existing \<noteq> userID
     then return (Inl friends_ErrNotBlocked)
     else DeleteFriendship userID targetUserID }"

definition ListFriends :: "userID \<Rightarrow> (goerr + friend list) dbm" where
  "ListFriends userID = do {
     r \<leftarrow> store_ListFriends userID (Some FriendStatusAccepted);
     return (case snd r of Some e \<Rightarrow> Inl (ErrWrap ''list friends'' e) | None \<Rightarrow> Inr (fst r)) }"

definition ListPendingRequests :: "userID \<Rightarrow> (goerr + friend list) dbm" where
  "ListPendingRequests userID = do {
     r \<leftarrow> store_ListFriends userID (Some FriendStatusPending);
     return (case snd r of Some e \<Rightarrow> Inl (ErrWrap ''list pending requests'' e)
       | None \<Rightarrow> Inr (filter (\<lambda>f. friend_FriendID f = userID) (fst r))) }"

definition IsFriend :: "userID \<Rightarrow> userID \<Rightarrow> (goerr + bool) dbm" where
  "IsFriend userID friendID = store_IsFriend userID friendID"

section \<open>The database invariant\<close>

lemma friend_service_keeps [db_keeps]:
  "state_io_rel (\<lambda>d d'. db_ok d \<longrightarrow> db_ok d') (SendRequest a b)"
  "state_io_rel (\<lambda>d d'. db_ok d \<longrightarrow> db_ok d') (AcceptRequest a b)"
  "state_io_rel (\<lambda>d d'. db_ok d \<longrightarrow> db_ok d') (RejectRequest a b)"
  "state_io_rel (\<lambda>d d'. db_ok d \<longrightarrow> db_ok d') (BlockUser a b)"
  "state_io_rel (\<lambda>d d'. db_ok d \<longrightarrow> db_ok d') (UnblockUser a b)"
  "state_io_rel (\<lambda>d d'. db_ok d \<longrightarrow> db_ok d') (ListFriends a)"
  "state_io_rel (\<lambda>d d'. db_ok d \<longrightarrow> db_ok d') (ListPendingRequests a)"
  "state_io_rel (\<lambda>d d'. db_ok d \<longrightarrow> db_ok d') (IsFriend a b)"
  unfolding SendRequest_def AcceptRequest_def RejectRequest_def BlockUser_def UnblockUser_def
    ListFriends_def ListPendingRequests_def IsFriend_def Let_def
  by (intro dbk.de_rules db_keeps)+

section \<open>The contract: one state machine per pair of users\<close>

datatype relationship = Stranger | Requested userID | Friends | BlockedBy userID

datatype friend_op =
    SendOp userID userID | AcceptOp userID userID | RejectOp userID userID
  | BlockOp userID userID | UnblockOp userID userID

fun op_pair :: "friend_op \<Rightarrow> userID set" where
  "op_pair (SendOp a b) = {a, b}"
| "op_pair (AcceptOp a b) = {a, b}"
| "op_pair (RejectOp a b) = {a, b}"
| "op_pair (BlockOp a b) = {a, b}"
| "op_pair (UnblockOp a b) = {a, b}"

text \<open>
  \<open>friend_spec exists op r\<close>: the error the operation returns, if any, and the new state of its
  pair, given which users exist and the pair's state.
\<close>

fun friend_spec :: "(userID \<Rightarrow> bool) \<Rightarrow> friend_op \<Rightarrow> relationship \<Rightarrow> goerr option \<times> relationship" where
  "friend_spec exists (SendOp a b) r =
     (if a = b then (Some friends_ErrCannotFriendSelf, r)
      else if \<not> exists b then (Some friends_ErrUserNotFound, r)
      else case r of
          Stranger \<Rightarrow> (None, Requested a)
        | Requested _ \<Rightarrow> (Some friends_ErrRequestAlreadyExists, r)
        | Friends \<Rightarrow> (Some friends_ErrAlreadyFriends, r)
        | BlockedBy x \<Rightarrow> (Some (ErrText (if x = b then ''you are blocked by this user''
             else ''unblock user first before sending friend request'')), r))"
| "friend_spec exists (AcceptOp u f) r =
     (if r = Requested f then (None, Friends) else (Some friends_ErrRequestNotFound, r))"
| "friend_spec exists (RejectOp u f) r =
     (if r = Requested f then (None, Stranger) else (Some friends_ErrRequestNotFound, r))"
| "friend_spec exists (BlockOp u t) r =
     (if u = t then (Some friends_ErrCannotFriendSelf, r)
      else if \<not> exists t then (Some friends_ErrUserNotFound, r)
      else (None, BlockedBy u))"
| "friend_spec exists (UnblockOp u t) r =
     (if r = BlockedBy u then (None, Stranger) else (Some friends_ErrNotBlocked, r))"

definition err_of :: "goerr + 'a \<Rightarrow> goerr option" where
  "err_of r = (case r of Inl e \<Rightarrow> Some e | Inr _ \<Rightarrow> None)"

fun run_friend_op :: "friend_op \<Rightarrow> goerr option dbm" where
  "run_friend_op (SendOp a b) = do { r \<leftarrow> SendRequest a b; return (err_of r) }"
| "run_friend_op (AcceptOp a b) = do { r \<leftarrow> AcceptRequest a b; return (err_of r) }"
| "run_friend_op (RejectOp a b) = do { r \<leftarrow> RejectRequest a b; return (err_of r) }"
| "run_friend_op (BlockOp a b) = do { r \<leftarrow> BlockUser a b; return (err_of r) }"
| "run_friend_op (UnblockOp a b) = do { r \<leftarrow> UnblockUser a b; return (err_of r) }"

section \<open>Abstraction and representation invariant\<close>

definition pair_of :: "friend \<Rightarrow> userID set" where
  "pair_of f = {friend_UserID f, friend_FriendID f}"

definition row_state :: "friend \<Rightarrow> relationship" where
  "row_state f = (if friend_Status f = FriendStatusPending then Requested (friend_UserID f)
     else if friend_Status f = FriendStatusAccepted then Friends else BlockedBy (friend_UserID f))"

definition pair_rows :: "friend list \<Rightarrow> userID set \<Rightarrow> friend list" where
  "pair_rows fs p = filter (\<lambda>f. pair_of f = p) fs"

definition rel_of :: "friend list \<Rightarrow> userID set \<Rightarrow> relationship" where
  "rel_of fs p = (case pair_rows fs p of [] \<Rightarrow> Stranger | f # _ \<Rightarrow> row_state f)"

definition friends_inv :: "db \<Rightarrow> bool" where
  "friends_inv d \<longleftrightarrow> friends_ok d \<and> distinct (map pair_of (t_friends d))
     \<and> (\<forall>f \<in> set (t_friends d). friend_UserID f \<noteq> friend_FriendID f \<and>
          friend_Status f \<in> {FriendStatusPending, FriendStatusAccepted, FriendStatusBlocked})"

definition user_exists :: "db \<Rightarrow> userID \<Rightarrow> bool" where
  "user_exists d u \<longleftrightarrow> u \<in> u_id ` set (t_users d)"

lemma connects_pair: "connects a b f \<longleftrightarrow> pair_of f = {a, b}"
  by (auto simp: connects_def pair_of_def doubleton_eq_iff)

lemma connects_eq: "connects a b = (\<lambda>f. pair_of f = {a, b})"
  by (rule ext) (rule connects_pair)

lemma pair_of_upd [simp]: "pair_of (f\<lparr>friend_Status := s, friend_UpdatedAt := t\<rparr>) = pair_of f"
  by (simp add: pair_of_def)

lemma pair_rows_cases:
  assumes "friends_inv d"
  obtains "pair_rows (t_friends d) p = []"
    | f where "pair_rows (t_friends d) p = [f]" and "f \<in> set (t_friends d)" and "pair_of f = p"
proof (cases "pair_rows (t_friends d) p")
  case Nil
  then show thesis by (rule that(1))
next
  case (Cons f fs)
  then have f: "f \<in> set (t_friends d)" "pair_of f = p"
    by (auto simp: pair_rows_def filter_eq_Cons_iff)
  with assms have "pair_rows (t_friends d) p = [f]"
    unfolding pair_rows_def friends_inv_def by (intro filter_key_unique') auto
  from this f show thesis by (rule that(2))
qed

section \<open>The store calls without driver faults\<close>

definition new_row :: "db \<Rightarrow> userID \<Rightarrow> userID \<Rightarrow> friend" where
  "new_row d a b = \<lparr>friend_ID = s_friends d + 1, friend_UserID = a, friend_FriendID = b,
     friend_Status = FriendStatusPending, friend_CreatedAt = current_timestamp d,
     friend_UpdatedAt = current_timestamp d\<rparr>"

definition add_row :: "userID \<Rightarrow> userID \<Rightarrow> db \<Rightarrow> db" where
  "add_row a b d = d\<lparr>t_friends := t_friends d @ [new_row d a b], s_friends := s_friends d + 1\<rparr>"

definition set_status :: "userID \<Rightarrow> userID \<Rightarrow> string \<Rightarrow> db \<Rightarrow> db" where
  "set_status a b s d = d\<lparr>t_friends := map (\<lambda>f. if friend_UserID f = a \<and> friend_FriendID f = b
     then f\<lparr>friend_Status := s, friend_UpdatedAt := current_timestamp d\<rparr> else f) (t_friends d)\<rparr>"

definition del_row :: "userID \<Rightarrow> userID \<Rightarrow> db \<Rightarrow> db" where
  "del_row a b d = d\<lparr>t_friends := filter (\<lambda>f. \<not> (friend_UserID f = a \<and> friend_FriendID f = b))
     (t_friends d)\<rparr>"

lemma friend_updates_frame [simp]:
  "faults (add_row a b d) = faults d" "t_users (add_row a b d) = t_users d"
  "faults (set_status a b s d) = faults d" "t_users (set_status a b s d) = t_users d"
  "faults (del_row a b d) = faults d" "t_users (del_row a b d) = t_users d"
  by (simp_all add: add_row_def set_status_def del_row_def)

lemma nf_GetUserByID:
  assumes "faults d = []"
  shows "user_exists d i \<Longrightarrow> \<exists>u. run_state (GetUserByID i) d = (Inr u, d)"
    and "\<not> user_exists d i \<Longrightarrow> \<exists>e. run_state (GetUserByID i) d = (Inl e, d)"
  using assms
  by (auto simp: run_db user_exists_def filter_empty_conv dest: filter_eq_ConsD split: list.split)

lemma nf_GetFriendship:
  "faults d = [] \<Longrightarrow> run_state (GetFriendship a b) d =
     (case pair_rows (t_friends d) {a, b} of
        [] \<Rightarrow> Inl (ErrWrap ''friendship not found'' sql_ErrNoRows) | f # _ \<Rightarrow> Inr f, d)"
  by (simp add: run_db pair_rows_def connects_eq split: list.split)

lemma nf_CreateFriendRequest:
  assumes "faults d = []" and "friends_inv d" and "pair_rows (t_friends d) {a, b} = []"
  shows "run_state (CreateFriendRequest a b) d = (Inr (new_row d a b), add_row a b d)"
proof -
  have "(a, b) \<notin> set (map (\<lambda>x. (friend_UserID x, friend_FriendID x)) (t_friends d))"
    using assms(3) by (auto simp: pair_rows_def filter_empty_conv pair_of_def)
  then have ins: "insert_friend a b d = Inr (s_friends d + 1, add_row a b d)"
    by (simp add: insert_friend_def add_row_def new_row_def Let_def)
  have "filter (\<lambda>f. friend_ID f = s_friends d + 1) (t_friends d) = []"
    using assms(2) by (auto simp: friends_inv_def friends_ok_def table_ok_def filter_empty_conv)
  then have "filter (\<lambda>f. friend_ID f = s_friends d + 1) (t_friends (add_row a b d)) = [new_row d a b]"
    by (simp add: add_row_def new_row_def)
  then show ?thesis
    using assms(1) ins by (simp add: CreateFriendRequest_def run_db)
qed

lemma nf_UpdateFriendStatus:
  assumes "faults d = []" and "f \<in> set (t_friends d)" and "friend_UserID f = a" and "friend_FriendID f = b"
  shows "run_state (UpdateFriendStatus a b s) d = (Inr (), set_status a b s d)"
  using assms
  by (auto simp: UpdateFriendStatus_def run_db set_status_def filter_empty_conv)

lemma nf_DeleteFriendship:
  "faults d = [] \<Longrightarrow> run_state (DeleteFriendship a b) d = (Inr (), del_row a b d)"
  by (simp add: DeleteFriendship_def run_db del_row_def)

lemmas nf_friends = nf_GetFriendship nf_CreateFriendRequest nf_UpdateFriendStatus nf_DeleteFriendship

section \<open>Each update moves one pair\<close>

definition moves_pair :: "userID set \<Rightarrow> relationship \<Rightarrow> db \<Rightarrow> db \<Rightarrow> bool" where
  "moves_pair p r d d' \<longleftrightarrow> rel_of (t_friends d') p = r
     \<and> (\<forall>q. q \<noteq> p \<longrightarrow> rel_of (t_friends d') q = rel_of (t_friends d) q)
     \<and> friends_inv d' \<and> faults d' = faults d \<and> t_users d' = t_users d"

lemma moves_pair_refl: "friends_inv d \<Longrightarrow> moves_pair p (rel_of (t_friends d) p) d d"
  by (simp add: moves_pair_def)

lemma moves_pair_trans: "moves_pair p r d d' \<Longrightarrow> moves_pair p r' d' d'' \<Longrightarrow> moves_pair p r' d d''"
  by (simp add: moves_pair_def)

lemma pair_of_new_row [simp]: "pair_of (new_row d a b) = {a, b}"
  by (simp add: pair_of_def new_row_def)

lemma moves_add_row:
  assumes "friends_inv d" and "pair_rows (t_friends d) {a, b} = []" and "a \<noteq> b"
  shows "moves_pair {a, b} (Requested a) d (add_row a b d)"
proof -
  have fresh: "\<forall>f \<in> set (t_friends d). pair_of f \<noteq> {a, b}"
    using assms(2) by (simp add: pair_rows_def filter_empty_conv)
  then have "(a, b) \<notin> (\<lambda>f. (friend_UserID f, friend_FriendID f)) ` set (t_friends d)"
    by (auto simp: pair_of_def)
  then have "friends_ok (add_row a b d)"
    using assms(1) by (auto simp: friends_inv_def friends_ok_def add_row_def new_row_def
        intro!: table_ok_insert)
  then have "friends_inv (add_row a b d)"
    using assms(1,3) fresh by (auto simp: friends_inv_def add_row_def new_row_def pair_of_def)
  then show ?thesis
    using assms(2) by (auto simp: moves_pair_def rel_of_def pair_rows_def add_row_def
        row_state_def new_row_def pair_of_def)
qed

lemma pair_rows_set_status:
  "pair_rows (t_friends (set_status a b s d)) p =
    map (\<lambda>f. if friend_UserID f = a \<and> friend_FriendID f = b
       then f\<lparr>friend_Status := s, friend_UpdatedAt := current_timestamp d\<rparr> else f) (pair_rows (t_friends d) p)"
  by (auto simp: pair_rows_def set_status_def filter_map comp_def pair_of_def cong: if_cong
      intro!: arg_cong[where f = "map _"] filter_cong)

lemma friends_inv_set_status:
  assumes "friends_inv d" and "s \<in> {FriendStatusPending, FriendStatusAccepted, FriendStatusBlocked}"
  shows "friends_inv (set_status a b s d)"
  using assms
  by (auto simp: friends_inv_def friends_ok_def set_status_def table_ok_map map_upd_key_same
      simp del: map_map)

lemma moves_set_status:
  assumes "friends_inv d" and "pair_rows (t_friends d) {a, b} = [f]"
    and "friend_UserID f = a" and "friend_FriendID f = b"
    and "s \<in> {FriendStatusPending, FriendStatusAccepted, FriendStatusBlocked}"
  shows "moves_pair {a, b} (row_state (f\<lparr>friend_Status := s\<rparr>)) d (set_status a b s d)"
proof -
  have "map (\<lambda>f. if friend_UserID f = a \<and> friend_FriendID f = b
       then f\<lparr>friend_Status := s, friend_UpdatedAt := current_timestamp d\<rparr> else f) (pair_rows (t_friends d) q)
     = pair_rows (t_friends d) q" if "q \<noteq> {a, b}" for q
    using that by (auto simp: pair_rows_def pair_of_def intro!: map_idI split: if_splits)
  then show ?thesis
    using assms friends_inv_set_status[OF assms(1,5)]
    by (simp add: moves_pair_def rel_of_def pair_rows_set_status row_state_def)
qed

lemma pair_rows_del_row:
  "pair_rows (t_friends (del_row a b d)) p =
     filter (\<lambda>f. \<not> (friend_UserID f = a \<and> friend_FriendID f = b)) (pair_rows (t_friends d) p)"
  by (simp add: pair_rows_def del_row_def conj_commute)

lemma moves_del_row:
  assumes "friends_inv d" and "pair_rows (t_friends d) {a, b} = [f]"
    and "friend_UserID f = a" and "friend_FriendID f = b"
  shows "moves_pair {a, b} Stranger d (del_row a b d)"
proof -
  have "filter (\<lambda>f. \<not> (friend_UserID f = a \<and> friend_FriendID f = b)) (pair_rows (t_friends d) q)
     = pair_rows (t_friends d) q" if "q \<noteq> {a, b}" for q
    using that by (auto simp: pair_rows_def pair_of_def intro!: filter_cong)
  moreover have "friends_inv (del_row a b d)"
    using assms(1) by (auto simp: friends_inv_def friends_ok_def del_row_def table_ok_filter
        distinct_map_filter_conv)
  ultimately show ?thesis
    using assms by (simp add: moves_pair_def rel_of_def pair_rows_del_row)
qed

section \<open>The service implements the contract\<close>

definition simulates :: "friend_op \<Rightarrow> db \<Rightarrow> bool" where
  "simulates op d \<longleftrightarrow>
     (let spec = friend_spec (user_exists d) op (rel_of (t_friends d) (op_pair op))
      in result_of (run_friend_op op) d = fst spec
       \<and> moves_pair (op_pair op) (snd spec) d (after (run_friend_op op) d))"

lemma row_user: "pair_of f = {a, b} \<Longrightarrow> friend_UserID f = a \<and> friend_FriendID f = b
    \<or> friend_UserID f = b \<and> friend_FriendID f = a"
  by (auto simp: pair_of_def doubleton_eq_iff)

lemma status_cases:
  assumes "friends_inv d" and "f \<in> set (t_friends d)"
  obtains "friend_Status f = ''pending''" | "friend_Status f = ''accepted''" | "friend_Status f = ''blocked''"
  using assms by (auto simp: friends_inv_def)

lemma rel_of_rows:
  "pair_rows fs p = [] \<Longrightarrow> rel_of fs p = Stranger"
  "pair_rows fs p = [f] \<Longrightarrow> rel_of fs p = row_state f"
  by (simp_all add: rel_of_def)

lemma SendRequest_sim:
  assumes inv: "friends_inv d" and nf: "faults d = []"
  shows "simulates (SendOp a b) d"
proof (cases "a = b \<or> \<not> user_exists d b")
  case True
  then show ?thesis
    using nf_GetUserByID[OF nf, of b] moves_pair_refl[OF inv]
    by (auto simp: simulates_def SendRequest_def err_of_def Let_def)
next
  case False
  then obtain u where u: "run_state (GetUserByID b) d = (Inr u, d)" and ab: "a \<noteq> b"
    using nf_GetUserByID(1)[OF nf] by blast
  show ?thesis
  proof (cases rule: pair_rows_cases[OF inv, of "{a, b}"])
    case 1
    then show ?thesis
      using moves_add_row[OF inv 1 ab] nf inv False u
      by (simp add: simulates_def SendRequest_def err_of_def nf_friends rel_of_rows Let_def)
  next
    case (2 f)
    from inv 2(2) show ?thesis
      by (cases rule: status_cases)
        (use 2 row_user[OF 2(3)] ab False u nf moves_pair_refl[OF inv, of "{a, b}"] in
          \<open>auto simp: simulates_def SendRequest_def err_of_def nf_friends rel_of_rows row_state_def Let_def\<close>)
  qed
qed

lemma AcceptRequest_sim:
  assumes inv: "friends_inv d" and nf: "faults d = []"
  shows "simulates (AcceptOp u v) d"
proof (cases rule: pair_rows_cases[OF inv, of "{v, u}"])
  case 1
  then show ?thesis
    using nf moves_pair_refl[OF inv, of "{u, v}"]
    by (simp add: simulates_def AcceptRequest_def err_of_def nf_friends rel_of_rows Let_def insert_commute)
next
  case (2 f)
  then have rows: "pair_rows (t_friends d) {u, v} = [f]" by (simp add: insert_commute)
  have uv: "u \<noteq> v"
    using inv 2 by (auto simp: friends_inv_def pair_of_def)
  from inv 2(2) show ?thesis
  proof (cases rule: status_cases)
    case 1
    show ?thesis
    proof (cases "friend_FriendID f = u")
      case True
      then have f: "friend_UserID f = v" using row_user[OF 2(3)] uv by auto
      have upd: "run_state (UpdateFriendStatus v u FriendStatusAccepted) d =
          (Inr (), set_status v u FriendStatusAccepted d)"
        by (rule nf_UpdateFriendStatus[OF nf 2(2) f True])
      show ?thesis
        using 1 2 rows True f nf upd moves_set_status[OF inv 2(1) f True, of FriendStatusAccepted]
        by (simp add: simulates_def AcceptRequest_def err_of_def nf_friends rel_of_rows row_state_def
            Let_def insert_commute)
    next
      case False
      then have "friend_UserID f = u" using row_user[OF 2(3)] by auto
      then show ?thesis
        using 1 2 rows False uv nf moves_pair_refl[OF inv, of "{u, v}"]
        by (simp add: simulates_def AcceptRequest_def err_of_def nf_friends rel_of_rows row_state_def Let_def)
    qed
  qed (use 2 rows nf moves_pair_refl[OF inv, of "{u, v}"] in
        \<open>simp_all add: simulates_def AcceptRequest_def err_of_def nf_friends rel_of_rows row_state_def Let_def\<close>)
qed

lemma RejectRequest_sim:
  assumes inv: "friends_inv d" and nf: "faults d = []"
  shows "simulates (RejectOp u v) d"
proof (cases rule: pair_rows_cases[OF inv, of "{v, u}"])
  case 1
  then show ?thesis
    using nf moves_pair_refl[OF inv, of "{u, v}"]
    by (simp add: simulates_def RejectRequest_def err_of_def nf_friends rel_of_rows Let_def insert_commute)
next
  case (2 f)
  then have rows: "pair_rows (t_friends d) {u, v} = [f]" by (simp add: insert_commute)
  have uv: "u \<noteq> v"
    using inv 2 by (auto simp: friends_inv_def pair_of_def)
  show ?thesis
  proof (cases "friend_Status f = FriendStatusPending \<and> friend_FriendID f = u")
    case True
    then have f: "friend_UserID f = v" using row_user[OF 2(3)] uv by auto
    show ?thesis
      using True 2 rows f nf moves_del_row[OF inv 2(1) f]
      by (simp add: simulates_def RejectRequest_def err_of_def nf_friends rel_of_rows row_state_def
          Let_def insert_commute)
  next
    case False
    then show ?thesis
      using 2 rows uv nf moves_pair_refl[OF inv, of "{u, v}"] row_user[OF 2(3)]
      by (auto simp: simulates_def RejectRequest_def err_of_def nf_friends rel_of_rows row_state_def Let_def)
  qed
qed

lemma createBlock_run:
  assumes inv: "friends_inv d" and nf: "faults d = []" and none: "pair_rows (t_friends d) {a, b} = []"
    and ab: "a \<noteq> b"
  shows "\<exists>d'. run_state (CreateFriendRequest a b) d = (Inr (new_row d a b), add_row a b d)
    \<and> run_state (UpdateFriendStatus a b FriendStatusBlocked) (add_row a b d) = (Inr (), d')
    \<and> moves_pair {a, b} (BlockedBy a) d d'"
proof -
  let ?d = "add_row a b d"
  have mv: "moves_pair {a, b} (Requested a) d ?d"
    by (rule moves_add_row[OF inv none ab])
  have rows: "pair_rows (t_friends ?d) {a, b} = [new_row d a b]"
    using none by (simp add: pair_rows_def add_row_def)
  have row: "friend_UserID (new_row d a b) = a" "friend_FriendID (new_row d a b) = b"
    by (simp_all add: new_row_def)
  have "moves_pair {a, b} (row_state ((new_row d a b)\<lparr>friend_Status := FriendStatusBlocked\<rparr>)) ?d
      (set_status a b FriendStatusBlocked ?d)"
    using mv rows row by (intro moves_set_status) (auto simp: moves_pair_def)
  then have "moves_pair {a, b} (BlockedBy a) d (set_status a b FriendStatusBlocked ?d)"
    using mv by (auto simp: row_state_def new_row_def intro: moves_pair_trans)
  moreover have "run_state (UpdateFriendStatus a b FriendStatusBlocked) ?d =
      (Inr (), set_status a b FriendStatusBlocked ?d)"
    using nf row by (intro nf_UpdateFriendStatus[where f = "new_row d a b"]) (auto simp: add_row_def)
  ultimately show ?thesis
    using nf_CreateFriendRequest[OF nf inv none] by blast
qed

lemma BlockUser_sim:
  assumes inv: "friends_inv d" and nf: "faults d = []"
  shows "simulates (BlockOp a b) d"
proof (cases "a = b \<or> \<not> user_exists d b")
  case True
  then show ?thesis
    using nf_GetUserByID[OF nf, of b] moves_pair_refl[OF inv]
    by (auto simp: simulates_def BlockUser_def err_of_def Let_def)
next
  case False
  then obtain u where u: "run_state (GetUserByID b) d = (Inr u, d)" and ab: "a \<noteq> b"
    using nf_GetUserByID(1)[OF nf] by blast
  show ?thesis
  proof (cases rule: pair_rows_cases[OF inv, of "{a, b}"])
    case 1
    then show ?thesis
      using createBlock_run[OF inv nf 1 ab] nf False u
      by (auto simp: simulates_def BlockUser_def err_of_def nf_GetFriendship Let_def)
  next
    case (2 f)
    show ?thesis
    proof (cases "friend_UserID f = a")
      case True
      then have f: "friend_FriendID f = b" using row_user[OF 2(3)] ab by auto
      show ?thesis
        using True f 2 False u nf moves_set_status[OF inv 2(1) True f, of FriendStatusBlocked]
          nf_UpdateFriendStatus[OF nf 2(2) True f, of FriendStatusBlocked]
        by (simp add: simulates_def BlockUser_def err_of_def nf_GetFriendship Let_def row_state_def)
    next
      case other: False
      then have f: "friend_UserID f = b" "friend_FriendID f = a" using row_user[OF 2(3)] by auto
      let ?d = "del_row b a d"
      have rows: "pair_rows (t_friends d) {b, a} = [f]" using 2 by (simp add: insert_commute)
      have mv: "moves_pair {a, b} Stranger d ?d"
        using moves_del_row[OF inv rows f] by (simp add: insert_commute)
      have "pair_rows (t_friends ?d) {a, b} = []"
        using 2 f by (simp add: pair_rows_del_row)
      then obtain d' where "run_state (CreateFriendRequest a b) ?d = (Inr (new_row ?d a b), add_row a b ?d)"
        and "run_state (UpdateFriendStatus a b FriendStatusBlocked) (add_row a b ?d) = (Inr (), d')"
        and "moves_pair {a, b} (BlockedBy a) ?d d'"
        using createBlock_run[of ?d a b] mv nf ab by (auto simp: moves_pair_def)
      then show ?thesis
        using other f 2 False u nf mv
        by (auto simp: simulates_def BlockUser_def err_of_def nf_GetFriendship nf_DeleteFriendship Let_def
            intro: moves_pair_trans)
    qed
  qed
qed

lemma UnblockUser_sim:
  assumes inv: "friends_inv d" and nf: "faults d = []"
  shows "simulates (UnblockOp a b) d"
proof (cases rule: pair_rows_cases[OF inv, of "{a, b}"])
  case 1
  then show ?thesis
    using nf moves_pair_refl[OF inv, of "{a, b}"]
    by (simp add: simulates_def UnblockUser_def err_of_def nf_friends rel_of_rows Let_def)
next
  case (2 f)
  show ?thesis
  proof (cases "friend_Status f = FriendStatusBlocked \<and> friend_UserID f = a")
    case True
    then have f: "friend_UserID f = a" "friend_FriendID f = b"
      using row_user[OF 2(3)] inv 2(2) by (auto simp: friends_inv_def)
    show ?thesis
      using True 2 f nf moves_del_row[OF inv 2(1) f]
      by (simp add: simulates_def UnblockUser_def err_of_def nf_friends rel_of_rows row_state_def Let_def)
  next
    case False
    from inv 2(2) show ?thesis
      by (cases rule: status_cases)
        (use False 2 nf moves_pair_refl[OF inv, of "{a, b}"] in
          \<open>auto simp: simulates_def UnblockUser_def err_of_def nf_friends rel_of_rows row_state_def Let_def\<close>)
  qed
qed

lemmas service_sims = SendRequest_sim AcceptRequest_sim RejectRequest_sim BlockUser_sim UnblockUser_sim

lemma all_simulate: "friends_inv d \<Longrightarrow> faults d = [] \<Longrightarrow> simulates op d"
  by (cases op) (simp_all add: service_sims)

section \<open>Runs of the service\<close>

type_synonym friend_net = "(userID \<Rightarrow> bool) \<times> (userID set \<Rightarrow> relationship)"

definition abs_friends :: "db \<Rightarrow> friend_net" where
  "abs_friends d = (user_exists d, rel_of (t_friends d))"

definition net_step :: "friend_op \<Rightarrow> friend_net \<Rightarrow> friend_net" where
  "net_step op n = (fst n, (snd n)(op_pair op := snd (friend_spec (fst n) op (snd n (op_pair op)))))"

definition conc_step :: "friend_op \<Rightarrow> db \<Rightarrow> db" where
  "conc_step op d = after (run_friend_op op) d"

interpretation friend_sim: simulation conc_step net_step abs_friends "\<lambda>d. friends_inv d \<and> faults d = []"
proof
  fix d op
  assume "friends_inv d \<and> faults d = []"
  then have "simulates op d" by (intro all_simulate) auto
  then have mv: "moves_pair (op_pair op)
      (snd (friend_spec (user_exists d) op (rel_of (t_friends d) (op_pair op)))) d (conc_step op d)"
    by (simp add: simulates_def conc_step_def Let_def)
  then show "friends_inv (conc_step op d) \<and> faults (conc_step op d) = []"
    using \<open>friends_inv d \<and> faults d = []\<close> by (simp add: moves_pair_def)
  from mv show "abs_friends (conc_step op d) = net_step op (abs_friends d)"
    by (auto simp: abs_friends_def net_step_def moves_pair_def user_exists_def fun_eq_iff)
qed

text \<open>How a pair gets to a state: the last operations of a run that can have led there.\<close>

lemma net_users: "fst (fold net_step ops n) = fst n"
  by (induction ops arbitrary: n) (auto simp: net_step_def)

lemma net_step_Friends:
  "snd (net_step op m) p = Friends \<Longrightarrow> snd m p \<noteq> Friends \<Longrightarrow>
    \<exists>u v. op = AcceptOp u v \<and> {u, v} = p \<and> snd m p = Requested v"
  by (cases op) (auto simp: net_step_def split: if_splits relationship.splits)

lemma net_step_Requested:
  "snd (net_step op m) p = Requested v \<Longrightarrow> snd m p \<noteq> Requested v \<Longrightarrow>
    \<exists>u. op = SendOp v u \<and> {u, v} = p"
  by (cases op) (auto simp: net_step_def split: if_splits relationship.splits)

lemma requested_origin:
  "snd (fold net_step ops n) p = Requested v \<Longrightarrow> snd n p \<noteq> Requested v \<Longrightarrow>
    \<exists>u. SendOp v u \<in> set ops \<and> {u, v} = p"
proof (induction ops rule: rev_induct)
  case Nil
  then show ?case by simp
next
  case (snoc op ops)
  then show ?case
    using net_step_Requested[of op "fold net_step ops n" p v] by auto
qed

lemma friends_origin:
  "snd (fold net_step ops n) {a, b} = Friends \<Longrightarrow> snd n {a, b} \<noteq> Friends \<Longrightarrow>
    \<exists>pre post u v. ops = pre @ AcceptOp u v # post \<and> {u, v} = {a, b}
      \<and> (SendOp v u \<in> set pre \<or> snd n {a, b} = Requested v)"
proof (induction ops rule: rev_induct)
  case Nil
  then show ?case by simp
next
  case (snoc op ops)
  show ?case
  proof (cases "snd (fold net_step ops n) {a, b} = Friends")
    case True
    with snoc show ?thesis by (metis append_Cons append_assoc)
  next
    case False
    with snoc.prems obtain u v where op: "op = AcceptOp u v" "{u, v} = {a, b}"
      and req: "snd (fold net_step ops n) {a, b} = Requested v"
      using net_step_Friends[of op "fold net_step ops n" "{a, b}"] by auto
    from requested_origin[OF req] op(2)
    have "SendOp v u \<in> set ops \<or> snd n {a, b} = Requested v"
      by (metis doubleton_eq_iff)
    with op show ?thesis by blast
  qed
qed

section \<open>Properties\<close>

text \<open>(C18) The friend service implements its contract. On a consistent \<open>friends\<close> table and without
  driver faults, every operation (send, accept, reject, block, unblock) returns the error the
  pair's state machine prescribes, moves that pair to the prescribed state, leaves every other
  pair as it was, and keeps the representation invariant: at most one row per pair of users, no row
  from a user to itself, a known status in every row.\<close>

theorem friend_simulation:
  assumes "friends_inv d" and "faults d = []"
  shows "let spec = friend_spec (user_exists d) op (rel_of (t_friends d) (op_pair op));
             d' = after (run_friend_op op) d
         in result_of (run_friend_op op) d = fst spec
          \<and> rel_of (t_friends d') (op_pair op) = snd spec
          \<and> (\<forall>p. p \<noteq> op_pair op \<longrightarrow> rel_of (t_friends d') p = rel_of (t_friends d) p)
          \<and> friends_inv d'"
  using all_simulate[OF assms, of op] by (simp add: simulates_def moves_pair_def Let_def)

definition demo_users :: "user_row list" where
  "demo_users = map (\<lambda>(i, n). \<lparr>u_id = i, u_username = n, u_password_hash = ''h'', u_is_guest = False,
     u_session_id = None, u_created_at = 0, u_allow_calls_from = ''everyone''\<rparr>)
     [(1, ''alice''), (2, ''bobby''), (3, ''carol'')]"

definition demo_db :: db where
  "demo_db = (init_db 0)\<lparr>t_users := demo_users, s_users := 3\<rparr>"

lemma demo_db_simps [simp]:
  "t_friends demo_db = []" "s_friends demo_db = 0" "faults demo_db = []"
  "t_users demo_db = demo_users" "friends_inv demo_db" "db_ok demo_db"
  "user_exists demo_db 1" "user_exists demo_db 2" "user_exists demo_db 3"
  "t_room_members demo_db = []" "t_messages demo_db = []" "t_calls demo_db = []"
  "t_call_participants demo_db = []"
  by (simp_all add: demo_db_def init_db_def demo_users_def friends_inv_def friends_ok_def
      table_ok_def user_exists_def db_ok_def table_oks)

theorem friend_simulation_witness:
  "result_of (run_friend_op (SendOp 1 2)) demo_db = None
   \<and> rel_of (t_friends (after (run_friend_op (SendOp 1 2)) demo_db)) {1, 2} = Requested 1"
  using friend_simulation[of demo_db "SendOp 1 2"] by (simp add: Let_def rel_of_def pair_rows_def)


lemma demo_run:
  "rel_of (t_friends (fold conc_step [SendOp 1 2, AcceptOp 2 1] demo_db)) {1, 2} = Friends"
proof -
  have "abs_friends (fold conc_step [SendOp 1 2, AcceptOp 2 1] demo_db) =
      fold net_step [SendOp 1 2, AcceptOp 2 1] (abs_friends demo_db)"
    by (rule friend_sim.run_abs) simp
  then have "rel_of (t_friends (fold conc_step [SendOp 1 2, AcceptOp 2 1] demo_db)) =
      snd (fold net_step [SendOp 1 2, AcceptOp 2 1] (abs_friends demo_db))"
    by (metis abs_friends_def snd_conv)
  then show ?thesis
    by (simp add: net_step_def abs_friends_def rel_of_def pair_rows_def insert_commute)
qed


text \<open>A block does not hold against its target: a user whom the other has blocked can set a
  block of its own, which replaces the other's, and lift it again; both calls succeed and
  afterwards the pair are strangers, so the block is gone.\<close>

theorem blocked_user_lifts_block:
  assumes "friends_inv d" and "faults d = []" and "u \<noteq> t" and "user_exists d t"
    and "rel_of (t_friends d) {u, t} = BlockedBy t"
  shows "result_of (run_friend_op (BlockOp u t)) d = None
    \<and> result_of (run_friend_op (UnblockOp u t)) (conc_step (BlockOp u t) d) = None
    \<and> rel_of (t_friends (conc_step (UnblockOp u t) (conc_step (BlockOp u t) d))) {u, t} = Stranger"
proof -
  let ?d = "conc_step (BlockOp u t) d"
  have 1: "simulates (BlockOp u t) d" using assms by (intro all_simulate)
  then have mv: "moves_pair {u, t} (BlockedBy u) d ?d"
    using assms by (simp add: simulates_def conc_step_def)
  then have "simulates (UnblockOp u t) ?d"
    using assms by (intro all_simulate) (auto simp: moves_pair_def)
  with mv 1 show ?thesis
    using assms by (simp add: simulates_def conc_step_def moves_pair_def)
qed

theorem blocked_user_lifts_block_witness:
  "rel_of (t_friends (conc_step (UnblockOp 1 2) (conc_step (BlockOp 1 2)
      (conc_step (BlockOp 2 1) demo_db)))) {1, 2} = Stranger"
proof -
  have "simulates (BlockOp 2 1) demo_db" by (intro all_simulate) simp_all
  then have "moves_pair {1, 2} (BlockedBy 2) demo_db (conc_step (BlockOp 2 1) demo_db)"
    by (simp add: simulates_def conc_step_def insert_commute)
  then show ?thesis
    using blocked_user_lifts_block[of "conc_step (BlockOp 2 1) demo_db" 1 2]
    by (simp add: moves_pair_def user_exists_def demo_users_def)
qed

end
