(* ===== verification/Calls.thy ===== *)
theory Calls
  imports CallEngine Friends
begin

text \<open>
  The call service (\<open>internal/service/calls/service.go\<close>), one definition per method, and the
  interface the hub calls it through (\<open>internal/core/call_service.go\<close>) as a record of methods.
  \<open>svc_uuid\<close> is what the next \<open>uuid.New().String()\<close> of a call returns.
\<close>

section \<open>Errors\<close>

definition calls_ErrUserNotFound :: goerr where
  "calls_ErrUserNotFound = ErrNew ''calls.ErrUserNotFound'' ''user not found''"
definition calls_ErrCallNotFound :: goerr where
  "calls_ErrCallNotFound = ErrNew ''calls.ErrCallNotFound'' ''call not found''"
definition calls_ErrCallEnded :: goerr where
  "calls_ErrCallEnded = ErrNew ''calls.ErrCallEnded'' ''call has ended''"
definition calls_ErrNotParticipant :: goerr where
  "calls_ErrNotParticipant = ErrNew ''calls.ErrNotParticipant'' ''not a participant in this call''"
definition calls_ErrNotFriend :: goerr where
  "calls_ErrNotFriend = ErrNew ''calls.ErrNotFriend'' ''cannot call user: not friends''"
definition calls_ErrCallsNotAllowed :: goerr where
  "calls_ErrCallsNotAllowed =
     ErrNew ''calls.ErrCallsNotAllowed'' ''user does not accept calls from non-friends''"
definition calls_ErrRoomNotFound :: goerr where
  "calls_ErrRoomNotFound = ErrNew ''calls.ErrRoomNotFound'' ''room not found''"
definition calls_ErrNotRoomMember :: goerr where
  "calls_ErrNotRoomMember = ErrNew ''calls.ErrNotRoomMember'' ''not a member of this room''"
definition calls_ErrCannotCallSelf :: goerr where
  "calls_ErrCannotCallSelf = ErrNew ''calls.ErrCannotCallSelf'' ''cannot call yourself''"
definition calls_ErrLiveKitNotEnabled :: goerr where
  "calls_ErrLiveKitNotEnabled = ErrNew ''calls.ErrLiveKitNotEnabled'' ''livekit is not enabled''"

section \<open>The service\<close>

record callsService =
  svc_engine :: "engine option"
  svc_uuid :: string

definition calls_New :: "engine option \<Rightarrow> string \<Rightarrow> callsService" where
  "calls_New eng uuid = \<lparr>svc_engine = eng, svc_uuid = uuid\<rparr>"

definition new_participant :: "callID \<Rightarrow> userID \<Rightarrow> callParticipant" where
  "new_participant c u = \<lparr>part_ID = 0, part_CallID = c, part_UserID = u, part_JoinedAt = None,
     part_LeftAt = None, part_Reason = None\<rparr>"

text \<open>The loop that adds the participants, and stops at the first error.\<close>

fun add_participants :: "callID \<Rightarrow> userID list \<Rightarrow> (goerr + unit) dbm" where
  "add_participants c [] = return (Inr ())"
| "add_participants c (u # us) = do {
     r \<leftarrow> AddParticipant (new_participant c u);
     case r of Inl e \<Rightarrow> return (Inl (ErrWrap (''add participant '' @ itoa u) e))
             | Inr _ \<Rightarrow> add_participants c us }"

text \<open>The privacy check of a direct call.\<close>

definition check_call_privacy :: "userID \<Rightarrow> userID \<Rightarrow> (goerr + unit) dbm" where
  "check_call_privacy fromUserID toUserID = do {
     setting \<leftarrow> GetUserCallSettings toUserID;
     case setting of Inl e \<Rightarrow> return (Inl (ErrWrap ''get call settings'' e)) | Inr s \<Rightarrow>
     if s = AllowCallsFromFriendsOnly then do {
       isFriend \<leftarrow> IsFriend fromUserID toUserID;
       case isFriend of Inl e \<Rightarrow> return (Inl (ErrWrap ''check friendship'' e)) | Inr b \<Rightarrow>
       if \<not> b then return (Inl calls_ErrCallsNotAllowed) else return (Inr ()) }
     else return (Inr ()) }"

definition CreateDirectCall :: "callsService \<Rightarrow> userID \<Rightarrow> userID \<Rightarrow> (goerr + call) dbm" where
  "CreateDirectCall s fromUserID toUserID = (case svc_engine s of
     None \<Rightarrow> return (Inl calls_ErrLiveKitNotEnabled)
   | Some eng \<Rightarrow>
     if fromUserID = toUserID then return (Inl calls_ErrCannotCallSelf)
     else do {
       toUser \<leftarrow> GetUserByID toUserID;
       case toUser of Inl _ \<Rightarrow> return (Inl calls_ErrUserNotFound) | Inr _ \<Rightarrow> do {
       ok \<leftarrow> check_call_privacy fromUserID toUserID;
       case ok of Inl e \<Rightarrow> return (Inl e) | Inr _ \<Rightarrow> do {
       now \<leftarrow> time_Now;
       let call = \<lparr>call_ID = svc_uuid s, call_Type = CallTypeDirect, call_Mode = CallModeLiveKit,
         call_InitiatorUserID = fromUserID, call_RoomID = None, call_Status = CallStatusRinging,
         call_ExternalRoomID = None, call_CreatedAt = now, call_UpdatedAt = now, call_EndedAt = None\<rparr>;
       case eng_CreateCall eng call of
         Inl e \<Rightarrow> return (Inl (ErrWrap ''create external room'' e))
       | Inr ext \<Rightarrow> do {
       let call = call\<lparr>call_ExternalRoomID := Some ext\<rparr>;
       r \<leftarrow> store_CreateCall call;
       case r of Inl e \<Rightarrow> return (Inl (ErrWrap ''save call'' e)) | Inr _ \<Rightarrow> do {
       r \<leftarrow> add_participants (svc_uuid s) [fromUserID, toUserID];
       case r of Inl e \<Rightarrow> return (Inl e) | Inr _ \<Rightarrow> return (Inr call) }}}}})"

definition CreateRoomCall :: "callsService \<Rightarrow> userID \<Rightarrow> roomID \<Rightarrow> (goerr + call) dbm" where
  "CreateRoomCall s initiatorUserID roomID = (case svc_engine s of
     None \<Rightarrow> return (Inl calls_ErrLiveKitNotEnabled)
   | Some eng \<Rightarrow> do {
     room \<leftarrow> GetRoomByID roomID;
     case room of Inl _ \<Rightarrow> return (Inl calls_ErrRoomNotFound) | Inr room \<Rightarrow> do {
     isMember \<leftarrow> IsMember initiatorUserID roomID;
     case isMember of Inl e \<Rightarrow> return (Inl (ErrWrap ''check membership'' e)) | Inr b \<Rightarrow>
     if \<not> b then return (Inl calls_ErrNotRoomMember)
     else do {
     existing \<leftarrow> GetActiveCallForRoom roomID;
     case existing of
       Inl e \<Rightarrow> return (Inl (ErrWrap ''check existing call'' e))
     | Inr (Some existingCall) \<Rightarrow> do {
         p \<leftarrow> GetParticipant (call_ID existingCall) initiatorUserID;
         case p of
           Inr _ \<Rightarrow> return (Inr existingCall)
         | Inl _ \<Rightarrow> do {
             r \<leftarrow> AddParticipant (new_participant (call_ID existingCall) initiatorUserID);
             case r of Inl e \<Rightarrow> return (Inl (ErrWrap ''add participant to existing call'' e))
                     | Inr _ \<Rightarrow> return (Inr existingCall) }}
     | Inr None \<Rightarrow> do {
       now \<leftarrow> time_Now;
       let call = \<lparr>call_ID = svc_uuid s, call_Type = CallTypeRoom, call_Mode = CallModeLiveKit,
         call_InitiatorUserID = initiatorUserID, call_RoomID = Some (room_ID room),
         call_Status = CallStatusRinging, call_ExternalRoomID = None, call_CreatedAt = now,
         call_UpdatedAt = now, call_EndedAt = None\<rparr>;
       case eng_CreateCall eng call of
         Inl e \<Rightarrow> return (Inl (ErrWrap ''create external room'' e))
       | Inr ext \<Rightarrow> do {
       let call = call\<lparr>call_ExternalRoomID := Some ext\<rparr>;
       r \<leftarrow> store_CreateCall call;
       case r of Inl e \<Rightarrow> return (Inl (ErrWrap ''save call'' e)) | Inr _ \<Rightarrow> do {
       r \<leftarrow> AddParticipant (new_participant (svc_uuid s) initiatorUserID);
       case r of Inl e \<Rightarrow> return (Inl (ErrWrap ''add initiator participant'' e))
               | Inr _ \<Rightarrow> return (Inr call) }}}}}})"

definition GetCall :: "callID \<Rightarrow> (goerr + call) dbm" where
  "GetCall callID = do {
     c \<leftarrow> store_GetCall callID;
     return (case c of Inl _ \<Rightarrow> Inl calls_ErrCallNotFound | Inr x \<Rightarrow> Inr x) }"

text \<open>
  The participant a user joins as: the recorded one or, in a room call, one added now for a member
  of the room.
\<close>

definition participant_for_join :: "callID \<Rightarrow> call \<Rightarrow> userID \<Rightarrow> (goerr + callParticipant) dbm" where
  "participant_for_join callID call userID = do {
     p \<leftarrow> GetParticipant callID userID;
     case p of
       Inr p \<Rightarrow> return (Inr p)
     | Inl _ \<Rightarrow>
       (case call_RoomID call of
          Some r \<Rightarrow>
            if call_Type call = CallTypeRoom then do {
              isMember \<leftarrow> IsMember userID r;
              case isMember of Inl _ \<Rightarrow> return (Inl calls_ErrNotParticipant) | Inr b \<Rightarrow>
              if \<not> b then return (Inl calls_ErrNotParticipant)
              else do {
                a \<leftarrow> AddParticipant (new_participant callID userID);
                return (case a of Inl e \<Rightarrow> Inl (ErrWrap ''add participant'' e) | Inr q \<Rightarrow> Inr q) }}
            else return (Inl calls_ErrNotParticipant)
        | None \<Rightarrow> return (Inl calls_ErrNotParticipant)) }"

text \<open>Best-effort updates: the store's error is dropped.\<close>

definition mark_joined :: "callParticipant \<Rightarrow> unit dbm" where
  "mark_joined p = (case part_JoinedAt p of
     Some _ \<Rightarrow> return ()
   | None \<Rightarrow> do {
       now \<leftarrow> time_Now;
       _ \<leftarrow> UpdateParticipant (p\<lparr>part_JoinedAt := Some now\<rparr>);
       return () })"

definition mark_active :: "call \<Rightarrow> call dbm" where
  "mark_active c =
     (if call_Status c = CallStatusRinging then do {
        now \<leftarrow> time_Now;
        let c = c\<lparr>call_Status := CallStatusActive, call_UpdatedAt := now\<rparr>;
        _ \<leftarrow> UpdateCall c;
        return c }
      else return c)"

definition GetJoinInfo :: "callsService \<Rightarrow> callID \<Rightarrow> userID \<Rightarrow> (goerr + joinInfo) dbm" where
  "GetJoinInfo s callID userID = (case svc_engine s of
     None \<Rightarrow> return (Inl calls_ErrLiveKitNotEnabled)
   | Some eng \<Rightarrow> do {
     call \<leftarrow> store_GetCall callID;
     case call of Inl _ \<Rightarrow> return (Inl calls_ErrCallNotFound) | Inr call \<Rightarrow>
     if call_Status call = CallStatusEnded \<or> call_Status call = CallStatusFailed
     then return (Inl calls_ErrCallEnded)
     else do {
     p \<leftarrow> participant_for_join callID call userID;
     case p of Inl e \<Rightarrow> return (Inl e) | Inr p \<Rightarrow> do {
     _ \<leftarrow> mark_joined p;
     call \<leftarrow> mark_active call;
     user \<leftarrow> GetUserByID userID;
     case user of Inl e \<Rightarrow> return (Inl (ErrWrap ''get user'' e)) | Inr user \<Rightarrow>
     (case eng_GenerateJoinInfo eng call userID (user_Username user) of
        Inl e \<Rightarrow> return (Inl (ErrWrap ''generate join info'' e))
      | Inr ji \<Rightarrow> return (Inr ji)) }}})"

text \<open>
  The engine's \<open>EndCall\<close> has no access to the database, and its error is dropped.
\<close>

definition EndCall :: "callsService \<Rightarrow> callID \<Rightarrow> userID \<Rightarrow> (goerr + unit) dbm" where
  "EndCall s callID byUserID = do {
     call \<leftarrow> store_GetCall callID;
     case call of Inl _ \<Rightarrow> return (Inl calls_ErrCallNotFound) | Inr call \<Rightarrow>
     if call_Status call = CallStatusEnded \<or> call_Status call = CallStatusFailed
     then return (Inr ())
     else do {
     p \<leftarrow> GetParticipant callID byUserID;
     if isl p \<and> call_InitiatorUserID call \<noteq> byUserID
     then return (Inl calls_ErrNotParticipant)
     else do {
     now \<leftarrow> time_Now;
     let call = call\<lparr>call_Status := CallStatusEnded, call_EndedAt := Some now, call_UpdatedAt := now\<rparr>;
     r \<leftarrow> UpdateCall call;
     case r of Inl e \<Rightarrow> return (Inl (ErrWrap ''update call'' e)) | Inr _ \<Rightarrow>
     (case svc_engine s of
        None \<Rightarrow> return (Inr ())
      | Some eng \<Rightarrow> do { let _ = eng_EndCall eng call; return (Inr ()) }) }}}"

definition ListActiveCalls :: "userID \<Rightarrow> (goerr + call list) dbm" where
  "ListActiveCalls userID = do {
     r \<leftarrow> store_ListActiveCalls userID;
     return (case snd r of Some e \<Rightarrow> Inl (ErrWrap ''list active calls'' e) | None \<Rightarrow> Inr (fst r)) }"

definition RejectCall :: "callID \<Rightarrow> userID \<Rightarrow> string \<Rightarrow> (goerr + unit) dbm" where
  "RejectCall callID byUserID reason = do {
     call \<leftarrow> store_GetCall callID;
     case call of Inl _ \<Rightarrow> return (Inl calls_ErrCallNotFound) | Inr call \<Rightarrow>
     if call_Status call \<noteq> CallStatusRinging then return (Inl calls_ErrCallEnded)
     else do {
     p \<leftarrow> GetParticipant callID byUserID;
     case p of Inl _ \<Rightarrow> return (Inl calls_ErrNotParticipant) | Inr _ \<Rightarrow> do {
     now \<leftarrow> time_Now;
     r \<leftarrow> UpdateCall (call\<lparr>call_Status := CallStatusEnded, call_EndedAt := Some now, call_UpdatedAt := now\<rparr>);
     case r of Inl e \<Rightarrow> return (Inl (ErrWrap ''update call'' e)) | Inr _ \<Rightarrow> do {
     p \<leftarrow> GetParticipant callID byUserID;
     case p of Inl _ \<Rightarrow> return (Inr ()) | Inr p \<Rightarrow> do {
     _ \<leftarrow> UpdateParticipant (p\<lparr>part_LeftAt := Some now,
            part_Reason := (if reason \<noteq> '''' then Some reason else part_Reason p)\<rparr>);
     return (Inr ()) }}}}}"

text \<open>The scan for a participant still in the call, over the rows read (an error is dropped).\<close>

definition allLeft :: "callParticipant list \<Rightarrow> bool" where
  "allLeft ps = list_all (\<lambda>p. part_LeftAt p \<noteq> None) ps"

definition LeaveCall :: "callID \<Rightarrow> userID \<Rightarrow> (goerr + unit) dbm" where
  "LeaveCall callID userID = do {
     p \<leftarrow> GetParticipant callID userID;
     case p of Inl _ \<Rightarrow> return (Inl calls_ErrNotParticipant) | Inr p \<Rightarrow> do {
     now \<leftarrow> time_Now;
     r \<leftarrow> UpdateParticipant (p\<lparr>part_LeftAt := Some now, part_Reason := Some ''left''\<rparr>);
     case r of Inl e \<Rightarrow> return (Inl (ErrWrap ''update participant'' e)) | Inr _ \<Rightarrow> do {
     ps \<leftarrow> ListParticipants callID;
     if allLeft (fst ps) then do {
       call \<leftarrow> store_GetCall callID;
       case call of
         Inr call \<Rightarrow>
           if call_Status call \<noteq> CallStatusEnded then do {
             _ \<leftarrow> UpdateCall (call\<lparr>call_Status := CallStatusEnded, call_EndedAt := Some now,
                    call_UpdatedAt := now\<rparr>);
             return (Inr ()) }
           else return (Inr ())
       | Inl _ \<Rightarrow> return (Inr ()) }
     else return (Inr ()) }}}"

definition GetTargetUser :: "userID \<Rightarrow> (goerr + string) dbm" where
  "GetTargetUser userID = do {
     u \<leftarrow> GetUserByID userID;
     return (case u of Inl _ \<Rightarrow> Inl calls_ErrUserNotFound | Inr u \<Rightarrow> Inr (user_Username u)) }"

definition ListRoomMembers :: "roomID \<Rightarrow> (goerr + userID list) dbm" where
  "ListRoomMembers roomID = do {
     r \<leftarrow> ListMembers roomID;
     return (case snd r of Some e \<Rightarrow> Inl (ErrWrap ''list members'' e) | None \<Rightarrow> Inr (fst r)) }"

definition GetRoomInfo :: "roomID \<Rightarrow> (goerr + string) dbm" where
  "GetRoomInfo roomID = do {
     r \<leftarrow> GetRoomByID roomID;
     return (case r of Inl _ \<Rightarrow> Inl calls_ErrRoomNotFound | Inr r \<Rightarrow> Inr (room_Name r)) }"

section \<open>The interface the hub sees\<close>

record callService =
  cs_CreateDirectCall :: "userID \<Rightarrow> userID \<Rightarrow> (goerr + call) dbm"
  cs_CreateRoomCall :: "userID \<Rightarrow> roomID \<Rightarrow> (goerr + call) dbm"
  cs_GetCall :: "callID \<Rightarrow> (goerr + call) dbm"
  cs_GetJoinInfo :: "callID \<Rightarrow> userID \<Rightarrow> (goerr + joinInfo) dbm"
  cs_EndCall :: "callID \<Rightarrow> userID \<Rightarrow> (goerr + unit) dbm"
  cs_RejectCall :: "callID \<Rightarrow> userID \<Rightarrow> string \<Rightarrow> (goerr + unit) dbm"
  cs_LeaveCall :: "callID \<Rightarrow> userID \<Rightarrow> (goerr + unit) dbm"
  cs_GetTargetUser :: "userID \<Rightarrow> (goerr + string) dbm"
  cs_ListRoomMembers :: "roomID \<Rightarrow> (goerr + userID list) dbm"
  cs_GetRoomInfo :: "roomID \<Rightarrow> (goerr + string) dbm"

text \<open>
  The service behind the interface. Every call draws an identifier of its own; \<open>draw\<close> says which one
  \<open>uuid.New\<close> gives when the database is in a given state.
\<close>

definition calls_service :: "engine option \<Rightarrow> (db \<Rightarrow> string) \<Rightarrow> callService" where
  "calls_service eng draw = \<lparr>
     cs_CreateDirectCall = (\<lambda>a b. do { d \<leftarrow> get_st; CreateDirectCall (calls_New eng (draw d)) a b }),
     cs_CreateRoomCall = (\<lambda>a r. do { d \<leftarrow> get_st; CreateRoomCall (calls_New eng (draw d)) a r }),
     cs_GetCall = GetCall,
     cs_GetJoinInfo = (\<lambda>i u. do { d \<leftarrow> get_st; GetJoinInfo (calls_New eng (draw d)) i u }),
     cs_EndCall = (\<lambda>i u. do { d \<leftarrow> get_st; EndCall (calls_New eng (draw d)) i u }),
     cs_RejectCall = RejectCall, cs_LeaveCall = LeaveCall, cs_GetTargetUser = GetTargetUser,
     cs_ListRoomMembers = ListRoomMembers, cs_GetRoomInfo = GetRoomInfo\<rparr>"

end
