(* ===== verification/Core_Types.thy ===== *)
theory Core_Types
  imports Calls
begin

text \<open>
  The vocabulary of the core (\<open>internal/core\<close>): messages, errors, events and commands. The struct
  literals of the code name some fields and leave the others at their zero value, which is what
  \<open>new_event\<close>, \<open>new_callEvent\<close> and \<open>new_command\<close> are.
\<close>

section \<open>Messages and errors\<close>

record coreMessage =
  cm_ID :: int64
  cm_Room :: string
  cm_From :: string
  cm_Text :: string
  cm_CreatedAt :: time

definition zero_message :: coreMessage where
  "zero_message = \<lparr>cm_ID = 0, cm_Room = '''', cm_From = '''', cm_Text = '''', cm_CreatedAt = zero_time\<rparr>"

record CoreError =
  ce_Code :: string
  ce_Message :: string

definition coreError :: "string \<Rightarrow> string \<Rightarrow> CoreError" where
  "coreError code msg = \<lparr>ce_Code = code, ce_Message = msg\<rparr>"

definition ErrCodeRoomNotFound :: string where "ErrCodeRoomNotFound = ''room_not_found''"
definition ErrCodeAlreadyJoined :: string where "ErrCodeAlreadyJoined = ''already_joined''"
definition ErrCodeNotInRoom :: string where "ErrCodeNotInRoom = ''not_in_room''"
definition ErrCodeBadRequest :: string where "ErrCodeBadRequest = ''bad_request''"
definition ErrCodeUnauthorized :: string where "ErrCodeUnauthorized = ''unauthorized''"
definition ErrCodeCallsDisabled :: string where "ErrCodeCallsDisabled = ''calls_disabled''"
definition ErrCodeCallNotFound :: string where "ErrCodeCallNotFound = ''call_not_found''"
definition ErrCodeCallError :: string where "ErrCodeCallError = ''call_error''"

definition ErrRoomNotFound :: goerr where "ErrRoomNotFound = ErrNew ''core.ErrRoomNotFound'' ''room not found''"
definition ErrAlreadyJoined :: goerr where "ErrAlreadyJoined = ErrNew ''core.ErrAlreadyJoined'' ''already joined''"
definition ErrNotInRoom :: goerr where "ErrNotInRoom = ErrNew ''core.ErrNotInRoom'' ''not in room''"
definition ErrBadRequest :: goerr where "ErrBadRequest = ErrNew ''core.ErrBadRequest'' ''bad request''"

section \<open>Events\<close>

text \<open>\<open>EventKind\<close> and \<open>CommandKind\<close> are integers in the code; \<open>UnknownEvent\<close> and \<open>UnknownCommand\<close> stand
  for the values that are none of the declared constants.\<close>

datatype EventKind =
    EventRoomMessage | EventUserJoined | EventUserLeft | EventHistory | EventError
  | EventCallIncoming | EventCallRinging | EventCallAccepted | EventCallRejected | EventCallJoinInfo
  | EventCallParticipantJoined | EventCallParticipantLeft | EventCallEnded | UnknownEvent int

record CallJoinInfo =
  cji_URL :: string
  cji_Token :: string
  cji_RoomName :: string
  cji_Identity :: string

record CallEvent =
  cev_CallID :: string
  cev_CallType :: string
  cev_FromUserID :: int64
  cev_FromUsername :: string
  cev_ToUserID :: int64
  cev_ToUsername :: string
  cev_RoomID :: int64
  cev_RoomName :: string
  cev_Reason :: string
  cev_JoinInfo :: "CallJoinInfo option"
  cev_CreatedAt :: int64

definition new_callEvent :: "string \<Rightarrow> CallEvent" where
  "new_callEvent i = \<lparr>cev_CallID = i, cev_CallType = '''', cev_FromUserID = 0, cev_FromUsername = '''',
     cev_ToUserID = 0, cev_ToUsername = '''', cev_RoomID = 0, cev_RoomName = '''', cev_Reason = '''',
     cev_JoinInfo = None, cev_CreatedAt = 0\<rparr>"

record Event =
  ev_Kind :: EventKind
  ev_Room :: string
  ev_User :: string
  ev_Message :: coreMessage
  ev_Messages :: "coreMessage list"
  ev_Error :: "CoreError option"
  ev_Call :: "CallEvent option"

definition new_event :: "EventKind \<Rightarrow> Event" where
  "new_event k = \<lparr>ev_Kind = k, ev_Room = '''', ev_User = '''', ev_Message = zero_message,
     ev_Messages = [], ev_Error = None, ev_Call = None\<rparr>"

section \<open>Commands\<close>

datatype CommandKind =
    CommandSendRoomMessage | CommandJoinRoom | CommandLeaveRoom
  | CommandCallInvite | CommandCallAccept | CommandCallReject | CommandCallJoin | CommandCallLeave
  | CommandCallEnd | UnknownCommand int

record CallCommand =
  cc_CallID :: string
  cc_CallType :: string
  cc_ToUserID :: int64
  cc_RoomID :: int64
  cc_Reason :: string

definition new_callCommand :: CallCommand where
  "new_callCommand = \<lparr>cc_CallID = '''', cc_CallType = '''', cc_ToUserID = 0, cc_RoomID = 0, cc_Reason = ''''\<rparr>"

record Command =
  cmd_Kind :: CommandKind
  cmd_Room :: string
  cmd_Message :: coreMessage
  cmd_Call :: "CallCommand option"

definition new_command :: "CommandKind \<Rightarrow> Command" where
  "new_command k = \<lparr>cmd_Kind = k, cmd_Room = '''', cmd_Message = zero_message, cmd_Call = None\<rparr>"

text \<open>The commands whose handler reads the call data.\<close>

fun is_call_kind :: "CommandKind \<Rightarrow> bool" where
  "is_call_kind CommandSendRoomMessage = False"
| "is_call_kind CommandJoinRoom = False"
| "is_call_kind CommandLeaveRoom = False"
| "is_call_kind (UnknownCommand n) = False"
| "is_call_kind _ = True"

end
