(* ===== verification/Json.thy ===== *)
theory Json
  imports Prelude
begin

text \<open>
  What the code uses of \<open>encoding/json\<close> and \<open>strconv\<close>. A JSON document is its tree; a string node
  holds the text after unescaping, a number node the literal. \<open>unmarshal_struct\<close> is \<open>json.Unmarshal\<close>
  into a struct: the members of an object are stored in order, a member is matched to a field by its
  exact name or else up to case, unknown members are ignored, \<open>null\<close> leaves a field as it is, and the
  first type mismatch is the error returned at the end. \<open>marshal_fields\<close> is \<open>json.Marshal\<close> of a struct
  with its \<open>omitempty\<close> options. \<open>codec\<close> states the round trip.
\<close>

section \<open>Integers\<close>

definition in_int64 :: "int \<Rightarrow> bool" where
  "in_int64 n \<longleftrightarrow> - (2 ^ 63) \<le> n \<and> n < 2 ^ 63"

text \<open>\<open>strconv.ParseInt(s, 10, 64)\<close>: \<open>None\<close> for a syntax error and for a value out of range.\<close>

definition parse_int64 :: "string \<Rightarrow> int64 option" where
  "parse_int64 s = (let
     neg = (s \<noteq> [] \<and> hd s = CHR ''-'');
     ds = (if s \<noteq> [] \<and> (hd s = CHR ''-'' \<or> hd s = CHR ''+'') then tl s else s);
     n = int (atoi_digits ds) in
     if ds = [] \<or> \<not> list_all is_digit ds then None
     else if in_int64 (if neg then - n else n) then Some (if neg then - n else n) else None)"

lemma digits10_hd: "hd (digits10 n) \<noteq> CHR ''-''" "hd (digits10 n) \<noteq> CHR ''+''"
proof -
  have "is_digit (hd (digits10 n))"
    using digits10_digits[of "hd (digits10 n)" n] by (simp add: hd_in_set)
  then show "hd (digits10 n) \<noteq> CHR ''-''" "hd (digits10 n) \<noteq> CHR ''+''"
    by (auto simp: is_digit_def)
qed

lemma parse_int64_itoa: "in_int64 n \<Longrightarrow> parse_int64 (itoa n) = Some n"
  using digits10_digits
  by (auto simp: parse_int64_def itoa_def Let_def digits10_hd atoi_digits10 list_all_iff)

lemma parse_int64_range: "parse_int64 s = Some n \<Longrightarrow> in_int64 n"
  by (auto simp: parse_int64_def Let_def split: if_splits)

section \<open>Documents\<close>

datatype json =
    JNull
  | JBool bool
  | JNum string
  | JStr string
  | JArr "json list"
  | JObj "(string \<times> json) list"

fun json_kind :: "json \<Rightarrow> string" where
  "json_kind JNull = ''null''"
| "json_kind (JBool _) = ''bool''"
| "json_kind (JNum _) = ''number''"
| "json_kind (JStr _) = ''string''"
| "json_kind (JArr _) = ''array''"
| "json_kind (JObj _) = ''object''"

text \<open>\<open>foldName\<close>: the runes that fold to an ASCII letter are the letter's two cases, the long s
  (bytes C5 BF) and the Kelvin sign (bytes E2 84 AA).\<close>

definition ascii_upper :: "char \<Rightarrow> char" where
  "ascii_upper c = (if 97 \<le> (of_char c :: nat) \<and> (of_char c :: nat) \<le> 122 then char_of ((of_char c :: nat) - 32) else c)"

fun fold_name :: "string \<Rightarrow> string" where
  "fold_name [] = []"
| "fold_name (c # cs) =
     (if c = CHR 0xC5 \<and> take 1 cs = [CHR 0xBF] then CHR ''S'' # fold_name (drop 1 cs)
      else if c = CHR 0xE2 \<and> take 2 cs = [CHR 0x84, CHR 0xAA] then CHR ''K'' # fold_name (drop 2 cs)
      else ascii_upper c # fold_name cs)"

section \<open>Decoding into a struct\<close>

text \<open>A field: its JSON name and how a value is stored into it.\<close>

type_synonym 'a field = "string \<times> (json \<Rightarrow> 'a \<Rightarrow> goerr + 'a)"

definition field_for :: "'a field list \<Rightarrow> string \<Rightarrow> 'a field option" where
  "field_for fs k = (case List.find (\<lambda>f. fst f = k) fs of
       Some f \<Rightarrow> Some f
     | None \<Rightarrow> List.find (\<lambda>f. fold_name (fst f) = fold_name k) fs)"

definition type_mismatch :: "string \<Rightarrow> string \<Rightarrow> string \<Rightarrow> goerr" where
  "type_mismatch got what ty = ErrText (''json: cannot unmarshal '' @ got @ '' into Go '' @ what @ '' of type '' @ ty)"

definition string_field :: "string \<Rightarrow> string \<Rightarrow> (string \<Rightarrow> 'a \<Rightarrow> 'a) \<Rightarrow> 'a field" where
  "string_field struct name upd = (name, \<lambda>v a. case v of
       JStr s \<Rightarrow> Inr (upd s a)
     | JNull \<Rightarrow> Inr a
     | _ \<Rightarrow> Inl (type_mismatch (json_kind v) (''struct field '' @ struct @ ''.'' @ name) ''string''))"

definition int_field :: "string \<Rightarrow> string \<Rightarrow> string \<Rightarrow> (int64 \<Rightarrow> 'a \<Rightarrow> 'a) \<Rightarrow> 'a field" where
  "int_field struct name ty upd = (name, \<lambda>v a. case v of
       JNum s \<Rightarrow> (case parse_int64 s of
           Some n \<Rightarrow> Inr (upd n a)
         | None \<Rightarrow> Inl (type_mismatch (''number '' @ s) (''struct field '' @ struct @ ''.'' @ name) ty))
     | JNull \<Rightarrow> Inr a
     | _ \<Rightarrow> Inl (type_mismatch (json_kind v) (''struct field '' @ struct @ ''.'' @ name) ty))"

definition raw_field :: "string \<Rightarrow> (json \<Rightarrow> 'a \<Rightarrow> 'a) \<Rightarrow> 'a field" where
  "raw_field name upd = (name, \<lambda>v a. Inr (upd v a))"

fun unmarshal_members :: "'a field list \<Rightarrow> (string \<times> json) list \<Rightarrow> 'a \<Rightarrow> goerr option \<Rightarrow> 'a \<times> goerr option" where
  "unmarshal_members fs [] a e = (a, e)"
| "unmarshal_members fs ((k, v) # kvs) a e = (case field_for fs k of
       None \<Rightarrow> unmarshal_members fs kvs a e
     | Some f \<Rightarrow> (case snd f v a of
           Inr a' \<Rightarrow> unmarshal_members fs kvs a' e
         | Inl e' \<Rightarrow> unmarshal_members fs kvs a (if e = None then Some e' else e)))"

definition unmarshal_struct :: "string \<Rightarrow> 'a field list \<Rightarrow> 'a \<Rightarrow> json \<Rightarrow> goerr + 'a" where
  "unmarshal_struct struct fs zero v = (case v of
       JObj kvs \<Rightarrow> (case unmarshal_members fs kvs zero None of (a, None) \<Rightarrow> Inr a | (a, Some e) \<Rightarrow> Inl e)
     | JNull \<Rightarrow> Inr zero
     | _ \<Rightarrow> Inl (type_mismatch (json_kind v) ''value'' struct))"

text \<open>\<open>json.Unmarshal\<close> of a \<open>json.RawMessage\<close>, which is empty when the member was absent.\<close>

definition unmarshal_raw :: "(json \<Rightarrow> goerr + 'a) \<Rightarrow> json option \<Rightarrow> goerr + 'a" where
  "unmarshal_raw dec raw = (case raw of
       None \<Rightarrow> Inl (ErrText ''unexpected end of JSON input'') | Some v \<Rightarrow> dec v)"

section \<open>Encoding a struct\<close>

definition omitted :: "json \<Rightarrow> bool" where
  "omitted v \<longleftrightarrow> v = JNull \<or> v = JStr '''' \<or> v = JNum ''0''"

text \<open>The fields with their names and whether they have \<open>omitempty\<close>.\<close>

definition marshal_fields :: "(string \<times> bool \<times> json) list \<Rightarrow> json" where
  "marshal_fields fs = JObj (map (\<lambda>(n, _, v). (n, v)) (filter (\<lambda>(_, omitempty, v). \<not> (omitempty \<and> omitted v)) fs))"

definition JInt :: "int64 \<Rightarrow> json" where
  "JInt n = JNum (itoa n)"

lemma itoa_zero: "itoa n = ''0'' \<longleftrightarrow> n = 0"
proof -
  have "itoa 0 = ''0''" by code_simp
  then show ?thesis using itoa_inj[of n 0] by simp
qed

lemma omitted_simps [simp]:
  "omitted (JStr s) \<longleftrightarrow> s = ''''" "omitted (JInt n) \<longleftrightarrow> n = 0" "omitted (JObj kvs) = False"
  by (auto simp: omitted_def JInt_def itoa_zero)

lemmas json_simps = unmarshal_struct_def field_for_def string_field_def int_field_def raw_field_def
  marshal_fields_def

lemma int_field_JInt [simp]:
  "snd (int_field struct n ty upd) (JInt i) a = (case parse_int64 (itoa i) of Some k \<Rightarrow> Inr (upd k a)
     | None \<Rightarrow> Inl (type_mismatch (''number '' @ itoa i) (''struct field '' @ struct @ ''.'' @ n) ty))"
  by (simp add: int_field_def JInt_def)

text \<open>A type with its encoding: what is encoded decodes to itself.\<close>

locale codec =
  fixes enc :: "'a \<Rightarrow> json" and dec :: "json \<Rightarrow> goerr + 'a" and wf :: "'a \<Rightarrow> bool"
  assumes dec_enc: "wf x \<Longrightarrow> dec (enc x) = Inr x"
begin

lemma raw_enc: "wf x \<Longrightarrow> unmarshal_raw dec (Some (enc x)) = Inr x"
  by (simp add: unmarshal_raw_def dec_enc)

lemma enc_inj: "wf x \<Longrightarrow> wf y \<Longrightarrow> enc x = enc y \<Longrightarrow> x = y"
  by (metis dec_enc sum.inject(2))

end

end
