(* ===== verification/Proto.thy ===== *)
theory Proto
  imports Core_Types Json
begin

text \<open>
  The wire protocol (\<open>internal/proto/message.go\<close>): the envelopes, the payloads of both directions and
  their JSON form, which the struct tags determine. Every payload a client sends has an encoder (the
  one a client written against this package uses) and a decoder (the one the server uses), and
  interprets \<open>codec\<close>.
\<close>

section \<open>Constants\<close>

definition ProtocolVersion :: int where [simp]: "ProtocolVersion = 1"

definition InboundTypeHello :: string where [simp]: "InboundTypeHello = ''hello''"
definition InboundTypeJoin :: string where [simp]: "InboundTypeJoin = ''join''"
definition InboundTypeLeave :: string where [simp]: "InboundTypeLeave = ''leave''"
definition InboundTypeMsg :: string where [simp]: "InboundTypeMsg = ''msg''"
definition InboundTypeCallInvite :: string where [simp]: "InboundTypeCallInvite = ''call.invite''"
definition InboundTypeCallAccept :: string where [simp]: "InboundTypeCallAccept = ''call.accept''"
definition InboundTypeCallReject :: string where [simp]: "InboundTypeCallReject = ''call.reject''"
definition InboundTypeCallJoin :: string where [simp]: "InboundTypeCallJoin = ''call.join''"
definition InboundTypeCallLeave :: string where [simp]: "InboundTypeCallLeave = ''call.leave''"
definition InboundTypeCallEnd :: string where [simp]: "InboundTypeCallEnd = ''call.end''"

definition OutboundTypeEvent :: string where "OutboundTypeEvent = ''event''"
definition OutboundTypeError :: string where "OutboundTypeError = ''error''"

definition EventTypeCallIncoming :: string where "EventTypeCallIncoming = ''call.incoming''"
definition EventTypeCallRinging :: string where "EventTypeCallRinging = ''call.ringing''"
definition EventTypeCallAccepted :: string where "EventTypeCallAccepted = ''call.accepted''"
definition EventTypeCallRejected :: string where "EventTypeCallRejected = ''call.rejected''"
definition EventTypeCallJoinInfo :: string where "EventTypeCallJoinInfo = ''call.join-info''"
definition EventTypeCallParticipantJoined :: string where
  "EventTypeCallParticipantJoined = ''call.participant-joined''"
definition EventTypeCallParticipantLeft :: string where
  "EventTypeCallParticipantLeft = ''call.participant-left''"
definition EventTypeCallEnded :: string where "EventTypeCallEnded = ''call.ended''"

section \<open>Inbound\<close>

text \<open>\<open>Data\<close> is \<open>None\<close> when the member is absent: an empty \<open>json.RawMessage\<close>.\<close>

record Inbound =
  in_Type :: string
  in_Data :: "json option"

definition enc_Inbound :: "Inbound \<Rightarrow> json" where
  "enc_Inbound x = marshal_fields [(''type'', False, JStr (in_Type x)),
     (''data'', False, case in_Data x of None \<Rightarrow> JNull | Some v \<Rightarrow> v)]"

definition dec_Inbound :: "json \<Rightarrow> goerr + Inbound" where
  "dec_Inbound = unmarshal_struct ''proto.Inbound''
     [string_field ''Inbound'' ''type'' (\<lambda>s x. x\<lparr>in_Type := s\<rparr>),
      raw_field ''data'' (\<lambda>v x. x\<lparr>in_Data := Some v\<rparr>)] \<lparr>in_Type = '''', in_Data = None\<rparr>"

record HelloData =
  hello_User :: string
  hello_Token :: string
  hello_Protocol :: int

definition enc_HelloData :: "HelloData \<Rightarrow> json" where
  "enc_HelloData x = marshal_fields [(''user'', False, JStr (hello_User x)),
     (''token'', True, JStr (hello_Token x)), (''protocol'', True, JInt (hello_Protocol x))]"

definition dec_HelloData :: "json \<Rightarrow> goerr + HelloData" where
  "dec_HelloData = unmarshal_struct ''proto.HelloData''
     [string_field ''HelloData'' ''user'' (\<lambda>s x. x\<lparr>hello_User := s\<rparr>),
      string_field ''HelloData'' ''token'' (\<lambda>s x. x\<lparr>hello_Token := s\<rparr>),
      int_field ''HelloData'' ''protocol'' ''int'' (\<lambda>n x. x\<lparr>hello_Protocol := n\<rparr>)]
     \<lparr>hello_User = '''', hello_Token = '''', hello_Protocol = 0\<rparr>"

record JoinData =
  join_Room :: string

definition enc_JoinData :: "JoinData \<Rightarrow> json" where
  "enc_JoinData x = marshal_fields [(''room'', False, JStr (join_Room x))]"

definition dec_JoinData :: "json \<Rightarrow> goerr + JoinData" where
  "dec_JoinData = unmarshal_struct ''proto.JoinData''
     [string_field ''JoinData'' ''room'' (\<lambda>s x. x\<lparr>join_Room := s\<rparr>)] \<lparr>join_Room = ''''\<rparr>"

record MsgData =
  msg_Room :: string
  msg_Text :: string

definition enc_MsgData :: "MsgData \<Rightarrow> json" where
  "enc_MsgData x = marshal_fields [(''room'', False, JStr (msg_Room x)), (''text'', False, JStr (msg_Text x))]"

definition dec_MsgData :: "json \<Rightarrow> goerr + MsgData" where
  "dec_MsgData = unmarshal_struct ''proto.MsgData''
     [string_field ''MsgData'' ''room'' (\<lambda>s x. x\<lparr>msg_Room := s\<rparr>),
      string_field ''MsgData'' ''text'' (\<lambda>s x. x\<lparr>msg_Text := s\<rparr>)] \<lparr>msg_Room = '''', msg_Text = ''''\<rparr>"

record CallInviteData =
  invite_CallType :: string
  invite_ToUserID :: int64
  invite_RoomID :: int64

definition enc_CallInviteData :: "CallInviteData \<Rightarrow> json" where
  "enc_CallInviteData x = marshal_fields [(''call_type'', False, JStr (invite_CallType x)),
     (''to_user_id'', True, JInt (invite_ToUserID x)), (''room_id'', True, JInt (invite_RoomID x))]"

definition dec_CallInviteData :: "json \<Rightarrow> goerr + CallInviteData" where
  "dec_CallInviteData = unmarshal_struct ''proto.CallInviteData''
     [string_field ''CallInviteData'' ''call_type'' (\<lambda>s x. x\<lparr>invite_CallType := s\<rparr>),
      int_field ''CallInviteData'' ''to_user_id'' ''int64'' (\<lambda>n x. x\<lparr>invite_ToUserID := n\<rparr>),
      int_field ''CallInviteData'' ''room_id'' ''int64'' (\<lambda>n x. x\<lparr>invite_RoomID := n\<rparr>)]
     \<lparr>invite_CallType = '''', invite_ToUserID = 0, invite_RoomID = 0\<rparr>"

record CallActionData =
  action_CallID :: string
  action_Reason :: string

definition enc_CallActionData :: "CallActionData \<Rightarrow> json" where
  "enc_CallActionData x = marshal_fields [(''call_id'', False, JStr (action_CallID x)),
     (''reason'', True, JStr (action_Reason x))]"

definition dec_CallActionData :: "json \<Rightarrow> goerr + CallActionData" where
  "dec_CallActionData = unmarshal_struct ''proto.CallActionData''
     [string_field ''CallActionData'' ''call_id'' (\<lambda>s x. x\<lparr>action_CallID := s\<rparr>),
      string_field ''CallActionData'' ''reason'' (\<lambda>s x. x\<lparr>action_Reason := s\<rparr>)]
     \<lparr>action_CallID = '''', action_Reason = ''''\<rparr>"

section \<open>Outbound\<close>

record protoError =
  perr_Code :: string
  perr_Msg :: string

record protoEventMessage =
  em_ID :: int64
  em_Room :: string
  em_User :: string
  em_Text :: string
  em_TS :: int64

record protoEventUser =
  eu_Room :: string
  eu_User :: string

record protoEventHistory =
  eh_Room :: string
  eh_Messages :: "protoEventMessage list"

record protoEventCallIncoming =
  eci_CallID :: string
  eci_CallType :: string
  eci_FromUserID :: int64
  eci_FromUsername :: string
  eci_RoomID :: int64
  eci_RoomName :: string
  eci_CreatedAt :: int64

record protoEventCallRinging =
  ecr_CallID :: string
  ecr_ToUserID :: int64
  ecr_ToUsername :: string

record protoEventCallAccepted =
  eca_CallID :: string
  eca_AcceptedByUserID :: int64
  eca_AcceptedByUsername :: string

record protoEventCallRejected =
  ecx_CallID :: string
  ecx_RejectedByUserID :: int64
  ecx_Reason :: string

record protoEventCallJoinInfo =
  ecj_CallID :: string
  ecj_URL :: string
  ecj_Token :: string
  ecj_RoomName :: string
  ecj_Identity :: string

record protoEventCallParticipantJoined =
  epj_CallID :: string
  epj_UserID :: int64
  epj_Username :: string

record protoEventCallParticipantLeft =
  epl_CallID :: string
  epl_UserID :: int64
  epl_Username :: string
  epl_Reason :: string

record protoEventCallEnded =
  ece_CallID :: string
  ece_EndedByUserID :: int64
  ece_Reason :: string

text \<open>The values the code puts into \<open>Outbound.Data\<close>, of type \<open>any\<close>; \<open>EventUserJoined\<close> and
  \<open>EventUserLeft\<close> have the same fields.\<close>

datatype outboundData =
    NoData
  | MessageData protoEventMessage
  | UserJoinedData protoEventUser
  | UserLeftData protoEventUser
  | HistoryData protoEventHistory
  | CallIncomingData protoEventCallIncoming
  | CallRingingData protoEventCallRinging
  | CallAcceptedData protoEventCallAccepted
  | CallRejectedData protoEventCallRejected
  | CallJoinInfoData protoEventCallJoinInfo
  | CallParticipantJoinedData protoEventCallParticipantJoined
  | CallParticipantLeftData protoEventCallParticipantLeft
  | CallEndedData protoEventCallEnded

record Outbound =
  out_Type :: string
  out_Event :: string
  out_Data :: outboundData
  out_Error :: "protoError option"

definition enc_EventMessage :: "protoEventMessage \<Rightarrow> json" where
  "enc_EventMessage m = marshal_fields [(''id'', True, JInt (em_ID m)), (''room'', True, JStr (em_Room m)),
     (''user'', False, JStr (em_User m)), (''text'', False, JStr (em_Text m)), (''ts'', False, JInt (em_TS m))]"

definition dec_EventMessage :: "json \<Rightarrow> goerr + protoEventMessage" where
  "dec_EventMessage = unmarshal_struct ''proto.EventMessage''
     [int_field ''EventMessage'' ''id'' ''int64'' (\<lambda>n x. x\<lparr>em_ID := n\<rparr>),
      string_field ''EventMessage'' ''room'' (\<lambda>s x. x\<lparr>em_Room := s\<rparr>),
      string_field ''EventMessage'' ''user'' (\<lambda>s x. x\<lparr>em_User := s\<rparr>),
      string_field ''EventMessage'' ''text'' (\<lambda>s x. x\<lparr>em_Text := s\<rparr>),
      int_field ''EventMessage'' ''ts'' ''int64'' (\<lambda>n x. x\<lparr>em_TS := n\<rparr>)]
     \<lparr>em_ID = 0, em_Room = '''', em_User = '''', em_Text = '''', em_TS = 0\<rparr>"

definition enc_EventUser :: "protoEventUser \<Rightarrow> json" where
  "enc_EventUser u = marshal_fields [(''room'', False, JStr (eu_Room u)), (''user'', False, JStr (eu_User u))]"

fun enc_outboundData :: "outboundData \<Rightarrow> json" where
  "enc_outboundData NoData = JNull"
| "enc_outboundData (MessageData m) = enc_EventMessage m"
| "enc_outboundData (UserJoinedData u) = enc_EventUser u"
| "enc_outboundData (UserLeftData u) = enc_EventUser u"
| "enc_outboundData (HistoryData h) = marshal_fields [(''room'', False, JStr (eh_Room h)),
     (''messages'', False, JArr (map enc_EventMessage (eh_Messages h)))]"
| "enc_outboundData (CallIncomingData c) = marshal_fields [(''call_id'', False, JStr (eci_CallID c)),
     (''call_type'', False, JStr (eci_CallType c)), (''from_user_id'', False, JInt (eci_FromUserID c)),
     (''from_username'', False, JStr (eci_FromUsername c)), (''room_id'', True, JInt (eci_RoomID c)),
     (''room_name'', True, JStr (eci_RoomName c)), (''created_at'', False, JInt (eci_CreatedAt c))]"
| "enc_outboundData (CallRingingData c) = marshal_fields [(''call_id'', False, JStr (ecr_CallID c)),
     (''to_user_id'', False, JInt (ecr_ToUserID c)), (''to_username'', False, JStr (ecr_ToUsername c))]"
| "enc_outboundData (CallAcceptedData c) = marshal_fields [(''call_id'', False, JStr (eca_CallID c)),
     (''accepted_by_user_id'', False, JInt (eca_AcceptedByUserID c)),
     (''accepted_by_username'', False, JStr (eca_AcceptedByUsername c))]"
| "enc_outboundData (CallRejectedData c) = marshal_fields [(''call_id'', False, JStr (ecx_CallID c)),
     (''rejected_by_user_id'', False, JInt (ecx_RejectedByUserID c)), (''reason'', True, JStr (ecx_Reason c))]"
| "enc_outboundData (CallJoinInfoData c) = marshal_fields [(''call_id'', False, JStr (ecj_CallID c)),
     (''url'', False, JStr (ecj_URL c)), (''token'', False, JStr (ecj_Token c)),
     (''room_name'', False, JStr (ecj_RoomName c)), (''identity'', False, JStr (ecj_Identity c))]"
| "enc_outboundData (CallParticipantJoinedData c) = marshal_fields [(''call_id'', False, JStr (epj_CallID c)),
     (''user_id'', False, JInt (epj_UserID c)), (''username'', False, JStr (epj_Username c))]"
| "enc_outboundData (CallParticipantLeftData c) = marshal_fields [(''call_id'', False, JStr (epl_CallID c)),
     (''user_id'', False, JInt (epl_UserID c)), (''username'', False, JStr (epl_Username c)),
     (''reason'', True, JStr (epl_Reason c))]"
| "enc_outboundData (CallEndedData c) = marshal_fields [(''call_id'', False, JStr (ece_CallID c)),
     (''ended_by_user_id'', False, JInt (ece_EndedByUserID c)), (''reason'', False, JStr (ece_Reason c))]"

definition enc_Error :: "protoError \<Rightarrow> json" where
  "enc_Error e = marshal_fields [(''code'', False, JStr (perr_Code e)), (''msg'', False, JStr (perr_Msg e))]"

definition enc_Outbound :: "Outbound \<Rightarrow> json" where
  "enc_Outbound x = marshal_fields [(''type'', False, JStr (out_Type x)), (''event'', True, JStr (out_Event x)),
     (''data'', True, enc_outboundData (out_Data x)),
     (''error'', True, case out_Error x of None \<Rightarrow> JNull | Some e \<Rightarrow> enc_Error e)]"

section \<open>Round trips\<close>

lemmas decs = dec_Inbound_def dec_HelloData_def dec_JoinData_def dec_MsgData_def dec_CallInviteData_def
  dec_CallActionData_def
lemmas encs = enc_Inbound_def enc_HelloData_def enc_JoinData_def enc_MsgData_def enc_CallInviteData_def
  enc_CallActionData_def

interpretation inbound: codec enc_Inbound dec_Inbound "\<lambda>x. in_Data x \<noteq> None"
  by unfold_locales (auto simp: encs decs json_simps)

interpretation hello: codec enc_HelloData dec_HelloData "\<lambda>x. in_int64 (hello_Protocol x)"
  by unfold_locales (auto simp: encs decs json_simps JInt_def parse_int64_itoa itoa_zero omitted_def)

interpretation join: codec enc_JoinData dec_JoinData "\<lambda>_. True"
  by unfold_locales (simp add: encs decs json_simps)

interpretation msg: codec enc_MsgData dec_MsgData "\<lambda>_. True"
  by unfold_locales (simp add: encs decs json_simps)

interpretation invite: codec enc_CallInviteData dec_CallInviteData
    "\<lambda>x. in_int64 (invite_ToUserID x) \<and> in_int64 (invite_RoomID x)"
  by unfold_locales (auto simp: encs decs json_simps JInt_def parse_int64_itoa itoa_zero omitted_def)

interpretation action: codec enc_CallActionData dec_CallActionData "\<lambda>_. True"
  by unfold_locales (auto simp: encs decs json_simps)

interpretation event_message: codec enc_EventMessage dec_EventMessage "\<lambda>m. in_int64 (em_ID m) \<and> in_int64 (em_TS m)"
  by unfold_locales (auto simp: enc_EventMessage_def dec_EventMessage_def json_simps JInt_def parse_int64_itoa
      itoa_zero omitted_def)

end
