(* ===== verification/Channels.thy ===== *)
theory Channels
  imports Prelude
begin

text \<open>
  Go's buffered channels. A channel is its buffer, its capacity and whether it has been closed. A
  send on a closed channel panics; a receive on a closed channel still drains the buffer and then
  reports that the channel is closed. \<open>bounded_fifo\<close> is what the hub and the transport rely on.
\<close>

record 'a chan =
  ch_buf :: "'a list"
  ch_cap :: nat
  ch_closed :: bool

definition make_chan :: "nat \<Rightarrow> 'a chan" where
  "make_chan n = \<lparr>ch_buf = [], ch_cap = n, ch_closed = False\<rparr>"

datatype 'c send_result = SendOk 'c | SendFull | SendPanic

definition chan_send :: "'a \<Rightarrow> 'a chan \<Rightarrow> 'a chan send_result" where
  "chan_send x ch =
     (if ch_closed ch then SendPanic
      else if length (ch_buf ch) < ch_cap ch then SendOk (ch\<lparr>ch_buf := ch_buf ch @ [x]\<rparr>)
      else SendFull)"

datatype ('a, 'c) recv_result = RecvValue 'a 'c | RecvEmpty | RecvClosed

definition chan_recv :: "'a chan \<Rightarrow> ('a, 'a chan) recv_result" where
  "chan_recv ch = (case ch_buf ch of
       x # xs \<Rightarrow> RecvValue x (ch\<lparr>ch_buf := xs\<rparr>)
     | [] \<Rightarrow> if ch_closed ch then RecvClosed else RecvEmpty)"

definition chan_close :: "'a chan \<Rightarrow> 'a chan option" where
  "chan_close ch = (if ch_closed ch then None else Some (ch\<lparr>ch_closed := True\<rparr>))"

definition chan_ok :: "'a chan \<Rightarrow> bool" where
  "chan_ok ch \<longleftrightarrow> length (ch_buf ch) \<le> ch_cap ch"

section \<open>The contract of a bounded queue\<close>

locale bounded_fifo =
  fixes send :: "'a \<Rightarrow> 'c \<Rightarrow> 'c send_result" and recv :: "'c \<Rightarrow> ('a, 'c) recv_result"
    and contents :: "'c \<Rightarrow> 'a list" and cap :: "'c \<Rightarrow> nat" and ok :: "'c \<Rightarrow> bool"
  assumes send_adds: "send x c = SendOk c' \<Longrightarrow> contents c' = contents c @ [x] \<and> cap c' = cap c"
    and recv_takes: "recv c = RecvValue x c' \<Longrightarrow> contents c = x # contents c' \<and> cap c' = cap c"
    and send_keeps_ok: "ok c \<Longrightarrow> send x c = SendOk c' \<Longrightarrow> ok c'"
    and recv_keeps_ok: "ok c \<Longrightarrow> recv c = RecvValue x c' \<Longrightarrow> ok c'"
    and ok_bound: "ok c \<Longrightarrow> length (contents c) \<le> cap c"
    and full_bound: "send x c = SendFull \<Longrightarrow> cap c \<le> length (contents c)"
begin

text \<open>A full queue holds exactly as many values as its capacity, and a receive makes room.\<close>

lemma full_exactly: "ok c \<Longrightarrow> send x c = SendFull \<Longrightarrow> length (contents c) = cap c"
  using ok_bound[of c] full_bound[of x c] by simp

lemma recv_makes_room:
  assumes "ok c" and "recv c = RecvValue x c'"
  shows "length (contents c') < cap c'"
  using assms ok_bound[of c] recv_takes[of c x c'] by simp

end

interpretation go_chan: bounded_fifo chan_send chan_recv ch_buf ch_cap chan_ok
  by unfold_locales
    (auto simp: chan_send_def chan_recv_def chan_ok_def split: if_splits list.splits)

lemma chan_send_simps:
  "chan_send x ch = SendPanic \<longleftrightarrow> ch_closed ch"
  "chan_send x ch = SendFull \<longleftrightarrow> \<not> ch_closed ch \<and> ch_cap ch \<le> length (ch_buf ch)"
  "chan_send x ch = SendOk ch' \<longleftrightarrow>
     \<not> ch_closed ch \<and> length (ch_buf ch) < ch_cap ch \<and> ch' = ch\<lparr>ch_buf := ch_buf ch @ [x]\<rparr>"
  by (auto simp: chan_send_def)

lemma chan_send_closed: "chan_send x ch = SendOk ch' \<Longrightarrow> ch_closed ch' = ch_closed ch"
  by (auto simp: chan_send_def split: if_splits)

lemma chan_recv_closed: "chan_recv ch = RecvValue x ch' \<Longrightarrow> ch_closed ch' = ch_closed ch"
  by (auto simp: chan_recv_def split: list.splits if_splits)

end
