(* ===== verification/Hub.thy ===== *)
theory Hub
  imports Channels Core_Types
begin

text \<open>
  The hub (\<open>internal/core/hub.go\<close>, \<open>room.go\<close>, \<open>client.go\<close>): clients, rooms and the handlers of room
  commands, on an explicit heap of clients.

  The hub is one goroutine; the goroutines of the connections and the \<open>consumeCommands\<close> goroutines
  run beside it. Their atomic steps are the \<open>env_action\<close>s. The handlers run in the state monad over
  \<open>world\<close>; at every channel operation of the hub the next entry of \<open>sched\<close> says which steps the
  others take first, so that a theorem about all schedules is a theorem about all interleavings. A
  send on a full channel waits for the schedule to make room; when the schedule ends first the hub
  is \<open>Blocked\<close>. A panic ends the process. A world that is not \<open>Running\<close> is never changed again by
  the hub, which is how the rest of an interrupted handler is skipped.

  A Go map used as a set is a list of its keys in the order in which the runtime ranges over it.
  \<open>sent\<close> records every event put into a client's channel, in order; no operation reads it.
\<close>

type_synonym cptr = nat

record Client =
  cl_ID :: string
  cl_UserID :: userID
  cl_Name :: string
  cl_IsGuest :: bool
  cl_Commands :: "Command chan"
  cl_Events :: "Event chan"
  cl_Rooms :: "string list"

definition NewClient :: "string \<Rightarrow> string \<Rightarrow> userID \<Rightarrow> bool \<Rightarrow> Client" where
  "NewClient i name userID isGuest = \<lparr>cl_ID = i, cl_UserID = userID,
     cl_Name = (if name = '''' then i else name), cl_IsGuest = isGuest, cl_Commands = make_chan 8,
     cl_Events = make_chan 8, cl_Rooms = []\<rparr>"

record Room =
  rm_Name :: string
  rm_clients :: "cptr list"

definition NewRoom :: "string \<Rightarrow> Room" where
  "NewRoom name = \<lparr>rm_Name = name, rm_clients = []\<rparr>"

definition AddClient :: "cptr \<Rightarrow> Room \<Rightarrow> bool \<times> Room" where
  "AddClient c r = (if c \<in> set (rm_clients r) then (False, r)
     else (True, r\<lparr>rm_clients := rm_clients r @ [c]\<rparr>))"

definition RemoveClient :: "cptr \<Rightarrow> Room \<Rightarrow> bool \<times> Room" where
  "RemoveClient c r = (if c \<notin> set (rm_clients r) then (False, r)
     else (True, r\<lparr>rm_clients := removeAll c (rm_clients r)\<rparr>))"

definition Empty :: "Room \<Rightarrow> bool" where
  "Empty r = (length (rm_clients r) = 0)"

section \<open>The world\<close>

datatype env_action =
    Connect string                          \<comment> \<open>\<open>ServeHTTP\<close> makes a client and registers it\<close>
  | Disconnect cptr                         \<comment> \<open>\<open>ServeHTTP\<close> returns and unregisters it\<close>
  | Identify cptr userID string bool        \<comment> \<open>\<open>handleHello\<close> writes who the client is\<close>
  | Enqueue cptr Command                    \<comment> \<open>\<open>readLoop\<close> sends on \<open>client.Commands\<close>\<close>
  | CloseCommands cptr                      \<comment> \<open>the owner of \<open>client.Commands\<close> closes it\<close>
  | Consume cptr                            \<comment> \<open>\<open>consumeCommands\<close> takes its next step\<close>
  | Receive cptr                            \<comment> \<open>\<open>writeLoop\<close> takes an event\<close>

datatype status = Running | Blocked cptr | Panicked string | Stopped

record world =
  heap :: "cptr \<Rightarrow> Client"
  next_cptr :: cptr
  h_register :: "cptr chan"
  h_unregister :: "cptr chan"
  h_commands :: "(cptr \<times> Command) chan"
  h_clients :: "cptr list"
  h_rooms :: "string \<Rightarrow> Room option"
  h_store :: bool
  h_userClients :: "userID \<Rightarrow> cptr option"
  h_callService :: "callService option"
  consumers :: "cptr list"
  in_hand :: "cptr \<Rightarrow> Command option"
  database :: db
  sched :: "env_action list list"
  status :: status
  sent :: "(cptr \<times> Event) list"

type_synonym 'a hubm = "(world, 'a) state"

definition NewHub :: "bool \<Rightarrow> callService option \<Rightarrow> db \<Rightarrow> world" where
  "NewHub st callSvc d = \<lparr>heap = (\<lambda>_. NewClient '''' '''' 0 False), next_cptr = 0,
     h_register = make_chan 16, h_unregister = make_chan 16, h_commands = make_chan 64,
     h_clients = [], h_rooms = (\<lambda>_. None), h_store = st, h_userClients = (\<lambda>_. None),
     h_callService = callSvc, consumers = [], in_hand = (\<lambda>_. None), database = d, sched = [],
     status = Running, sent = []\<rparr>"

section \<open>The other goroutines\<close>

definition upd_client :: "cptr \<Rightarrow> (Client \<Rightarrow> Client) \<Rightarrow> world \<Rightarrow> world" where
  "upd_client c f w = w\<lparr>heap := (heap w)(c := f (heap w c))\<rparr>"

text \<open>\<open>RegisterClient\<close> and \<open>UnregisterClient\<close> drop the request when the queue is full.\<close>

definition RegisterClient :: "cptr \<Rightarrow> world \<Rightarrow> world" where
  "RegisterClient c w = (case chan_send c (h_register w) of
       SendOk ch \<Rightarrow> w\<lparr>h_register := ch\<rparr> | _ \<Rightarrow> w)"

definition UnregisterClient :: "cptr \<Rightarrow> world \<Rightarrow> world" where
  "UnregisterClient c w = (case chan_send c (h_unregister w) of
       SendOk ch \<Rightarrow> w\<lparr>h_unregister := ch\<rparr> | _ \<Rightarrow> w)"

text \<open>
  One step of the goroutine \<open>consumeCommands\<close> of a client: with a command in hand it waits for room
  in \<open>h.commands\<close>; otherwise it takes the next command, or unregisters the client and ends when the
  channel is closed and drained.
\<close>

definition consumeCommands :: "cptr \<Rightarrow> world \<Rightarrow> world" where
  "consumeCommands c w =
     (if c \<notin> set (consumers w) then w
      else case in_hand w c of
        Some cmd \<Rightarrow> (case chan_send (c, cmd) (h_commands w) of
            SendOk ch \<Rightarrow> w\<lparr>h_commands := ch, in_hand := (in_hand w)(c := None)\<rparr> | _ \<Rightarrow> w)
      | None \<Rightarrow> (case chan_recv (cl_Commands (heap w c)) of
            RecvValue cmd ch \<Rightarrow>
              (upd_client c (\<lambda>cl. cl\<lparr>cl_Commands := ch\<rparr>) w)\<lparr>in_hand := (in_hand w)(c := Some cmd)\<rparr>
          | RecvClosed \<Rightarrow> (UnregisterClient c w)\<lparr>consumers := removeAll c (consumers w)\<rparr>
          | RecvEmpty \<Rightarrow> w))"

fun env_step :: "env_action \<Rightarrow> world \<Rightarrow> world" where
  "env_step (Connect i) w = (let c = next_cptr w in
     RegisterClient c (w\<lparr>heap := (heap w)(c := NewClient i '''' 0 False), next_cptr := c + 1\<rparr>))"
| "env_step (Disconnect c) w = UnregisterClient c w"
| "env_step (Identify c u n g) w =
     upd_client c (\<lambda>cl. cl\<lparr>cl_UserID := u, cl_Name := n, cl_IsGuest := g\<rparr>) w"
| "env_step (Enqueue c cmd) w = (case chan_send cmd (cl_Commands (heap w c)) of
       SendOk ch \<Rightarrow> upd_client c (\<lambda>cl. cl\<lparr>cl_Commands := ch\<rparr>) w | _ \<Rightarrow> w)"
| "env_step (CloseCommands c) w = (case chan_close (cl_Commands (heap w c)) of
       Some ch \<Rightarrow> upd_client c (\<lambda>cl. cl\<lparr>cl_Commands := ch\<rparr>) w | None \<Rightarrow> w)"
| "env_step (Consume c) w = consumeCommands c w"
| "env_step (Receive c) w = (case chan_recv (cl_Events (heap w c)) of
       RecvValue ev ch \<Rightarrow> upd_client c (\<lambda>cl. cl\<lparr>cl_Events := ch\<rparr>) w | _ \<Rightarrow> w)"

definition env_run :: "env_action list \<Rightarrow> world \<Rightarrow> world" where
  "env_run as w = fold env_step as w"

section \<open>What a handler does to the world\<close>

definition hub_do :: "(world \<Rightarrow> world) \<Rightarrow> unit hubm" where
  "hub_do f = do { w \<leftarrow> get_st; put_st (if status w = Running then f w else w) }"

definition hub_read :: "(world \<Rightarrow> 'a) \<Rightarrow> 'a hubm" where
  "hub_read f = do { w \<leftarrow> get_st; return (f w) }"

definition hub_panic :: "string \<Rightarrow> unit hubm" where
  "hub_panic msg = hub_do (\<lambda>w. w\<lparr>status := Panicked msg\<rparr>)"

text \<open>A call of the store, or of a service on it.\<close>

definition hub_db :: "'a dbm \<Rightarrow> 'a hubm" where
  "hub_db m = do {
     w \<leftarrow> get_st;
     _ \<leftarrow> hub_do (\<lambda>w. w\<lparr>database := after m (database w)\<rparr>);
     return (result_of m (database w)) }"

text \<open>The others take the steps of the next entry of the schedule.\<close>

definition others_step :: "world \<Rightarrow> world" where
  "others_step w = (case sched w of [] \<Rightarrow> w | as # ss \<Rightarrow> env_run as (w\<lparr>sched := ss\<rparr>))"

definition put_event :: "cptr \<Rightarrow> Event \<Rightarrow> Event chan \<Rightarrow> world \<Rightarrow> world" where
  "put_event c ev ch w = (upd_client c (\<lambda>cl. cl\<lparr>cl_Events := ch\<rparr>) w)\<lparr>sent := sent w @ [(c, ev)]\<rparr>"

text \<open>\<open>client.Events <- event\<close>: waits while the channel is full.\<close>

fun send_wait :: "cptr \<Rightarrow> Event \<Rightarrow> env_action list list \<Rightarrow> world \<Rightarrow> world" where
  "send_wait c ev ss w = (case chan_send ev (cl_Events (heap w c)) of
       SendOk ch \<Rightarrow> put_event c ev ch (w\<lparr>sched := ss\<rparr>)
     | SendPanic \<Rightarrow> w\<lparr>sched := ss, status := Panicked ''send on closed channel''\<rparr>
     | SendFull \<Rightarrow>
         (case ss of [] \<Rightarrow> w\<lparr>sched := [], status := Blocked c\<rparr>
          | as # ss' \<Rightarrow> send_wait c ev ss' (env_run as w)))"

declare send_wait.simps [simp del]

definition hub_send :: "cptr \<Rightarrow> Event \<Rightarrow> unit hubm" where
  "hub_send c ev = hub_do (\<lambda>w. let w = others_step w in send_wait c ev (sched w) w)"

text \<open>\<open>select { case client.Events <- event: \<dots> default: \<dots> }\<close>\<close>

definition hub_try_send :: "cptr \<Rightarrow> Event \<Rightarrow> bool hubm" where
  "hub_try_send c ev = do {
     _ \<leftarrow> hub_do others_step;
     w \<leftarrow> get_st;
     (case chan_send ev (cl_Events (heap w c)) of
        SendOk ch \<Rightarrow> do { _ \<leftarrow> hub_do (put_event c ev ch); return True }
      | SendFull \<Rightarrow> return False
      | SendPanic \<Rightarrow> do { _ \<leftarrow> hub_panic ''send on closed channel''; return False }) }"

definition hub_close :: "cptr \<Rightarrow> unit hubm" where
  "hub_close c = do {
     w \<leftarrow> get_st;
     (case chan_close (cl_Events (heap w c)) of
        Some ch \<Rightarrow> hub_do (upd_client c (\<lambda>cl. cl\<lparr>cl_Events := ch\<rparr>))
      | None \<Rightarrow> hub_panic ''close of closed channel'') }"

fun hub_each :: "('a \<Rightarrow> unit hubm) \<Rightarrow> 'a list \<Rightarrow> unit hubm" where
  "hub_each f [] = return ()"
| "hub_each f (x # xs) = do { _ \<leftarrow> f x; hub_each f xs }"

section \<open>Rooms\<close>

definition Broadcast :: "Room \<Rightarrow> Event \<Rightarrow> unit hubm" where
  "Broadcast r ev = hub_each (\<lambda>c. do { _ \<leftarrow> hub_try_send c ev; return () }) (rm_clients r)"

definition ensureRoom :: "string \<Rightarrow> unit hubm" where
  "ensureRoom name = hub_do (\<lambda>w. case h_rooms w name of
       Some _ \<Rightarrow> w
     | None \<Rightarrow> w\<lparr>h_rooms := (h_rooms w)(name \<mapsto> NewRoom name)\<rparr>)"

definition broadcastToRoom :: "string \<Rightarrow> Event \<Rightarrow> unit hubm" where
  "broadcastToRoom roomName ev = do {
     room \<leftarrow> hub_read (\<lambda>w. h_rooms w roomName);
     case room of None \<Rightarrow> return () | Some r \<Rightarrow> Broadcast r ev }"

text \<open>\<open>room.AddClient(client)\<close> and \<open>room.RemoveClient(client)\<close> on the room the hub has under a name.\<close>

definition room_add :: "string \<Rightarrow> cptr \<Rightarrow> bool hubm" where
  "room_add name c = do {
     room \<leftarrow> hub_read (\<lambda>w. h_rooms w name);
     case room of None \<Rightarrow> return False | Some r \<Rightarrow> do {
       _ \<leftarrow> hub_do (\<lambda>w. w\<lparr>h_rooms := (h_rooms w)(name \<mapsto> snd (AddClient c r))\<rparr>);
       return (fst (AddClient c r)) }}"

definition room_remove :: "string \<Rightarrow> Room \<Rightarrow> cptr \<Rightarrow> bool hubm" where
  "room_remove name r c = do {
     _ \<leftarrow> hub_do (\<lambda>w. w\<lparr>h_rooms := (h_rooms w)(name \<mapsto> snd (RemoveClient c r))\<rparr>);
     return (fst (RemoveClient c r)) }"

definition room_error :: "string \<Rightarrow> string \<Rightarrow> goerr \<Rightarrow> Event" where
  "room_error roomName code err =
     (new_event EventError)\<lparr>ev_Room := roomName, ev_Error := Some (coreError code (error_string err))\<rparr>"

section \<open>Joining, leaving and sending\<close>

fun history_messages :: "string \<Rightarrow> message list \<Rightarrow> coreMessage list dbm" where
  "history_messages roomName [] = return []"
| "history_messages roomName (m # ms) = do {
     user \<leftarrow> GetUserByID (message_UserID m);
     rest \<leftarrow> history_messages roomName ms;
     return (\<lparr>cm_ID = message_ID m, cm_Room = roomName,
              cm_From = (case user of Inl _ \<Rightarrow> ''unknown'' | Inr u \<Rightarrow> user_Username u),
              cm_Text = message_Body m, cm_CreatedAt = message_CreatedAt m\<rparr> # rest) }"

definition send_history :: "cptr \<Rightarrow> string \<Rightarrow> unit hubm" where
  "send_history c roomName = do {
     dbRoom \<leftarrow> hub_db (GetRoomByName roomName);
     case dbRoom of Inl _ \<Rightarrow> return () | Inr dbRoom \<Rightarrow> do {
       ms \<leftarrow> hub_db (ListMessages (room_ID dbRoom) 20 None);
       if snd ms = None \<and> length (fst ms) > 0 then do {
         coreMessages \<leftarrow> hub_db (history_messages roomName (fst ms));
         hub_send c ((new_event EventHistory)\<lparr>ev_Room := roomName, ev_Messages := coreMessages\<rparr>) }
       else return () }}"

text \<open>What \<open>joinRoom\<close> and \<open>leaveRoom\<close> do once the room has taken the client in, or let it go.\<close>

definition joined_room :: "cptr \<Rightarrow> string \<Rightarrow> unit hubm" where
  "joined_room c roomName = do {
     _ \<leftarrow> hub_do (upd_client c (\<lambda>cl. cl\<lparr>cl_Rooms := List.insert roomName (cl_Rooms cl)\<rparr>));
     name \<leftarrow> hub_read (\<lambda>w. cl_Name (heap w c));
     _ \<leftarrow> broadcastToRoom roomName ((new_event EventUserJoined)\<lparr>ev_Room := roomName, ev_User := name\<rparr>);
     st \<leftarrow> hub_read h_store;
     if st then send_history c roomName else return () }"

definition left_room :: "cptr \<Rightarrow> string \<Rightarrow> unit hubm" where
  "left_room c roomName = do {
     _ \<leftarrow> hub_do (upd_client c (\<lambda>cl. cl\<lparr>cl_Rooms := removeAll roomName (cl_Rooms cl)\<rparr>));
     name \<leftarrow> hub_read (\<lambda>w. cl_Name (heap w c));
     _ \<leftarrow> broadcastToRoom roomName ((new_event EventUserLeft)\<lparr>ev_Room := roomName, ev_User := name\<rparr>);
     hub_do (\<lambda>w. case h_rooms w roomName of
         Some r \<Rightarrow> if Empty r then w\<lparr>h_rooms := (h_rooms w)(roomName := None)\<rparr> else w
       | None \<Rightarrow> w) }"

definition joinRoom :: "cptr \<Rightarrow> string \<Rightarrow> unit hubm" where
  "joinRoom c roomName =
     (if roomName = '''' then hub_send c (room_error roomName ErrCodeBadRequest ErrBadRequest)
      else do {
        _ \<leftarrow> ensureRoom roomName;
        added \<leftarrow> room_add roomName c;
        if \<not> added then hub_send c (room_error roomName ErrCodeAlreadyJoined ErrAlreadyJoined)
        else joined_room c roomName })"

definition leaveRoom :: "cptr \<Rightarrow> string \<Rightarrow> unit hubm" where
  "leaveRoom c roomName = do {
     room \<leftarrow> hub_read (\<lambda>w. h_rooms w roomName);
     case room of
       None \<Rightarrow> hub_send c (room_error roomName ErrCodeRoomNotFound ErrRoomNotFound)
     | Some r \<Rightarrow> do {
       removed \<leftarrow> room_remove roomName r c;
       if \<not> removed then hub_send c (room_error roomName ErrCodeNotInRoom ErrNotInRoom)
       else left_room c roomName }}"

text \<open>Saving a message of an authenticated user; the result is the id the broadcast carries.\<close>

definition save_room_message :: "userID \<Rightarrow> string \<Rightarrow> coreMessage \<Rightarrow> int64 dbm" where
  "save_room_message userID roomName msg = do {
     room \<leftarrow> GetRoomByName roomName;
     case room of Inl _ \<Rightarrow> return (cm_ID msg) | Inr room \<Rightarrow> do {
       r \<leftarrow> SaveMessage \<lparr>message_ID = 0, message_RoomID = room_ID room, message_UserID = userID,
              message_Body = cm_Text msg, message_CreatedAt = cm_CreatedAt msg\<rparr>;
       return (case r of Inl _ \<Rightarrow> cm_ID msg | Inr m \<Rightarrow> message_ID m) }}"

text \<open>The message as it goes out, but for its id: dated, signed, and in the room of the command.\<close>

definition stamp_message :: "time \<Rightarrow> Client \<Rightarrow> Command \<Rightarrow> coreMessage" where
  "stamp_message now client cmd = (let
     msg = cmd_Message cmd;
     msg = (if cm_CreatedAt msg = zero_time then msg\<lparr>cm_CreatedAt := now\<rparr> else msg);
     msg = (if cm_From msg = '''' then msg\<lparr>cm_From := cl_Name client\<rparr> else msg)
     in msg\<lparr>cm_Room := cmd_Room cmd\<rparr>)"

definition room_event :: "Command \<Rightarrow> coreMessage \<Rightarrow> Event" where
  "room_event cmd msg = (new_event EventRoomMessage)\<lparr>ev_Room := cmd_Room cmd, ev_Message := msg\<rparr>"

definition sendRoomMessage :: "cptr \<Rightarrow> Command \<Rightarrow> unit hubm" where
  "sendRoomMessage c cmd =
     (if cmd_Room cmd = '''' then hub_send c (room_error (cmd_Room cmd) ErrCodeBadRequest ErrBadRequest)
      else do {
        client \<leftarrow> hub_read (\<lambda>w. heap w c);
        if cmd_Room cmd \<notin> set (cl_Rooms client)
        then hub_send c (room_error (cmd_Room cmd) ErrCodeNotInRoom ErrNotInRoom)
        else do {
          now \<leftarrow> hub_db time_Now;
          st \<leftarrow> hub_read h_store;
          let msg = stamp_message now client cmd;
          newID \<leftarrow> (if \<not> cl_IsGuest client \<and> cl_UserID client > 0 \<and> st
                   then hub_db (save_room_message (cl_UserID client) (cmd_Room cmd) msg)
                   else return (cm_ID msg));
          broadcastToRoom (cmd_Room cmd) (room_event cmd (msg\<lparr>cm_ID := newID\<rparr>)) }})"

section \<open>Registration and shutdown\<close>

definition deregister :: "cptr \<Rightarrow> unit hubm" where
  "deregister c = do {
     _ \<leftarrow> hub_do (\<lambda>w. w\<lparr>h_clients := removeAll c (h_clients w)\<rparr>);
     _ \<leftarrow> hub_do (\<lambda>w. if cl_UserID (heap w c) > 0
             then w\<lparr>h_userClients := (h_userClients w)(cl_UserID (heap w c) := None)\<rparr> else w);
     hub_close c }"

text \<open>The loop over \<open>client.Rooms\<close> removes only the key it has just been given.\<close>

definition removeClient :: "cptr \<Rightarrow> unit hubm" where
  "removeClient c = do {
     registered \<leftarrow> hub_read (\<lambda>w. c \<in> set (h_clients w));
     if \<not> registered then return ()
     else do {
       rooms \<leftarrow> hub_read (\<lambda>w. cl_Rooms (heap w c));
       _ \<leftarrow> hub_each (leaveRoom c) rooms;
       deregister c }}"

definition shutdown :: "unit hubm" where
  "shutdown = do {
     cs \<leftarrow> hub_read h_clients;
     hub_each hub_close cs }"

text \<open>The registration case of \<open>Run\<close>.\<close>

definition addClient :: "cptr \<Rightarrow> unit hubm" where
  "addClient c = do {
     _ \<leftarrow> hub_do (\<lambda>w. w\<lparr>h_clients := List.insert c (h_clients w)\<rparr>);
     _ \<leftarrow> hub_do (\<lambda>w. if cl_UserID (heap w c) > 0
             then w\<lparr>h_userClients := (h_userClients w)(cl_UserID (heap w c) \<mapsto> c)\<rparr> else w);
     hub_do (\<lambda>w. w\<lparr>consumers := List.insert c (consumers w)\<rparr>) }"

text \<open>Sending to a user by id: false when the user has no client or its channel is full.\<close>

definition sendToUser :: "userID \<Rightarrow> Event \<Rightarrow> bool hubm" where
  "sendToUser userID ev = do {
     client \<leftarrow> hub_read (\<lambda>w. h_userClients w userID);
     case client of None \<Rightarrow> return False | Some c \<Rightarrow> hub_try_send c ev }"

end
