(* ===== verification/Hub_Calls.thy ===== *)
theory Hub_Calls
  imports Hub
begin

text \<open>
  The hub's call handlers, \<open>handleCommand\<close> and the main loop \<open>Run\<close> (\<open>internal/core/hub.go\<close>). The
  call service is the record of methods the hub was given, \<open>None\<close> when calls are disabled. A
  command whose \<open>Call\<close> is nil panics where the handler first reads it.
\<close>

definition sendCallError :: "cptr \<Rightarrow> string \<Rightarrow> string \<Rightarrow> unit hubm" where
  "sendCallError c code msg = hub_send c ((new_event EventError)\<lparr>ev_Error := Some (coreError code msg)\<rparr>)"

definition call_event :: "EventKind \<Rightarrow> CallEvent \<Rightarrow> Event" where
  "call_event k ce = (new_event k)\<lparr>ev_Call := Some ce\<rparr>"

definition core_join_info :: "joinInfo \<Rightarrow> CallJoinInfo" where
  "core_join_info ji = \<lparr>cji_URL = ji_URL ji, cji_Token = ji_Token ji, cji_RoomName = ji_RoomName ji,
     cji_Identity = ji_Identity ji\<rparr>"

definition join_info_event :: "callID \<Rightarrow> joinInfo \<Rightarrow> Event" where
  "join_info_event i ji =
     call_event EventCallJoinInfo ((new_callEvent i)\<lparr>cev_JoinInfo := Some (core_join_info ji)\<rparr>)"

text \<open>An event for a user, made from what the acting client is at that moment; whether it could be
  delivered is ignored.\<close>

definition notify :: "cptr \<Rightarrow> userID \<Rightarrow> (Client \<Rightarrow> Event) \<Rightarrow> unit hubm" where
  "notify c u mk = do {
     client \<leftarrow> hub_read (\<lambda>w. heap w c);
     _ \<leftarrow> sendToUser u (mk client);
     return () }"

text \<open>The two guards every call handler starts with, then the call data.\<close>

definition call_guard ::
    "cptr \<Rightarrow> CallCommand option \<Rightarrow> (callService \<Rightarrow> Client \<Rightarrow> CallCommand \<Rightarrow> unit hubm) \<Rightarrow> unit hubm" where
  "call_guard c callCmd body = do {
     svc \<leftarrow> hub_read h_callService;
     case svc of
       None \<Rightarrow> sendCallError c ErrCodeCallsDisabled ''calls are not enabled''
     | Some svc \<Rightarrow> do {
       client \<leftarrow> hub_read (\<lambda>w. heap w c);
       if cl_IsGuest client \<or> cl_UserID client = 0
       then sendCallError c ErrCodeUnauthorized ''authentication required for calls''
       else (case callCmd of
           None \<Rightarrow> hub_panic ''invalid memory address or nil pointer dereference''
         | Some cc \<Rightarrow> body svc client cc) }}"

definition handleCallInvite :: "cptr \<Rightarrow> CallCommand option \<Rightarrow> unit hubm" where
  "handleCallInvite c callCmd = call_guard c callCmd (\<lambda>svc client cc.
     if cc_CallType cc = ''direct'' then do {
       call \<leftarrow> hub_db (cs_CreateDirectCall svc (cl_UserID client) (cc_ToUserID cc));
       case call of Inl e \<Rightarrow> sendCallError c ErrCodeCallError (error_string e) | Inr call \<Rightarrow> do {
       target \<leftarrow> hub_db (cs_GetTargetUser svc (cc_ToUserID cc));
       let toUsername = (case target of Inl _ \<Rightarrow> ''unknown'' | Inr n \<Rightarrow> n);
       _ \<leftarrow> hub_send c (call_event EventCallRinging ((new_callEvent (call_ID call))
              \<lparr>cev_ToUserID := cc_ToUserID cc, cev_ToUsername := toUsername\<rparr>));
       notify c (cc_ToUserID cc) (\<lambda>client. call_event EventCallIncoming ((new_callEvent (call_ID call))
         \<lparr>cev_CallType := ''direct'', cev_FromUserID := cl_UserID client,
          cev_FromUsername := cl_Name client, cev_CreatedAt := Unix (call_CreatedAt call)\<rparr>)) }}
     else if cc_CallType cc = ''room'' then do {
       call \<leftarrow> hub_db (cs_CreateRoomCall svc (cl_UserID client) (cc_RoomID cc));
       case call of Inl e \<Rightarrow> sendCallError c ErrCodeCallError (error_string e) | Inr call \<Rightarrow> do {
       info \<leftarrow> hub_db (cs_GetRoomInfo svc (cc_RoomID cc));
       let roomName = (case info of Inl _ \<Rightarrow> '''' | Inr n \<Rightarrow> n);
       members \<leftarrow> hub_db (cs_ListRoomMembers svc (cc_RoomID cc));
       case members of Inl e \<Rightarrow> sendCallError c ErrCodeCallError (error_string e) | Inr memberIDs \<Rightarrow>
         hub_each (\<lambda>memberID. do {
           client \<leftarrow> hub_read (\<lambda>w. heap w c);
           if memberID \<noteq> cl_UserID client
           then notify c memberID (\<lambda>client. call_event EventCallIncoming ((new_callEvent (call_ID call))
               \<lparr>cev_CallType := ''room'', cev_FromUserID := cl_UserID client,
                cev_FromUsername := cl_Name client, cev_RoomID := cc_RoomID cc, cev_RoomName := roomName,
                cev_CreatedAt := Unix (call_CreatedAt call)\<rparr>))
           else return () }) memberIDs }}
     else return ())"

definition handleCallAccept :: "cptr \<Rightarrow> CallCommand option \<Rightarrow> unit hubm" where
  "handleCallAccept c callCmd = call_guard c callCmd (\<lambda>svc client cc. do {
     joinInfo \<leftarrow> hub_db (cs_GetJoinInfo svc (cc_CallID cc) (cl_UserID client));
     case joinInfo of Inl e \<Rightarrow> sendCallError c ErrCodeCallError (error_string e) | Inr ji \<Rightarrow> do {
     call \<leftarrow> hub_db (cs_GetCall svc (cc_CallID cc));
     case call of Inl e \<Rightarrow> sendCallError c ErrCodeCallNotFound ''call not found'' | Inr call \<Rightarrow> do {
     _ \<leftarrow> hub_send c (join_info_event (cc_CallID cc) ji);
     _ \<leftarrow> notify c (call_InitiatorUserID call) (\<lambda>client. call_event EventCallAccepted ((new_callEvent (cc_CallID cc))
            \<lparr>cev_FromUserID := cl_UserID client, cev_FromUsername := cl_Name client\<rparr>));
     initiator \<leftarrow> hub_db (cs_GetJoinInfo svc (cc_CallID cc) (call_InitiatorUserID call));
     case initiator of Inl _ \<Rightarrow> return ()
     | Inr iji \<Rightarrow> notify c (call_InitiatorUserID call) (\<lambda>_. join_info_event (cc_CallID cc) iji) }}})"

definition handleCallReject :: "cptr \<Rightarrow> CallCommand option \<Rightarrow> unit hubm" where
  "handleCallReject c callCmd = call_guard c callCmd (\<lambda>svc client cc. do {
     call \<leftarrow> hub_db (cs_GetCall svc (cc_CallID cc));
     case call of Inl e \<Rightarrow> sendCallError c ErrCodeCallNotFound ''call not found'' | Inr call \<Rightarrow> do {
     r \<leftarrow> hub_db (cs_RejectCall svc (cc_CallID cc) (cl_UserID client) (cc_Reason cc));
     case r of Inl e \<Rightarrow> sendCallError c ErrCodeCallError (error_string e) | Inr _ \<Rightarrow> do {
     _ \<leftarrow> notify c (call_InitiatorUserID call) (\<lambda>client. call_event EventCallRejected ((new_callEvent (cc_CallID cc))
            \<lparr>cev_FromUserID := cl_UserID client, cev_Reason := cc_Reason cc\<rparr>));
     let reason = (if cc_Reason cc \<noteq> '''' then cc_Reason cc else ''rejected'');
     notify c (call_InitiatorUserID call) (\<lambda>client. call_event EventCallEnded ((new_callEvent (cc_CallID cc))
            \<lparr>cev_FromUserID := cl_UserID client, cev_Reason := reason\<rparr>)) }}})"

definition handleCallJoin :: "cptr \<Rightarrow> CallCommand option \<Rightarrow> unit hubm" where
  "handleCallJoin c callCmd = call_guard c callCmd (\<lambda>svc client cc. do {
     joinInfo \<leftarrow> hub_db (cs_GetJoinInfo svc (cc_CallID cc) (cl_UserID client));
     case joinInfo of Inl e \<Rightarrow> sendCallError c ErrCodeCallError (error_string e)
     | Inr ji \<Rightarrow> hub_send c (join_info_event (cc_CallID cc) ji) })"

definition handleCallLeave :: "cptr \<Rightarrow> CallCommand option \<Rightarrow> unit hubm" where
  "handleCallLeave c callCmd = call_guard c callCmd (\<lambda>svc client cc. do {
     r \<leftarrow> hub_db (cs_LeaveCall svc (cc_CallID cc) (cl_UserID client));
     case r of Inl e \<Rightarrow> sendCallError c ErrCodeCallError (error_string e) | Inr _ \<Rightarrow> return () })"

definition handleCallEnd :: "cptr \<Rightarrow> CallCommand option \<Rightarrow> unit hubm" where
  "handleCallEnd c callCmd = call_guard c callCmd (\<lambda>svc client cc. do {
     call \<leftarrow> hub_db (cs_GetCall svc (cc_CallID cc));
     case call of Inl e \<Rightarrow> sendCallError c ErrCodeCallNotFound ''call not found'' | Inr call \<Rightarrow> do {
     r \<leftarrow> hub_db (cs_EndCall svc (cc_CallID cc) (cl_UserID client));
     case r of Inl e \<Rightarrow> sendCallError c ErrCodeCallError (error_string e) | Inr _ \<Rightarrow>
     if call_InitiatorUserID call \<noteq> cl_UserID client
     then notify c (call_InitiatorUserID call) (\<lambda>client. call_event EventCallEnded ((new_callEvent (cc_CallID cc))
            \<lparr>cev_FromUserID := cl_UserID client, cev_Reason := ''ended''\<rparr>))
     else return () }})"

section \<open>The main loop\<close>

definition handleCommand :: "cptr \<Rightarrow> Command \<Rightarrow> unit hubm" where
  "handleCommand c cmd = (case cmd_Kind cmd of
       CommandJoinRoom \<Rightarrow> joinRoom c (cmd_Room cmd)
     | CommandLeaveRoom \<Rightarrow> leaveRoom c (cmd_Room cmd)
     | CommandSendRoomMessage \<Rightarrow> sendRoomMessage c cmd
     | CommandCallInvite \<Rightarrow> handleCallInvite c (cmd_Call cmd)
     | CommandCallAccept \<Rightarrow> handleCallAccept c (cmd_Call cmd)
     | CommandCallReject \<Rightarrow> handleCallReject c (cmd_Call cmd)
     | CommandCallJoin \<Rightarrow> handleCallJoin c (cmd_Call cmd)
     | CommandCallLeave \<Rightarrow> handleCallLeave c (cmd_Call cmd)
     | CommandCallEnd \<Rightarrow> handleCallEnd c (cmd_Call cmd)
     | UnknownCommand n \<Rightarrow> return ())"

text \<open>The cases of the \<open>select\<close> in \<open>Run\<close>; a case whose channel is empty is not ready.\<close>

datatype run_case = OnRegister | OnUnregister | OnCommand | OnDone

definition Run_case :: "run_case \<Rightarrow> unit hubm" where
  "Run_case k = (case k of
       OnRegister \<Rightarrow> do {
         ch \<leftarrow> hub_read h_register;
         case chan_recv ch of
           RecvValue c ch' \<Rightarrow> do { _ \<leftarrow> hub_do (\<lambda>w. w\<lparr>h_register := ch'\<rparr>); addClient c }
         | _ \<Rightarrow> return () }
     | OnUnregister \<Rightarrow> do {
         ch \<leftarrow> hub_read h_unregister;
         case chan_recv ch of
           RecvValue c ch' \<Rightarrow> do { _ \<leftarrow> hub_do (\<lambda>w. w\<lparr>h_unregister := ch'\<rparr>); removeClient c }
         | _ \<Rightarrow> return () }
     | OnCommand \<Rightarrow> do {
         ch \<leftarrow> hub_read h_commands;
         case chan_recv ch of
           RecvValue cc ch' \<Rightarrow> do { _ \<leftarrow> hub_do (\<lambda>w. w\<lparr>h_commands := ch'\<rparr>); handleCommand (fst cc) (snd cc) }
         | _ \<Rightarrow> return () }
     | OnDone \<Rightarrow> do { _ \<leftarrow> shutdown; hub_do (\<lambda>w. w\<lparr>status := Stopped\<rparr>) })"

text \<open>One step of the system: the hub takes a ready case, under any schedule of the others; or one of
  the others takes a step; or the rest of the server (the REST handlers, the passing of time) changes
  the database, in any way.\<close>

inductive hub_step :: "world \<Rightarrow> world \<Rightarrow> bool" where
  run: "status w = Running \<Longrightarrow> hub_step w (after (Run_case k) (w\<lparr>sched := ss\<rparr>))"
| env: "hub_step w (env_step a w)"
| elsewhere: "hub_step w (w\<lparr>database := d\<rparr>)"

inductive_simps hub_step_iff: "hub_step w w'"

end
