(* ===== verification/Hub_Frame.thy ===== *)
theory Hub_Frame
  imports Hub_Calls
begin

text \<open>
  How far an operation of the hub can reach. \<open>hub_scheduled\<close> is the interface: a relation between
  worlds that the scheduled steps of the other goroutines, the sends of the hub and its panics respect;
  \<open>hub_effect\<close> extends it to calls of the database. Then every handler built from them respects
  the relation. \<open>hub_moves\<close> is for relations that any step of the others respects. The interfaces are interpreted for the
  two relations the proofs about the hub rest on: a hub that has halted stays halted, and sending
  does not touch rooms, membership or registration.
\<close>

section \<open>Effects\<close>

lemma env_status [simp]: "status (env_step a w) = status w"
  by (cases a) (auto simp: RegisterClient_def UnregisterClient_def consumeCommands_def upd_client_def
      Let_def split: send_result.split recv_result.split option.split)

lemma env_run_status [simp]: "status (env_run as w) = status w"
  unfolding env_run_def by (induction as arbitrary: w) auto

lemma others_status [simp]: "status (others_step w) = status w"
  by (simp add: others_step_def split: list.splits)

lemma env_sched: "env_step a (w\<lparr>sched := ss\<rparr>) = (env_step a w)\<lparr>sched := ss\<rparr>"
  by (cases a) (auto simp: RegisterClient_def UnregisterClient_def consumeCommands_def upd_client_def
      Let_def split: send_result.split recv_result.split option.split)

lemma env_run_sched: "env_run as (w\<lparr>sched := ss\<rparr>) = (env_run as w)\<lparr>sched := ss\<rparr>"
  unfolding env_run_def by (induction as arbitrary: w) (simp_all add: env_sched)

text \<open>The events the handlers make: a call event carries its call data, and join information where it
  is one.\<close>

definition made_event :: "Event \<Rightarrow> bool" where
  "made_event ev = (case ev_Kind ev of
       EventCallJoinInfo \<Rightarrow> (case ev_Call ev of None \<Rightarrow> False | Some c \<Rightarrow> cev_JoinInfo c \<noteq> None)
     | EventRoomMessage \<Rightarrow> True | EventUserJoined \<Rightarrow> True | EventUserLeft \<Rightarrow> True | EventHistory \<Rightarrow> True
     | EventError \<Rightarrow> True
     | UnknownEvent n \<Rightarrow> False
     | _ \<Rightarrow> ev_Call ev \<noteq> None)"

lemma made_event_new [simp]:
  "made_event ((new_event EventUserJoined)\<lparr>ev_Room := r, ev_User := n\<rparr>)"
  "made_event ((new_event EventUserLeft)\<lparr>ev_Room := r, ev_User := n\<rparr>)"
  "made_event ((new_event EventHistory)\<lparr>ev_Room := r, ev_Messages := ms\<rparr>)"
  "made_event ((new_event EventError)\<lparr>ev_Error := e\<rparr>)" "made_event (room_error r code err)"
  "made_event (room_event cmd msg)" "made_event (join_info_event i ji)"
  "k \<in> {EventCallIncoming, EventCallRinging, EventCallAccepted, EventCallRejected, EventCallEnded} \<Longrightarrow>
     made_event (call_event k ce)"
  by (auto simp: made_event_def new_event_def room_error_def room_event_def join_info_event_def call_event_def)

text \<open>The weakest interface: what the others do is what the schedule says.\<close>

locale hub_scheduled = effect_bound R for R :: "world \<Rightarrow> world \<Rightarrow> bool" +
  fixes sendable :: "Event \<Rightarrow> bool"
  assumes R_others: "R w (others_step w)"
    and R_put: "sendable ev \<Longrightarrow> chan_send ev (cl_Events (heap w c)) = SendOk ch \<Longrightarrow> R w (put_event c ev ch w)"
    and R_halt: "status w = Running \<Longrightarrow> R w (w\<lparr>status := s\<rparr>)"
    and sendable_made: "made_event ev \<Longrightarrow> sendable ev"
begin

lemma he_do: "(\<And>w. status w = Running \<Longrightarrow> R w (f w)) \<Longrightarrow> state_io_rel R (hub_do f)"
  by (simp add: state_io_rel_def hub_do_def R_refl)

lemma he_read: "state_io_rel R (hub_read f)"
  by (simp add: state_io_rel_def hub_read_def R_refl)

lemma he_panic: "state_io_rel R (hub_panic m)"
  unfolding hub_panic_def by (intro he_do R_halt)

lemma R_send_wait: "sendable ev \<Longrightarrow> status w = Running \<Longrightarrow> R (w\<lparr>sched := ss\<rparr>) (send_wait c ev ss w)"
proof (induction c ev ss w rule: send_wait.induct)
  case (1 c ev ss w)
  have halt: "R (w\<lparr>sched := ss\<rparr>) (w\<lparr>sched := ss, status := s\<rparr>)" for s
    using R_halt[of "w\<lparr>sched := ss\<rparr>" s] 1(3) by simp
  show ?case
  proof (cases "chan_send ev (cl_Events (heap w c))")
    case (SendOk ch)
    then show ?thesis
      using R_put[of ev "w\<lparr>sched := ss\<rparr>" c ch] 1(2) by (subst send_wait.simps) simp
  next
    case SendPanic
    then show ?thesis by (subst send_wait.simps) (simp add: halt)
  next
    case SendFull
    have "R (w\<lparr>sched := as # ss'\<rparr>) (send_wait c ev ss' (env_run as w))" if "ss = as # ss'" for as ss'
      using R_trans[OF R_others[of "w\<lparr>sched := as # ss'\<rparr>"]] 1(1)[OF SendFull that 1(2)] 1(3)
      by (simp add: others_step_def env_run_sched)
    with SendFull halt show ?thesis by (subst send_wait.simps) (auto split: list.splits)
  qed
qed

lemma he_send: "sendable ev \<Longrightarrow> state_io_rel R (hub_send c ev)"
proof (unfold hub_send_def Let_def, rule he_do)
  fix w :: world
  assume "sendable ev" "status w = Running"
  then have "R (others_step w) (send_wait c ev (sched (others_step w)) (others_step w))"
    using R_send_wait[of ev "others_step w" "sched (others_step w)" c] by simp
  then show "R w (send_wait c ev (sched (others_step w)) (others_step w))" by (rule R_trans[OF R_others])
qed

lemma he_try_send:
  assumes "sendable ev"
  shows "state_io_rel R (hub_try_send c ev)"
proof -
  have "R w (snd (run_state (hub_try_send c ev) w))" for w
  proof -
    let ?w = "if status w = Running then others_step w else w"
    have 1: "R w ?w" by (simp add: R_others R_refl)
    have "run_state (hub_do others_step) w = ((), ?w)" by (simp add: hub_do_def)
    then have "R ?w (snd (run_state (hub_try_send c ev) w))"
      using assms by (auto simp: hub_try_send_def hub_do_def hub_panic_def R_refl R_put R_halt
          split: send_result.split)
    with 1 show ?thesis by (rule R_trans)
  qed
  then show ?thesis by (simp add: state_io_rel_def)
qed

lemma he_each: "(\<And>x. state_io_rel R (f x)) \<Longrightarrow> state_io_rel R (hub_each f xs)"
  by (induction xs) (auto intro!: eb_return eb_bind)

lemmas he_moves = eb_rules he_read he_panic he_send he_try_send he_each

lemma he_notify: "(\<And>cl. sendable (mk cl)) \<Longrightarrow> state_io_rel R (notify c u mk)"
  unfolding notify_def sendToUser_def by (intro he_moves)

lemma he_broadcast: "sendable ev \<Longrightarrow> state_io_rel R (broadcastToRoom r ev)"
  unfolding broadcastToRoom_def Broadcast_def by (intro he_moves)

lemma he_call_error: "state_io_rel R (sendCallError c code msg)"
  unfolding sendCallError_def by (intro he_send sendable_made) simp

end

text \<open>A relation that any step of the others respects, whatever the schedule.\<close>

locale hub_moves = effect_bound R for R :: "world \<Rightarrow> world \<Rightarrow> bool" +
  assumes R_env: "R w (env_step a w)" and R_sched: "R w (w\<lparr>sched := ss\<rparr>)"
begin

lemma R_env_run: "R w (env_run as w)"
  unfolding env_run_def by (induction as arbitrary: w) (auto intro: R_refl R_trans R_env)

lemma R_any_others: "R w (others_step w)"
  by (auto simp: others_step_def R_refl split: list.splits intro: R_trans[OF R_sched R_env_run])

end

locale hub_effect = hub_scheduled +
  assumes R_database: "status w = Running \<Longrightarrow> R w (w\<lparr>database := d\<rparr>)"
begin

lemma he_db: "state_io_rel R (hub_db m)"
  by (auto simp: state_io_rel_def hub_db_def hub_do_def R_refl R_database)

lemmas he_basic = he_moves he_db

lemma he_history: "state_io_rel R (send_history c r)"
  unfolding send_history_def by (intro he_basic sendable_made) simp

lemma he_guard:
  "(\<And>svc cl cc. state_io_rel R (body svc cl cc)) \<Longrightarrow> state_io_rel R (call_guard c cmd body)"
  unfolding call_guard_def by (intro he_basic he_call_error)

lemmas he_rules = he_basic he_notify he_broadcast he_history he_guard he_call_error

text \<open>Sending a message and the call commands need nothing else.\<close>

lemma he_handlers:
  "state_io_rel R (sendRoomMessage c cmd)"
  "state_io_rel R (handleCallInvite c cc)" "state_io_rel R (handleCallAccept c cc)"
  "state_io_rel R (handleCallReject c cc)" "state_io_rel R (handleCallJoin c cc)"
  "state_io_rel R (handleCallLeave c cc)" "state_io_rel R (handleCallEnd c cc)"
  unfolding sendRoomMessage_def handleCallInvite_def handleCallAccept_def handleCallReject_def
    handleCallJoin_def handleCallLeave_def handleCallEnd_def Let_def
  by (intro he_rules sendable_made; simp)+

end

section \<open>A halted hub stays halted\<close>

interpretation halting: hub_effect "\<lambda>w w'. status w \<noteq> Running \<longrightarrow> status w' = status w" "\<lambda>_. True"
  by unfold_locales (auto simp: put_event_def upd_client_def)

lemma halting_do: "state_io_rel (\<lambda>w w'. status w \<noteq> Running \<longrightarrow> status w' = status w) (hub_do f)"
  by (rule halting.he_do) simp

lemma halting_close: "state_io_rel (\<lambda>w w'. status w \<noteq> Running \<longrightarrow> status w' = status w) (hub_close c)"
  unfolding hub_close_def by (intro halting.he_rules halting_do TrueI)

lemmas halts = TrueI halting.he_rules halting.he_handlers halting_do halting_close

lemma halting_handlers:
  "state_io_rel (\<lambda>w w'. status w \<noteq> Running \<longrightarrow> status w' = status w) (joinRoom c r)"
  "state_io_rel (\<lambda>w w'. status w \<noteq> Running \<longrightarrow> status w' = status w) (leaveRoom c r)"
  "state_io_rel (\<lambda>w w'. status w \<noteq> Running \<longrightarrow> status w' = status w) (addClient c)"
  "state_io_rel (\<lambda>w w'. status w \<noteq> Running \<longrightarrow> status w' = status w) shutdown"
  unfolding joinRoom_def leaveRoom_def addClient_def shutdown_def ensureRoom_def room_add_def
    room_remove_def joined_room_def left_room_def
  by (intro halts)+

lemma halting_remove:
  "state_io_rel (\<lambda>w w'. status w \<noteq> Running \<longrightarrow> status w' = status w) (removeClient c)"
  unfolding removeClient_def deregister_def by (intro halts halting_handlers)

lemma halting_command:
  "state_io_rel (\<lambda>w w'. status w \<noteq> Running \<longrightarrow> status w' = status w) (handleCommand c cmd)"
  unfolding handleCommand_def by (cases "cmd_Kind cmd") (auto intro: halts halting_handlers)

section \<open>Sending leaves rooms, membership and registration alone\<close>

text \<open>What the proofs about rooms look at, and the bookkeeping of clients that goes with it: clients
  are registered once, and commands only come from clients that are, or have been, registered.\<close>

record hview =
  v_rooms_of :: "cptr \<Rightarrow> string list"
  v_rooms :: "string \<Rightarrow> Room option"
  v_clients :: "cptr list"
  v_closed :: "cptr \<Rightarrow> bool"

definition view :: "world \<Rightarrow> hview" where
  "view w = \<lparr>v_rooms_of = (\<lambda>c. cl_Rooms (heap w c)), v_rooms = h_rooms w, v_clients = h_clients w,
     v_closed = (\<lambda>c. ch_closed (cl_Events (heap w c)))\<rparr>"

lemma view_simps [simp]:
  "v_rooms_of (view w) c = cl_Rooms (heap w c)" "v_rooms (view w) = h_rooms w"
  "v_clients (view w) = h_clients w" "v_closed (view w) c = ch_closed (cl_Events (heap w c))"
  by (simp_all add: view_def)

definition has_commands :: "world \<Rightarrow> cptr \<Rightarrow> bool" where
  "has_commands w c \<longleftrightarrow> c \<in> fst ` set (ch_buf (h_commands w)) \<or> in_hand w c \<noteq> None \<or> c \<in> set (consumers w)"

definition untouched :: "world \<Rightarrow> cptr \<Rightarrow> bool" where
  "untouched w c \<longleftrightarrow> cl_Rooms (heap w c) = [] \<and> \<not> ch_closed (cl_Events (heap w c))
     \<and> c \<notin> set (h_clients w) \<and> \<not> has_commands w c"

definition bookkeeping :: "world \<Rightarrow> bool" where
  "bookkeeping w \<longleftrightarrow> (\<forall>c \<ge> next_cptr w. untouched w c)
     \<and> distinct (ch_buf (h_register w))
     \<and> (\<forall>c \<in> set (ch_buf (h_register w)). c < next_cptr w \<and> untouched w c)
     \<and> (\<forall>c. has_commands w c \<longrightarrow> c \<in> set (h_clients w) \<or> ch_closed (cl_Events (heap w c)))"

definition quiet :: "world \<Rightarrow> world \<Rightarrow> bool" where
  "quiet w w' \<longleftrightarrow> bookkeeping w \<longrightarrow> bookkeeping w' \<and> view w' = view w"

lemma quietI:
  assumes "next_cptr w' = next_cptr w" and "h_register w' = h_register w" and "view w' = view w"
    and "\<And>c. has_commands w' c \<Longrightarrow> has_commands w c"
  shows "quiet w w'"
proof -
  have "cl_Rooms (heap w' c) = cl_Rooms (heap w c)"
    "ch_closed (cl_Events (heap w' c)) = ch_closed (cl_Events (heap w c))"
    "h_clients w' = h_clients w" for c
    using assms(3) by (metis view_simps)+
  then show ?thesis
    using assms by (auto simp: quiet_def bookkeeping_def untouched_def)
qed

lemma view_upd_client:
  assumes "cl_Rooms (f (heap w c)) = cl_Rooms (heap w c)"
    and "ch_closed (cl_Events (f (heap w c))) = ch_closed (cl_Events (heap w c))"
  shows "view (upd_client c f w) = view w"
  using assms by (auto simp: view_def upd_client_def fun_eq_iff)

lemma has_commands_simps [simp]:
  "has_commands (upd_client c f w) = has_commands w" "has_commands (w\<lparr>sched := ss\<rparr>) = has_commands w"
  "has_commands (w\<lparr>status := s\<rparr>) = has_commands w" "has_commands (w\<lparr>database := d\<rparr>) = has_commands w"
  by (simp_all add: has_commands_def upd_client_def fun_eq_iff)

lemma upd_client_simps [simp]:
  "next_cptr (upd_client c f w) = next_cptr w" "h_register (upd_client c f w) = h_register w"
  by (simp_all add: upd_client_def)

lemma quiet_env_others:
  assumes "\<And>i. a \<noteq> Connect i"
  shows "quiet w (env_step a w)"
proof (cases a)
  case (Consume c)
  then show ?thesis
    by (auto intro!: quietI simp: consumeCommands_def UnregisterClient_def has_commands_def chan_send_simps
        view_def upd_client_def chan_recv_def fun_eq_iff split: send_result.split recv_result.split
        option.split list.splits if_splits)
next
  case (Receive c)
  then show ?thesis
    by (auto intro!: quietI view_upd_client dest: chan_recv_closed split: recv_result.split)
qed (use assms in \<open>auto intro!: quietI view_upd_client simp: UnregisterClient_def has_commands_def
    upd_client_def view_def fun_eq_iff split: send_result.split option.split\<close>)

lemma quiet_connect: "quiet w (env_step (Connect i) w)"
proof -
  let ?c = "next_cptr w"
  let ?w = "w\<lparr>heap := (heap w)(?c := NewClient i '''' 0 False), next_cptr := ?c + 1\<rparr>"
  have "bookkeeping (RegisterClient ?c ?w) \<and> view (RegisterClient ?c ?w) = view w" if "bookkeeping w"
  proof -
    from that have u: "untouched w ?c" by (simp add: bookkeeping_def)
    then have v: "view ?w = view w"
      by (auto simp: view_def untouched_def NewClient_def make_chan_def fun_eq_iff)
    have same: "untouched ?w c = untouched w c" "has_commands ?w c = has_commands w c" for c
      using u by (auto simp: untouched_def has_commands_def NewClient_def make_chan_def)
    have cl: "ch_closed (cl_Events (heap ?w c)) = ch_closed (cl_Events (heap w c))" for c
      using arg_cong[OF v, of "\<lambda>v. v_closed v c"] by simp
    show ?thesis
      using that u v
      by (auto simp: RegisterClient_def chan_send_simps bookkeeping_def same cl view_def
          untouched_def has_commands_def NewClient_def make_chan_def less_Suc_eq
          split: send_result.split)
  qed
  then show ?thesis by (simp add: quiet_def Let_def)
qed

lemma quiet_env: "quiet w (env_step a w)"
  using quiet_env_others quiet_connect by (cases a) blast+

interpretation quiet: hub_moves quiet
proof
  fix w v u :: world
  show "quiet w w" by (simp add: quiet_def)
  show "quiet w v \<Longrightarrow> quiet v u \<Longrightarrow> quiet w u" by (simp add: quiet_def)
qed (auto intro!: quietI quiet_env simp: view_def)

interpretation quiet: hub_effect quiet "\<lambda>_. True"
proof
  show "quiet w (others_step w)" for w by (rule quiet.R_any_others)
next
  fix ev c ch and w :: world
  assume "chan_send ev (cl_Events (heap w c)) = SendOk ch"
  then show "quiet w (put_event c ev ch w)"
    by (intro quietI) (auto simp: put_event_def upd_client_def has_commands_def view_def fun_eq_iff
        chan_send_simps)
qed (auto intro!: quietI simp: view_def)

end
