(* ===== verification/Hub_Inv.thy ===== *)
theory Hub_Inv
  imports Hub_Frame
begin

text \<open>
  The invariant of the hub and its refinement of a simple specification: a set of registered
  clients and, for each room, the set of its members.
\<close>

section \<open>Following the view of a run\<close>

text \<open>\<open>follows v m Q\<close>: a run of \<open>m\<close> from a world whose view is \<open>v\<close> that leaves the hub running ends
  with a result and a view that satisfy \<open>Q\<close>.\<close>

definition follows :: "hview \<Rightarrow> 'a hubm \<Rightarrow> ('a \<Rightarrow> hview \<Rightarrow> bool) \<Rightarrow> bool" where
  "follows v m Q \<longleftrightarrow> (\<forall>w x w'. bookkeeping w \<longrightarrow> view w = v \<longrightarrow> run_state m w = (x, w') \<longrightarrow>
     status w' = Running \<longrightarrow> bookkeeping w' \<and> Q x (view w'))"

abbreviation halting :: "'a hubm \<Rightarrow> bool" where
  "halting m \<equiv> state_io_rel (\<lambda>w w'. status w \<noteq> Running \<longrightarrow> status w' = status w) m"

lemma follows_bind:
  assumes "follows v m R" and "\<And>x. halting (k x)" and "\<And>x v'. R x v' \<Longrightarrow> follows v' (k x) Q"
  shows "follows v (State_Monad.bind m k) Q"
  unfolding follows_def
proof (intro allI impI)
  fix w y w'
  assume w: "bookkeeping w" "view w = v" and run: "run_state (State_Monad.bind m k) w = (y, w')"
    and ok: "status w' = Running"
  obtain x w1 where 1: "run_state m w = (x, w1)" and 2: "run_state (k x) w1 = (y, w')"
    using run unfolding run_bind_eq by blast
  have "status w1 = Running"
    using halting.eb_run[OF assms(2) 2] ok by fastforce
  then have "bookkeeping w1 \<and> R x (view w1)"
    using assms(1) w 1 by (auto simp: follows_def)
  then show "bookkeeping w' \<and> Q y (view w')"
    using assms(3)[of x "view w1"] 2 ok by (auto simp: follows_def)
qed

lemma follows_return: "Q x v \<Longrightarrow> follows v (return x) Q"
  by (auto simp: follows_def)

lemma follows_quiet:
  assumes "state_io_rel quiet m" and "\<And>x. Q x v"
  shows "follows v m Q"
  using assms quiet.eb_run[OF assms(1)] by (fastforce simp: follows_def quiet_def)

lemma follows_read: "(\<And>w. view w = v \<Longrightarrow> Q (g w) v) \<Longrightarrow> follows v (hub_read g) Q"
  by (auto simp: follows_def hub_read_def)

lemma follows_do:
  assumes "\<And>w. bookkeeping w \<Longrightarrow> view w = v \<Longrightarrow> bookkeeping (f w) \<and> Q () (view (f w))"
  shows "follows v (hub_do f) Q"
  using assms by (auto simp: follows_def hub_do_def split: if_splits)

lemma follows_if: "(b \<Longrightarrow> follows v m Q) \<Longrightarrow> (\<not> b \<Longrightarrow> follows v n Q) \<Longrightarrow> follows v (if b then m else n) Q"
  by simp

lemma follows_conseq: "follows v m Q \<Longrightarrow> (\<And>x v'. Q x v' \<Longrightarrow> Q' x v') \<Longrightarrow> follows v m Q'"
  by (auto simp: follows_def)

text \<open>The tail of a computation, after a read and after something quiet.\<close>

lemma follows_read_bind:
  assumes "\<And>w. view w = v \<Longrightarrow> g w = G" and "\<And>x. halting (k x)" and "follows v (k G) Q"
  shows "follows v (State_Monad.bind (hub_read g) k) Q"
  by (rule follows_bind[where R = "\<lambda>x v'. x = G \<and> v' = v"])
    (use assms in \<open>auto intro: follows_read\<close>)

lemma follows_quiet_bind:
  assumes "state_io_rel quiet m" and "\<And>x. halting (k x)" and "\<And>x. follows v (k x) Q"
  shows "follows v (State_Monad.bind m k) Q"
  by (rule follows_bind[where R = "\<lambda>_ v'. v' = v"]) (use assms in \<open>auto intro: follows_quiet\<close>)

lemma follows_do_bind:
  assumes "\<And>w. bookkeeping w \<Longrightarrow> view w = v \<Longrightarrow> bookkeeping (f w) \<and> view (f w) = v'"
    and "\<And>x. halting (k x)" and "\<And>x. follows v' (k x) Q"
  shows "follows v (State_Monad.bind (hub_do f) k) Q"
  by (rule follows_bind[where R = "\<lambda>_ u. u = v'"]) (use assms in \<open>auto intro!: follows_do\<close>)

section \<open>Sending to a closed channel ends the process\<close>

lemma env_closed: "bookkeeping w \<Longrightarrow> ch_closed (cl_Events (heap (others_step w) c)) = ch_closed (cl_Events (heap w c))"
  using quiet.R_others[of w] by (metis quiet_def view_simps(4))

lemma follows_send_closed: "v_closed v c \<Longrightarrow> follows v (hub_send c ev) (\<lambda>_ _. False)"
proof -
  have "status (send_wait c ev ss w) \<noteq> Running" if "ch_closed (cl_Events (heap w c))" for ss w
    using that by (subst send_wait.simps) (simp add: chan_send_def)
  then show "v_closed v c \<Longrightarrow> follows v (hub_send c ev) (\<lambda>_ _. False)"
    using env_closed by (auto simp: follows_def hub_send_def hub_do_def Let_def split: if_splits)
qed

lemma follows_send: "follows v (hub_send c ev) (\<lambda>_ v'. \<not> v_closed v c \<and> v' = v)"
proof (cases "v_closed v c")
  case True
  from follows_conseq[OF follows_send_closed[OF this]] show ?thesis by blast
qed (intro follows_quiet quiet.he_rules TrueI, simp)

lemma follows_try_send_closed: "v_closed v c \<Longrightarrow> follows v (hub_try_send c ev) (\<lambda>_ _. False)"
  using env_closed
  by (auto simp: follows_def hub_try_send_def hub_do_def hub_panic_def chan_send_def split: if_splits)

lemma follows_broadcast_closed:
  assumes "c \<in> set cs" and "v_closed v c"
  shows "follows v (hub_each (\<lambda>c. do { _ \<leftarrow> hub_try_send c ev; return () }) cs) (\<lambda>_ _. False)"
  using assms
proof (induction cs)
  case (Cons d cs)
  show ?case
  proof (cases "d = c")
    case True
    have "follows v (do { _ \<leftarrow> hub_try_send c ev; return () }) (\<lambda>_ _. False)"
      by (rule follows_bind[OF follows_try_send_closed]) (use Cons in \<open>auto intro: halts\<close>)
    then show ?thesis
      unfolding hub_each.simps True by (rule follows_bind) (auto intro: halts)
  next
    case False
    with Cons show ?thesis
      unfolding hub_each.simps by (intro follows_quiet_bind quiet.he_rules halts) auto
  qed
qed simp

section \<open>The invariant and the specification\<close>

definition members :: "hview \<Rightarrow> string \<Rightarrow> cptr set" where
  "members v r = (case v_rooms v r of None \<Rightarrow> {} | Some m \<Rightarrow> set (rm_clients m))"

definition room_inv :: "hview \<Rightarrow> bool" where
  "room_inv v \<longleftrightarrow> (\<forall>c r. r \<in> set (v_rooms_of v c) \<longleftrightarrow> c \<in> members v r)
     \<and> (\<forall>r m. v_rooms v r = Some m \<longrightarrow> rm_Name m = r \<and> distinct (rm_clients m) \<and> rm_clients m \<noteq> [])
     \<and> (\<forall>c. distinct (v_rooms_of v c)) \<and> (\<forall>r. members v r \<subseteq> set (v_clients v))
     \<and> (\<forall>c \<in> set (v_clients v). \<not> v_closed v c) \<and> distinct (v_clients v)"

type_synonym hub_spec = "cptr set \<times> (string \<Rightarrow> cptr set)"

definition abs_hub :: "hview \<Rightarrow> hub_spec" where
  "abs_hub v = (set (v_clients v), members v)"

definition spec_join :: "cptr \<Rightarrow> string \<Rightarrow> hub_spec \<Rightarrow> hub_spec" where
  "spec_join c r s = (if r = '''' then s else (fst s, (snd s)(r := insert c (snd s r))))"

definition spec_leave :: "cptr \<Rightarrow> string \<Rightarrow> hub_spec \<Rightarrow> hub_spec" where
  "spec_leave c r s = (fst s, (snd s)(r := snd s r - {c}))"

definition spec_remove :: "cptr \<Rightarrow> hub_spec \<Rightarrow> hub_spec" where
  "spec_remove c s = (fst s - {c}, \<lambda>r. snd s r - {c})"

lemma bookkeeping_rooms [simp]: "bookkeeping (w\<lparr>h_rooms := m\<rparr>) = bookkeeping w"
  by (simp add: bookkeeping_def untouched_def has_commands_def)

lemma h_clients_upd_client [simp]: "h_clients (upd_client c f w) = h_clients w"
  by (simp add: upd_client_def)

lemma bookkeeping_upd_client:
  assumes "bookkeeping w" and "untouched w c \<Longrightarrow> cl_Rooms (f (heap w c)) = []"
    and "ch_closed (cl_Events (f (heap w c))) = ch_closed (cl_Events (heap w c))"
  shows "bookkeeping (upd_client c f w)"
proof -
  have "ch_closed (cl_Events (heap (upd_client c f w) d)) = ch_closed (cl_Events (heap w d))" for d
    using assms(3) by (simp add: upd_client_def)
  moreover have "untouched w d \<Longrightarrow> untouched (upd_client c f w) d" for d
    using assms(2,3) by (cases "d = c") (auto simp: untouched_def upd_client_def has_commands_def)
  ultimately show ?thesis
    using assms(1) by (auto simp: bookkeeping_def)
qed

section \<open>Leaving\<close>

definition v_leave :: "cptr \<Rightarrow> string \<Rightarrow> hview \<Rightarrow> hview" where
  "v_leave c r v = (case v_rooms v r of None \<Rightarrow> v | Some m \<Rightarrow>
     if c \<notin> set (rm_clients m) then v
     else v\<lparr>v_rooms_of := (v_rooms_of v)(c := removeAll r (v_rooms_of v c)),
            v_rooms := (v_rooms v)(r := (if removeAll c (rm_clients m) = [] then None
                         else Some (m\<lparr>rm_clients := removeAll c (rm_clients m)\<rparr>)))\<rparr>)"

lemma room_remove_follows:
  "follows v (room_remove r m c) (\<lambda>x v'. x = fst (RemoveClient c m)
     \<and> v' = v\<lparr>v_rooms := (v_rooms v)(r \<mapsto> snd (RemoveClient c m))\<rparr>)"
  unfolding room_remove_def
  by (rule follows_do_bind) (auto intro!: follows_return halts simp: view_def)

lemma set_rooms_follows:
  assumes "\<And>rs. set (F rs) \<subseteq> set rs \<or> c \<in> set (v_clients v) \<or> v_closed v c"
  shows "follows v (hub_do (upd_client c (\<lambda>cl. cl\<lparr>cl_Rooms := F (cl_Rooms cl)\<rparr>)))
    (\<lambda>_ v'. v' = v\<lparr>v_rooms_of := (v_rooms_of v)(c := F (v_rooms_of v c))\<rparr>)"
proof (rule follows_do, rule conjI)
  fix w
  assume w: "bookkeeping w" "view w = v"
  then show "bookkeeping (upd_client c (\<lambda>cl. cl\<lparr>cl_Rooms := F (cl_Rooms cl)\<rparr>) w)"
    using assms[of "[]"] by (intro bookkeeping_upd_client) (auto simp: untouched_def)
  show "view (upd_client c (\<lambda>cl. cl\<lparr>cl_Rooms := F (cl_Rooms cl)\<rparr>) w) =
      v\<lparr>v_rooms_of := (v_rooms_of v)(c := F (v_rooms_of v c))\<rparr>"
    using w(2) by (auto simp: view_def upd_client_def fun_eq_iff)
qed

lemma drop_empty_follows:
  "follows v (hub_do (\<lambda>w. case h_rooms w r of
       Some m \<Rightarrow> if Empty m then w\<lparr>h_rooms := (h_rooms w)(r := None)\<rparr> else w | None \<Rightarrow> w))
     (\<lambda>_ v'. v' = (case v_rooms v r of
       Some m \<Rightarrow> if Empty m then v\<lparr>v_rooms := (v_rooms v)(r := None)\<rparr> else v | None \<Rightarrow> v))"
  by (rule follows_do) (auto simp: view_def split: option.splits)

lemma left_room_halting [intro]: "halting (left_room c r)"
  unfolding left_room_def by (intro halts)

lemma left_room_follows:
  assumes "v_rooms v r = Some m"
  shows "follows v (left_room c r) (\<lambda>_ v'. v' =
     v\<lparr>v_rooms_of := (v_rooms_of v)(c := removeAll r (v_rooms_of v c)),
       v_rooms := (if Empty m then (v_rooms v)(r := None) else v_rooms v)\<rparr>)"
  unfolding left_room_def
  by (intro follows_bind[OF set_rooms_follows] follows_quiet_bind[OF quiet.he_read]
      follows_quiet_bind[OF quiet.he_broadcast] follows_conseq[OF drop_empty_follows] halts)
    (use assms in auto)

lemma leaveRoom_follows: "follows v (leaveRoom c r) (\<lambda>_ v'. v' = v_leave c r v)"
proof (cases "v_rooms v r")
  case None
  then show ?thesis
    unfolding leaveRoom_def v_leave_def
    by (intro follows_read_bind[where G = None])
      (auto intro!: follows_quiet quiet.he_rules halts simp: room_remove_def split: option.split)
next
  case (Some m)
  let ?v = "v\<lparr>v_rooms := (v_rooms v)(r \<mapsto> snd (RemoveClient c m))\<rparr>"
  have "follows ?v (if \<not> fst (RemoveClient c m) then hub_send c e else left_room c r)
      (\<lambda>_ v'. v' = v_leave c r v)" for e
  proof (cases "c \<in> set (rm_clients m)")
    case True
    then show ?thesis
      using Some by (auto intro!: follows_conseq[OF left_room_follows] simp: RemoveClient_def v_leave_def Empty_def)
  next
    case False
    then have "?v = v" using Some by (auto simp: RemoveClient_def intro!: hview.equality)
    with False Some show ?thesis
      by (auto intro!: follows_quiet quiet.he_rules simp: RemoveClient_def v_leave_def)
  qed
  then have "follows v (do { removed \<leftarrow> room_remove r m c;
       if \<not> removed then hub_send c (room_error r ErrCodeNotInRoom ErrNotInRoom) else left_room c r })
      (\<lambda>_ v'. v' = v_leave c r v)"
    by (intro follows_bind[OF room_remove_follows]) (auto intro!: halts)
  with Some show ?thesis
    unfolding leaveRoom_def
    by (intro follows_read_bind[where G = "Some m"])
      (auto intro!: halts simp: room_remove_def split: option.split)
qed

lemma removeAll_Nil_iff: "removeAll c xs = [] \<longleftrightarrow> set xs \<subseteq> {c}"
  by (induction xs) auto

lemma members_v_leave: "members (v_leave c r v) = (members v)(r := members v r - {c})"
  by (auto simp: members_def v_leave_def fun_eq_iff removeAll_Nil_iff split: option.splits if_splits)

lemma v_leave_fields [simp]: "v_clients (v_leave c r v) = v_clients v" "v_closed (v_leave c r v) = v_closed v"
  by (simp_all add: v_leave_def split: option.splits)

lemma v_leave_rooms_of:
  assumes "room_inv v"
  shows "v_rooms_of (v_leave c r v) = (v_rooms_of v)(c := removeAll r (v_rooms_of v c))"
proof -
  have "removeAll r (v_rooms_of v c) = v_rooms_of v c" if "c \<notin> members v r"
    using assms that by (auto simp: room_inv_def)
  then show ?thesis
    by (auto simp: v_leave_def members_def fun_eq_iff split: option.splits)
qed

lemma room_inv_leave:
  assumes "room_inv v"
  shows "room_inv (v_leave c r v)"
proof -
  have rooms: "rm_Name m = r' \<and> distinct (rm_clients m) \<and> rm_clients m \<noteq> []"
    if "v_rooms (v_leave c r v) r' = Some m" for r' m
    using assms that by (auto simp: room_inv_def v_leave_def distinct_removeAll split: option.splits if_splits)
  show ?thesis
    using assms rooms unfolding room_inv_def
    by (auto simp: members_v_leave v_leave_rooms_of[OF assms] distinct_removeAll)
qed

lemma abs_leave: "abs_hub (v_leave c r v) = spec_leave c r (abs_hub v)"
  by (simp add: abs_hub_def spec_leave_def members_v_leave)

section \<open>Joining\<close>

definition v_join :: "cptr \<Rightarrow> string \<Rightarrow> hview \<Rightarrow> hview" where
  "v_join c r v = v\<lparr>v_rooms_of := (v_rooms_of v)(c := List.insert r (v_rooms_of v c)),
     v_rooms := (v_rooms v)(r \<mapsto> (case v_rooms v r of None \<Rightarrow> (NewRoom r)\<lparr>rm_clients := [c]\<rparr>
       | Some m \<Rightarrow> m\<lparr>rm_clients := rm_clients m @ [c]\<rparr>))\<rparr>"

lemma broadcast_closed_follows:
  assumes "v_rooms v r = Some m" and "c \<in> set (rm_clients m)" and "v_closed v c"
  shows "follows v (broadcastToRoom r ev) (\<lambda>_ _. False)"
  unfolding broadcastToRoom_def
  by (rule follows_read_bind[where G = "Some m"])
    (use assms in \<open>auto intro!: halts follows_broadcast_closed simp: Broadcast_def split: option.split\<close>)

lemma joined_room_halting: "halting (joined_room c r)"
  unfolding joined_room_def by (intro halts)

lemma joined_room_follows:
  assumes "c \<in> set (v_clients v) \<or> v_closed v c" and "v_rooms v r = Some m" and "c \<in> set (rm_clients m)"
  shows "follows v (joined_room c r) (\<lambda>_ v'. \<not> v_closed v c
     \<and> v' = v\<lparr>v_rooms_of := (v_rooms_of v)(c := List.insert r (v_rooms_of v c))\<rparr>)"
proof -
  let ?v = "v\<lparr>v_rooms_of := (v_rooms_of v)(c := List.insert r (v_rooms_of v c))\<rparr>"
  have "follows ?v (do { _ \<leftarrow> broadcastToRoom r ev; st \<leftarrow> hub_read h_store;
      if st then send_history c r else return () }) (\<lambda>_ v'. \<not> v_closed v c \<and> v' = ?v)" for ev
  proof (cases "v_closed v c")
    case True
    then show ?thesis
      using assms by (intro follows_bind[OF broadcast_closed_follows] halts) auto
  next
    case False
    then show ?thesis
      by (intro follows_quiet quiet.he_rules TrueI) simp
  qed
  then show ?thesis
    unfolding joined_room_def
    by (intro follows_bind[OF set_rooms_follows] follows_quiet_bind[OF quiet.he_read] halts)
      (use assms in auto)
qed

lemma room_add_follows:
  assumes "v_rooms v r = Some m"
  shows "follows v (room_add r c) (\<lambda>x v'. x = fst (AddClient c m)
     \<and> v' = v\<lparr>v_rooms := (v_rooms v)(r \<mapsto> snd (AddClient c m))\<rparr>)"
  unfolding room_add_def
  by (rule follows_read_bind[where G = "Some m"])
    (use assms in \<open>auto intro!: halts follows_do_bind follows_return simp: view_def split: option.split\<close>)

lemma ensureRoom_follows:
  "follows v (ensureRoom r) (\<lambda>_ v'. v' = (case v_rooms v r of Some _ \<Rightarrow> v
     | None \<Rightarrow> v\<lparr>v_rooms := (v_rooms v)(r \<mapsto> NewRoom r)\<rparr>))"
  unfolding ensureRoom_def by (rule follows_do) (auto simp: view_def split: option.split)

lemma joinRoom_follows:
  assumes "c \<in> set (v_clients v) \<or> v_closed v c"
  shows "follows v (joinRoom c r) (\<lambda>_ v'. \<not> v_closed v c \<and>
     v' = (if r = '''' \<or> c \<in> members v r then v else v_join c r v))"
proof (cases "r = ''''")
  case True
  then show ?thesis
    by (simp add: joinRoom_def follows_send)
next
  case False
  let ?v = "case v_rooms v r of Some _ \<Rightarrow> v | None \<Rightarrow> v\<lparr>v_rooms := (v_rooms v)(r \<mapsto> NewRoom r)\<rparr>"
  let ?m = "case v_rooms v r of Some m \<Rightarrow> m | None \<Rightarrow> NewRoom r"
  have m: "v_rooms ?v r = Some ?m" "members v r = set (rm_clients ?m)"
    by (auto simp: members_def NewRoom_def split: option.split)
  have "follows (?v\<lparr>v_rooms := (v_rooms ?v)(r \<mapsto> snd (AddClient c ?m))\<rparr>)
      (if \<not> fst (AddClient c ?m) then hub_send c e else joined_room c r)
      (\<lambda>_ v'. \<not> v_closed v c \<and> v' = (if r = '''' \<or> c \<in> members v r then v else v_join c r v))" for e
  proof (cases "c \<in> members v r")
    case True
    then have "?v\<lparr>v_rooms := (v_rooms ?v)(r \<mapsto> snd (AddClient c ?m))\<rparr> = v"
      by (auto simp: AddClient_def members_def intro!: hview.equality split: option.splits)
    with True show ?thesis
      by (simp add: AddClient_def m(2) follows_send)
  next
    case F: False
    let ?u = "?v\<lparr>v_rooms := (v_rooms ?v)(r \<mapsto> ?m\<lparr>rm_clients := rm_clients ?m @ [c]\<rparr>)\<rparr>"
    have add: "AddClient c ?m = (True, ?m\<lparr>rm_clients := rm_clients ?m @ [c]\<rparr>)"
      using F by (simp add: AddClient_def m(2))
    have "follows ?u (joined_room c r) (\<lambda>_ v'. \<not> v_closed ?u c
        \<and> v' = ?u\<lparr>v_rooms_of := (v_rooms_of ?u)(c := List.insert r (v_rooms_of ?u c))\<rparr>)"
      using assms by (intro joined_room_follows) (auto split: option.split)
    moreover have "v_closed ?u c = v_closed v c" by (simp split: option.split)
    moreover have "?u\<lparr>v_rooms_of := (v_rooms_of ?u)(c := List.insert r (v_rooms_of ?u c))\<rparr> = v_join c r v"
      by (auto simp: v_join_def NewRoom_def split: option.split)
    ultimately show ?thesis using F False by (simp add: add)
  qed
  then have "follows ?v (do { added \<leftarrow> room_add r c;
      if \<not> added then hub_send c (room_error r ErrCodeAlreadyJoined ErrAlreadyJoined) else joined_room c r })
      (\<lambda>_ v'. \<not> v_closed v c \<and> v' = (if r = '''' \<or> c \<in> members v r then v else v_join c r v))"
    by (intro follows_bind[OF room_add_follows[OF m(1)]] halts joined_room_halting) auto
  then show ?thesis
    unfolding joinRoom_def if_not_P[OF False]
    by (intro follows_bind[OF ensureRoom_follows])
      (auto simp: room_add_def intro!: halts joined_room_halting)
qed

lemma members_v_join: "members (v_join c r v) = (members v)(r := insert c (members v r))"
  by (auto simp: members_def v_join_def NewRoom_def fun_eq_iff split: option.splits)

lemma room_inv_join:
  assumes inv: "room_inv v" and "c \<in> set (v_clients v)" and "c \<notin> members v r"
  shows "room_inv (v_join c r v)"
proof -
  have rooms: "rm_Name m = r' \<and> distinct (rm_clients m) \<and> rm_clients m \<noteq> []"
    if "v_rooms (v_join c r v) r' = Some m" for r' m
    using assms that
    by (auto simp: room_inv_def v_join_def members_def NewRoom_def split: option.splits if_splits)
  have fields: "v_rooms_of (v_join c r v) = (v_rooms_of v)(c := List.insert r (v_rooms_of v c))"
    "v_clients (v_join c r v) = v_clients v" "v_closed (v_join c r v) = v_closed v"
    by (simp_all add: v_join_def)
  show ?thesis
    using assms rooms unfolding room_inv_def by (auto simp: members_v_join fields)
qed

section \<open>Removing a client\<close>

lemma leave_all_follows:
  "room_inv v \<Longrightarrow> follows v (hub_each (leaveRoom c) rs) (\<lambda>_ v'. v' = fold (v_leave c) rs v)"
proof (induction rs arbitrary: v)
  case Nil
  then show ?case by (auto intro: follows_return)
next
  case (Cons r rs)
  then show ?case
    unfolding hub_each.simps
    by (intro follows_bind[OF leaveRoom_follows]) (auto intro!: halts halting_handlers room_inv_leave)
qed

lemma fold_leave:
  "room_inv v \<Longrightarrow> room_inv (fold (v_leave c) rs v) \<and> v_clients (fold (v_leave c) rs v) = v_clients v
     \<and> v_closed (fold (v_leave c) rs v) = v_closed v
     \<and> members (fold (v_leave c) rs v) = (\<lambda>r. if r \<in> set rs then members v r - {c} else members v r)"
proof (induction rs arbitrary: v)
  case (Cons r rs)
  then show ?case
    using Cons.IH[OF room_inv_leave[OF Cons.prems, of c r]] by (auto simp: members_v_leave fun_eq_iff)
qed auto

definition v_remove :: "cptr \<Rightarrow> hview \<Rightarrow> hview" where
  "v_remove c v = (fold (v_leave c) (v_rooms_of v c) v)
     \<lparr>v_clients := removeAll c (v_clients v), v_closed := (v_closed v)(c := True)\<rparr>"

lemma members_v_remove:
  assumes "room_inv v"
  shows "members (v_remove c v) = (\<lambda>r. members v r - {c})"
proof -
  have "members (v_remove c v) = members (fold (v_leave c) (v_rooms_of v c) v)"
    by (simp add: v_remove_def members_def fun_eq_iff)
  then show ?thesis
    using fold_leave[OF assms, of c "v_rooms_of v c"] assms by (auto simp: room_inv_def fun_eq_iff)
qed

lemma room_inv_remove:
  assumes "room_inv v"
  shows "room_inv (v_remove c v)"
proof -
  let ?u = "fold (v_leave c) (v_rooms_of v c) v"
  have u: "room_inv ?u" using fold_leave[OF assms] by blast
  have m: "members (v_remove c v) = members ?u"
    by (simp add: v_remove_def members_def fun_eq_iff)
  have "members ?u r \<subseteq> set (removeAll c (v_clients v))" for r
    using members_v_remove[OF assms, of c] assms unfolding m by (auto simp: room_inv_def)
  moreover have "v_rooms_of (v_remove c v) = v_rooms_of ?u" "v_rooms (v_remove c v) = v_rooms ?u"
    "v_clients (v_remove c v) = removeAll c (v_clients v)" "v_closed (v_remove c v) = (v_closed v)(c := True)"
    by (simp_all add: v_remove_def)
  ultimately show ?thesis
    using u assms unfolding room_inv_def m by (auto simp: distinct_removeAll)
qed

lemma deregister_world:
  assumes "bookkeeping w" and "c \<in> set (h_clients w)"
    and w': "w' = upd_client c (\<lambda>cl. cl\<lparr>cl_Events := cl_Events cl\<lparr>ch_closed := True\<rparr>\<rparr>)
        (w\<lparr>h_clients := removeAll c (h_clients w), h_userClients := uc\<rparr>)"
  shows "bookkeeping w' \<and> view w' =
    (view w)\<lparr>v_clients := removeAll c (h_clients w), v_closed := (v_closed (view w))(c := True)\<rparr>"
proof
  have eqs: "next_cptr w' = next_cptr w" "h_register w' = h_register w" "has_commands w' d = has_commands w d"
    "h_clients w' = removeAll c (h_clients w)" "cl_Rooms (heap w' d) = cl_Rooms (heap w d)"
    "ch_closed (cl_Events (heap w' d)) = (d = c \<or> ch_closed (cl_Events (heap w d)))" for d
    by (auto simp: w' upd_client_def has_commands_def)
  have "untouched w d \<Longrightarrow> untouched w' d" for d
    using assms(2) by (auto simp: untouched_def eqs)
  then show "bookkeeping w'"
    using assms(1) by (auto simp: bookkeeping_def eqs)
  show "view w' = (view w)\<lparr>v_clients := removeAll c (h_clients w), v_closed := (v_closed (view w))(c := True)\<rparr>"
    by (auto simp: w' view_def upd_client_def fun_eq_iff)
qed

lemma deregister_halting: "halting (deregister c)"
  unfolding deregister_def by (intro halts)

lemma deregister_follows:
  assumes "c \<in> set (v_clients v)" and "\<not> v_closed v c"
  shows "follows v (deregister c)
    (\<lambda>_ v'. v' = v\<lparr>v_clients := removeAll c (v_clients v), v_closed := (v_closed v)(c := True)\<rparr>)"
  unfolding follows_def
proof (intro allI impI)
  fix w x w'
  assume w: "bookkeeping w" "view w = v" "status w' = Running" and run: "run_state (deregister c) w = (x, w')"
  have "\<not> ch_closed (cl_Events (heap w c))" using assms(2) w(2) by auto
  moreover have "status w = Running"
    using halting.eb_run[OF deregister_halting run] w(3) by fastforce
  ultimately have "w' = upd_client c (\<lambda>cl. cl\<lparr>cl_Events := cl_Events cl\<lparr>ch_closed := True\<rparr>\<rparr>)
      (w\<lparr>h_clients := removeAll c (h_clients w), h_userClients :=
        (if cl_UserID (heap w c) > 0 then (h_userClients w)(cl_UserID (heap w c) := None) else h_userClients w)\<rparr>)"
    using run by (simp add: deregister_def hub_do_def hub_close_def chan_close_def upd_client_def split: if_splits)
  from deregister_world[OF w(1) _ this] assms(1) w(2)
  show "bookkeeping w' \<and> view w' = v\<lparr>v_clients := removeAll c (v_clients v), v_closed := (v_closed v)(c := True)\<rparr>"
    by auto
qed

lemma removeClient_follows:
  assumes "room_inv v"
  shows "follows v (removeClient c) (\<lambda>_ v'. v' = (if c \<in> set (v_clients v) then v_remove c v else v))"
proof (cases "c \<in> set (v_clients v)")
  case False
  show ?thesis
    unfolding removeClient_def
    by (rule follows_read_bind[where G = False])
      (use False in \<open>auto intro!: follows_return halts halting_handlers deregister_halting\<close>)
next
  case True
  let ?u = "fold (v_leave c) (v_rooms_of v c) v"
  have u: "c \<in> set (v_clients ?u)" "\<not> v_closed ?u c" "v_clients ?u = v_clients v" "v_closed ?u = v_closed v"
    using fold_leave[OF assms, of c "v_rooms_of v c"] True assms by (auto simp: room_inv_def)
  then have "follows ?u (deregister c) (\<lambda>_ v'. v' = v_remove c v)"
    using deregister_follows[of c ?u] by (simp add: v_remove_def)
  then have "follows v (do { _ \<leftarrow> hub_each (leaveRoom c) (v_rooms_of v c); deregister c })
      (\<lambda>_ v'. v' = v_remove c v)"
    by (intro follows_bind[OF leave_all_follows[OF assms] deregister_halting]) simp
  then have "follows v (do { rooms \<leftarrow> hub_read (\<lambda>w. cl_Rooms (heap w c));
      _ \<leftarrow> hub_each (leaveRoom c) rooms; deregister c }) (\<lambda>_ v'. v' = v_remove c v)"
    by (intro follows_read_bind[where G = "v_rooms_of v c"])
      (auto intro!: halts halting_handlers deregister_halting)
  then show ?thesis
    unfolding removeClient_def
    by (intro follows_read_bind[where G = True])
      (use True in \<open>auto intro!: halts halting_handlers deregister_halting\<close>)
qed

section \<open>The main loop\<close>

definition spec_command :: "cptr \<Rightarrow> Command \<Rightarrow> hub_spec \<Rightarrow> hub_spec" where
  "spec_command c cmd s = (case cmd_Kind cmd of
       CommandJoinRoom \<Rightarrow> spec_join c (cmd_Room cmd) s
     | CommandLeaveRoom \<Rightarrow> spec_leave c (cmd_Room cmd) s
     | _ \<Rightarrow> s)"

lemma abs_join: "abs_hub (v_join c r v) = (set (v_clients v), (members v)(r := insert c (members v r)))"
  by (simp add: abs_hub_def members_v_join) (simp add: v_join_def)

lemma handleCommand_follows:
  assumes inv: "room_inv v" and c: "c \<in> set (v_clients v) \<or> v_closed v c"
  shows "follows v (handleCommand c cmd) (\<lambda>_ v'. room_inv v' \<and> abs_hub v' = spec_command c cmd (abs_hub v))"
proof -
  have quiet: "follows v m (\<lambda>_ v'. room_inv v' \<and> abs_hub v' = abs_hub v)" if "state_io_rel quiet m" for m :: "unit hubm"
    using that inv by (intro follows_quiet) auto
  have M: "snd (abs_hub v) = members v" "fst (abs_hub v) = set (v_clients v)"
    and same: "(set (v_clients v), members v) = abs_hub v"
    by (simp_all add: abs_hub_def)
  have join: "follows v (joinRoom c r) (\<lambda>_ v'. room_inv v' \<and> abs_hub v' = spec_join c r (abs_hub v))" for r
    by (rule follows_conseq[OF joinRoom_follows[OF c]])
      (use inv c in \<open>auto simp: room_inv_join abs_join spec_join_def insert_absorb M same split: if_splits\<close>)
  have leave: "follows v (leaveRoom c r) (\<lambda>_ v'. room_inv v' \<and> abs_hub v' = spec_leave c r (abs_hub v))" for r
    by (rule follows_conseq[OF leaveRoom_follows]) (use inv in \<open>auto simp: room_inv_leave abs_leave\<close>)
  show ?thesis
    by (cases "cmd_Kind cmd")
      (simp_all add: handleCommand_def spec_command_def join leave quiet quiet.he_handlers quiet.eb_return)
qed

definition hub_inv :: "world \<Rightarrow> bool" where
  "hub_inv w \<longleftrightarrow> (status w = Running \<longrightarrow> bookkeeping w \<and> room_inv (view w))"

definition abs_world :: "world \<Rightarrow> hub_spec" where
  "abs_world w = abs_hub (view w)"

definition run_spec :: "run_case \<Rightarrow> world \<Rightarrow> hub_spec \<Rightarrow> hub_spec" where
  "run_spec k w s = (case k of
       OnRegister \<Rightarrow> (case ch_buf (h_register w) of [] \<Rightarrow> s | c # _ \<Rightarrow> (insert c (fst s), snd s))
     | OnUnregister \<Rightarrow> (case ch_buf (h_unregister w) of [] \<Rightarrow> s | c # _ \<Rightarrow> spec_remove c s)
     | OnCommand \<Rightarrow> (case ch_buf (h_commands w) of [] \<Rightarrow> s | x # _ \<Rightarrow> spec_command (fst x) (snd x) s)
     | OnDone \<Rightarrow> s)"

lemma follows_world:
  assumes "follows (view w) m Q" and "bookkeeping w" and "run_state m w = (x, w')" and "status w' = Running"
  shows "bookkeeping w' \<and> Q x (view w')"
  using assms by (auto simp: follows_def)

lemma spec_remove_unregistered:
  "room_inv v \<Longrightarrow> c \<notin> set (v_clients v) \<Longrightarrow> spec_remove c (abs_hub v) = abs_hub v"
  by (auto simp: room_inv_def abs_hub_def spec_remove_def fun_eq_iff)

lemma abs_remove: "room_inv v \<Longrightarrow> abs_hub (v_remove c v) = spec_remove c (abs_hub v)"
  by (simp add: abs_hub_def spec_remove_def members_v_remove) (auto simp: v_remove_def)

lemma register_case:
  assumes "bookkeeping w" and "room_inv (view w)" and "status w = Running"
  shows "bookkeeping (after (Run_case OnRegister) w) \<and> room_inv (view (after (Run_case OnRegister) w))
    \<and> abs_world (after (Run_case OnRegister) w) = run_spec OnRegister w (abs_world w)"
proof (cases "ch_buf (h_register w)")
  case Nil
  then show ?thesis
    using assms by (simp add: Run_case_def hub_read_def chan_recv_def run_spec_def)
next
  case (Cons c cs)
  then have c: "untouched w c" "c < next_cptr w" "c \<notin> set cs"
    using assms(1) by (auto simp: bookkeeping_def)
  have w': "after (Run_case OnRegister) w = w\<lparr>h_register := (h_register w)\<lparr>ch_buf := cs\<rparr>,
      h_clients := List.insert c (h_clients w), h_userClients := (if cl_UserID (heap w c) > 0
        then (h_userClients w)(cl_UserID (heap w c) \<mapsto> c) else h_userClients w),
      consumers := List.insert c (consumers w)\<rparr>"
    using assms(3) Cons by (simp add: Run_case_def hub_read_def hub_do_def chan_recv_def addClient_def)
  let ?w = "after (Run_case OnRegister) w"
  have un: "untouched ?w d" if "untouched w d" "d \<noteq> c" for d
    using that by (auto simp: untouched_def has_commands_def w')
  have cmds: "has_commands ?w d \<longleftrightarrow> has_commands w d \<or> d = c" for d
    by (auto simp: has_commands_def w')
  have eqs: "next_cptr ?w = next_cptr w" "ch_buf (h_register ?w) = cs" "heap ?w = heap w"
    "set (h_clients ?w) = insert c (set (h_clients w))"
    by (simp_all add: w')
  have "untouched ?w d" if "d \<in> set cs \<or> next_cptr w \<le> d" for d
    using assms(1) that c Cons by (intro un) (auto simp: bookkeeping_def)
  then have "bookkeeping ?w"
    using assms(1) Cons unfolding bookkeeping_def cmds eqs by auto
  moreover have "room_inv (view ?w)"
    using assms(2) c by (auto simp: room_inv_def members_def w' view_def untouched_def)
  moreover have "abs_world ?w = run_spec OnRegister w (abs_world w)"
    using Cons by (simp add: abs_world_def abs_hub_def run_spec_def w' view_def members_def fun_eq_iff)
  ultimately show ?thesis by blast
qed

lemma Run_case_refines:
  assumes inv: "bookkeeping w" "room_inv (view w)" and ok: "status w = Running"
    and run: "run_state (Run_case k) w = (x, w')" and ok': "status w' = Running"
  shows "bookkeeping w' \<and> room_inv (view w') \<and> abs_world w' = run_spec k w (abs_world w)"
proof (cases k)
  case OnRegister
  then show ?thesis using register_case[OF inv ok] run by simp
next
  case OnUnregister
  show ?thesis
  proof (cases "ch_buf (h_unregister w)")
    case Nil
    then show ?thesis
      using OnUnregister run inv by (auto simp: Run_case_def hub_read_def chan_recv_def run_spec_def split: if_splits)
  next
    case (Cons c cs)
    let ?w = "w\<lparr>h_unregister := (h_unregister w)\<lparr>ch_buf := cs\<rparr>\<rparr>"
    have w: "bookkeeping ?w" "view ?w = view w"
      using inv by (auto simp: bookkeeping_def untouched_def has_commands_def view_def)
    have "run_state (removeClient c) ?w = (x, w')"
      using run ok Cons OnUnregister by (simp add: Run_case_def hub_read_def hub_do_def chan_recv_def)
    with follows_world[OF removeClient_follows w(1) this ok'] inv(2) show ?thesis
      using Cons OnUnregister
      by (auto simp: w(2) run_spec_def abs_world_def room_inv_remove abs_remove spec_remove_unregistered
          split: if_splits)
  qed
next
  case OnCommand
  show ?thesis
  proof (cases "ch_buf (h_commands w)")
    case Nil
    then show ?thesis
      using OnCommand run inv by (auto simp: Run_case_def hub_read_def chan_recv_def run_spec_def split: if_splits)
  next
    case (Cons a as)
    let ?w = "w\<lparr>h_commands := (h_commands w)\<lparr>ch_buf := as\<rparr>\<rparr>"
    have cmds: "has_commands ?w d \<Longrightarrow> has_commands w d" for d
      using Cons by (auto simp: has_commands_def)
    have w: "view ?w = view w" by (simp add: view_def)
    have "quiet w ?w" by (rule quietI) (use cmds w in auto)
    then have bk: "bookkeeping ?w" using inv by (simp add: quiet_def)
    have "has_commands w (fst a)" using Cons by (simp add: has_commands_def)
    then have c: "fst a \<in> set (v_clients (view ?w)) \<or> v_closed (view ?w) (fst a)"
      using inv(1) by (auto simp: bookkeeping_def)
    have "run_state (handleCommand (fst a) (snd a)) ?w = (x, w')"
      using run ok Cons OnCommand by (simp add: Run_case_def hub_read_def hub_do_def chan_recv_def)
    with follows_world[OF handleCommand_follows[OF _ c] bk this ok'] inv(2) show ?thesis
      using Cons OnCommand by (simp add: w run_spec_def abs_world_def)
  qed
next
  case OnDone
  then show ?thesis
    using run ok' by (auto simp: Run_case_def hub_do_def split: prod.splits if_splits)
qed

end
