(* ===== verification/Hub_Props.thy ===== *)
theory Hub_Props
  imports Hub_Inv
begin

text \<open>
  The properties of the hub over every run of the system: consistency of rooms and clients, the
  refinement of the membership specification, what a command can send and to whom, and what goes
  wrong when commands and removals overlap.
\<close>

section \<open>Reachable worlds\<close>

lemma env_hub_inv: "hub_inv w \<Longrightarrow> hub_inv (env_step a w)"
  using quiet.R_env[of w a] by (simp add: hub_inv_def quiet_def)

lemma sched_hub_inv: "bookkeeping (w\<lparr>sched := ss\<rparr>) = bookkeeping w" "view (w\<lparr>sched := ss\<rparr>) = view w"
  by (simp_all add: bookkeeping_def untouched_def view_def)

lemma run_hub_inv:
  assumes "hub_inv w" and "status w = Running"
  shows "hub_inv (after (Run_case k) (w\<lparr>sched := ss\<rparr>))"
proof -
  obtain x w' where run: "run_state (Run_case k) (w\<lparr>sched := ss\<rparr>) = (x, w')" by (rule prod.exhaust)
  then show ?thesis
    using Run_case_refines[OF _ _ _ run] assms by (simp add: hub_inv_def sched_hub_inv)
qed

lemma database_hub_inv: "hub_inv (w\<lparr>database := d\<rparr>) = hub_inv w"
  by (simp add: hub_inv_def bookkeeping_def untouched_def view_def)

interpretation hub: inv_machine hub_step hub_inv
  by unfold_locales (auto simp: hub_step_iff env_hub_inv run_hub_inv database_hub_inv)

lemma hub_inv_init: "hub_inv (NewHub st svc d)"
  by (auto simp: hub_inv_def NewHub_def NewClient_def make_chan_def bookkeeping_def untouched_def
      has_commands_def room_inv_def members_def view_def)

abbreviation reachable :: "world \<Rightarrow> bool" where
  "reachable w \<equiv> \<exists>st svc d. hub_step\<^sup>*\<^sup>* (NewHub st svc d) w"

lemma reachable_inv:
  assumes "reachable w" and "status w = Running"
  shows "bookkeeping w" and "room_inv (view w)"
  using assms hub.reach_inv[OF _ hub_inv_init] by (auto simp: hub_inv_def)

text \<open>(C3) Rooms and clients agree. In every reachable state of a running hub, under every interleaving
  with the connections, a client lists a room exactly if the room lists the client; a room is
  stored under its own name, is never empty and never lists a client twice; everyone in a room is
  registered; and the event channel of a registered client is open.\<close>

theorem rooms_and_clients_agree:
  assumes "hub_step\<^sup>*\<^sup>* (NewHub st svc d) w" and "status w = Running"
  shows "(\<forall>c r. r \<in> set (cl_Rooms (heap w c)) \<longleftrightarrow> (\<exists>m. h_rooms w r = Some m \<and> c \<in> set (rm_clients m)))
    \<and> (\<forall>r m. h_rooms w r = Some m \<longrightarrow> rm_Name m = r \<and> rm_clients m \<noteq> [] \<and> distinct (rm_clients m)
         \<and> set (rm_clients m) \<subseteq> set (h_clients w))
    \<and> (\<forall>c \<in> set (h_clients w). \<not> ch_closed (cl_Events (heap w c)))"
proof -
  have inv: "room_inv (view w)" using reachable_inv(2)[of w] assms by blast
  have mem: "c \<in> members (view w) r \<longleftrightarrow> (\<exists>m. h_rooms w r = Some m \<and> c \<in> set (rm_clients m))" for c r
    by (auto simp: members_def split: option.splits)
  have "set (rm_clients m) \<subseteq> set (h_clients w)" if "h_rooms w r = Some m" for r m
    using inv that by (auto simp: room_inv_def members_def split: option.splits)
  with inv show ?thesis unfolding room_inv_def mem by simp
qed

text \<open>(C4) The hub refines its specification. In every reachable state, a case of the main loop that
  ends with the hub still running changes the registered clients and the members of every room as
  the specification of that case says, whatever the other goroutines do meanwhile; and nothing the
  other goroutines do on their own changes them.\<close>

theorem hub_refines_spec:
  assumes "hub_step\<^sup>*\<^sup>* (NewHub st svc d) w" and "status w = Running"
  shows "(status (after (Run_case k) (w\<lparr>sched := ss\<rparr>)) = Running \<longrightarrow>
       abs_world (after (Run_case k) (w\<lparr>sched := ss\<rparr>)) = run_spec k w (abs_world w))
    \<and> abs_world (env_step a w) = abs_world w"
proof -
  have inv: "bookkeeping w" "room_inv (view w)" using reachable_inv[of w] assms by blast+
  obtain x w' where run: "run_state (Run_case k) (w\<lparr>sched := ss\<rparr>) = (x, w')" by (rule prod.exhaust)
  have "run_spec k (w\<lparr>sched := ss\<rparr>) s = run_spec k w s" for s
    by (simp add: run_spec_def split: run_case.split)
  moreover have "abs_world (w\<lparr>sched := ss\<rparr>) = abs_world w"
    by (simp add: abs_world_def sched_hub_inv)
  ultimately show ?thesis
    using Run_case_refines[OF _ _ _ run] inv assms(2) run quiet.R_env[of w a]
    by (auto simp: sched_hub_inv quiet_def abs_world_def)
qed

section \<open>No panics while commands come from registered clients\<close>

definition no_panic :: "hview \<Rightarrow> 'a hubm \<Rightarrow> bool" where
  "no_panic v m \<longleftrightarrow> (\<forall>w. bookkeeping w \<longrightarrow> view w = v \<longrightarrow> status w = Running \<longrightarrow>
     (\<forall>s. status (after m w) \<noteq> Panicked s))"

lemma np_bind:
  assumes "no_panic v m" and "follows v m R" and "\<And>x. halting (k x)"
    and "\<And>x v'. R x v' \<Longrightarrow> no_panic v' (k x)"
  shows "no_panic v (State_Monad.bind m k)"
  unfolding no_panic_def
proof (intro allI impI)
  fix w s
  assume w: "bookkeeping w" "view w = v" "status w = Running"
  obtain x w1 where 1: "run_state m w = (x, w1)" by (rule prod.exhaust)
  obtain y w2 where 2: "run_state (k x) w1 = (y, w2)" by (rule prod.exhaust)
  have np: "status w1 \<noteq> Panicked s" using assms(1) w 1 by (auto simp: no_panic_def)
  have "status w2 \<noteq> Panicked s"
  proof (cases "status w1 = Running")
    case True
    then have "bookkeeping w1 \<and> R x (view w1)" using assms(2) w 1 by (auto simp: follows_def)
    then show ?thesis using assms(4)[of x "view w1"] True 2 by (auto simp: no_panic_def)
  next
    case False
    then show ?thesis using halting.eb_run[OF assms(3) 2] np by simp
  qed
  then show "status (after (State_Monad.bind m k) w) \<noteq> Panicked s" using 1 2 by simp
qed

lemma np_calm: "(\<And>w. status w = Running \<Longrightarrow> status (after m w) = Running) \<Longrightarrow> no_panic v m"
  by (auto simp: no_panic_def)

lemma np_basic:
  "no_panic v (return x)" "no_panic v (hub_read g)" "no_panic v (hub_db n)"
  "(\<And>w. status (f w) = status w) \<Longrightarrow> no_panic v (hub_do f)"
  by (rule np_calm; simp add: hub_read_def hub_db_def hub_do_def)+

lemma np_quiet_bind:
  assumes "no_panic v m" and "state_io_rel quiet m" and "\<And>x. halting (k x)" and "\<And>x. no_panic v (k x)"
  shows "no_panic v (State_Monad.bind m k)"
  by (rule np_bind[OF assms(1) follows_quiet[OF assms(2), where Q = "\<lambda>_ v'. v' = v"]])
    (use assms in auto)

lemma np_send:
  assumes "\<not> v_closed v c"
  shows "no_panic v (hub_send c ev)"
proof -
  have wait: "bookkeeping w \<Longrightarrow> \<not> ch_closed (cl_Events (heap w c)) \<Longrightarrow> status w = Running \<Longrightarrow>
      status (send_wait c ev ss w) \<noteq> Panicked s" for ss w s
  proof (induction c ev ss w rule: send_wait.induct)
    case (1 c ev ss w)
    have "bookkeeping (env_run as w) \<and> \<not> ch_closed (cl_Events (heap (env_run as w) c))" for as
      using quiet.R_env_run[of w as] 1(2,3) by (metis quiet_def view_simps(4))
    with 1 show ?case
      by (subst send_wait.simps)
        (auto simp: chan_send_simps put_event_def upd_client_def split: send_result.split list.split)
  qed
  have "bookkeeping (others_step w)" if "bookkeeping w" for w
    using quiet.R_others[of w] that by (simp add: quiet_def)
  with wait assms show ?thesis
    by (auto simp: no_panic_def hub_send_def hub_do_def Let_def env_closed)
qed

lemma np_try_send:
  assumes "\<not> v_closed v c"
  shows "no_panic v (hub_try_send c ev)"
  using assms
  by (auto simp: no_panic_def hub_try_send_def hub_do_def hub_panic_def env_closed chan_send_simps
      put_event_def upd_client_def split: send_result.split)

lemma np_each_try:
  assumes "\<And>c. c \<in> set cs \<Longrightarrow> \<not> v_closed v c"
  shows "no_panic v (hub_each (\<lambda>c. do { _ \<leftarrow> hub_try_send c ev; return () }) cs)"
  using assms
proof (induction cs)
  case (Cons c cs)
  then show ?case
    unfolding hub_each.simps by (intro np_quiet_bind np_try_send np_basic quiet.he_rules halts) auto
qed (simp add: np_basic)

lemma np_broadcast:
  assumes "\<And>c. c \<in> members v r \<Longrightarrow> \<not> v_closed v c"
  shows "no_panic v (broadcastToRoom r ev)"
  unfolding broadcastToRoom_def
  by (rule np_bind[OF np_basic(2) follows_read[where Q = "\<lambda>x v'. x = v_rooms v r \<and> v' = v"]])
    (use assms in \<open>auto simp: Broadcast_def members_def intro!: halts np_basic np_each_try split: option.splits\<close>)

lemma np_if: "(b \<Longrightarrow> no_panic v m) \<Longrightarrow> (\<not> b \<Longrightarrow> no_panic v n) \<Longrightarrow> no_panic v (if b then m else n)"
  by simp

lemma np_sum:
  "(\<And>e. no_panic v (f e)) \<Longrightarrow> (\<And>y. no_panic v (g y)) \<Longrightarrow> no_panic v (case x of Inl e \<Rightarrow> f e | Inr y \<Rightarrow> g y)"
  by (cases x) auto

lemma np_history: "\<not> v_closed v c \<Longrightarrow> no_panic v (send_history c r)"
  unfolding send_history_def
  by (intro np_quiet_bind np_sum np_if np_basic np_send quiet.he_rules halts)

lemma room_inv_open:
  assumes "room_inv v"
  shows "c \<in> set (v_clients v) \<Longrightarrow> \<not> v_closed v c" and "c \<in> members v r \<Longrightarrow> \<not> v_closed v c"
    and "v_rooms v r = Some m \<Longrightarrow> c \<in> set (rm_clients m) \<Longrightarrow> \<not> v_closed v c"
proof -
  show 1: "c \<in> set (v_clients v) \<Longrightarrow> \<not> v_closed v c" using assms by (simp add: room_inv_def)
  have "members v r \<subseteq> set (v_clients v)" using assms by (simp add: room_inv_def)
  then show 2: "c \<in> members v r \<Longrightarrow> \<not> v_closed v c" using 1 by blast
  then show "v_rooms v r = Some m \<Longrightarrow> c \<in> set (rm_clients m) \<Longrightarrow> \<not> v_closed v c"
    by (simp add: members_def)
qed

lemma np_sendRoomMessage:
  assumes "room_inv v" and "c \<in> set (v_clients v)"
  shows "no_panic v (sendRoomMessage c cmd)"
proof -
  have "\<not> v_closed v c" "\<And>d r. d \<in> members v r \<Longrightarrow> \<not> v_closed v d"
    using room_inv_open[OF assms(1)] assms(2) by auto
  then show ?thesis
    unfolding sendRoomMessage_def Let_def
    by (intro np_quiet_bind np_if np_basic np_send np_broadcast quiet.he_rules halts)
qed

lemma np_joined_room:
  assumes "\<not> v_closed v c" and "c \<in> set (v_clients v)" and "\<And>d. d \<in> members v r \<Longrightarrow> \<not> v_closed v d"
  shows "no_panic v (joined_room c r)"
proof -
  let ?v = "v\<lparr>v_rooms_of := (v_rooms_of v)(c := List.insert r (v_rooms_of v c))\<rparr>"
  have "no_panic ?v (do { name \<leftarrow> hub_read (\<lambda>w. cl_Name (heap w c)); _ \<leftarrow> broadcastToRoom r (ev name);
      st \<leftarrow> hub_read h_store; if st then send_history c r else return () })" for ev
    using assms
    by (intro np_quiet_bind np_if np_basic np_broadcast np_history quiet.he_rules halts)
      (auto simp: members_def)
  then show ?thesis
    unfolding joined_room_def
    by (intro np_bind[OF np_basic(4) set_rooms_follows] halts) (use assms in \<open>auto simp: upd_client_def\<close>)
qed

lemma np_room_add: "no_panic v (room_add r c)"
  by (rule np_calm) (simp add: room_add_def hub_read_def hub_do_def split: option.split)

lemma np_joinRoom:
  assumes inv: "room_inv v" and c: "c \<in> set (v_clients v)"
  shows "no_panic v (joinRoom c r)"
proof (cases "r = ''''")
  case True
  then show ?thesis using assms by (auto simp: joinRoom_def room_inv_def intro: np_send)
next
  case False
  let ?v = "case v_rooms v r of Some _ \<Rightarrow> v | None \<Rightarrow> v\<lparr>v_rooms := (v_rooms v)(r \<mapsto> NewRoom r)\<rparr>"
  let ?m = "case v_rooms v r of Some m \<Rightarrow> m | None \<Rightarrow> NewRoom r"
  have m: "v_rooms ?v r = Some ?m" by (auto split: option.split)
  let ?u = "?v\<lparr>v_rooms := (v_rooms ?v)(r \<mapsto> snd (AddClient c ?m))\<rparr>"
  have u: "v_clients ?u = v_clients v" "v_closed ?u = v_closed v" "\<not> v_closed ?u c" "c \<in> set (v_clients ?u)"
    using assms by (auto simp: room_inv_def split: option.split)
  have mem: "d \<in> members ?u r \<Longrightarrow> \<not> v_closed ?u d" for d
    using room_inv_open[OF inv] c
    by (auto simp: members_def AddClient_def NewRoom_def split: option.splits if_splits)
  have "no_panic ?v (do { added \<leftarrow> room_add r c; if \<not> added then hub_send c e else joined_room c r })" for e
    by (rule np_bind[OF np_room_add room_add_follows[OF m]])
      (use u mem in \<open>auto intro!: halts joined_room_halting np_send np_joined_room\<close>)
  then show ?thesis
    unfolding joinRoom_def if_not_P[OF False] ensureRoom_def
    by (intro np_bind[OF np_basic(4) ensureRoom_follows[unfolded ensureRoom_def]])
      (auto simp: room_add_def intro!: halts joined_room_halting split: option.split)
qed

lemma np_left_room:
  assumes "\<And>d. d \<in> members v r \<Longrightarrow> \<not> v_closed v d"
  shows "no_panic v (left_room c r)"
proof -
  let ?v = "v\<lparr>v_rooms_of := (v_rooms_of v)(c := removeAll r (v_rooms_of v c))\<rparr>"
  have "no_panic ?v (do { name \<leftarrow> hub_read (\<lambda>w. cl_Name (heap w c)); _ \<leftarrow> broadcastToRoom r (ev name);
      hub_do (\<lambda>w. case h_rooms w r of Some m \<Rightarrow> if Empty m then w\<lparr>h_rooms := (h_rooms w)(r := None)\<rparr> else w
           | None \<Rightarrow> w) })" for ev
    using assms
    by (intro np_quiet_bind np_basic np_broadcast quiet.he_rules halts)
      (auto simp: members_def split: option.split)
  then show ?thesis
    unfolding left_room_def
    by (intro np_bind[OF np_basic(4) set_rooms_follows] halts) (auto simp: upd_client_def)
qed

lemma np_leaveRoom:
  assumes inv: "room_inv v" and c: "c \<in> set (v_clients v)"
  shows "no_panic v (leaveRoom c r)"
proof -
  have open_c: "\<not> v_closed v c" using assms by (auto simp: room_inv_def)
  have rem: "no_panic v (do { removed \<leftarrow> room_remove r m c; if \<not> removed then hub_send c e else left_room c r })"
    if "v_rooms v r = Some m" for m e
  proof (rule np_bind[OF _ room_remove_follows])
    show "no_panic v (room_remove r m c)"
      by (rule np_calm) (simp add: room_remove_def hub_do_def)
    fix x v'
    assume "x = fst (RemoveClient c m) \<and> v' = v\<lparr>v_rooms := (v_rooms v)(r \<mapsto> snd (RemoveClient c m))\<rparr>"
    then show "no_panic v' (if \<not> x then hub_send c e else left_room c r)"
      using open_c room_inv_open[OF inv] that
      by (auto intro!: np_send np_left_room simp: members_def RemoveClient_def split: if_splits)
  qed (intro halts left_room_halting)
  show ?thesis
    unfolding leaveRoom_def
    by (rule np_bind[OF np_basic(2) follows_read[where Q = "\<lambda>x v'. x = v_rooms v r \<and> v' = v"]])
      (use rem open_c in \<open>auto intro!: halts left_room_halting np_send simp: room_remove_def split: option.split\<close>)
qed

lemma np_leave_all:
  "room_inv v \<Longrightarrow> c \<in> set (v_clients v) \<Longrightarrow> no_panic v (hub_each (leaveRoom c) rs)"
proof (induction rs arbitrary: v)
  case (Cons r rs)
  then have "no_panic (v_leave c r v) (hub_each (leaveRoom c) rs)"
    by (intro Cons.IH room_inv_leave) auto
  with Cons.prems show ?case
    unfolding hub_each.simps
    by (intro np_bind[OF np_leaveRoom leaveRoom_follows]) (auto intro!: halts halting_handlers)
qed (simp add: np_basic)

lemma np_close: "\<not> v_closed v c \<Longrightarrow> no_panic v (hub_close c)"
  by (auto simp: no_panic_def hub_close_def chan_close_def hub_do_def upd_client_def)

lemma np_deregister: "\<not> v_closed v c \<Longrightarrow> no_panic v (deregister c)"
  by (auto simp: no_panic_def deregister_def hub_close_def chan_close_def hub_do_def upd_client_def)

lemma np_removeClient:
  assumes "room_inv v"
  shows "no_panic v (removeClient c)"
proof (cases "c \<in> set (v_clients v)")
  case False
  show ?thesis
    unfolding removeClient_def
    by (rule np_bind[OF np_basic(2) follows_read[where Q = "\<lambda>x v'. x = False"]])
      (use False in \<open>auto intro!: np_basic halts halting_handlers deregister_halting\<close>)
next
  case True
  have "\<not> v_closed (fold (v_leave c) rs v) c" for rs
    using fold_leave[OF assms, of c rs] room_inv_open(1)[OF assms True] by simp
  then have "no_panic v (do { _ \<leftarrow> hub_each (leaveRoom c) rs; deregister c })" for rs
    by (intro np_bind[OF np_leave_all[OF assms True] leave_all_follows[OF assms] deregister_halting])
      (auto intro: np_deregister)
  then have "no_panic v (do { rooms \<leftarrow> hub_read (\<lambda>w. cl_Rooms (heap w c));
      _ \<leftarrow> hub_each (leaveRoom c) rooms; deregister c })"
    by (rule np_quiet_bind[OF np_basic(2) quiet.he_read, rotated])
      (intro halts halting_handlers deregister_halting)
  from np_if[OF np_basic(1) this] show ?thesis
    unfolding removeClient_def
    by (rule np_quiet_bind[OF np_basic(2) quiet.he_read, rotated])
      (intro halts halting_handlers deregister_halting)
qed

lemma closing_all:
  "status w = Running \<Longrightarrow> distinct cs \<Longrightarrow> (\<And>c. c \<in> set cs \<Longrightarrow> \<not> ch_closed (cl_Events (heap w c))) \<Longrightarrow>
    status (after (hub_each hub_close cs) w) = Running"
proof (induction cs arbitrary: w)
  case (Cons c cs)
  let ?w = "upd_client c (\<lambda>cl. cl\<lparr>cl_Events := cl_Events (heap w c)\<lparr>ch_closed := True\<rparr>\<rparr>) w"
  have "run_state (hub_close c) w = ((), ?w)"
    using Cons.prems by (simp add: hub_close_def chan_close_def hub_do_def)
  moreover have "status (after (hub_each hub_close cs) ?w) = Running"
    by (rule Cons.IH) (use Cons.prems in \<open>auto simp: upd_client_def\<close>)
  ultimately show ?case by simp
qed simp

text \<open>The commands the room handlers serve, from a client that is registered.\<close>

definition served :: "world \<Rightarrow> run_case \<Rightarrow> bool" where
  "served w k = (case k of OnCommand \<Rightarrow> (case ch_buf (h_commands w) of [] \<Rightarrow> True
       | x # _ \<Rightarrow> fst x \<in> set (h_clients w) \<and> \<not> is_call_kind (cmd_Kind (snd x)))
     | _ \<Rightarrow> True)"

lemma np_handleCommand:
  assumes "room_inv v" and "c \<in> set (v_clients v)" and "\<not> is_call_kind (cmd_Kind cmd)"
  shows "no_panic v (handleCommand c cmd)"
  using assms
  by (cases "cmd_Kind cmd")
    (auto simp: handleCommand_def np_joinRoom np_leaveRoom np_sendRoomMessage np_basic)

lemma np_pop:
  assumes "\<And>v. v = view w \<Longrightarrow> no_panic v m" and "quiet w w1" and "bookkeeping w" and "status w1 = Running"
  shows "status (after m w1) \<noteq> Panicked s"
  using assms by (auto simp: no_panic_def quiet_def)

lemma Run_case_no_panic:
  assumes inv: "bookkeeping w" "room_inv (view w)" and ok: "status w = Running" and "served w k"
  shows "status (after (Run_case k) w) \<noteq> Panicked s"
proof (cases k)
  case OnRegister
  then show ?thesis
    using ok by (simp add: Run_case_def hub_read_def hub_do_def addClient_def split: recv_result.split)
next
  case OnUnregister
  have "status (after (removeClient c) (w\<lparr>h_unregister := ch\<rparr>)) \<noteq> Panicked s" for c ch
    by (rule np_pop[OF np_removeClient _ inv(1)])
      (use inv ok in \<open>auto intro!: quietI simp: view_def has_commands_def\<close>)
  then show ?thesis
    using OnUnregister ok by (simp add: Run_case_def hub_read_def hub_do_def split: recv_result.split)
next
  case OnCommand
  show ?thesis
  proof (cases "ch_buf (h_commands w)")
    case Nil
    then show ?thesis
      using OnCommand ok by (simp add: Run_case_def hub_read_def chan_recv_def)
  next
    case (Cons a as)
    let ?w = "w\<lparr>h_commands := (h_commands w)\<lparr>ch_buf := as\<rparr>\<rparr>"
    have "quiet w ?w" by (rule quietI) (use Cons in \<open>auto simp: view_def has_commands_def\<close>)
    then have "status (after (handleCommand (fst a) (snd a)) ?w) \<noteq> Panicked s"
      using assms(4) OnCommand Cons inv ok
      by (intro np_pop[OF np_handleCommand]) (auto simp: served_def)
    then show ?thesis
      using OnCommand Cons ok by (simp add: Run_case_def hub_read_def hub_do_def chan_recv_def)
  qed
next
  case OnDone
  have "status (after shutdown w) = Running"
    using closing_all[OF ok, of "h_clients w"] inv(2) by (simp add: shutdown_def hub_read_def room_inv_def)
  then show ?thesis
    using OnDone by (cases "run_state shutdown w") (simp add: Run_case_def hub_do_def)
qed

text \<open>(C27) Room traffic never crashes the hub. In every reachable state, whatever the other goroutines do
  meanwhile, registering and removing clients, shutting down, and handling a room command of a
  registered client never panic: no event is sent on a closed channel and no channel is closed
  twice.\<close>

theorem room_traffic_never_panics:
  assumes "hub_step\<^sup>*\<^sup>* (NewHub st svc d) w" and "status w = Running" and "served w k"
  shows "status (after (Run_case k) (w\<lparr>sched := ss\<rparr>)) \<noteq> Panicked s"
proof -
  have "bookkeeping w" "room_inv (view w)" using reachable_inv[of w] assms by blast+
  moreover have "served (w\<lparr>sched := ss\<rparr>) k = served w k"
    by (simp add: served_def cong: run_case.case_cong list.case_cong)
  ultimately show ?thesis
    using assms by (intro Run_case_no_panic) (auto simp: sched_hub_inv)
qed

section \<open>Concrete runs\<close>

datatype sys_step = HubStep run_case "env_action list list" | EnvStep env_action

fun run_sys :: "sys_step list \<Rightarrow> world \<Rightarrow> world" where
  "run_sys [] w = w"
| "run_sys (EnvStep a # ss) w = run_sys ss (env_step a w)"
| "run_sys (HubStep k sch # ss) w =
     run_sys ss (if status w = Running then after (Run_case k) (w\<lparr>sched := sch\<rparr>) else w)"

lemma run_sys_reach: "hub_step\<^sup>*\<^sup>* w (run_sys ss w)"
proof (induction ss w rule: run_sys.induct)
  case (2 a ss w)
  then show ?case by (auto intro: converse_rtranclp_into_rtranclp hub_step.env)
next
  case (3 k sch ss w)
  then show ?case by (auto intro: converse_rtranclp_into_rtranclp hub_step.run)
qed simp

lemma run_sys_snoc: "run_sys (ss @ [HubStep k sch]) w = (if status (run_sys ss w) = Running
      then after (Run_case k) ((run_sys ss w)\<lparr>sched := sch\<rparr>) else run_sys ss w)"
  by (induction ss w rule: run_sys.induct) auto

lemmas run_world = env_step.simps RegisterClient_def UnregisterClient_def consumeCommands_def upd_client_def
  NewHub_def NewClient_def make_chan_def chan_send_def chan_recv_def chan_close_def Let_def Run_case_def
  hub_read_def hub_do_def addClient_def handleCommand_def hub_panic_def

definition join_general :: Command where
  "join_general = (new_command CommandJoinRoom)\<lparr>cmd_Room := ''general''\<rparr>"

definition demo_start :: world where
  "demo_start = NewHub False None (init_db 0)"

lemma demo_reach: "hub_step\<^sup>*\<^sup>* (NewHub False None (init_db 0)) (run_sys ss demo_start)"
  unfolding demo_start_def by (rule run_sys_reach)

definition demo_steps :: "sys_step list" where
  "demo_steps = [EnvStep (Connect ''a''), HubStep OnRegister [], EnvStep (Enqueue 0 join_general),
     EnvStep (Consume 0), EnvStep (Consume 0)]"

lemma demo_world:
  "status (run_sys demo_steps demo_start) = Running"
  "ch_buf (h_commands (run_sys demo_steps demo_start)) = [(0, join_general)]"
  "h_clients (run_sys demo_steps demo_start) = [0]"
  by (simp_all add: demo_steps_def demo_start_def run_world)

lemma demo_joined:
  "status (run_sys (demo_steps @ [HubStep OnCommand []]) demo_start) = Running"
  "h_rooms (run_sys (demo_steps @ [HubStep OnCommand []]) demo_start) ''general'' =
     Some \<lparr>rm_Name = ''general'', rm_clients = [0]\<rparr>"
  by (simp_all add: demo_steps_def demo_start_def run_world join_general_def new_command_def joinRoom_def
      ensureRoom_def room_add_def AddClient_def NewRoom_def joined_room_def broadcastToRoom_def Broadcast_def
      hub_try_send_def others_step_def put_event_def)

text \<open>The run in which the client is removed while its command is on the way.\<close>

definition late_steps :: "sys_step list" where
  "late_steps = [EnvStep (Connect ''a''), HubStep OnRegister [], EnvStep (Enqueue 0 join_general),
     EnvStep (Consume 0), EnvStep (Disconnect 0), HubStep OnUnregister [], EnvStep (Consume 0)]"

lemma late_world:
  "status (run_sys late_steps demo_start) = Running"
  "ch_buf (h_commands (run_sys late_steps demo_start)) = [(0, join_general)]"
  "h_clients (run_sys late_steps demo_start) = []"
  by (simp_all add: late_steps_def demo_start_def run_world removeClient_def deregister_def hub_close_def)

theorem rooms_and_clients_agree_witness:
  "''general'' \<in> set (cl_Rooms (heap (run_sys (demo_steps @ [HubStep OnCommand []]) demo_start) 0))"
  using rooms_and_clients_agree[OF demo_reach demo_joined(1)] demo_joined(2) by simp

theorem hub_refines_spec_witness:
  "snd (abs_world (run_sys (demo_steps @ [HubStep OnCommand []]) demo_start)) ''general'' = {0}"
proof -
  let ?w = "run_sys demo_steps demo_start"
  have "snd (abs_world ?w) ''general'' = {}"
    by (simp add: abs_world_def abs_hub_def members_def demo_steps_def demo_start_def run_world)
  then show ?thesis
    using hub_refines_spec[OF demo_reach demo_world(1), of OnCommand "[]"] demo_world demo_joined(1)
    by (simp add: run_sys_snoc run_spec_def spec_command_def spec_join_def join_general_def new_command_def)
qed

theorem room_traffic_never_panics_witness:
  "status (after (Run_case OnCommand) ((run_sys demo_steps demo_start)\<lparr>sched := [[Receive 0]]\<rparr>)) \<noteq> Panicked ''x''"
  using room_traffic_never_panics[OF demo_reach demo_world(1)]
  by (simp add: served_def demo_world join_general_def new_command_def)

section \<open>A command that arrives after its client was removed\<close>

lemma send_closed_panics:
  assumes "bookkeeping w" and "ch_closed (cl_Events (heap w c))" and "status w = Running"
  shows "status (after (hub_send c ev) w) = Panicked ''send on closed channel''"
  using assms env_closed[OF assms(1), of c]
  by (simp add: hub_send_def hub_do_def Let_def send_wait.simps[of c ev _ "others_step w"] chan_send_def)

lemma try_send_status:
  "status w \<in> {Running, Panicked ''send on closed channel''} \<Longrightarrow>
    status (after (hub_try_send c ev) w) \<in> {Running, Panicked ''send on closed channel''}"
  by (auto simp: hub_try_send_def hub_do_def hub_panic_def put_event_def upd_client_def split: send_result.split)

lemma broadcast_status:
  "status w \<in> {Running, Panicked ''send on closed channel''} \<Longrightarrow>
    status (after (broadcastToRoom r ev) w) \<in> {Running, Panicked ''send on closed channel''}"
proof -
  have each: "status w \<in> {Running, Panicked ''send on closed channel''} \<Longrightarrow>
    status (after (hub_each (\<lambda>c. do { _ \<leftarrow> hub_try_send c ev; return () }) cs) w)
      \<in> {Running, Panicked ''send on closed channel''}" for cs w
    using try_send_status by (induction cs arbitrary: w) (auto split: prod.split simp: case_prod_beta)
  show "status w \<in> {Running, Panicked ''send on closed channel''} \<Longrightarrow>
    status (after (broadcastToRoom r ev) w) \<in> {Running, Panicked ''send on closed channel''}"
    using each by (auto simp: broadcastToRoom_def hub_read_def Broadcast_def split: option.split)
qed

lemma joined_room_closed:
  assumes w: "bookkeeping w" "status w = Running" "ch_closed (cl_Events (heap w c))"
    and m: "h_rooms w r = Some m" "c \<in> set (rm_clients m)"
  shows "status (after (joined_room c r) w) = Panicked ''send on closed channel''"
proof -
  let ?f = "upd_client c (\<lambda>cl. cl\<lparr>cl_Rooms := List.insert r (cl_Rooms cl)\<rparr>)"
  have 1: "run_state (hub_do ?f) w = ((), ?f w)" using w by (simp add: hub_do_def)
  have st: "status (?f w) = Running" using w by (simp add: upd_client_def)
  have bk: "bookkeeping (?f w)"
    using follows_world[OF set_rooms_follows w(1) 1 st] w(3) by auto
  obtain x w2 where 2: "run_state (broadcastToRoom r ((new_event EventUserJoined)
      \<lparr>ev_Room := r, ev_User := cl_Name (heap (?f w) c)\<rparr>)) (?f w) = (x, w2)" by (rule prod.exhaust)
  have v: "v_rooms (view (?f w)) r = Some m" "v_closed (view (?f w)) c"
    using m(1) w(3) by (simp_all add: view_def upd_client_def)
  have "status w2 \<noteq> Running"
    using follows_world[OF broadcast_closed_follows[OF v(1) m(2) v(2)] bk 2] by blast
  then have w2: "status w2 = Panicked ''send on closed channel''"
    using broadcast_status[of "?f w" r "(new_event EventUserJoined)
      \<lparr>ev_Room := r, ev_User := cl_Name (heap (?f w) c)\<rparr>"] st unfolding 2 by simp
  have "halting (do { st \<leftarrow> hub_read h_store; if st then send_history c r else return () })"
    by (intro halts)
  from halting.eb_after[OF this, of w2] w2 show ?thesis
    by (simp add: joined_room_def 1 2 hub_read_def)
qed

lemma late_join:
  assumes w: "bookkeeping w" "room_inv (view w)" "status w = Running" "ch_closed (cl_Events (heap w c))"
  shows "status (after (joinRoom c r) w) = Panicked ''send on closed channel''"
proof (cases "r = ''''")
  case True
  then show ?thesis using send_closed_panics[OF w(1,4,3)] by (simp add: joinRoom_def)
next
  case False
  let ?m = "case h_rooms w r of Some m \<Rightarrow> m | None \<Rightarrow> NewRoom r"
  let ?w = "w\<lparr>h_rooms := (h_rooms w)(r \<mapsto> ?m\<lparr>rm_clients := rm_clients ?m @ [c]\<rparr>)\<rparr>"
  have c: "c \<notin> set (rm_clients ?m)"
    using room_inv_open(3)[OF w(2), of r _ c] w(4) by (auto simp: NewRoom_def split: option.split)
  have "after (joinRoom c r) w = after (joined_room c r) ?w"
    using w(3) False c
    by (auto simp: joinRoom_def ensureRoom_def room_add_def hub_do_def hub_read_def AddClient_def
        NewRoom_def split: option.splits)
  moreover have "status (after (joined_room c r) ?w) = Panicked ''send on closed channel''"
    using w by (intro joined_room_closed) auto
  ultimately show ?thesis by simp
qed

lemma late_leave:
  assumes w: "bookkeeping w" "room_inv (view w)" "status w = Running" "ch_closed (cl_Events (heap w c))"
  shows "status (after (leaveRoom c r) w) = Panicked ''send on closed channel''"
proof (cases "h_rooms w r")
  case None
  then show ?thesis
    using send_closed_panics[OF w(1,4,3)] by (simp add: leaveRoom_def hub_read_def)
next
  case (Some m)
  have "c \<notin> set (rm_clients m)" using room_inv_open(3)[OF w(2), of r m c] Some w(4) by auto
  then have "after (leaveRoom c r) w = after (hub_send c (room_error r ErrCodeNotInRoom ErrNotInRoom))
      (w\<lparr>h_rooms := (h_rooms w)(r \<mapsto> m)\<rparr>)"
    using Some w(3) by (simp add: leaveRoom_def hub_read_def room_remove_def hub_do_def RemoveClient_def)
  then show ?thesis
    using send_closed_panics[of "w\<lparr>h_rooms := (h_rooms w)(r \<mapsto> m)\<rparr>" c] w by simp
qed

lemma late_message:
  assumes w: "bookkeeping w" "room_inv (view w)" "status w = Running" "ch_closed (cl_Events (heap w c))"
  shows "status (after (sendRoomMessage c cmd) w) = Panicked ''send on closed channel''"
proof -
  have "c \<notin> members (view w) r" for r
    using room_inv_open(2)[OF w(2), of c r] w(4) by auto
  then have "r \<notin> set (cl_Rooms (heap w c))" for r
    using w(2) by (auto simp: room_inv_def)
  then show ?thesis
    using send_closed_panics[OF w(1,4,3)] by (simp add: sendRoomMessage_def hub_read_def)
qed

text \<open>(C28) A late command crashes the server. \<open>handleCommand\<close> does not check that the client is still
  registered, and \<open>consumeCommands\<close> keeps forwarding after the removal: in every reachable state in
  which the next command is a room command of a client that has been removed, handling it sends on
  the closed channel of that client, and the panic takes the process down.\<close>

theorem late_command_panics:
  assumes "hub_step\<^sup>*\<^sup>* (NewHub st svc d) w" and "status w = Running"
    and "ch_buf (h_commands w) = (c, cmd) # rest" and "c \<notin> set (h_clients w)"
    and "cmd_Kind cmd \<in> {CommandJoinRoom, CommandLeaveRoom, CommandSendRoomMessage}"
  shows "status (after (Run_case OnCommand) (w\<lparr>sched := ss\<rparr>)) = Panicked ''send on closed channel''"
proof -
  let ?w = "w\<lparr>sched := ss, h_commands := (h_commands w)\<lparr>ch_buf := rest\<rparr>\<rparr>"
  have inv: "bookkeeping w" "room_inv (view w)" using reachable_inv[of w] assms(1,2) by blast+
  have "has_commands w c" using assms(3) by (simp add: has_commands_def)
  then have closed: "ch_closed (cl_Events (heap ?w c))"
    using inv(1) assms(4) by (auto simp: bookkeeping_def)
  have v: "view ?w = view w" by (simp add: view_def)
  have "quiet w ?w" by (rule quietI) (use assms(3) in \<open>auto simp: view_def has_commands_def\<close>)
  then have bk: "bookkeeping ?w" "room_inv (view ?w)" "status ?w = Running"
    using inv assms(2) v by (auto simp: quiet_def)
  have "after (Run_case OnCommand) (w\<lparr>sched := ss\<rparr>) = after (handleCommand c cmd) ?w"
    using assms(2,3) by (simp add: Run_case_def hub_read_def hub_do_def chan_recv_def)
  then show ?thesis
    using assms(5) late_join[OF bk closed] late_leave[OF bk closed] late_message[OF bk closed]
    by (auto simp: handleCommand_def)
qed

theorem late_command_panics_witness:
  "status (run_sys (late_steps @ [HubStep OnCommand []]) demo_start) = Panicked ''send on closed channel''"
  using late_command_panics[OF demo_reach late_world(1,2)] late_world(1,3)
  by (simp add: run_sys_snoc join_general_def new_command_def)

end
