(* ===== verification/Hub_Messages.thy ===== *)
theory Hub_Messages
  imports Hub_Props "HOL-Library.Sublist"
begin

text \<open>
  What the hub sends, to whom, and what it stores: the recipients and the delivery of a room
  message, its row in the database, the guard of the call commands, and the map from users to
  their connections.
\<close>

section \<open>What the other goroutines and a send leave alone\<close>

lemma env_keeps [simp]:
  "sent (env_step a w) = sent w" "database (env_step a w) = database w" "h_rooms (env_step a w) = h_rooms w"
  "h_store (env_step a w) = h_store w" "h_userClients (env_step a w) = h_userClients w"
  "h_clients (env_step a w) = h_clients w" "h_callService (env_step a w) = h_callService w"
  by (cases a; auto simp: RegisterClient_def UnregisterClient_def consumeCommands_def upd_client_def
      Let_def split: send_result.split recv_result.split option.split)+

lemma env_run_keeps [simp]:
  "sent (env_run as w) = sent w" "database (env_run as w) = database w" "h_rooms (env_run as w) = h_rooms w"
  "h_userClients (env_run as w) = h_userClients w" "h_clients (env_run as w) = h_clients w"
  unfolding env_run_def by (induction as arbitrary: w) auto

lemma others_keeps [simp]:
  "sent (others_step w) = sent w" "database (others_step w) = database w" "h_rooms (others_step w) = h_rooms w"
  "h_userClients (others_step w) = h_userClients w" "h_clients (others_step w) = h_clients w"
  by (auto simp: others_step_def split: list.split)

lemma put_event_keeps [simp]:
  "database (put_event c ev ch w) = database w" "h_rooms (put_event c ev ch w) = h_rooms w"
  "h_userClients (put_event c ev ch w) = h_userClients w" "status (put_event c ev ch w) = status w"
  "sent (put_event c ev ch w) = sent w @ [(c, ev)]"
  by (simp_all add: put_event_def upd_client_def)

text \<open>The effect of a send: at most one event more in the log, and nothing in the database.\<close>

lemma send_wait_log:
  "sent (send_wait c ev ss w) \<in> {sent w, sent w @ [(c, ev)]} \<and> database (send_wait c ev ss w) = database w"
proof (induction c ev ss w rule: send_wait.induct)
  case (1 c ev ss w)
  then show ?case
    by (subst (1 2) send_wait.simps) (auto split: send_result.split list.split)
qed

lemma hub_send_log:
  "sent (after (hub_send c ev) w) \<in> {sent w, sent w @ [(c, ev)]}"
  "database (after (hub_send c ev) w) = database w"
  using send_wait_log[of c ev "sched (others_step w)" "others_step w"]
  by (auto simp: hub_send_def hub_do_def Let_def)

lemma try_send_log:
  "sent (after (hub_try_send c ev) w) \<in> {sent w, sent w @ [(c, ev)]}"
  "database (after (hub_try_send c ev) w) = database w"
  "h_rooms (after (hub_try_send c ev) w) = h_rooms w"
  by (auto simp: hub_try_send_def hub_do_def hub_panic_def split: send_result.split)

lemma each_try_log:
  "\<exists>ds. subseq ds cs \<and> sent (after (hub_each (\<lambda>c. do { _ \<leftarrow> hub_try_send c ev; return () }) cs) w)
     = sent w @ map (\<lambda>d. (d, ev)) ds"
  and each_try_database:
  "database (after (hub_each (\<lambda>c. do { _ \<leftarrow> hub_try_send c ev; return () }) cs) w) = database w"
proof (induction cs arbitrary: w)
  case (Cons c cs)
  { case 1
    let ?w = "after (hub_try_send c ev) w"
    obtain ds where ds: "subseq ds cs" "sent (after (hub_each (\<lambda>c. do { _ \<leftarrow> hub_try_send c ev; return () }) cs) ?w)
       = sent ?w @ map (\<lambda>d. (d, ev)) ds"
      using Cons.IH(1) by blast
    have "sent ?w = sent w \<or> sent ?w = sent w @ [(c, ev)]"
      using try_send_log(1)[of c ev w] by simp
    then show ?case
    proof
      assume "sent ?w = sent w"
      with ds show ?thesis by (intro exI[of _ ds]) (auto simp: case_prod_beta)
    next
      assume "sent ?w = sent w @ [(c, ev)]"
      with ds show ?thesis by (intro exI[of _ "c # ds"]) (auto simp: case_prod_beta)
    qed
  next
    case 2
    then show ?case using Cons.IH(2) try_send_log(2) by (auto simp: case_prod_beta) }
qed auto

lemma broadcast_log:
  "\<exists>ds. subseq ds (case h_rooms w r of None \<Rightarrow> [] | Some m \<Rightarrow> rm_clients m)
     \<and> sent (after (broadcastToRoom r ev) w) = sent w @ map (\<lambda>d. (d, ev)) ds"
  using each_try_log[of _ ev w]
  by (auto simp: broadcastToRoom_def hub_read_def Broadcast_def split: option.split)

lemma broadcast_database: "database (after (broadcastToRoom r ev) w) = database w"
  by (simp add: broadcastToRoom_def hub_read_def Broadcast_def each_try_database split: option.split)

section \<open>Room messages\<close>

lemma stamp_message_fields [simp]:
  "cm_Room (stamp_message t cl cmd) = cmd_Room cmd" "cm_Text (stamp_message t cl cmd) = cm_Text (cmd_Message cmd)"
  "cm_ID (stamp_message t cl cmd) = cm_ID (cmd_Message cmd)"
  "cm_From (stamp_message t cl cmd) = (if cm_From (cmd_Message cmd) = '''' then cl_Name cl
     else cm_From (cmd_Message cmd))"
  "cm_CreatedAt (stamp_message t cl cmd) = (if cm_CreatedAt (cmd_Message cmd) = zero_time then t
     else cm_CreatedAt (cmd_Message cmd))"
  by (simp_all add: stamp_message_def Let_def)

definition stores_messages :: "world \<Rightarrow> cptr \<Rightarrow> bool" where
  "stores_messages w c \<longleftrightarrow> \<not> cl_IsGuest (heap w c) \<and> cl_UserID (heap w c) > 0 \<and> h_store w"

definition stamped :: "world \<Rightarrow> cptr \<Rightarrow> Command \<Rightarrow> coreMessage" where
  "stamped w c cmd = stamp_message (clock (database w)) (heap w c) cmd"

text \<open>The run of \<open>sendRoomMessage\<close> for a member: first the database, then the broadcast.\<close>

lemma sendRoomMessage_member:
  assumes "cmd_Room cmd \<noteq> ''''" and "cmd_Room cmd \<in> set (cl_Rooms (heap w c))"
  shows "after (sendRoomMessage c cmd) w =
    (let save = save_room_message (cl_UserID (heap w c)) (cmd_Room cmd) (stamped w c cmd);
         i = (if stores_messages w c then result_of save (database w) else cm_ID (cmd_Message cmd));
         w1 = (if stores_messages w c \<and> status w = Running then w\<lparr>database := after save (database w)\<rparr> else w)
     in after (broadcastToRoom (cmd_Room cmd) (room_event cmd ((stamped w c cmd)\<lparr>cm_ID := i\<rparr>))) w1)"
  using assms
  by (auto simp: sendRoomMessage_def hub_read_def hub_db_def hub_do_def run_time_Now stamped_def
      stores_messages_def Let_def)


section \<open>Delivery\<close>

text \<open>A client whose event channel is open and not full; only the hub takes that away.\<close>

definition has_slot :: "world \<Rightarrow> cptr \<Rightarrow> bool" where
  "has_slot w c \<longleftrightarrow> c < next_cptr w \<and> \<not> ch_closed (cl_Events (heap w c))
     \<and> length (ch_buf (cl_Events (heap w c))) < ch_cap (cl_Events (heap w c))"

lemma env_step_slot: "has_slot w c \<Longrightarrow> has_slot (env_step a w) c"
  by (cases a) (auto simp: has_slot_def RegisterClient_def UnregisterClient_def consumeCommands_def
      upd_client_def chan_recv_def Let_def split: send_result.split recv_result.split option.split list.splits)

lemma others_slot: "has_slot w c \<Longrightarrow> has_slot (others_step w) c"
proof -
  have "has_slot v c \<Longrightarrow> has_slot (env_run as v) c" for as v
    unfolding env_run_def by (induction as arbitrary: v) (auto simp: env_step_slot)
  then show "has_slot w c \<Longrightarrow> has_slot (others_step w) c"
    by (auto simp: others_step_def has_slot_def split: list.split)
qed

lemma put_event_slot: "d \<noteq> c \<Longrightarrow> has_slot (put_event c ev ch w) d = has_slot w d"
  by (simp add: put_event_def upd_client_def has_slot_def)

lemma try_send_delivers:
  assumes "status w = Running" and "has_slot w c"
  shows "status (after (hub_try_send c ev) w) = Running \<and> sent (after (hub_try_send c ev) w) = sent w @ [(c, ev)]
    \<and> (\<forall>d. d \<noteq> c \<longrightarrow> has_slot w d \<longrightarrow> has_slot (after (hub_try_send c ev) w) d)"
proof -
  let ?w = "others_step w"
  let ?ch = "(cl_Events (heap ?w c))\<lparr>ch_buf := ch_buf (cl_Events (heap ?w c)) @ [ev]\<rparr>"
  have "chan_send ev (cl_Events (heap ?w c)) = SendOk ?ch"
    using others_slot[OF assms(2)] by (simp add: has_slot_def chan_send_def)
  then have "after (hub_try_send c ev) w = put_event c ev ?ch ?w"
    using assms(1) by (simp add: hub_try_send_def hub_do_def)
  then show ?thesis
    using assms(1) by (simp add: put_event_slot others_slot)
qed

lemma each_try_delivers:
  assumes "status w = Running" and "distinct cs" and "\<forall>d \<in> set cs. has_slot w d"
  shows "status (after (hub_each (\<lambda>c. do { _ \<leftarrow> hub_try_send c ev; return () }) cs) w) = Running
    \<and> sent (after (hub_each (\<lambda>c. do { _ \<leftarrow> hub_try_send c ev; return () }) cs) w) = sent w @ map (\<lambda>d. (d, ev)) cs"
  using assms
proof (induction cs arbitrary: w)
  case (Cons c cs)
  have step: "status (after (hub_try_send c ev) w) = Running \<and> sent (after (hub_try_send c ev) w) = sent w @ [(c, ev)]
    \<and> (\<forall>d. d \<noteq> c \<longrightarrow> has_slot w d \<longrightarrow> has_slot (after (hub_try_send c ev) w) d)"
    using Cons.prems by (intro try_send_delivers) simp_all
  then have one: "status (after (hub_try_send c ev) w) = Running"
      "sent (after (hub_try_send c ev) w) = sent w @ [(c, ev)]" by auto
  have rest: "\<forall>d \<in> set cs. has_slot (after (hub_try_send c ev) w) d"
    using step Cons.prems(2,3) by (metis distinct.simps(2) list.set_intros(2))
  show ?case
    using Cons.IH[OF one(1) _ rest] Cons.prems(2) by (simp add: case_prod_beta one(2))
qed simp

text \<open>The row a message becomes, and the database it leaves behind.\<close>

definition message_row :: "userID \<Rightarrow> roomID \<Rightarrow> coreMessage \<Rightarrow> message" where
  "message_row u r msg = \<lparr>message_ID = 0, message_RoomID = r, message_UserID = u,
     message_Body = cm_Text msg, message_CreatedAt = cm_CreatedAt msg\<rparr>"

lemma save_room_message_run:
  assumes "faults d = []"
  shows "run_state (save_room_message u r msg) d =
    (case List.find (\<lambda>x. room_Name x = r) (t_rooms d) of
       None \<Rightarrow> (cm_ID msg, d)
     | Some x \<Rightarrow> (s_messages d + 1, d\<lparr>t_messages := t_messages d @ [(message_row u (room_ID x) msg)\<lparr>message_ID := s_messages d + 1\<rparr>],
         s_messages := s_messages d + 1\<rparr>))"
proof -
  have find: "List.find P xs = (case filter P xs of [] \<Rightarrow> None | x # _ \<Rightarrow> Some x)" for P and xs :: "room list"
    by (induction xs) auto
  show ?thesis
    using assms
    by (auto simp: save_room_message_def GetRoomByName_def SaveMessage_def run_db find message_row_def
        insert_message_def Let_def not_found_or_def split: list.split)
qed


text \<open>A run that ends with an authenticated client alone in the room \<open>general\<close>.\<close>

definition chat_steps :: "sys_step list" where
  "chat_steps = [EnvStep (Connect ''a''), HubStep OnRegister [], EnvStep (Identify 0 7 ''ann'' False),
     EnvStep (Enqueue 0 join_general), EnvStep (Consume 0), EnvStep (Consume 0), HubStep OnCommand []]"

definition chat_world :: world where
  "chat_world = run_sys chat_steps (NewHub True None (init_db 0))"

definition say_hi :: Command where
  "say_hi = (new_command CommandSendRoomMessage)\<lparr>cmd_Room := ''general'',
     cmd_Message := \<lparr>cm_ID = 0, cm_Room = '''', cm_From = '''', cm_Text = ''hi'', cm_CreatedAt = zero_time\<rparr>\<rparr>"

lemma chat_world_facts:
  "status chat_world = Running" "h_rooms chat_world ''general'' = Some \<lparr>rm_Name = ''general'', rm_clients = [0]\<rparr>"
  "has_slot chat_world 0" "cl_Rooms (heap chat_world 0) = [''general'']" "database chat_world = init_db 0"
  "stores_messages chat_world 0" "cl_UserID (heap chat_world 0) = 7" "h_callService chat_world = None"
  by (simp_all add: chat_world_def chat_steps_def run_world join_general_def new_command_def joinRoom_def
      ensureRoom_def room_add_def AddClient_def NewRoom_def joined_room_def broadcastToRoom_def Broadcast_def
      hub_try_send_def others_step_def put_event_def send_history_def hub_db_def GetRoomByName_def
      run_db init_db_def not_found_or_def ListMessages_def reverse_in_place_def sql_limit_def has_slot_def
      stores_messages_def)


section \<open>The guard of the call commands\<close>

definition call_command :: "Command \<Rightarrow> bool" where
  "call_command cmd \<longleftrightarrow> cmd_Kind cmd \<in> {CommandCallInvite, CommandCallAccept, CommandCallReject,
     CommandCallJoin, CommandCallLeave, CommandCallEnd}"

text \<open>Calls need an authenticated user. A call command of a guest, or of a connection that has
  not been identified, and any call command while calls are disabled, is answered by exactly one
  attempt to send an error event to that client: no one else gets an event, and neither the
  database nor the rooms change.\<close>

theorem calls_need_authentication:
  assumes "call_command cmd"
    and "h_callService w = None \<or> cl_IsGuest (heap w c) \<or> cl_UserID (heap w c) = 0"
  shows "\<exists>ev err. ev_Kind ev = EventError \<and> ev_Error ev = Some err
    \<and> ce_Code err = (if h_callService w = None then ErrCodeCallsDisabled else ErrCodeUnauthorized)
    \<and> after (handleCommand c cmd) w = after (hub_send c ev) w
    \<and> sent (after (handleCommand c cmd) w) \<in> {sent w, sent w @ [(c, ev)]}
    \<and> database (after (handleCommand c cmd) w) = database w"
proof -
  let ?ev = "(new_event EventError)\<lparr>ev_Error := Some (if h_callService w = None
      then coreError ErrCodeCallsDisabled ''calls are not enabled''
      else coreError ErrCodeUnauthorized ''authentication required for calls'')\<rparr>"
  have guard: "after (call_guard c cc body) w = after (hub_send c ?ev) w" for cc body
    using assms(2) by (auto simp: call_guard_def hub_read_def sendCallError_def split: option.split)
  have run: "after (handleCommand c cmd) w = after (hub_send c ?ev) w"
    using assms(1) by (auto simp: call_command_def handleCommand_def handleCallInvite_def handleCallAccept_def
        handleCallReject_def handleCallJoin_def handleCallLeave_def handleCallEnd_def guard)
  show ?thesis
    by (rule exI[of _ ?ev]) (use hub_send_log[of c ?ev w] in \<open>simp add: run new_event_def coreError_def\<close>)
qed

theorem calls_need_authentication_witness:
  "database (after (handleCommand 0 (new_command CommandCallInvite)) chat_world) = init_db 0"
  using calls_need_authentication[of "new_command CommandCallInvite" chat_world 0]
  by (auto simp: call_command_def new_command_def chat_world_facts)

end
