(* ===== verification/Calls_Props.thy ===== *)
theory Calls_Props
  imports Calls
begin

text \<open>
  What the call service guarantees: the life cycle of a call, at most one live call per room, who
  may call, join, reject and end, and when leaving ends a call.
\<close>

section \<open>The database invariant\<close>

lemma add_participants_keeps [db_keeps]:
  "state_io_rel (\<lambda>d d'. db_ok d \<longrightarrow> db_ok d') (add_participants c us)"
  by (induction us) (auto intro!: dbk.de_rules db_keeps)

lemma call_helpers_keep [db_keeps]:
  "state_io_rel (\<lambda>d d'. db_ok d \<longrightarrow> db_ok d') (check_call_privacy a b)"
  "state_io_rel (\<lambda>d d'. db_ok d \<longrightarrow> db_ok d') (participant_for_join i c u)"
  "state_io_rel (\<lambda>d d'. db_ok d \<longrightarrow> db_ok d') (mark_joined p)"
  "state_io_rel (\<lambda>d d'. db_ok d \<longrightarrow> db_ok d') (mark_active c)"
  unfolding check_call_privacy_def participant_for_join_def mark_joined_def mark_active_def Let_def
  by (intro dbk.de_rules db_keeps)+

lemma call_service_keeps [db_keeps]:
  "state_io_rel (\<lambda>d d'. db_ok d \<longrightarrow> db_ok d') (CreateDirectCall s a b)"
  "state_io_rel (\<lambda>d d'. db_ok d \<longrightarrow> db_ok d') (CreateRoomCall s a b)"
  "state_io_rel (\<lambda>d d'. db_ok d \<longrightarrow> db_ok d') (GetCall i)"
  "state_io_rel (\<lambda>d d'. db_ok d \<longrightarrow> db_ok d') (GetJoinInfo s i u)"
  "state_io_rel (\<lambda>d d'. db_ok d \<longrightarrow> db_ok d') (EndCall s i u)"
  "state_io_rel (\<lambda>d d'. db_ok d \<longrightarrow> db_ok d') (ListActiveCalls u)"
  "state_io_rel (\<lambda>d d'. db_ok d \<longrightarrow> db_ok d') (RejectCall i u r)"
  "state_io_rel (\<lambda>d d'. db_ok d \<longrightarrow> db_ok d') (LeaveCall i u)"
  "state_io_rel (\<lambda>d d'. db_ok d \<longrightarrow> db_ok d') (GetTargetUser u)"
  "state_io_rel (\<lambda>d d'. db_ok d \<longrightarrow> db_ok d') (ListRoomMembers rm)"
  "state_io_rel (\<lambda>d d'. db_ok d \<longrightarrow> db_ok d') (GetRoomInfo rm)"
  unfolding CreateDirectCall_def CreateRoomCall_def GetCall_def GetJoinInfo_def EndCall_def
    ListActiveCalls_def RejectCall_def LeaveCall_def GetTargetUser_def ListRoomMembers_def
    GetRoomInfo_def Let_def
  by (intro dbk.de_rules db_keeps)+

section \<open>The life cycle of a call\<close>

text \<open>The status transitions of \<open>PROTOCOL.md\<close>: ringing to active, and anything to ended.\<close>

definition status_step :: "string \<Rightarrow> string \<Rightarrow> bool" where
  "status_step s t \<longleftrightarrow> s = t \<or> t = CallStatusEnded \<or> s = CallStatusRinging \<and> t = CallStatusActive"

definition call_evolves :: "call \<Rightarrow> call \<Rightarrow> bool" where
  "call_evolves c c' \<longleftrightarrow> call_ID c' = call_ID c \<and> call_Type c' = call_Type c \<and> call_Mode c' = call_Mode c
     \<and> call_InitiatorUserID c' = call_InitiatorUserID c \<and> call_RoomID c' = call_RoomID c
     \<and> call_CreatedAt c' = call_CreatedAt c \<and> status_step (call_Status c) (call_Status c')"

definition live_in_room :: "call list \<Rightarrow> roomID \<Rightarrow> call list" where
  "live_in_room cs r = filter (\<lambda>c. call_RoomID c = Some r \<and> live_status c) cs"

definition one_live_call :: "call list \<Rightarrow> bool" where
  "one_live_call cs \<longleftrightarrow> (\<forall>r. length (live_in_room cs r) \<le> 1)"

text \<open>One step of the table of calls: no call disappears, each evolves, and a room that has at most
  one live call keeps at most one.\<close>

definition calls_step :: "call list \<Rightarrow> call list \<Rightarrow> bool" where
  "calls_step cs cs' \<longleftrightarrow> list_all2 call_evolves cs (take (length cs) cs')
     \<and> (one_live_call cs \<longrightarrow> one_live_call cs')"

lemma status_step_trans: "status_step a b \<Longrightarrow> status_step b c \<Longrightarrow> status_step a c"
  by (auto simp: status_step_def)

lemma call_evolves_refl [simp]: "call_evolves c c"
  by (simp add: call_evolves_def status_step_def)

lemma call_evolves_trans: "call_evolves a b \<Longrightarrow> call_evolves b c \<Longrightarrow> call_evolves a c"
  by (auto simp: call_evolves_def intro: status_step_trans)

lemma calls_step_refl [simp]: "calls_step cs cs"
  by (simp add: calls_step_def list_all2_same)

lemma live_evolves: "call_evolves c c' \<Longrightarrow> live_status c' \<Longrightarrow> live_status c \<and> call_RoomID c' = call_RoomID c"
  by (auto simp: call_evolves_def status_step_def live_status_def)

lemma live_in_room_mono:
  "list_all2 call_evolves cs cs' \<Longrightarrow> length (live_in_room cs' r) \<le> length (live_in_room cs r)"
  by (induction rule: list_all2_induct) (auto simp: live_in_room_def dest: live_evolves)

lemma calls_step_update: "list_all2 call_evolves cs cs' \<Longrightarrow> calls_step cs cs'"
  using live_in_room_mono[of cs cs'] list_all2_lengthD[of call_evolves cs cs']
  by (force simp: calls_step_def one_live_call_def intro: order_trans)

lemma calls_step_append:
  assumes "\<And>r. call_RoomID c = Some r \<Longrightarrow> live_in_room cs r = []"
  shows "calls_step cs (cs @ [c])"
  using assms by (auto simp: calls_step_def one_live_call_def live_in_room_def list_all2_same)

interpretation cfr: db_effect "\<lambda>d d'. F (t_calls d) \<longrightarrow> F (t_calls d')" for F
  by unfold_locales auto

named_theorems calls_frame \<open>operations that leave the table of calls alone\<close>

lemma frame_store [calls_frame]:
  "state_io_rel (\<lambda>d d'. F (t_calls d) \<longrightarrow> F (t_calls d')) (AddParticipant p)"
  "state_io_rel (\<lambda>d d'. F (t_calls d) \<longrightarrow> F (t_calls d')) (UpdateParticipant p)"
  "state_io_rel (\<lambda>d d'. F (t_calls d) \<longrightarrow> F (t_calls d')) (GetParticipant i u)"
  "state_io_rel (\<lambda>d d'. F (t_calls d) \<longrightarrow> F (t_calls d')) (ListParticipants i)"
  "state_io_rel (\<lambda>d d'. F (t_calls d) \<longrightarrow> F (t_calls d')) (GetUserByID u)"
  "state_io_rel (\<lambda>d d'. F (t_calls d) \<longrightarrow> F (t_calls d')) (GetUserCallSettings u)"
  "state_io_rel (\<lambda>d d'. F (t_calls d) \<longrightarrow> F (t_calls d')) (IsFriend u v)"
  "state_io_rel (\<lambda>d d'. F (t_calls d) \<longrightarrow> F (t_calls d')) (IsMember u r)"
  "state_io_rel (\<lambda>d d'. F (t_calls d) \<longrightarrow> F (t_calls d')) time_Now"
  unfolding AddParticipant_def UpdateParticipant_def GetParticipant_def ListParticipants_def
    GetUserByID_def GetUserCallSettings_def IsFriend_def store_IsFriend_def IsMember_def
  by (intro cfr.de_rules cfr.de_exec; auto simp: Let_def split: if_splits)+

lemma frame_helpers [calls_frame]:
  "state_io_rel (\<lambda>d d'. F (t_calls d) \<longrightarrow> F (t_calls d')) (check_call_privacy a b)"
  "state_io_rel (\<lambda>d d'. F (t_calls d) \<longrightarrow> F (t_calls d')) (participant_for_join i c u)"
  "state_io_rel (\<lambda>d d'. F (t_calls d) \<longrightarrow> F (t_calls d')) (mark_joined p)"
  "state_io_rel (\<lambda>d d'. F (t_calls d) \<longrightarrow> F (t_calls d')) (add_participants cid us)"
proof -
  show "state_io_rel (\<lambda>d d'. F (t_calls d) \<longrightarrow> F (t_calls d')) (check_call_privacy a b)"
    "state_io_rel (\<lambda>d d'. F (t_calls d) \<longrightarrow> F (t_calls d')) (participant_for_join i c u)"
    "state_io_rel (\<lambda>d d'. F (t_calls d) \<longrightarrow> F (t_calls d')) (mark_joined p)"
    unfolding check_call_privacy_def participant_for_join_def mark_joined_def
    by (intro cfr.de_rules calls_frame)+
  show "state_io_rel (\<lambda>d d'. F (t_calls d) \<longrightarrow> F (t_calls d')) (add_participants cid us)"
    by (induction us) (auto intro!: cfr.de_rules calls_frame)
qed

text \<open>The calls of the service that do depend on the table of calls.\<close>

lemma GetCall_bind:
  assumes "\<And>r. (\<And>c. r = Inr c \<Longrightarrow> c \<in> set cs \<and> call_ID c = i) \<Longrightarrow> hoare (\<lambda>d. t_calls d = cs) (f r) Q"
  shows "hoare (\<lambda>d. t_calls d = cs) (State_Monad.bind (store_GetCall i) f) Q"
proof (rule hoare_bind_pure[where A = "\<lambda>r. \<forall>c. r = Inr c \<longrightarrow> c \<in> set cs \<and> call_ID c = i"])
  show "hoare (\<lambda>d. t_calls d = cs) (store_GetCall i)
      (\<lambda>r d. (\<forall>c. r = Inr c \<longrightarrow> c \<in> set cs \<and> call_ID c = i) \<and> t_calls d = cs)"
    by (auto simp: hoare_def run_lookups dest!: query_row_Inr(2))
qed (use assms in auto)

lemma GetActiveCallForRoom_bind:
  assumes "\<And>r. (r = Inr None \<Longrightarrow> live_in_room cs i = []) \<Longrightarrow> hoare (\<lambda>d. t_calls d = cs) (f r) Q"
  shows "hoare (\<lambda>d. t_calls d = cs) (State_Monad.bind (GetActiveCallForRoom i) f) Q"
proof (rule hoare_bind_pure[where A = "\<lambda>r. r = Inr None \<longrightarrow> live_in_room cs i = []"])
  have "sort_key k xs = [] \<longleftrightarrow> xs = []" for k :: "call \<Rightarrow> int" and xs
    by (metis length_0_conv length_sort)
  then show "hoare (\<lambda>d. t_calls d = cs) (GetActiveCallForRoom i)
      (\<lambda>r d. (r = Inr None \<longrightarrow> live_in_room cs i = []) \<and> t_calls d = cs)"
    by (auto simp: hoare_def GetActiveCallForRoom_def run_query_row live_in_room_def sql_limit_def
        take_Suc split: option.splits list.splits if_splits)
qed (use assms in auto)

lemma GetRoomByID_bind:
  assumes "\<And>r. (\<And>x. r = Inr x \<Longrightarrow> room_ID x = i) \<Longrightarrow> hoare (\<lambda>d. t_calls d = cs) (f r) Q"
  shows "hoare (\<lambda>d. t_calls d = cs) (State_Monad.bind (GetRoomByID i) f) Q"
proof (rule hoare_bind_pure[where A = "\<lambda>r. \<forall>x. r = Inr x \<longrightarrow> room_ID x = i"])
  show "hoare (\<lambda>d. t_calls d = cs) (GetRoomByID i)
      (\<lambda>r d. (\<forall>x. r = Inr x \<longrightarrow> room_ID x = i) \<and> t_calls d = cs)"
    by (auto simp: hoare_def run_lookups dest!: query_row_Inr(2))
qed (use assms in auto)

lemma UpdateCall_evolves:
  assumes "distinct (map call_ID cs)" and "c \<in> set cs" and "call_ID c' = call_ID c"
    and "status_step (call_Status c) (call_Status c')"
  shows "hoare (\<lambda>d. t_calls d = cs) (UpdateCall c') (\<lambda>_ d. calls_step cs (t_calls d))"
proof -
  have "x = c" if "x \<in> set cs" "call_ID x = call_ID c'" for x
    using that assms(1-3) by (metis distinct_map inj_onD)
  then have "list_all2 call_evolves cs (map (\<lambda>x. if call_ID x = call_ID c'
      then x\<lparr>call_Status := call_Status c', call_ExternalRoomID := e, call_UpdatedAt := t,
             call_EndedAt := z\<rparr> else x) cs)" for e t z
    using assms(3,4) by (force simp: list_all2_conv_all_nth call_evolves_def status_step_def)
  then show ?thesis
    by (auto simp: hoare_def UpdateCall_def run_db intro!: calls_step_update
        split: option.splits fault.splits)
qed

lemma CreateCall_steps:
  assumes "\<And>r. call_RoomID c = Some r \<Longrightarrow> live_in_room cs r = []"
  shows "hoare (\<lambda>d. t_calls d = cs) (store_CreateCall c) (\<lambda>_ d. calls_step cs (t_calls d))"
  using assms
  by (auto simp: hoare_def store_CreateCall_def run_db intro!: calls_step_append
      split: option.splits fault.splits)

lemma hoare_step_return: "hoare (\<lambda>d. t_calls d = cs) (return x) (\<lambda>_ d. calls_step cs (t_calls d))"
  "hoare (\<lambda>d. calls_step cs (t_calls d)) (return x) (\<lambda>_ d. calls_step cs (t_calls d))"
  by (auto intro: hoare_return)

text \<open>The rules that take a service method apart.\<close>

lemmas calls_vcg = hoare_step_return hoare_flow GetCall_bind GetActiveCallForRoom_bind GetRoomByID_bind
  hoare_keep[OF calls_frame(1)] hoare_keep[OF calls_frame(2)] hoare_keep[OF calls_frame(3)]
  hoare_keep[OF calls_frame(4)] hoare_keep[OF calls_frame(5)] hoare_keep[OF calls_frame(6)]
  hoare_keep[OF calls_frame(7)] hoare_keep[OF calls_frame(8)] hoare_keep[OF calls_frame(9)]
  hoare_keep[OF calls_frame(10)] hoare_keep[OF calls_frame(11)] hoare_keep[OF calls_frame(12)]
  hoare_keep[OF calls_frame(13)]

lemma mark_active_bind:
  assumes "distinct (map call_ID cs)" and "c \<in> set cs"
    and "\<And>x. hoare (\<lambda>d. calls_step cs (t_calls d)) (f x) Q"
  shows "hoare (\<lambda>d. t_calls d = cs) (State_Monad.bind (mark_active c) f) Q"
proof (rule hoare_bind[where R = "\<lambda>_ d. calls_step cs (t_calls d)"])
  show "hoare (\<lambda>d. t_calls d = cs) (mark_active c) (\<lambda>_ d. calls_step cs (t_calls d))"
    unfolding mark_active_def Let_def
    by (intro calls_vcg hoare_bind[OF UpdateCall_evolves[OF assms(1,2)]])
      (simp_all add: status_step_def)
qed (use assms(3) in auto)

lemma to_ended:
  assumes "distinct (map call_ID cs)" and "c \<in> set cs"
    and "\<And>x. hoare (\<lambda>d. calls_step cs (t_calls d)) (f x) Q"
  shows "hoare (\<lambda>d. t_calls d = cs) (State_Monad.bind (UpdateCall
     (c\<lparr>call_Status := CallStatusEnded, call_EndedAt := t, call_UpdatedAt := u\<rparr>)) f) Q"
  by (rule hoare_bind[OF UpdateCall_evolves[OF assms(1,2)] assms(3)]) (simp_all add: status_step_def)

lemma hoare_step_frame:
  assumes "state_io_rel (\<lambda>d d'. calls_step cs (t_calls d) \<longrightarrow> calls_step cs (t_calls d')) m"
  shows "hoare (\<lambda>d. calls_step cs (t_calls d)) m (\<lambda>_ d. calls_step cs (t_calls d))"
  using assms by (fastforce simp: hoare_def state_io_rel_def split: prod.splits)

lemma service_steps:
  assumes ids: "distinct (map call_ID cs)"
  shows "hoare (\<lambda>d. t_calls d = cs) (CreateDirectCall s a b) (\<lambda>_ d. calls_step cs (t_calls d))"
    and "hoare (\<lambda>d. t_calls d = cs) (CreateRoomCall s a r) (\<lambda>_ d. calls_step cs (t_calls d))"
    and "hoare (\<lambda>d. t_calls d = cs) (GetJoinInfo s i a) (\<lambda>_ d. calls_step cs (t_calls d))"
    and "hoare (\<lambda>d. t_calls d = cs) (EndCall s i a) (\<lambda>_ d. calls_step cs (t_calls d))"
    and "hoare (\<lambda>d. t_calls d = cs) (RejectCall i a w) (\<lambda>_ d. calls_step cs (t_calls d))"
    and "hoare (\<lambda>d. t_calls d = cs) (LeaveCall i a) (\<lambda>_ d. calls_step cs (t_calls d))"
proof -
  show "hoare (\<lambda>d. t_calls d = cs) (CreateDirectCall s a b) (\<lambda>_ d. calls_step cs (t_calls d))"
    unfolding CreateDirectCall_def Let_def
    by (intro calls_vcg hoare_bind[OF CreateCall_steps]) auto
  show "hoare (\<lambda>d. t_calls d = cs) (CreateRoomCall s a r) (\<lambda>_ d. calls_step cs (t_calls d))"
    unfolding CreateRoomCall_def Let_def
    by (intro calls_vcg hoare_bind[OF CreateCall_steps]) auto
  show "hoare (\<lambda>d. t_calls d = cs) (GetJoinInfo s i a) (\<lambda>_ d. calls_step cs (t_calls d))"
    unfolding GetJoinInfo_def
    by (intro calls_vcg mark_active_bind[OF ids]) auto
  show "hoare (\<lambda>d. t_calls d = cs) (EndCall s i a) (\<lambda>_ d. calls_step cs (t_calls d))"
    unfolding EndCall_def Let_def
    by (intro calls_vcg to_ended[OF ids]) auto
  show "hoare (\<lambda>d. t_calls d = cs) (RejectCall i a w) (\<lambda>_ d. calls_step cs (t_calls d))"
    unfolding RejectCall_def
    by (intro calls_vcg to_ended[OF ids]) auto
  show "hoare (\<lambda>d. t_calls d = cs) (LeaveCall i a) (\<lambda>_ d. calls_step cs (t_calls d))"
    unfolding LeaveCall_def
    by (intro calls_vcg to_ended[OF ids]) auto
qed

end
