(* ===== verification/Call_Cycle.thy ===== *)
theory Call_Cycle
  imports Calls_Props
begin

text \<open>
  The properties of the call service: every run of its operations moves calls along their life
  cycle and keeps one live call per room; joining, calling, ending and leaving do what they promise.
\<close>

section \<open>Runs of the service\<close>

datatype call_op =
    DirectCallOp callsService userID userID
  | RoomCallOp callsService userID roomID
  | JoinInfoOp callsService callID userID
  | EndCallOp callsService callID userID
  | RejectCallOp callID userID string
  | LeaveCallOp callID userID

fun run_call_op :: "call_op \<Rightarrow> db \<Rightarrow> db" where
  "run_call_op (DirectCallOp s a b) d = after (CreateDirectCall s a b) d"
| "run_call_op (RoomCallOp s a r) d = after (CreateRoomCall s a r) d"
| "run_call_op (JoinInfoOp s i u) d = after (GetJoinInfo s i u) d"
| "run_call_op (EndCallOp s i u) d = after (EndCall s i u) d"
| "run_call_op (RejectCallOp i u w) d = after (RejectCall i u w) d"
| "run_call_op (LeaveCallOp i u) d = after (LeaveCall i u) d"

lemma run_call_op_ok: "db_ok d \<Longrightarrow> db_ok (run_call_op op d)"
  by (cases op) (use call_service_keeps in \<open>force simp: state_io_rel_def\<close>)+

lemma run_call_op_step: "db_ok d \<Longrightarrow> calls_step (t_calls d) (t_calls (run_call_op op d))"
proof -
  assume "db_ok d"
  then have ids: "distinct (map call_ID (t_calls d))"
    by (simp add: db_ok_def calls_ok_def)
  note step = hoare_after[OF service_steps(1)[OF ids]] hoare_after[OF service_steps(2)[OF ids]]
    hoare_after[OF service_steps(3)[OF ids]] hoare_after[OF service_steps(4)[OF ids]]
    hoare_after[OF service_steps(5)[OF ids]] hoare_after[OF service_steps(6)[OF ids]]
  show ?thesis by (cases op) (simp_all add: step)
qed

lemma calls_step_trans:
  assumes "calls_step a b" and "calls_step b c"
  shows "calls_step a c"
proof -
  have len: "length a \<le> length b" "length b \<le> length c"
    using assms[unfolded calls_step_def] by (auto dest!: list_all2_lengthD)
  have "list_all2 call_evolves (take (length a) b) (take (length a) (take (length b) c))"
    using assms(2) by (intro list_all2_takeI) (simp add: calls_step_def)
  moreover have "take (length a) (take (length b) c) = take (length a) c"
    using len by simp
  ultimately show ?thesis
    using assms list_all2_trans[of call_evolves call_evolves call_evolves a "take (length a) b"]
    by (auto simp: calls_step_def intro: call_evolves_trans)
qed

interpretation call_run: inv_machine "\<lambda>d d'. \<exists>op. d' = run_call_op op d"
    "\<lambda>d. db_ok d \<and> calls_step cs (t_calls d)" for cs
  by unfold_locales (auto intro: run_call_op_ok calls_step_trans[OF _ run_call_op_step])

lemma runs_reach: "(\<lambda>d d'. \<exists>op. d' = run_call_op op d)\<^sup>*\<^sup>* d (fold run_call_op ops d)"
proof (induction ops arbitrary: d)
  case (Cons op ops)
  then show ?case by (auto intro: converse_rtranclp_into_rtranclp[rotated])
qed simp


section \<open>Joining and calling\<close>

definition has_user :: "db \<Rightarrow> userID \<Rightarrow> bool" where
  "has_user d u \<longleftrightarrow> (\<exists>x \<in> set (t_users d). u_id x = u)"

definition is_participant :: "db \<Rightarrow> callID \<Rightarrow> userID \<Rightarrow> bool" where
  "is_participant d i u \<longleftrightarrow> (\<exists>p \<in> set (t_call_participants d). part_CallID p = i \<and> part_UserID p = u)"

definition is_room_member :: "db \<Rightarrow> userID \<Rightarrow> roomID \<Rightarrow> bool" where
  "is_room_member d u r \<longleftrightarrow> (\<exists>m \<in> set (t_room_members d). member_UserID m = u \<and> member_RoomID m = r)"

lemma IsMember_Inr:
  "run_state (IsMember u r) d = (Inr b, d') \<Longrightarrow> b = is_room_member d u r \<and> d' = pop_fault d"
  by (auto simp: IsMember_run is_room_member_def split: option.splits)

lemma GetParticipant_Inr:
  "run_state (GetParticipant i u) d = (Inr p, d') \<Longrightarrow>
    p \<in> set (t_call_participants d) \<and> part_CallID p = i \<and> part_UserID p = u \<and> d' = pop_fault d"
  by (auto simp: run_lookups dest!: query_row_Inr(2))

lemma GetParticipant_Inl: "run_state (GetParticipant i u) d = (Inl x, d') \<Longrightarrow> d' = pop_fault d"
  by (simp add: run_lookups)

lemma GetUserByID_Inr:
  "run_state (GetUserByID u) d = (Inr x, d') \<Longrightarrow>
    (\<exists>r \<in> set (t_users d). u_id r = u \<and> x = scan_user r) \<and> d' = pop_fault d"
  by (auto simp: run_lookups dest!: query_row_Inr(2))

lemma store_GetCall_Inr:
  "run_state (store_GetCall i) d = (Inr c, d') \<Longrightarrow> c \<in> set (t_calls d) \<and> call_ID c = i \<and> d' = pop_fault d"
  by (auto simp: run_lookups dest!: query_row_Inr(2))

lemma AddParticipant_Inr:
  "run_state (AddParticipant p) d = (Inr q, d') \<Longrightarrow>
    q = p\<lparr>part_ID := s_call_participants d + 1\<rparr> \<and>
    d' = (pop_fault d)\<lparr>t_call_participants := t_call_participants d @ [q],
                       s_call_participants := s_call_participants d + 1\<rparr>"
  by (auto simp: AddParticipant_def run_db Let_def split: option.splits fault.splits if_splits sum.splits)

lemma participant_for_join_Inr:
  assumes "run_state (participant_for_join i c u) d = (Inr p, d')"
  shows "t_users d' = t_users d \<and> is_participant d' i u \<and>
    (is_participant d i u \<or> call_Type c = CallTypeRoom \<and> (\<exists>r. call_RoomID c = Some r \<and> is_room_member d u r))"
proof (cases "result_of (GetParticipant i u) d")
  case (Inr q)
  then have q: "run_state (GetParticipant i u) d = (Inr q, pop_fault d)"
    by (simp add: run_lookups)
  with assms have "d' = pop_fault d" by (simp add: participant_for_join_def)
  with GetParticipant_Inr[OF q] show ?thesis by (auto simp: is_participant_def)
next
  case (Inl e)
  then have e: "run_state (GetParticipant i u) d = (Inl e, pop_fault d)"
    by (simp add: run_lookups)
  with assms obtain r where r: "call_RoomID c = Some r" "call_Type c = CallTypeRoom"
    by (auto simp: participant_for_join_def split: option.splits if_splits)
  with assms e obtain d1 where m: "run_state (IsMember u r) (pop_fault d) = (Inr True, d1)"
    "run_state (AddParticipant (new_participant i u)) d1 = (Inr p, d')"
    by (auto simp: participant_for_join_def split: prod.splits sum.splits if_splits)
  show ?thesis
    using IsMember_Inr[OF m(1)] AddParticipant_Inr[OF m(2)] r
    by (auto simp: is_participant_def new_participant_def is_room_member_def)
qed

lemma is_participant_keys:
  "is_participant d i u \<longleftrightarrow> (i, u) \<in> set (map (\<lambda>p. (part_CallID p, part_UserID p)) (t_call_participants d))"
  by (auto simp: is_participant_def)

interpretation ufr: db_effect "\<lambda>d d'. t_users d' = t_users d"
  by unfold_locales auto

interpretation pfr: db_effect "\<lambda>d d'. is_participant d i u \<longrightarrow> is_participant d' i u" for i u
  by unfold_locales (auto simp: is_participant_def)

lemma marks_frame:
  "state_io_rel (\<lambda>d d'. t_users d' = t_users d) (mark_joined p)"
  "state_io_rel (\<lambda>d d'. t_users d' = t_users d) (mark_active c)"
  "state_io_rel (\<lambda>d d'. is_participant d i u \<longrightarrow> is_participant d' i u) (mark_joined p)"
  "state_io_rel (\<lambda>d d'. is_participant d i u \<longrightarrow> is_participant d' i u) (mark_active c)"
proof -
  show "state_io_rel (\<lambda>d d'. t_users d' = t_users d) (mark_joined p)"
    "state_io_rel (\<lambda>d d'. t_users d' = t_users d) (mark_active c)"
    unfolding mark_joined_def mark_active_def Let_def UpdateParticipant_def UpdateCall_def
    by (intro ufr.de_rules ufr.de_exec; auto)+
  show "state_io_rel (\<lambda>d d'. is_participant d i u \<longrightarrow> is_participant d' i u) (mark_joined p)"
    "state_io_rel (\<lambda>d d'. is_participant d i u \<longrightarrow> is_participant d' i u) (mark_active c)"
    unfolding mark_joined_def mark_active_def Let_def UpdateParticipant_def UpdateCall_def
    by (intro pfr.de_rules pfr.de_exec;
        auto simp: is_participant_keys map_upd_key_same simp del: map_map set_map)+
qed

lemma mark_active_evolves: "run_state (mark_active c) d = (c', d') \<Longrightarrow> call_evolves c c'"
  by (auto simp: mark_active_def run_bind_eq Let_def call_evolves_def status_step_def
      simp del: run_state_bind split: if_splits)

text \<open>(C17) Only those entitled to a call get credentials for it. If \<open>GetJoinInfo\<close> succeeds, whatever the
  driver does, then the call exists and has neither ended nor failed, the user exists, and the user
  was a participant of the call or is a member of the room the call belongs to; afterwards the
  user is a participant, and the credentials are what the engine issues for this call, this user's
  id and this user's name.\<close>

theorem join_info_authorised:
  assumes "run_state (GetJoinInfo s i u) d = (Inr ji, d')"
  shows "\<exists>eng c c' x. svc_engine s = Some eng \<and> c \<in> set (t_calls d) \<and> call_ID c = i
      \<and> call_Status c \<noteq> CallStatusEnded \<and> call_Status c \<noteq> CallStatusFailed
      \<and> x \<in> set (t_users d) \<and> u_id x = u
      \<and> (is_participant d i u \<or> call_Type c = CallTypeRoom
           \<and> (\<exists>r. call_RoomID c = Some r \<and> is_room_member d u r))
      \<and> is_participant d' i u
      \<and> call_evolves c c' \<and> eng_GenerateJoinInfo eng c' u (u_username x) = Inr ji"
proof -
  obtain eng where eng: "svc_engine s = Some eng"
    using assms by (cases "svc_engine s") (auto simp: GetJoinInfo_def)
  obtain c where c: "run_state (store_GetCall i) d = (Inr c, pop_fault d)"
      "call_Status c \<noteq> CallStatusEnded" "call_Status c \<noteq> CallStatusFailed"
    using assms eng by (auto simp: GetJoinInfo_def run_lookups split: sum.splits if_splits)
  obtain p d1 where p: "run_state (participant_for_join i c u) (pop_fault d) = (Inr p, d1)"
    using assms eng c by (auto simp: GetJoinInfo_def split: sum.splits prod.splits)
  obtain y d2 where y: "run_state (mark_joined p) d1 = (y, d2)" by (rule prod.exhaust)
  obtain c' d3 where c': "run_state (mark_active c) d2 = (c', d3)" by (rule prod.exhaust)
  obtain x where x: "run_state (GetUserByID u) d3 = (Inr x, d')"
      "eng_GenerateJoinInfo eng c' u (user_Username x) = Inr ji"
    using assms eng c p y c' by (auto simp: GetJoinInfo_def split: sum.splits prod.splits)
  have "t_users d3 = t_users d"
    using participant_for_join_Inr[OF p] ufr.eb_run[OF marks_frame(1) y] ufr.eb_run[OF marks_frame(2) c']
    by simp
  moreover have "is_participant d3 i u"
    using participant_for_join_Inr[OF p] pfr.eb_run[OF marks_frame(3) y] pfr.eb_run[OF marks_frame(4) c']
    by simp
  ultimately show ?thesis
    using eng c(2,3) store_GetCall_Inr[OF c(1)] participant_for_join_Inr[OF p]
      mark_active_evolves[OF c'] GetUserByID_Inr[OF x(1)] x(2)
    by (fastforce simp: is_participant_def is_room_member_def scan_user_def)
qed

definition demo_signer :: token_signer where
  "demo_signer k sec t = Inr (k @ ''.'' @ at_Identity t)"

definition demo_engine :: engine where
  "demo_engine = livekit_engine demo_signer (livekit_New ''key'' ''secret'' ''ws'')"

definition demo_svc :: callsService where
  "demo_svc = calls_New (Some demo_engine) ''c1''"

definition demo_call :: call where
  "demo_call = \<lparr>call_ID = ''c1'', call_Type = CallTypeDirect, call_Mode = CallModeLiveKit,
     call_InitiatorUserID = 1, call_RoomID = None, call_Status = CallStatusRinging,
     call_ExternalRoomID = Some ''wirechat-direct-c1'', call_CreatedAt = 0, call_UpdatedAt = 0,
     call_EndedAt = None\<rparr>"

definition demo_call_db :: db where
  "demo_call_db = demo_db\<lparr>t_calls := [demo_call], s_call_participants := 2, t_call_participants :=
     [(new_participant ''c1'' 1)\<lparr>part_ID := 1\<rparr>, (new_participant ''c1'' 2)\<lparr>part_ID := 2\<rparr>]\<rparr>"

lemma demo_call_db_ok: "db_ok demo_call_db" "faults demo_call_db = []"
  by (simp_all add: demo_call_db_def demo_db_def init_db_def demo_users_def db_ok_def table_oks
      table_ok_def new_participant_def)


lemma demo_join:
  "\<exists>ji d'. run_state (GetJoinInfo demo_svc ''c1'' 2) demo_call_db = (Inr ji, d')"
  by (simp add: GetJoinInfo_def demo_svc_def calls_New_def participant_for_join_def mark_joined_def
      mark_active_def UpdateParticipant_def UpdateCall_def run_db demo_call_db_def demo_db_def
      init_db_def demo_users_def demo_call_def new_participant_def demo_engine_def livekit_engine_def
      livekit_GenerateJoinInfo_def livekit_New_def demo_signer_def scan_user_def Let_def fault_now_def
      pop_fault_def)

theorem join_info_authorised_witness:
  "(\<exists>c \<in> set (t_calls demo_call_db). call_ID c = ''c1'' \<and> call_Status c \<noteq> CallStatusEnded)
     \<and> is_participant (after (GetJoinInfo demo_svc ''c1'' 2) demo_call_db) ''c1'' 2"
  using demo_join join_info_authorised[of demo_svc "''c1''" 2 demo_call_db] by (metis snd_conv)

lemma tables_eqD: "tables x = tables y \<Longrightarrow> \<exists>fs. x = y\<lparr>faults := fs\<rparr>"
  by (cases x, cases y) (auto simp: tables_def)

lemma IsFriend_service_run:
  "run_state (IsFriend a b) d = run_state (store_IsFriend a b) d"
  by (simp add: IsFriend_def)

lemma check_call_privacy_Inr:
  assumes "run_state (check_call_privacy a b) d = (Inr (), d')"
  shows "(\<exists>x \<in> set (t_users d). u_id x = b \<and> (u_allow_calls_from x = AllowCallsFromFriendsOnly \<longrightarrow>
       (\<exists>f \<in> set (t_friends d). connects a b f \<and> friend_Status f = FriendStatusAccepted)))
    \<and> tables d' = tables d"
proof -
  obtain v where v: "run_state (GetUserCallSettings b) d = (Inr v, pop_fault d)"
    using assms by (auto simp: check_call_privacy_def run_lookups split: sum.splits)
  then obtain x where "x \<in> set (t_users d)" "u_id x = b" "u_allow_calls_from x = v"
    by (auto simp: run_lookups dest!: query_row_Inr(2))
  with assms v show ?thesis
    by (auto simp: check_call_privacy_def IsFriend_service_run IsFriend_run
        split: if_splits sum.splits option.splits)
qed

lemma add_participants_Inr:
  assumes "run_state (add_participants i [a, b]) d = (Inr (), d')"
  shows "tables d' = tables (d\<lparr>t_call_participants := t_call_participants d @
          [(new_participant i a)\<lparr>part_ID := s_call_participants d + 1\<rparr>,
           (new_participant i b)\<lparr>part_ID := s_call_participants d + 2\<rparr>],
        s_call_participants := s_call_participants d + 2\<rparr>)"
proof -
  obtain p q d1 where "run_state (AddParticipant (new_participant i a)) d = (Inr p, d1)"
      "run_state (AddParticipant (new_participant i b)) d1 = (Inr q, d')"
    using assms by (auto split: sum.splits prod.splits)
  then show ?thesis
    by (auto simp: tables_def pop_fault_def dest!: AddParticipant_Inr)
qed

lemma store_CreateCall_Inr:
  "run_state (store_CreateCall c) d = (Inr (), d') \<Longrightarrow> tables d' = tables (d\<lparr>t_calls := t_calls d @
     [c\<lparr>call_CreatedAt := current_timestamp d, call_UpdatedAt := current_timestamp d, call_EndedAt := None\<rparr>]\<rparr>)"
  by (auto simp: store_CreateCall_def run_db tables_def pop_fault_def current_timestamp_def
      split: option.splits fault.splits if_splits)

text \<open>(C29) A direct call that \<open>CreateDirectCall\<close> reports as created, whatever the driver does: the
  caller is not the callee, the callee exists and, if it takes calls from friends only, is a friend
  of the caller; exactly the ringing call and its two participants, caller and callee, have been
  recorded, and nothing else has changed.\<close>

theorem direct_call_created:
  assumes "run_state (CreateDirectCall s a b) d = (Inr c, d')"
  shows "a \<noteq> b \<and> (\<exists>x \<in> set (t_users d). u_id x = b \<and>
        (u_allow_calls_from x = AllowCallsFromFriendsOnly \<longrightarrow>
          (\<exists>f \<in> set (t_friends d). connects a b f \<and> friend_Status f = FriendStatusAccepted)))
    \<and> call_ID c = svc_uuid s \<and> call_Type c = CallTypeDirect \<and> call_Status c = CallStatusRinging
    \<and> call_InitiatorUserID c = a \<and> call_RoomID c = None
    \<and> tables d' = tables (d\<lparr>
        t_calls := t_calls d @ [c\<lparr>call_CreatedAt := current_timestamp d, call_UpdatedAt := current_timestamp d\<rparr>],
        t_call_participants := t_call_participants d @
          [(new_participant (call_ID c) a)\<lparr>part_ID := s_call_participants d + 1\<rparr>,
           (new_participant (call_ID c) b)\<lparr>part_ID := s_call_participants d + 2\<rparr>],
        s_call_participants := s_call_participants d + 2\<rparr>)"
proof -
  obtain eng where eng: "svc_engine s = Some eng" "a \<noteq> b"
    using assms by (auto simp: CreateDirectCall_def split: option.splits if_splits)
  obtain x where x: "run_state (GetUserByID b) d = (Inr x, pop_fault d)"
    using assms eng by (auto simp: CreateDirectCall_def run_lookups split: sum.splits)
  obtain d1 where d1: "run_state (check_call_privacy a b) (pop_fault d) = (Inr (), d1)"
    using assms eng x by (auto simp: CreateDirectCall_def split: sum.splits prod.splits)
  let ?c = "\<lparr>call_ID = svc_uuid s, call_Type = CallTypeDirect, call_Mode = CallModeLiveKit,
         call_InitiatorUserID = a, call_RoomID = None, call_Status = CallStatusRinging,
         call_ExternalRoomID = None, call_CreatedAt = clock d1, call_UpdatedAt = clock d1,
         call_EndedAt = None\<rparr>"
  obtain ext d2 where c: "c = ?c\<lparr>call_ExternalRoomID := Some ext\<rparr>"
      "run_state (store_CreateCall c) d1 = (Inr (), d2)"
      "run_state (add_participants (svc_uuid s) [a, b]) d2 = (Inr (), d')"
    using assms eng x d1
    by (auto simp: CreateDirectCall_def run_time_Now Let_def split: sum.splits prod.splits
        simp del: add_participants.simps)
  obtain f1 where f1: "d1 = d\<lparr>faults := f1\<rparr>"
    using check_call_privacy_Inr[OF d1] by (auto dest: tables_eqD)
  with tables_eqD[OF store_CreateCall_Inr[OF c(2)]] obtain f2 where
    "d2 = d\<lparr>t_calls := t_calls d @ [c\<lparr>call_CreatedAt := current_timestamp d,
       call_UpdatedAt := current_timestamp d\<rparr>], faults := f2\<rparr>"
    by (auto simp: c(1) current_timestamp_def)
  with add_participants_Inr[OF c(3)] check_call_privacy_Inr[OF d1] eng(2) show ?thesis
    by (simp add: c(1) tables_def)
qed

lemma demo_direct:
  "\<exists>c d'. run_state (CreateDirectCall demo_svc 1 2) demo_db = (Inr c, d')"
  by (simp add: CreateDirectCall_def check_call_privacy_def demo_svc_def calls_New_def run_db demo_db_def
      init_db_def demo_users_def new_participant_def demo_engine_def livekit_engine_def
      livekit_CreateCall_def store_CreateCall_def AddParticipant_def Let_def fault_now_def pop_fault_def)

theorem direct_call_created_witness:
  "length (t_calls (after (CreateDirectCall demo_svc 1 2) demo_db)) = 1
   \<and> map part_UserID (t_call_participants (after (CreateDirectCall demo_svc 1 2) demo_db)) = [1, 2]"
proof -
  obtain c d' where run: "run_state (CreateDirectCall demo_svc 1 2) demo_db = (Inr c, d')"
    using demo_direct by blast
  then show ?thesis
    using direct_call_created[OF run] by (auto simp: new_participant_def dest!: tables_eqD)
qed

section \<open>Ending and leaving\<close>

lemma GetCall_nf:
  assumes "faults d = []"
  shows "run_state (store_GetCall i) d = (case List.find (\<lambda>c. call_ID c = i) (t_calls d) of
      None \<Rightarrow> (Inl (ErrWrap ''call not found'' sql_ErrNoRows), d) | Some c \<Rightarrow> (Inr c, d))"
proof -
  have "List.find P xs = (case filter P xs of [] \<Rightarrow> None | x # _ \<Rightarrow> Some x)" for P and xs :: "call list"
    by (induction xs) auto
  then show ?thesis
    using no_fault[OF assms] by (auto simp: run_lookups run_query_row split: list.splits)
qed

lemma GetParticipant_nf:
  assumes "faults d = []"
  shows "\<not> is_participant d i u \<Longrightarrow>
      run_state (GetParticipant i u) d = (Inl (ErrWrap ''participant not found'' sql_ErrNoRows), d)"
    and "is_participant d i u \<Longrightarrow> \<exists>p \<in> set (t_call_participants d).
      run_state (GetParticipant i u) d = (Inr p, d) \<and> part_CallID p = i \<and> part_UserID p = u"
proof -
  note nf = no_fault[OF assms]
  show "\<not> is_participant d i u \<Longrightarrow>
      run_state (GetParticipant i u) d = (Inl (ErrWrap ''participant not found'' sql_ErrNoRows), d)"
    using nf by (auto simp: run_lookups run_query_row is_participant_def split: list.splits dest!: filter_eq_ConsD)
  show "is_participant d i u \<Longrightarrow> \<exists>p \<in> set (t_call_participants d).
      run_state (GetParticipant i u) d = (Inr p, d) \<and> part_CallID p = i \<and> part_UserID p = u"
    using nf by (auto simp: run_lookups run_query_row is_participant_def filter_empty_conv
        split: list.splits dest!: filter_eq_ConsD)
qed

lemma UpdateCall_nf:
  assumes "db_ok d" and "faults d = []" and "c \<in> set (t_calls d)"
  shows "run_state (UpdateCall (c\<lparr>call_Status := st, call_EndedAt := e, call_UpdatedAt := t\<rparr>)) d = (Inr (),
     d\<lparr>t_calls := map (\<lambda>x. if call_ID x = call_ID c
        then x\<lparr>call_Status := st, call_UpdatedAt := current_timestamp d, call_EndedAt := e\<rparr> else x) (t_calls d)\<rparr>)"
proof -
  have "x = c" if "x \<in> set (t_calls d)" "call_ID x = call_ID c" for x
    using assms(1,3) that by (auto simp: db_ok_def calls_ok_def distinct_map inj_on_def)
  then have "map (\<lambda>x. if call_ID x = call_ID c then x\<lparr>call_Status := st,
        call_ExternalRoomID := call_ExternalRoomID c, call_UpdatedAt := current_timestamp d, call_EndedAt := e\<rparr> else x) (t_calls d)
    = map (\<lambda>x. if call_ID x = call_ID c
        then x\<lparr>call_Status := st, call_UpdatedAt := current_timestamp d, call_EndedAt := e\<rparr> else x) (t_calls d)"
    by (cases c) (intro map_cong; force)
  then show ?thesis
    using no_fault[OF assms(2)] by (simp add: UpdateCall_def run_db del: map_eq_conv cong: if_cong)
qed

definition ended_now :: "db \<Rightarrow> call \<Rightarrow> call" where
  "ended_now d c = c\<lparr>call_Status := CallStatusEnded, call_UpdatedAt := current_timestamp d,
     call_EndedAt := Some (clock d)\<rparr>"



text \<open>Leaving: the participant's row as it is after \<open>LeaveCall\<close>.\<close>

definition leaves :: "db \<Rightarrow> callID \<Rightarrow> userID \<Rightarrow> callParticipant \<Rightarrow> callParticipant" where
  "leaves d i u p = (if part_CallID p = i \<and> part_UserID p = u
     then p\<lparr>part_LeftAt := Some (clock d), part_Reason := Some ''left''\<rparr> else p)"

lemma leaves_fields [simp]:
  "part_CallID (leaves d i u p) = part_CallID p" "part_UserID (leaves d i u p) = part_UserID p"
  "part_LeftAt (leaves d i u p) = (if part_CallID p = i \<and> part_UserID p = u then Some (clock d) else part_LeftAt p)"
  by (simp_all add: leaves_def)

definition others_left :: "callParticipant list \<Rightarrow> callID \<Rightarrow> userID \<Rightarrow> bool" where
  "others_left ps i u \<longleftrightarrow>
     (\<forall>p \<in> set ps. part_CallID p = i \<and> part_UserID p \<noteq> u \<longrightarrow> part_LeftAt p \<noteq> None)"

lemma allLeft_leaves:
  "allLeft (sort_key part_ID (filter (\<lambda>p. part_CallID p = i) (map (leaves d i u) ps)))
     \<longleftrightarrow> others_left ps i u"
proof -
  have "allLeft (sort_key part_ID (filter (\<lambda>p. part_CallID p = i) (map (leaves d i u) ps)))
    \<longleftrightarrow> (\<forall>q \<in> set (map (leaves d i u) ps). part_CallID q = i \<longrightarrow> part_LeftAt q \<noteq> None)"
    by (simp only: allLeft_def list_all_iff set_sort set_filter) blast
  also have "\<dots> \<longleftrightarrow> (\<forall>p \<in> set ps. part_CallID p = i \<longrightarrow> part_LeftAt (leaves d i u p) \<noteq> None)"
    by (simp only: set_map ball_simps leaves_fields(1))
  finally show ?thesis by (simp only: others_left_def leaves_fields split: if_split) blast
qed

lemma UpdateParticipant_nf:
  assumes "db_ok d" and "faults d = []" and "p \<in> set (t_call_participants d)"
  shows "run_state (UpdateParticipant (p\<lparr>part_LeftAt := l, part_Reason := r\<rparr>)) d = (Inr (),
     d\<lparr>t_call_participants := map (\<lambda>q. if part_CallID q = part_CallID p \<and> part_UserID q = part_UserID p
        then q\<lparr>part_LeftAt := l, part_Reason := r\<rparr> else q) (t_call_participants d)\<rparr>)"
proof -
  have "q = p" if "q \<in> set (t_call_participants d)" "part_CallID q = part_CallID p"
      "part_UserID q = part_UserID p" for q
    using assms(1,3) that by (auto simp: db_ok_def participants_ok_def distinct_map inj_on_def)
  then have "map (\<lambda>q. if part_CallID q = part_CallID p \<and> part_UserID q = part_UserID p
        then q\<lparr>part_JoinedAt := part_JoinedAt p, part_LeftAt := l, part_Reason := r\<rparr> else q)
        (t_call_participants d)
    = map (\<lambda>q. if part_CallID q = part_CallID p \<and> part_UserID q = part_UserID p
        then q\<lparr>part_LeftAt := l, part_Reason := r\<rparr> else q) (t_call_participants d)"
    by (cases p) (intro map_cong; force)
  then show ?thesis
    using no_fault[OF assms(2)] by (simp add: UpdateParticipant_def run_db del: map_eq_conv cong: if_cong)
qed

lemma ListParticipants_nf:
  "faults d = [] \<Longrightarrow> run_state (ListParticipants i) d =
     ((sort_key part_ID (filter (\<lambda>p. part_CallID p = i) (t_call_participants d)), None), d)"
  by (simp add: ListParticipants_def run_db)

lemma LeaveCall_behaviour_eq:
  assumes "db_ok d" and "faults d = []"
  shows "run_state (LeaveCall i u) d =
     (if \<not> is_participant d i u then (Inl calls_ErrNotParticipant, d)
      else (Inr (), d\<lparr>t_call_participants := map (leaves d i u) (t_call_participants d),
        t_calls := (if others_left (t_call_participants d) i u
                    then map (\<lambda>c. if call_ID c = i \<and> call_Status c \<noteq> CallStatusEnded
                                  then ended_now d c else c) (t_calls d)
                    else t_calls d)\<rparr>))"
proof (cases "is_participant d i u")
  case False
  then show ?thesis by (simp add: LeaveCall_def GetParticipant_nf(1)[OF assms(2)])
next
  case True
  then obtain p where p: "p \<in> set (t_call_participants d)" "run_state (GetParticipant i u) d = (Inr p, d)"
      "part_CallID p = i" "part_UserID p = u"
    using GetParticipant_nf(2)[OF assms(2)] by blast
  let ?d = "d\<lparr>t_call_participants := map (leaves d i u) (t_call_participants d)\<rparr>"
  have upd: "run_state (UpdateParticipant (p\<lparr>part_LeftAt := Some (clock d), part_Reason := Some ''left''\<rparr>)) d
      = (Inr (), ?d)"
    using UpdateParticipant_nf[OF assms p(1)] p(3,4)
    by (simp add: leaves_def[abs_def])
  have nf: "faults ?d = []" using assms(2) by simp
  have ok: "db_ok ?d"
    using dbk.eb_run[OF call_writes_keep(4) upd] assms(1) by blast
  have fin: "run_state (store_GetCall i) ?d = (case List.find (\<lambda>c. call_ID c = i) (t_calls d) of
      None \<Rightarrow> (Inl (ErrWrap ''call not found'' sql_ErrNoRows), ?d) | Some c \<Rightarrow> (Inr c, ?d))"
    using GetCall_nf[OF nf] by simp
  note run = LeaveCall_def p(2) run_time_Now upd ListParticipants_nf[OF nf] allLeft_leaves fin
  show ?thesis
  proof (cases "List.find (\<lambda>c. call_ID c = i) (t_calls d)")
    case None
    then have "map (\<lambda>c. if call_ID c = i \<and> call_Status c \<noteq> CallStatusEnded then ended_now d c else c)
        (t_calls d) = t_calls d"
      by (intro map_idI) (auto simp: find_None_iff)
    with None True show ?thesis by (simp add: run)
  next
    case (Some c)
    then have c: "c \<in> set (t_calls d)" "call_ID c = i" by (auto simp: find_Some_iff)
    have same: "x = c" if "x \<in> set (t_calls d)" "call_ID x = i" for x
      using assms(1) c that by (auto simp: db_ok_def calls_ok_def distinct_map inj_on_def)
    have cur: "current_timestamp ?d = current_timestamp d" by (simp add: current_timestamp_def)
    have end_eq: "map (\<lambda>x. if call_ID x = i \<and> call_Status x \<noteq> CallStatusEnded then ended_now d x else x) (t_calls d) =
       (if call_Status c = CallStatusEnded then t_calls d
        else map (\<lambda>x. if call_ID x = i then ended_now d x else x) (t_calls d))"
      using same by (auto intro!: map_idI map_cong)
    have upd2: "run_state (UpdateCall (c\<lparr>call_Status := CallStatusEnded, call_EndedAt := Some (clock d),
        call_UpdatedAt := clock d\<rparr>)) ?d =
        (Inr (), ?d\<lparr>t_calls := map (\<lambda>x. if call_ID x = i then ended_now d x else x) (t_calls d)\<rparr>)"
      using UpdateCall_nf[OF ok nf, of c] c by (simp add: ended_now_def[abs_def] cur)
    show ?thesis
      unfolding end_eq using Some True upd2 by (simp add: run)
  qed
qed



definition left_view :: "db \<Rightarrow> (callID \<times> userID \<times> time option) set" where
  "left_view d = (\<lambda>q. (part_CallID q, part_UserID q, part_LeftAt q)) ` set (t_call_participants d)"

lemma left_view_upd: "left_view (d\<lparr>t_call_participants := ps\<rparr>) =
    set (map (\<lambda>q. (part_CallID q, part_UserID q, part_LeftAt q)) ps)"
  by (simp add: left_view_def)

lemma left_view_eq:
  assumes "left_view d1 = left_view d"
  shows "is_participant d1 i b = is_participant d i b"
    and "others_left (t_call_participants d1) i b = others_left (t_call_participants d) i b"
proof -
  have "is_participant x i b \<longleftrightarrow> (\<exists>l. (i, b, l) \<in> left_view x)" for x
    by (auto simp: is_participant_def left_view_def)
  then show "is_participant d1 i b = is_participant d i b" using assms by simp
  have "others_left (t_call_participants x) i b \<longleftrightarrow> (\<forall>v l. (i, v, l) \<in> left_view x \<longrightarrow> v \<noteq> b \<longrightarrow> l \<noteq> None)" for x
    by (auto simp: others_left_def left_view_def)
  then show "others_left (t_call_participants d1) i b = others_left (t_call_participants d) i b"
    using assms by simp
qed

lemma mark_joined_left:
  assumes "db_ok d" and "faults d = []" and "p \<in> set (t_call_participants d)"
  shows "\<exists>d'. run_state (mark_joined p) d = ((), d') \<and> faults d' = [] \<and> left_view d' = left_view d"
proof -
  have "part_LeftAt q = part_LeftAt p" if "q \<in> set (t_call_participants d)" "part_CallID q = part_CallID p"
      "part_UserID q = part_UserID p" for q
    using assms(1,3) that by (metis (mono_tags, lifting) db_ok_def participants_ok_def distinct_map inj_onD)
  then have "map (\<lambda>q. (part_CallID q, part_UserID q, part_LeftAt q)) (map (\<lambda>q.
      if part_CallID q = part_CallID p \<and> part_UserID q = part_UserID p
      then q\<lparr>part_JoinedAt := j, part_LeftAt := part_LeftAt p, part_Reason := r\<rparr> else q) (t_call_participants d))
    = map (\<lambda>q. (part_CallID q, part_UserID q, part_LeftAt q)) (t_call_participants d)" for j r
    by auto
  note eq = this
  show ?thesis
  proof (cases "part_JoinedAt p")
    case None
    then have "run_state (mark_joined p) d = ((), d\<lparr>t_call_participants := map (\<lambda>q.
      if part_CallID q = part_CallID p \<and> part_UserID q = part_UserID p
      then q\<lparr>part_JoinedAt := Some (clock d), part_LeftAt := part_LeftAt p, part_Reason := part_Reason p\<rparr>
      else q) (t_call_participants d)\<rparr>)"
      using assms(2) by (simp add: mark_joined_def run_db UpdateParticipant_def)
    moreover from arg_cong[OF eq, of set] have "left_view (d\<lparr>t_call_participants := map (\<lambda>q.
      if part_CallID q = part_CallID p \<and> part_UserID q = part_UserID p
      then q\<lparr>part_JoinedAt := Some (clock d), part_LeftAt := part_LeftAt p, part_Reason := part_Reason p\<rparr>
      else q) (t_call_participants d)\<rparr>) = left_view d"
      by (simp only: left_view_upd) (simp only: left_view_def set_map)
    ultimately show ?thesis using assms(2) by auto
  qed (use assms(2) in \<open>simp add: mark_joined_def\<close>)
qed

lemma GetJoinInfo_left_view:
  assumes "db_ok d" and "faults d = []" and "is_participant d i a"
    and run: "run_state (GetJoinInfo s i a) d = (Inr ji, d1)"
  shows "faults d1 = [] \<and> left_view d1 = left_view d"
proof -
  obtain eng where eng: "svc_engine s = Some eng"
    using run by (cases "svc_engine s") (auto simp: GetJoinInfo_def)
  obtain c where c: "run_state (store_GetCall i) d = (Inr c, d)"
      "\<not> (call_Status c = CallStatusEnded \<or> call_Status c = CallStatusFailed)"
    using run eng assms(2)
    by (auto simp: GetJoinInfo_def run_lookups split: sum.splits if_splits)
  obtain p where p: "p \<in> set (t_call_participants d)" "run_state (GetParticipant i a) d = (Inr p, d)"
    using GetParticipant_nf(2)[OF assms(2,3)] by blast
  obtain d2 where d2: "run_state (mark_joined p) d = ((), d2)" "faults d2 = []" "left_view d2 = left_view d"
    using mark_joined_left[OF assms(1,2) p(1)] by blast
  obtain c' d3 where c': "run_state (mark_active c) d2 = (c', d3)" by (rule prod.exhaust)
  have "d1 = pop_fault d3"
    using run eng c p d2 c'
    by (auto simp: GetJoinInfo_def participant_for_join_def run_lookups split: sum.splits)
  moreover have "faults d3 = [] \<and> t_call_participants d3 = t_call_participants d2"
    using c' d2(2) by (auto simp: mark_active_def run_db UpdateCall_def Let_def split: if_splits)
  ultimately show ?thesis using d2(3) by (simp add: left_view_def)
qed

text \<open>(C34) Rejoining does not count. Once a participant has left a call, getting join credentials
  again succeeds but does not clear the time it left: when the remaining participant leaves, the
  call ends, although the first one is back in it.\<close>

theorem rejoin_forgotten:
  assumes "db_ok d" and "faults d = []" and "a \<noteq> b"
    and "is_participant d i a" and "is_participant d i b"
    and "others_left (t_call_participants d) i b"
    and "run_state (GetJoinInfo s i a) d = (Inr ji, d1)"
  shows "\<forall>c \<in> set (t_calls (after (LeaveCall i b) d1)). call_ID c = i \<longrightarrow> call_Status c = CallStatusEnded"
proof -
  note join = GetJoinInfo_left_view[OF assms(1,2,4,7)]
  have "db_ok d1"
    using dbk.eb_run[OF call_service_keeps(4) assms(7)] assms(1) by blast
  moreover have "is_participant d1 i b" "others_left (t_call_participants d1) i b"
    using left_view_eq[OF conjunct2[OF join], of i b] assms(5,6) by blast+
  ultimately have "t_calls (after (LeaveCall i b) d1) = map (\<lambda>c.
      if call_ID c = i \<and> call_Status c \<noteq> CallStatusEnded then ended_now d1 c else c) (t_calls d1)"
    using join LeaveCall_behaviour_eq[of d1 i b] by simp
  moreover have "call_Status (if call_ID c = i \<and> call_Status c \<noteq> CallStatusEnded then ended_now d1 c else c) = CallStatusEnded"
    if "call_ID (if call_ID c = i \<and> call_Status c \<noteq> CallStatusEnded then ended_now d1 c else c) = i" for c
    using that by (simp add: ended_now_def split: if_splits)
  ultimately show ?thesis by (metis (no_types, lifting) list.set_map imageE)
qed

definition rejoin_db :: db where
  "rejoin_db = demo_call_db\<lparr>t_call_participants :=
     [(new_participant ''c1'' 1)\<lparr>part_ID := 1\<rparr>, (new_participant ''c1'' 2)\<lparr>part_ID := 2, part_LeftAt := Some 5\<rparr>]\<rparr>"

lemma demo_rejoin:
  "\<exists>ji d'. run_state (GetJoinInfo demo_svc ''c1'' 2) rejoin_db = (Inr ji, d')"
  by (simp add: GetJoinInfo_def demo_svc_def calls_New_def participant_for_join_def mark_joined_def
      mark_active_def UpdateParticipant_def UpdateCall_def run_db demo_call_db_def rejoin_db_def demo_db_def
      init_db_def demo_users_def demo_call_def new_participant_def demo_engine_def livekit_engine_def
      livekit_GenerateJoinInfo_def livekit_New_def demo_signer_def scan_user_def Let_def fault_now_def
      pop_fault_def)

lemma demo_rejoin_calls:
  "map call_ID (t_calls (after (LeaveCall ''c1'' 1) (after (GetJoinInfo demo_svc ''c1'' 2) rejoin_db))) = [''c1'']"
  by (simp add: GetJoinInfo_def demo_svc_def calls_New_def participant_for_join_def mark_joined_def
      mark_active_def UpdateParticipant_def UpdateCall_def run_db demo_call_db_def rejoin_db_def demo_db_def
      init_db_def demo_users_def demo_call_def new_participant_def demo_engine_def livekit_engine_def
      livekit_GenerateJoinInfo_def livekit_New_def demo_signer_def scan_user_def Let_def fault_now_def
      pop_fault_def LeaveCall_def ListParticipants_def allLeft_def)

theorem rejoin_forgotten_witness:
  "\<exists>c. t_calls (after (LeaveCall ''c1'' 1) (after (GetJoinInfo demo_svc ''c1'' 2) rejoin_db)) = [c]
     \<and> call_ID c = ''c1'' \<and> call_Status c = CallStatusEnded"
proof -
  obtain ji d1 where run: "run_state (GetJoinInfo demo_svc ''c1'' 2) rejoin_db = (Inr ji, d1)"
    using demo_rejoin by blast
  have "db_ok rejoin_db" "faults rejoin_db = []"
    by (simp_all add: rejoin_db_def demo_call_db_def demo_db_def init_db_def demo_users_def db_ok_def
        table_oks table_ok_def new_participant_def)
  moreover have "is_participant rejoin_db ''c1'' 2" "is_participant rejoin_db ''c1'' 1"
      "others_left (t_call_participants rejoin_db) ''c1'' 1"
    by (simp_all add: is_participant_def others_left_def rejoin_db_def new_participant_def)
  ultimately have "\<forall>c \<in> set (t_calls (after (LeaveCall ''c1'' 1) d1)). call_ID c = ''c1'' \<longrightarrow> call_Status c = CallStatusEnded"
    using rejoin_forgotten[OF _ _ _ _ _ _ run, of 1] by simp
  then show ?thesis
    using demo_rejoin_calls unfolding run snd_conv by auto
qed

section \<open>Room calls\<close>

lemma GetRoomByID_Inr:
  "run_state (GetRoomByID r) d = (Inr x, d') \<Longrightarrow> x \<in> set (t_rooms d) \<and> room_ID x = r \<and> d' = pop_fault d"
  by (auto simp: run_lookups dest!: query_row_Inr(2))

lemma GetActiveCallForRoom_Inr:
  assumes "run_state (GetActiveCallForRoom r) d = (Inr x, d')"
  shows "d' = pop_fault d \<and> (case x of None \<Rightarrow> live_in_room (t_calls d) r = []
    | Some c \<Rightarrow> c \<in> set (live_in_room (t_calls d) r))"
proof -
  let ?xs = "sort_key (\<lambda>c. - call_CreatedAt c) (live_in_room (t_calls d) r)"
  have "sort_key k xs = [] \<longleftrightarrow> xs = []" for k :: "call \<Rightarrow> int" and xs
    by (metis length_0_conv length_sort)
  moreover have "set ?xs = set (live_in_room (t_calls d) r)" by simp
  ultimately show ?thesis
    using assms
    by (cases ?xs) (auto simp: GetActiveCallForRoom_def run_query_row live_in_room_def sql_limit_def
        simp del: set_sort split: option.splits if_splits)
qed

text \<open>The branch of \<open>CreateRoomCall\<close> for a room that has a live call.\<close>

definition enter_existing :: "call \<Rightarrow> userID \<Rightarrow> (goerr + call) dbm" where
  "enter_existing c0 a = do {
     p \<leftarrow> GetParticipant (call_ID c0) a;
     case p of
       Inr _ \<Rightarrow> return (Inr c0)
     | Inl _ \<Rightarrow> do {
         r \<leftarrow> AddParticipant (new_participant (call_ID c0) a);
         case r of Inl e \<Rightarrow> return (Inl (ErrWrap ''add participant to existing call'' e))
                 | Inr _ \<Rightarrow> return (Inr c0) }}"

lemma existing_call_entered:
  assumes "run_state (enter_existing c0 a) d = (Inr c, d')"
  shows "c = c0 \<and> t_calls d' = t_calls d \<and> is_participant d' (call_ID c) a"
proof (cases "result_of (GetParticipant (call_ID c0) a) d")
  case (Inl e)
  then have "run_state (GetParticipant (call_ID c0) a) d = (Inl e, pop_fault d)" by (simp add: run_lookups)
  with assms obtain q where "c = c0"
      "run_state (AddParticipant (new_participant (call_ID c0) a)) (pop_fault d) = (Inr q, d')"
    by (auto simp: enter_existing_def split: sum.splits prod.splits)
  then show ?thesis by (auto simp: is_participant_def new_participant_def dest!: AddParticipant_Inr)
next
  case (Inr p)
  then have p: "run_state (GetParticipant (call_ID c0) a) d = (Inr p, pop_fault d)" by (simp add: run_lookups)
  with assms have "c = c0 \<and> d' = pop_fault d" by (simp add: enter_existing_def)
  then show ?thesis using GetParticipant_Inr[OF p] by (auto simp: is_participant_def)
qed


definition room_call_db :: db where
  "room_call_db = demo_db\<lparr>t_room_members := [\<lparr>member_UserID = 1, member_RoomID = 1, member_JoinedAt = 0\<rparr>]\<rparr>"

lemma demo_room_call:
  "\<exists>c d'. run_state (CreateRoomCall demo_svc 1 1) room_call_db = (Inr c, d')"
  by (simp add: CreateRoomCall_def demo_svc_def calls_New_def run_db room_call_db_def demo_db_def
      init_db_def demo_users_def new_participant_def demo_engine_def livekit_engine_def IsMember_run
      livekit_CreateCall_def store_CreateCall_def AddParticipant_def GetActiveCallForRoom_def sql_limit_def
      Let_def fault_now_def pop_fault_def)


end
