(* ===== verification/Hub_Database.thy ===== *)
theory Hub_Database
  imports Hub_Messages Call_Cycle
begin

text \<open>
  The hub as a client of the store and of the call service. \<open>hub_client\<close> is the interface between
  them: a relation \<open>D\<close> between databases that the methods the hub calls respect, and a relation \<open>R\<close>
  between worlds that the hub's own moves and the database calls along \<open>D\<close> respect. Then every handler
  respects \<open>R\<close>; \<open>hub_loop\<close> adds the queues of the main loop, and \<open>free_loop\<close> the steps of the
  goroutines beside it. Here they are interpreted with the call service of \<open>internal/service/calls\<close>, for
  what the running server does to the database, and for what the hub puts into the channels of its clients.
\<close>

text \<open>Who a client says it is; and two worlds that agree on the database, the call service, the identities and
  everything that waits in a channel.\<close>

definition ident :: "world \<Rightarrow> cptr \<Rightarrow> userID \<times> string \<times> bool" where
  "ident w c = (cl_UserID (heap w c), cl_Name (heap w c), cl_IsGuest (heap w c))"

definition same_but_bookkeeping :: "world \<Rightarrow> world \<Rightarrow> bool" where
  "same_but_bookkeeping w w' \<longleftrightarrow> database w' = database w \<and> h_callService w' = h_callService w
     \<and> (\<forall>c. ch_buf (cl_Events (heap w' c)) = ch_buf (cl_Events (heap w c))
          \<and> ch_cap (cl_Events (heap w' c)) = ch_cap (cl_Events (heap w c)) \<and> cl_Commands (heap w' c) = cl_Commands (heap w c)
          \<and> ident w' c = ident w c)
     \<and> h_register w' = h_register w \<and> h_unregister w' = h_unregister w \<and> h_commands w' = h_commands w
     \<and> in_hand w' = in_hand w \<and> next_cptr w' = next_cptr w \<and> sched w' = sched w"

locale hub_client = hub_scheduled R sendable + db: effect_bound D
  for R :: "world \<Rightarrow> world \<Rightarrow> bool" and sendable and D :: "db \<Rightarrow> db \<Rightarrow> bool" +
  fixes service_ok :: "callService \<Rightarrow> bool"
  assumes R_local: "same_but_bookkeeping w w' \<Longrightarrow> R w w'"
    and R_db: "D (database w) d \<Longrightarrow> R w (w\<lparr>database := d\<rparr>)"
    and R_foreign: "h_callService w = Some s \<Longrightarrow> \<not> service_ok s \<Longrightarrow> R w w'"
    and D_store: "state_io_rel D (GetRoomByName n)" "state_io_rel D (ListMessages i k b)"
      "state_io_rel D (GetUserByID u)" "state_io_rel D (SaveMessage m)" "state_io_rel D time_Now"
    and D_service: "service_ok s \<Longrightarrow> state_io_rel D (cs_CreateDirectCall s a v)"
      "service_ok s \<Longrightarrow> state_io_rel D (cs_CreateRoomCall s a q)" "service_ok s \<Longrightarrow> state_io_rel D (cs_GetCall s j)"
      "service_ok s \<Longrightarrow> state_io_rel D (cs_GetJoinInfo s j a)" "service_ok s \<Longrightarrow> state_io_rel D (cs_EndCall s j a)"
      "service_ok s \<Longrightarrow> state_io_rel D (cs_RejectCall s j a t)" "service_ok s \<Longrightarrow> state_io_rel D (cs_LeaveCall s j a)"
      "service_ok s \<Longrightarrow> state_io_rel D (cs_GetTargetUser s a)" "service_ok s \<Longrightarrow> state_io_rel D (cs_ListRoomMembers s q)"
      "service_ok s \<Longrightarrow> state_io_rel D (cs_GetRoomInfo s q)"
begin

lemma hc_do: "(\<And>w. same_but_bookkeeping w (f w)) \<Longrightarrow> state_io_rel R (hub_do f)"
  by (auto intro!: he_do R_local)

lemma hc_db: "state_io_rel D m \<Longrightarrow> state_io_rel R (hub_db m)"
  by (auto simp: state_io_rel_def hub_db_def hub_do_def R_refl R_db)

lemma hc_guard:
  assumes "\<And>s cl cc. service_ok s \<Longrightarrow> state_io_rel R (body s cl cc)"
  shows "state_io_rel R (call_guard c cmd body)"
proof -
  have err: "R w (after (sendCallError c code msg) w)" "R w (after (hub_panic p) w)" for w code msg p
    using he_call_error he_panic by (simp_all add: state_io_rel_def)
  have "R w (after (call_guard c cmd body) w)" for w
  proof (cases "\<exists>s. h_callService w = Some s \<and> \<not> service_ok s")
    case True
    then show ?thesis using R_foreign by blast
  next
    case False
    then show ?thesis
      using err assms by (auto simp: call_guard_def hub_read_def state_io_rel_def split: option.split)
  qed
  then show ?thesis by (simp add: state_io_rel_def)
qed

lemma hc_history: "state_io_rel D (history_messages r ms)"
  by (induction ms) (auto intro!: db.eb_rules D_store)

lemma hc_save: "state_io_rel D (save_room_message u r m)"
  unfolding save_room_message_def by (intro db.eb_rules D_store)

lemmas hc_rules = he_moves he_notify he_broadcast he_call_error hc_db D_store D_service hc_history hc_save
  sendable_made

lemma hc_calls:
  "state_io_rel R (handleCallInvite c cc)" "state_io_rel R (handleCallAccept c cc)"
  "state_io_rel R (handleCallReject c cc)" "state_io_rel R (handleCallJoin c cc)"
  "state_io_rel R (handleCallLeave c cc)" "state_io_rel R (handleCallEnd c cc)"
  unfolding handleCallInvite_def handleCallAccept_def handleCallReject_def
    handleCallJoin_def handleCallLeave_def handleCallEnd_def Let_def
  by (intro hc_guard hc_rules; simp)+

lemma hc_close: "state_io_rel R (hub_close c)"
proof -
  have "R w (after (hub_close c) w)" for w
    by (auto simp: hub_close_def hub_panic_def hub_do_def chan_close_def upd_client_def R_refl R_halt
        same_but_bookkeeping_def ident_def intro: R_local)
  then show ?thesis by (simp add: state_io_rel_def)
qed

lemma hc_rooms:
  "state_io_rel R (joinRoom c r)" "state_io_rel R (leaveRoom c r)"
  "state_io_rel R (sendRoomMessage c cmd)" "state_io_rel R (addClient c)" "state_io_rel R shutdown"
  unfolding joinRoom_def leaveRoom_def sendRoomMessage_def addClient_def shutdown_def ensureRoom_def room_add_def
    room_remove_def joined_room_def left_room_def send_history_def Let_def
  by (intro hc_rules hc_do hc_close; auto simp: same_but_bookkeeping_def ident_def upd_client_def split: option.split)+

lemma hc_remove: "state_io_rel R (removeClient c)"
  unfolding removeClient_def deregister_def
  by (intro hc_rules hc_do hc_close hc_rooms; simp add: same_but_bookkeeping_def ident_def)

lemma hc_command: "state_io_rel R (handleCommand c cmd)"
  unfolding handleCommand_def
  by (cases "cmd_Kind cmd") (auto intro: hc_rooms hc_calls hc_rules)

end

text \<open>When taking a request out of its queue respects \<open>R\<close> as well, so does a case of the main loop.\<close>

locale hub_loop = hub_client +
  assumes R_pop_register: "chan_recv (h_register w) = RecvValue c ch \<Longrightarrow> R w (w\<lparr>h_register := ch\<rparr>)"
    and R_pop_unregister: "chan_recv (h_unregister w) = RecvValue c ch' \<Longrightarrow> R w (w\<lparr>h_unregister := ch'\<rparr>)"
    and R_pop_commands: "chan_recv (h_commands w) = RecvValue x ch'' \<Longrightarrow> R w (w\<lparr>h_commands := ch''\<rparr>)"
begin

lemma hl_pop:
  assumes "\<And>w x ch. status w = Running \<Longrightarrow> chan_recv (q w) = RecvValue x ch \<Longrightarrow> R w (upd ch w)"
    and "\<And>x. state_io_rel R (k x)"
  shows "state_io_rel R (do { c \<leftarrow> hub_read q;
     case chan_recv c of RecvValue x ch \<Rightarrow> do { _ \<leftarrow> hub_do (upd ch); k x } | _ \<Rightarrow> return () })"
proof -
  have "R w (after (do { _ \<leftarrow> hub_do (upd ch); k x }) w)" if "chan_recv (q w) = RecvValue x ch" for w x ch
  proof -
    have "R w (if status w = Running then upd ch w else w)" using assms(1) that by (simp add: R_refl)
    moreover have "R v (after (k x) v)" for v using assms(2) by (simp add: state_io_rel_def)
    ultimately have "R w (after (k x) (if status w = Running then upd ch w else w))" by (rule R_trans)
    then show ?thesis by (simp add: hub_do_def)
  qed
  then show ?thesis
    by (auto simp: state_io_rel_def hub_read_def R_refl split: recv_result.split)
qed

lemma hl_Run_case: "state_io_rel R (Run_case k)"
proof (cases k)
  case OnRegister
  then show ?thesis
    unfolding Run_case_def run_case.case by (auto intro!: hl_pop R_pop_register hc_rooms)
next
  case OnUnregister
  then show ?thesis
    unfolding Run_case_def run_case.case by (auto intro!: hl_pop R_pop_unregister hc_remove)
next
  case OnCommand
  then show ?thesis
    unfolding Run_case_def run_case.case by (auto intro!: hl_pop R_pop_commands hc_command)
next
  case OnDone
  then show ?thesis
    unfolding Run_case_def run_case.case by (auto intro!: eb_bind hc_rooms he_do R_halt)
qed

end

locale free_loop = hub_loop + hub_moves
begin

text \<open>A step of the hub, under any schedule of the others.\<close>

lemma hc_run: "R w (after (Run_case k) (w\<lparr>sched := ss\<rparr>))"
  by (rule R_trans[OF R_sched[of w ss]]) (use hl_Run_case[of k] in \<open>simp add: state_io_rel_def\<close>)

end

section \<open>The call service behind the hub\<close>

definition db_moves :: "db \<Rightarrow> db \<Rightarrow> bool" where
  "db_moves d d' \<longleftrightarrow> (db_ok d \<longrightarrow> db_ok d' \<and> calls_step (t_calls d) (t_calls d'))"

lemma db_movesI:
  assumes "state_io_rel (\<lambda>d d'. db_ok d \<longrightarrow> db_ok d') m"
    and "\<And>d. db_ok d \<Longrightarrow> calls_step (t_calls d) (t_calls (after m d))"
  shows "state_io_rel db_moves m"
  using assms by (simp add: state_io_rel_def db_moves_def)

text \<open>A method that keeps the invariant and does not touch the table of calls.\<close>

lemma db_moves_frame:
  assumes "state_io_rel (\<lambda>d d'. db_ok d \<longrightarrow> db_ok d') m" and "state_io_rel (\<lambda>d d'. t_calls d' = t_calls d) m"
  shows "state_io_rel db_moves m"
  using assms by (simp add: state_io_rel_def db_moves_def)

interpretation calls_same: db_effect "\<lambda>d d'. t_calls d' = t_calls d"
  by unfold_locales auto

lemma calls_untouched:
  "state_io_rel (\<lambda>d d'. t_calls d' = t_calls d) (GetRoomByName n)"
  "state_io_rel (\<lambda>d d'. t_calls d' = t_calls d) (ListMessages i k b)"
  "state_io_rel (\<lambda>d d'. t_calls d' = t_calls d) (GetUserByID u)"
  "state_io_rel (\<lambda>d d'. t_calls d' = t_calls d) (SaveMessage m)"
  "state_io_rel (\<lambda>d d'. t_calls d' = t_calls d) time_Now"
  "state_io_rel (\<lambda>d d'. t_calls d' = t_calls d) (GetCall j)"
  "state_io_rel (\<lambda>d d'. t_calls d' = t_calls d) (GetTargetUser u)"
  "state_io_rel (\<lambda>d d'. t_calls d' = t_calls d) (ListRoomMembers q)"
  "state_io_rel (\<lambda>d d'. t_calls d' = t_calls d) (GetRoomInfo q)"
  unfolding GetRoomByName_def ListMessages_def GetUserByID_def SaveMessage_def GetCall_def store_GetCall_def
    GetTargetUser_def ListRoomMembers_def ListMembers_def GetRoomInfo_def GetRoomByID_def insert_message_def
  by (intro calls_same.de_rules calls_same.de_exec; auto simp: Let_def)+

lemma service_moves:
  "state_io_rel db_moves (CreateDirectCall s a v)" "state_io_rel db_moves (CreateRoomCall s a q)"
  "state_io_rel db_moves (GetJoinInfo s j a)" "state_io_rel db_moves (EndCall s j a)"
  "state_io_rel db_moves (RejectCall j a t)" "state_io_rel db_moves (LeaveCall j a)"
  using run_call_op_step[of _ "DirectCallOp s a v"] run_call_op_step[of _ "RoomCallOp s a q"]
    run_call_op_step[of _ "JoinInfoOp s j a"] run_call_op_step[of _ "EndCallOp s j a"]
    run_call_op_step[of _ "RejectCallOp j a t"] run_call_op_step[of _ "LeaveCallOp j a"]
  by (auto intro!: db_movesI call_service_keeps)

lemma store_moves:
  "state_io_rel db_moves (GetRoomByName n)" "state_io_rel db_moves (ListMessages i k b)"
  "state_io_rel db_moves (GetUserByID u)" "state_io_rel db_moves (SaveMessage m)" "state_io_rel db_moves time_Now"
  "state_io_rel db_moves (GetCall j)" "state_io_rel db_moves (GetTargetUser u)"
  "state_io_rel db_moves (ListRoomMembers q)" "state_io_rel db_moves (GetRoomInfo q)"
  by (intro db_moves_frame calls_untouched db_keeps dbk.de_time)+

interpretation mv: db_effect db_moves
  by unfold_locales (auto simp: db_moves_def intro: calls_step_trans)

definition served_by :: "callService \<Rightarrow> world \<Rightarrow> world \<Rightarrow> bool" where
  "served_by svc w w' \<longleftrightarrow> (h_callService w = Some svc \<longrightarrow>
     h_callService w' = Some svc \<and> db_moves (database w) (database w'))"

lemma served_frame: "h_callService w' = h_callService w \<Longrightarrow> database w' = database w \<Longrightarrow> served_by svc w w'"
  by (simp add: served_by_def mv.R_refl)

interpretation live: hub_moves "served_by (calls_service eng draw)" for eng draw
proof
  fix w v u :: world
  assume "served_by (calls_service eng draw) w v" and "served_by (calls_service eng draw) v u"
  then show "served_by (calls_service eng draw) w u" by (auto simp: served_by_def intro: mv.R_trans)
qed (auto simp: served_by_def mv.R_refl)

interpretation live: free_loop "served_by (calls_service eng draw)" "\<lambda>_. True" db_moves
    "\<lambda>s. s = calls_service eng draw" for eng draw
proof
  show "served_by (calls_service eng draw) w (others_step w)" for w by (rule live.R_any_others)
qed (auto simp: calls_service_def served_by_def mv.R_refl same_but_bookkeeping_def put_event_def upd_client_def
    intro!: store_moves service_moves mv.eb_rules)

section \<open>What is in a client's channel\<close>

definition channels_hold :: "(Event \<Rightarrow> bool) \<Rightarrow> world \<Rightarrow> bool" where
  "channels_hold P w \<longleftrightarrow> (\<forall>c. \<forall>ev \<in> set (ch_buf (cl_Events (heap w c))). P ev)"

lemma env_channels: "channels_hold P w \<Longrightarrow> channels_hold P (env_step a w)"
proof -
  assume P: "channels_hold P w"
  have "set (ch_buf (cl_Events (heap (env_step a w) c))) \<subseteq> set (ch_buf (cl_Events (heap w c)))" for c
    by (cases a) (auto simp: RegisterClient_def UnregisterClient_def consumeCommands_def
        upd_client_def chan_recv_def NewClient_def make_chan_def Let_def
        split: send_result.split recv_result.split option.split list.splits)
  with P show ?thesis by (auto simp: channels_hold_def)
qed

lemma channels_same:
  "same_but_bookkeeping w w' \<Longrightarrow> channels_hold P w' = channels_hold P w"
  "channels_hold P (w\<lparr>database := d\<rparr>) = channels_hold P w" "channels_hold P (w\<lparr>sched := ss\<rparr>) = channels_hold P w"
  "channels_hold P (w\<lparr>status := s\<rparr>) = channels_hold P w" "channels_hold P (w\<lparr>h_register := q\<rparr>) = channels_hold P w"
  "channels_hold P (w\<lparr>h_unregister := q\<rparr>) = channels_hold P w" "channels_hold P (w\<lparr>h_commands := q'\<rparr>) = channels_hold P w"
  by (simp_all add: channels_hold_def same_but_bookkeeping_def)

interpretation made: hub_moves "\<lambda>w w'. channels_hold made_event w \<longrightarrow> channels_hold made_event w'"
  by unfold_locales (auto simp: env_channels channels_same)

interpretation made: free_loop "\<lambda>w w'. channels_hold made_event w \<longrightarrow> channels_hold made_event w'" made_event
    "\<lambda>_ _. True" "\<lambda>_. True"
proof
  show "channels_hold made_event w \<longrightarrow> channels_hold made_event (others_step w)" for w by (rule made.R_any_others)
next
  fix ev c ch and w :: world
  assume "made_event ev" and "chan_send ev (cl_Events (heap w c)) = SendOk ch"
  then show "channels_hold made_event w \<longrightarrow> channels_hold made_event (put_event c ev ch w)"
    by (auto simp: channels_hold_def put_event_def upd_client_def chan_send_simps)
qed (auto simp: channels_same state_io_rel_def)

interpretation made_hub: inv_machine hub_step "channels_hold made_event"
  by unfold_locales (auto simp: hub_step_iff env_channels channels_same made.hc_run)

lemma reachable_channels:
  assumes "hub_step\<^sup>*\<^sup>* (NewHub st svc d) w"
  shows "channels_hold made_event w"
  by (rule made_hub.reach_inv[OF assms]) (simp add: channels_hold_def NewHub_def NewClient_def make_chan_def)

end
