(* ===== verification/Mapper.thy ===== *)
theory Mapper
  imports Proto Hub_Database
begin

text \<open>
  \<open>internal/transport/http/mapper.go\<close>: from what a client sends to a command of the hub, and from an
  event of the hub to what the client is sent. The results of \<open>inboundToCommand\<close> are Go's three: a
  command, an error for the client, an error that ends the connection.
\<close>

section \<open>Inbound\<close>

type_synonym mapped = "Command option \<times> protoError option \<times> goerr option"

definition proto_Error :: "string \<Rightarrow> string \<Rightarrow> protoError" where
  "proto_Error code msg = \<lparr>perr_Code = code, perr_Msg = msg\<rparr>"

definition bad_request :: "string \<Rightarrow> mapped" where
  "bad_request msg = (None, Some (proto_Error ErrCodeBadRequest msg), None)"

definition decoded :: "(json \<Rightarrow> goerr + 'a) \<Rightarrow> Inbound \<Rightarrow> ('a \<Rightarrow> mapped) \<Rightarrow> mapped" where
  "decoded dec inbound k = (case unmarshal_raw dec (in_Data inbound) of
       Inl e \<Rightarrow> (None, None, Some e) | Inr x \<Rightarrow> k x)"

text \<open>The cases of join and leave, and those of a call command that names a call.\<close>

definition room_command :: "CommandKind \<Rightarrow> Inbound \<Rightarrow> mapped" where
  "room_command kind inbound = decoded dec_JoinData inbound (\<lambda>join.
     if join_Room join = '''' then bad_request ''room is required''
     else (Some ((new_command kind)\<lparr>cmd_Room := join_Room join\<rparr>), None, None))"

definition call_action :: "CommandKind \<Rightarrow> bool \<Rightarrow> Inbound \<Rightarrow> mapped" where
  "call_action kind withReason inbound = decoded dec_CallActionData inbound (\<lambda>action.
     if action_CallID action = '''' then bad_request ''call_id is required''
     else (Some ((new_command kind)\<lparr>cmd_Call := Some (new_callCommand\<lparr>cc_CallID := action_CallID action,
            cc_Reason := (if withReason then action_Reason action else '''')\<rparr>)\<rparr>), None, None))"

definition call_invite :: "Inbound \<Rightarrow> mapped" where
  "call_invite inbound = decoded dec_CallInviteData inbound (\<lambda>invite.
     if invite_CallType invite \<noteq> ''direct'' \<and> invite_CallType invite \<noteq> ''room''
     then bad_request (''call_type must be 'direct' or 'room'' @ [CHR 0x27])
     else if invite_CallType invite = ''direct'' \<and> invite_ToUserID invite = 0
     then bad_request ''to_user_id is required for direct calls''
     else if invite_CallType invite = ''room'' \<and> invite_RoomID invite = 0
     then bad_request ''room_id is required for room calls''
     else (Some ((new_command CommandCallInvite)\<lparr>cmd_Call := Some (new_callCommand\<lparr>
            cc_CallType := invite_CallType invite, cc_ToUserID := invite_ToUserID invite,
            cc_RoomID := invite_RoomID invite\<rparr>)\<rparr>), None, None))"

text \<open>\<open>now\<close> is what \<open>time.Now\<close> returns; of the client only its name is read.\<close>

definition inboundToCommand :: "Client \<Rightarrow> time \<Rightarrow> Inbound \<Rightarrow> mapped" where
  "inboundToCommand client now inbound = (let ty = in_Type inbound in
     if ty = InboundTypeJoin then room_command CommandJoinRoom inbound
     else if ty = InboundTypeLeave then room_command CommandLeaveRoom inbound
     else if ty = InboundTypeMsg then decoded dec_MsgData inbound (\<lambda>msg.
       if msg_Room msg = '''' then bad_request ''room is required''
       else (Some ((new_command CommandSendRoomMessage)\<lparr>cmd_Room := msg_Room msg,
              cmd_Message := zero_message\<lparr>cm_Room := msg_Room msg, cm_From := cl_Name client,
                cm_Text := msg_Text msg, cm_CreatedAt := now\<rparr>\<rparr>), None, None))
     else if ty = InboundTypeCallInvite then call_invite inbound
     else if ty = InboundTypeCallAccept then call_action CommandCallAccept False inbound
     else if ty = InboundTypeCallReject then call_action CommandCallReject True inbound
     else if ty = InboundTypeCallJoin then call_action CommandCallJoin False inbound
     else if ty = InboundTypeCallLeave then call_action CommandCallLeave False inbound
     else if ty = InboundTypeCallEnd then call_action CommandCallEnd False inbound
     else (None, Some (proto_Error ''invalid_message'' ''unknown message type''), None))"

section \<open>Outbound\<close>

definition message_data :: "coreMessage \<Rightarrow> protoEventMessage" where
  "message_data m = \<lparr>em_ID = cm_ID m, em_Room = cm_Room m, em_User = cm_From m, em_Text = cm_Text m,
     em_TS = Unix (cm_CreatedAt m)\<rparr>"

definition event_out :: "string \<Rightarrow> outboundData \<Rightarrow> Outbound" where
  "event_out ev d = \<lparr>out_Type = ''event'', out_Event = ev, out_Data = d, out_Error = None\<rparr>"

definition error_out :: "protoError \<Rightarrow> Outbound" where
  "error_out e = \<lparr>out_Type = ''error'', out_Event = '''', out_Data = NoData, out_Error = Some e\<rparr>"

definition nil_dereference :: goerr where
  "nil_dereference = GoPanic ''invalid memory address or nil pointer dereference''"

text \<open>Reading a field through \<open>event.Call\<close> or \<open>event.Call.JoinInfo\<close>.\<close>

definition via :: "'a option \<Rightarrow> ('a \<Rightarrow> goerr + 'b) \<Rightarrow> goerr + 'b" where
  "via p f = (case p of None \<Rightarrow> Inl nil_dereference | Some x \<Rightarrow> f x)"

definition outboundFromEvent :: "Event \<Rightarrow> goerr + Outbound" where
  "outboundFromEvent event = (case ev_Kind event of
     EventRoomMessage \<Rightarrow> Inr (event_out ''message'' (MessageData (message_data (ev_Message event))))
   | EventUserJoined \<Rightarrow> Inr (event_out ''user_joined'' (UserJoinedData \<lparr>eu_Room = ev_Room event, eu_User = ev_User event\<rparr>))
   | EventUserLeft \<Rightarrow> Inr (event_out ''user_left'' (UserLeftData \<lparr>eu_Room = ev_Room event, eu_User = ev_User event\<rparr>))
   | EventHistory \<Rightarrow> Inr (event_out ''history'' (HistoryData \<lparr>eh_Room = ev_Room event,
       eh_Messages = map message_data (ev_Messages event)\<rparr>))
   | EventError \<Rightarrow> Inr (case ev_Error event of
       None \<Rightarrow> error_out (proto_Error ''unknown'' ''unknown error'')
     | Some e \<Rightarrow> error_out (proto_Error (ce_Code e) (ce_Message e)))
   | EventCallIncoming \<Rightarrow> via (ev_Call event) (\<lambda>c. Inr (event_out EventTypeCallIncoming (CallIncomingData
       \<lparr>eci_CallID = cev_CallID c, eci_CallType = cev_CallType c, eci_FromUserID = cev_FromUserID c,
        eci_FromUsername = cev_FromUsername c, eci_RoomID = cev_RoomID c, eci_RoomName = cev_RoomName c,
        eci_CreatedAt = cev_CreatedAt c\<rparr>)))
   | EventCallRinging \<Rightarrow> via (ev_Call event) (\<lambda>c. Inr (event_out EventTypeCallRinging (CallRingingData
       \<lparr>ecr_CallID = cev_CallID c, ecr_ToUserID = cev_ToUserID c, ecr_ToUsername = cev_ToUsername c\<rparr>)))
   | EventCallAccepted \<Rightarrow> via (ev_Call event) (\<lambda>c. Inr (event_out EventTypeCallAccepted (CallAcceptedData
       \<lparr>eca_CallID = cev_CallID c, eca_AcceptedByUserID = cev_FromUserID c,
        eca_AcceptedByUsername = cev_FromUsername c\<rparr>)))
   | EventCallRejected \<Rightarrow> via (ev_Call event) (\<lambda>c. Inr (event_out EventTypeCallRejected (CallRejectedData
       \<lparr>ecx_CallID = cev_CallID c, ecx_RejectedByUserID = cev_FromUserID c, ecx_Reason = cev_Reason c\<rparr>)))
   | EventCallJoinInfo \<Rightarrow> via (ev_Call event) (\<lambda>c. via (cev_JoinInfo c) (\<lambda>j.
       Inr (event_out EventTypeCallJoinInfo (CallJoinInfoData
         \<lparr>ecj_CallID = cev_CallID c, ecj_URL = cji_URL j, ecj_Token = cji_Token j,
          ecj_RoomName = cji_RoomName j, ecj_Identity = cji_Identity j\<rparr>))))
   | EventCallParticipantJoined \<Rightarrow> via (ev_Call event) (\<lambda>c. Inr (event_out EventTypeCallParticipantJoined
       (CallParticipantJoinedData \<lparr>epj_CallID = cev_CallID c, epj_UserID = cev_FromUserID c,
        epj_Username = cev_FromUsername c\<rparr>)))
   | EventCallParticipantLeft \<Rightarrow> via (ev_Call event) (\<lambda>c. Inr (event_out EventTypeCallParticipantLeft
       (CallParticipantLeftData \<lparr>epl_CallID = cev_CallID c, epl_UserID = cev_FromUserID c,
        epl_Username = cev_FromUsername c, epl_Reason = cev_Reason c\<rparr>)))
   | EventCallEnded \<Rightarrow> via (ev_Call event) (\<lambda>c. Inr (event_out EventTypeCallEnded (CallEndedData
       \<lparr>ece_CallID = cev_CallID c, ece_EndedByUserID = cev_FromUserID c, ece_Reason = cev_Reason c\<rparr>)))
   | UnknownEvent n \<Rightarrow> Inr (event_out '''' NoData))"

section \<open>What a client can make the server do\<close>

text \<open>The commands the hub expects: the data its handler reads is there and not empty.\<close>

definition wf_command :: "Command \<Rightarrow> bool" where
  "wf_command cmd = (case cmd_Kind cmd of
       CommandJoinRoom \<Rightarrow> cmd_Room cmd \<noteq> ''''
     | CommandLeaveRoom \<Rightarrow> cmd_Room cmd \<noteq> ''''
     | CommandSendRoomMessage \<Rightarrow> cmd_Room cmd \<noteq> '''' \<and> cm_Room (cmd_Message cmd) = cmd_Room cmd
         \<and> cm_ID (cmd_Message cmd) = 0
     | CommandCallInvite \<Rightarrow> (\<exists>cc. cmd_Call cmd = Some cc \<and>
         (cc_CallType cc = ''direct'' \<and> cc_ToUserID cc \<noteq> 0 \<or> cc_CallType cc = ''room'' \<and> cc_RoomID cc \<noteq> 0))
     | UnknownCommand n \<Rightarrow> False
     | _ \<Rightarrow> (\<exists>cc. cmd_Call cmd = Some cc \<and> cc_CallID cc \<noteq> ''''))"

lemmas mapper_cases = inboundToCommand_def room_command_def call_action_def call_invite_def decoded_def
  bad_request_def

text \<open>(C23) The mapper's contract. Whatever a client sends, \<open>inboundToCommand\<close> returns exactly one of a
  command, an error for the client, and an error that closes the connection. A command it returns is
  one the hub expects: its kind is a declared one, a room command names a room, a call command
  carries its call data with the identifiers filled in; and a message is signed with the client's
  name, dated now, and not given an id by the client.\<close>

theorem inbound_commands_wf:
  "case inboundToCommand client now inbound of
     (Some cmd, pe, err) \<Rightarrow> pe = None \<and> err = None \<and> wf_command cmd
       \<and> (if cmd_Kind cmd = CommandSendRoomMessage
          then cm_From (cmd_Message cmd) = cl_Name client \<and> cm_CreatedAt (cmd_Message cmd) = now
          else cmd_Message cmd = zero_message)
   | (None, Some pe, err) \<Rightarrow> err = None
   | (None, None, err) \<Rightarrow> err \<noteq> None"
  by (auto simp: mapper_cases Let_def wf_command_def new_command_def new_callCommand_def
      zero_message_def split: sum.split)

text \<open>What a client written against the protocol package sends.\<close>

datatype request =
    JoinRequest string
  | LeaveRequest string
  | MsgRequest string string
  | InviteRequest CallInviteData
  | ActionRequest CommandKind string string

fun action_type :: "CommandKind \<Rightarrow> string" where
  "action_type CommandCallAccept = InboundTypeCallAccept"
| "action_type CommandCallReject = InboundTypeCallReject"
| "action_type CommandCallJoin = InboundTypeCallJoin"
| "action_type CommandCallLeave = InboundTypeCallLeave"
| "action_type _ = InboundTypeCallEnd"

fun request_inbound :: "request \<Rightarrow> Inbound" where
  "request_inbound (JoinRequest r) = \<lparr>in_Type = InboundTypeJoin, in_Data = Some (enc_JoinData \<lparr>join_Room = r\<rparr>)\<rparr>"
| "request_inbound (LeaveRequest r) = \<lparr>in_Type = InboundTypeLeave, in_Data = Some (enc_JoinData \<lparr>join_Room = r\<rparr>)\<rparr>"
| "request_inbound (MsgRequest r t) = \<lparr>in_Type = InboundTypeMsg, in_Data = Some (enc_MsgData \<lparr>msg_Room = r, msg_Text = t\<rparr>)\<rparr>"
| "request_inbound (InviteRequest i) = \<lparr>in_Type = InboundTypeCallInvite, in_Data = Some (enc_CallInviteData i)\<rparr>"
| "request_inbound (ActionRequest k i r) = \<lparr>in_Type = action_type k,
     in_Data = Some (enc_CallActionData \<lparr>action_CallID = i, action_Reason = r\<rparr>)\<rparr>"

fun request_ok :: "request \<Rightarrow> bool" where
  "request_ok (JoinRequest r) = (r \<noteq> '''')"
| "request_ok (LeaveRequest r) = (r \<noteq> '''')"
| "request_ok (MsgRequest r t) = (r \<noteq> '''')"
| "request_ok (InviteRequest i) = (in_int64 (invite_ToUserID i) \<and> in_int64 (invite_RoomID i) \<and>
     (invite_CallType i = ''direct'' \<and> invite_ToUserID i \<noteq> 0 \<or> invite_CallType i = ''room'' \<and> invite_RoomID i \<noteq> 0))"
| "request_ok (ActionRequest k i r) = (i \<noteq> '''' \<and>
     k \<in> {CommandCallAccept, CommandCallReject, CommandCallJoin, CommandCallLeave, CommandCallEnd})"

text \<open>The request read back from a command.\<close>

definition command_request :: "Command \<Rightarrow> request" where
  "command_request cmd = (let cc = the (cmd_Call cmd) in case cmd_Kind cmd of
       CommandJoinRoom \<Rightarrow> JoinRequest (cmd_Room cmd)
     | CommandLeaveRoom \<Rightarrow> LeaveRequest (cmd_Room cmd)
     | CommandSendRoomMessage \<Rightarrow> MsgRequest (cmd_Room cmd) (cm_Text (cmd_Message cmd))
     | CommandCallInvite \<Rightarrow> InviteRequest \<lparr>invite_CallType = cc_CallType cc, invite_ToUserID = cc_ToUserID cc,
         invite_RoomID = cc_RoomID cc\<rparr>
     | k \<Rightarrow> ActionRequest k (cc_CallID cc) (cc_Reason cc))"

text \<open>A reason is only kept with a rejection.\<close>

fun heard :: "request \<Rightarrow> request" where
  "heard (ActionRequest k i r) = ActionRequest k i (if k = CommandCallReject then r else '''')"
| "heard q = q"

text \<open>(C24) Requests survive the wire. A valid request of a client, encoded as JSON with the protocol's
  struct tags, put into the envelope, decoded by the server and mapped, becomes the command from which
  the request can be read back; only the reason of an accept, join, leave or end is lost.\<close>

theorem request_roundtrip:
  assumes "request_ok q"
  shows "\<exists>inbound cmd. dec_Inbound (enc_Inbound (request_inbound q)) = Inr inbound
    \<and> inboundToCommand client now inbound = (Some cmd, None, None) \<and> command_request cmd = heard q"
proof -
  have wire: "dec_Inbound (enc_Inbound (request_inbound q)) = Inr (request_inbound q)"
    by (rule inbound.dec_enc) (cases q, simp_all)
  have "\<exists>cmd. inboundToCommand client now (request_inbound q) = (Some cmd, None, None) \<and> command_request cmd = heard q"
    using assms
    by (cases q) (auto simp: mapper_cases Let_def join.raw_enc msg.raw_enc invite.raw_enc action.raw_enc
        command_request_def new_command_def new_callCommand_def)
  with wire show ?thesis by blast
qed

theorem request_roundtrip_witness:
  "\<exists>inbound cmd. dec_Inbound (enc_Inbound (request_inbound (ActionRequest CommandCallReject ''c1'' ''busy''))) = Inr inbound
    \<and> inboundToCommand (NewClient ''a'' '''' 0 False) 5 inbound = (Some cmd, None, None)
    \<and> command_request cmd = ActionRequest CommandCallReject ''c1'' ''busy''"
  using request_roundtrip[of "ActionRequest CommandCallReject ''c1'' ''busy''" "NewClient ''a'' '''' 0 False" 5] by simp

section \<open>What the server sends\<close>

text \<open>(C25) The writer never crashes. In every reachable state of the system, every event waiting in the
  channel of any client, including the call events with their nested pointers, is turned into an
  outbound message without a nil dereference: an error event into an error envelope, any other into
  an event envelope with its event name.\<close>

theorem events_reach_the_wire:
  assumes "hub_step\<^sup>*\<^sup>* (NewHub st svc d) w" and "ev \<in> set (ch_buf (cl_Events (heap w c)))"
  shows "\<exists>out. outboundFromEvent ev = Inr out
    \<and> (if ev_Kind ev = EventError then out_Type out = OutboundTypeError \<and> out_Event out = '''' \<and> out_Error out \<noteq> None
       else out_Type out = OutboundTypeEvent \<and> out_Event out \<noteq> '''' \<and> out_Error out = None)"
proof -
  have "made_event ev"
    using reachable_channels[OF assms(1)] assms(2) by (auto simp: channels_hold_def)
  then show ?thesis
    by (auto simp: made_event_def outboundFromEvent_def event_out_def error_out_def via_def OutboundTypeError_def
        OutboundTypeEvent_def EventTypeCallIncoming_def EventTypeCallRinging_def EventTypeCallAccepted_def
        EventTypeCallRejected_def EventTypeCallJoinInfo_def EventTypeCallParticipantJoined_def
        EventTypeCallParticipantLeft_def EventTypeCallEnded_def split: EventKind.splits option.splits)
qed

theorem events_reach_the_wire_witness:
  "\<exists>out. outboundFromEvent ((new_event EventUserJoined)\<lparr>ev_Room := ''general'', ev_User := ''ann''\<rparr>) = Inr out
    \<and> out_Type out = OutboundTypeEvent"
proof -
  have "ch_buf (cl_Events (heap chat_world 0)) = [(new_event EventUserJoined)\<lparr>ev_Room := ''general'', ev_User := ''ann''\<rparr>]"
    by (simp add: chat_world_def chat_steps_def run_world join_general_def new_command_def joinRoom_def
      ensureRoom_def room_add_def AddClient_def NewRoom_def joined_room_def broadcastToRoom_def Broadcast_def
      hub_try_send_def others_step_def put_event_def send_history_def hub_db_def GetRoomByName_def
      run_db init_db_def not_found_or_def ListMessages_def reverse_in_place_def sql_limit_def)
  then show ?thesis
    using events_reach_the_wire[OF run_sys_reach[of "NewHub True None (init_db 0)" chat_steps],
      of "(new_event EventUserJoined)\<lparr>ev_Room := ''general'', ev_User := ''ann''\<rparr>" 0]
    unfolding chat_world_def by (auto simp: new_event_def)
qed

end
