(* ===== verification/Strings.thy ===== *)
theory Strings
  imports Prelude "HOL-Library.Sublist"
begin

text \<open>
  What the code uses of \<open>strings\<close>, \<open>encoding/hex\<close> and \<open>internal/utils/id.go\<close>. A string is its bytes;
  \<open>strings.TrimSpace\<close> removes the UTF-8 encodings of white space from both ends.
\<close>

section \<open>White space\<close>

text \<open>The runes of \<open>unicode.IsSpace\<close>, encoded.\<close>

definition space_runes :: "string list" where
  "space_runes = [[CHR 0x20], [CHR 0x09], [CHR 0x0A], [CHR 0x0B], [CHR 0x0C], [CHR 0x0D],
     [CHR 0xC2, CHR 0x85], [CHR 0xC2, CHR 0xA0], [CHR 0xE1, CHR 0x9A, CHR 0x80],
     [CHR 0xE2, CHR 0x80, CHR 0x80], [CHR 0xE2, CHR 0x80, CHR 0x81], [CHR 0xE2, CHR 0x80, CHR 0x82],
     [CHR 0xE2, CHR 0x80, CHR 0x83], [CHR 0xE2, CHR 0x80, CHR 0x84], [CHR 0xE2, CHR 0x80, CHR 0x85],
     [CHR 0xE2, CHR 0x80, CHR 0x86], [CHR 0xE2, CHR 0x80, CHR 0x87], [CHR 0xE2, CHR 0x80, CHR 0x88],
     [CHR 0xE2, CHR 0x80, CHR 0x89], [CHR 0xE2, CHR 0x80, CHR 0x8A], [CHR 0xE2, CHR 0x80, CHR 0xA8],
     [CHR 0xE2, CHR 0x80, CHR 0xA9], [CHR 0xE2, CHR 0x80, CHR 0xAF], [CHR 0xE2, CHR 0x81, CHR 0x9F],
     [CHR 0xE3, CHR 0x80, CHR 0x80]]"

text \<open>Dropping from the front while one of the given non-empty strings is a prefix.\<close>

function drop_runes :: "string list \<Rightarrow> string \<Rightarrow> string" where
  "drop_runes rs s = (case List.find (\<lambda>r. r \<noteq> [] \<and> prefix r s) rs of
       None \<Rightarrow> s | Some r \<Rightarrow> drop_runes rs (drop (length r) s))"
  by pat_completeness auto

termination drop_runes
proof (relation "measure (\<lambda>(rs, s). length s)")
  fix rs :: "string list" and s r
  assume "List.find (\<lambda>r. r \<noteq> [] \<and> prefix r s) rs = Some r"
  then have "r \<noteq> []" and "prefix r s" by (auto simp: find_Some_iff)
  then have "0 < length r" and "s \<noteq> []" by auto
  then show "((rs, drop (length r) s), rs, s) \<in> measure (\<lambda>(rs, s). length s)" by simp
qed simp

declare drop_runes.simps [simp del]

definition trim_left :: "string \<Rightarrow> string" where
  "trim_left s = drop_runes space_runes s"

definition trim_right :: "string \<Rightarrow> string" where
  "trim_right s = rev (drop_runes (map rev space_runes) (rev s))"

definition TrimSpace :: "string \<Rightarrow> string" where
  "TrimSpace s = trim_right (trim_left s)"

lemma drop_runes_suffix: "suffix (drop_runes rs s) s"
proof (induction rs s rule: drop_runes.induct)
  case (1 rs s)
  show ?case
    by (subst drop_runes.simps)
      (auto split: option.split intro: suffix_order.trans[OF 1 suffix_drop])
qed

lemma drop_runes_done: "r \<in> set rs \<Longrightarrow> r \<noteq> [] \<Longrightarrow> \<not> prefix r (drop_runes rs s)"
proof (induction rs s rule: drop_runes.induct)
  case (1 rs s)
  then show ?case
    by (subst drop_runes.simps) (auto split: option.split simp: find_None_iff)
qed

lemma drop_runes_id: "(\<And>r. r \<in> set rs \<Longrightarrow> r \<noteq> [] \<Longrightarrow> \<not> prefix r s) \<Longrightarrow> drop_runes rs s = s"
  by (subst drop_runes.simps) (auto split: option.split simp: find_Some_iff in_set_conv_nth)

text \<open>Nothing but white space is removed, and none is left at either end.\<close>

lemma TrimSpace_sublist: "sublist (TrimSpace s) s"
proof -
  have "prefix (trim_right t) t" for t
    using drop_runes_suffix[of "map rev space_runes" "rev t"] by (simp add: trim_right_def suffix_to_prefix)
  then show ?thesis
    using drop_runes_suffix[of space_runes s]
    by (metis TrimSpace_def trim_left_def prefix_imp_sublist suffix_imp_sublist sublist_order.order_trans)
qed

lemma trim_right_done: "r \<in> set space_runes \<Longrightarrow> \<not> suffix r (trim_right s)"
proof -
  assume r: "r \<in> set space_runes"
  then have "r \<noteq> []" by (auto simp: space_runes_def)
  then have "\<not> prefix (rev r) (drop_runes (map rev space_runes) (rev s))"
    using r by (intro drop_runes_done) auto
  then show ?thesis by (simp add: trim_right_def suffix_to_prefix)
qed

section \<open>Hexadecimal\<close>

definition hex_digit :: "nat \<Rightarrow> char" where
  "hex_digit n = ''0123456789abcdef'' ! n"

text \<open>\<open>hex.EncodeToString\<close>\<close>

definition hex_encode :: "nat list \<Rightarrow> string" where
  "hex_encode bs = concat (map (\<lambda>b. [hex_digit (b div 16), hex_digit (b mod 16)]) bs)"

lemma hex_encode_length [simp]: "length (hex_encode bs) = 2 * length bs"
  by (induction bs) (simp_all add: hex_encode_def)

lemma hex_digit_inj: "m < 16 \<Longrightarrow> n < 16 \<Longrightarrow> hex_digit m = hex_digit n \<longleftrightarrow> m = n"
proof -
  assume "m < 16" and "n < 16"
  moreover have "distinct ''0123456789abcdef''" by simp
  ultimately show ?thesis unfolding hex_digit_def by (subst nth_eq_iff_index_eq) auto
qed

lemma hex_encode_inj:
  "list_all (\<lambda>b. b < 256) bs \<Longrightarrow> list_all (\<lambda>b. b < 256) cs \<Longrightarrow> hex_encode bs = hex_encode cs \<longleftrightarrow> bs = cs"
proof (induction bs arbitrary: cs)
  case Nil
  then show ?case by (cases cs) (auto simp: hex_encode_def)
next
  case (Cons b bs)
  show ?case
  proof (cases cs)
    case Nil
    then show ?thesis by (simp add: hex_encode_def)
  next
    case (Cons c cs')
    have "hex_encode (b # bs) = hex_encode (c # cs') \<longleftrightarrow>
        b div 16 = c div 16 \<and> b mod 16 = c mod 16 \<and> hex_encode bs = hex_encode cs'"
      using Cons.prems \<open>cs = c # cs'\<close> by (simp add: hex_encode_def hex_digit_inj less_mult_imp_div_less)
    moreover have "b div 16 = c div 16 \<and> b mod 16 = c mod 16 \<longleftrightarrow> b = c"
      by (metis div_mult_mod_eq)
    ultimately show ?thesis
      using Cons.IH[of cs'] Cons.prems \<open>cs = c # cs'\<close> by auto
  qed
qed

section \<open>Identifiers\<close>

text \<open>\<open>utils.NewID\<close>: \<open>rand\<close> is what \<open>rand.Read\<close> put into the buffer of 12 bytes, or its error.\<close>

definition NewID :: "goerr + nat list \<Rightarrow> time \<Rightarrow> string" where
  "NewID rand now = (case rand of Inr buf \<Rightarrow> hex_encode buf | Inl _ \<Rightarrow> itoa now)"

end
