(* ===== verification/Auth.thy ===== *)
theory Auth
  imports Sqlite_Props Strings
begin

text \<open>
  Authentication (\<open>internal/auth\<close>): tokens, passwords, registration, login and guests. The JWT library
  and bcrypt are parameters, collected in \<open>authLib\<close>; what the code relies on is stated by \<open>jwt_signs\<close>,
  \<open>jwt_verifies\<close> and \<open>bcrypt_matches\<close>, which the theorems that need it name as hypotheses. Instants are
  nanoseconds; a \<open>jwt.NumericDate\<close> is kept in seconds, as the library truncates it.
\<close>

section \<open>Tokens\<close>

record Claims =
  claims_UserID :: userID
  claims_Username :: string
  claims_IsGuest :: bool
  claims_Issuer :: string
  claims_Audience :: "string list"
  claims_ExpiresAt :: int64
  claims_IssuedAt :: int64

record JWTConfig =
  jwt_Secret :: string
  jwt_Issuer :: string
  jwt_Audience :: string
  jwt_TTL :: int

text \<open>A parsed token as the key function sees it: whether its method is an HMAC one, and its header.\<close>

record jwtToken =
  tok_HMAC :: bool
  tok_alg :: string
  tok_Claims :: Claims
  tok_Valid :: bool

text \<open>
  \<open>lib_SignedString secret claims\<close> signs with HS256; \<open>lib_Parse keyfunc now token\<close> is
  \<open>jwt.ParseWithClaims\<close> at the instant \<open>now\<close>; \<open>lib_bcrypt\<close> and \<open>lib_compare\<close> are
  \<open>bcrypt.GenerateFromPassword\<close> and \<open>bcrypt.CompareHashAndPassword\<close>; \<open>lib_rand\<close> is what \<open>rand.Read\<close> puts
  into a buffer of 16 bytes.
\<close>

record authLib =
  lib_SignedString :: "string \<Rightarrow> Claims \<Rightarrow> goerr + string"
  lib_Parse :: "(jwtToken \<Rightarrow> goerr + string) \<Rightarrow> time \<Rightarrow> string \<Rightarrow> goerr + jwtToken"
  lib_bcrypt :: "string \<Rightarrow> nat \<Rightarrow> goerr + string"
  lib_compare :: "string \<Rightarrow> string \<Rightarrow> goerr option"
  lib_rand :: "goerr + nat list"

definition token_claims :: "JWTConfig \<Rightarrow> time \<Rightarrow> userID \<Rightarrow> string \<Rightarrow> bool \<Rightarrow> Claims" where
  "token_claims cfg now userID username isGuest = \<lparr>claims_UserID = userID, claims_Username = username,
     claims_IsGuest = isGuest, claims_Issuer = jwt_Issuer cfg, claims_Audience = [jwt_Audience cfg],
     claims_ExpiresAt = Unix (now + jwt_TTL cfg), claims_IssuedAt = Unix now\<rparr>"

definition GenerateToken :: "authLib \<Rightarrow> JWTConfig \<Rightarrow> time \<Rightarrow> userID \<Rightarrow> string \<Rightarrow> bool \<Rightarrow> goerr + string" where
  "GenerateToken lib cfg now userID username isGuest =
     lib_SignedString lib (jwt_Secret cfg) (token_claims cfg now userID username isGuest)"

definition key_func :: "JWTConfig \<Rightarrow> jwtToken \<Rightarrow> goerr + string" where
  "key_func cfg token =
     (if \<not> tok_HMAC token then Inl (ErrText (''unexpected signing method: '' @ tok_alg token))
      else Inr (jwt_Secret cfg))"

text \<open>The type assertion on the claims cannot fail: the library was given a value of that type.\<close>

definition ValidateToken :: "authLib \<Rightarrow> JWTConfig \<Rightarrow> time \<Rightarrow> string \<Rightarrow> goerr + Claims" where
  "ValidateToken lib cfg now tokenString = (case lib_Parse lib (key_func cfg) now tokenString of
       Inl e \<Rightarrow> Inl (ErrWrap ''parse token'' e)
     | Inr token \<Rightarrow> let claims = tok_Claims token in
         if \<not> tok_Valid token then Inl (ErrText ''invalid token claims'')
         else if jwt_Issuer cfg \<noteq> '''' \<and> claims_Issuer claims \<noteq> jwt_Issuer cfg then Inl (ErrText ''invalid issuer'')
         else if jwt_Audience cfg \<noteq> '''' \<and> \<not> list_ex (\<lambda>aud. aud = jwt_Audience cfg) (claims_Audience claims)
         then Inl (ErrText ''invalid audience'')
         else Inr claims)"

section \<open>Passwords\<close>

definition bcryptCost :: nat where "bcryptCost = 10"

definition HashPassword :: "authLib \<Rightarrow> string \<Rightarrow> goerr + string" where
  "HashPassword lib password = (case lib_bcrypt lib password bcryptCost of
       Inl e \<Rightarrow> Inl (ErrWrap ''hash password'' e) | Inr h \<Rightarrow> Inr h)"

definition ComparePassword :: "authLib \<Rightarrow> string \<Rightarrow> string \<Rightarrow> goerr option" where
  "ComparePassword lib hashedPassword password = lib_compare lib hashedPassword password"

section \<open>The service\<close>

definition auth_ErrInvalidCredentials :: goerr where
  "auth_ErrInvalidCredentials = ErrNew ''auth.ErrInvalidCredentials'' ''invalid credentials''"
definition auth_ErrUserExists :: goerr where
  "auth_ErrUserExists = ErrNew ''auth.ErrUserExists'' ''user already exists''"
definition auth_ErrInvalidUsername :: goerr where
  "auth_ErrInvalidUsername = ErrNew ''auth.ErrInvalidUsername'' ''invalid username''"
definition auth_ErrInvalidPassword :: goerr where
  "auth_ErrInvalidPassword = ErrNew ''auth.ErrInvalidPassword'' ''invalid password''"

record authService =
  as_lib :: authLib
  as_jwtConfig :: JWTConfig

definition auth_NewService :: "authLib \<Rightarrow> JWTConfig \<Rightarrow> authService" where
  "auth_NewService lib cfg = \<lparr>as_lib = lib, as_jwtConfig = cfg\<rparr>"

definition new_token :: "authService \<Rightarrow> user \<Rightarrow> bool \<Rightarrow> (goerr + string) dbm" where
  "new_token s user isGuest = do {
     now \<leftarrow> time_Now;
     return (case GenerateToken (as_lib s) (as_jwtConfig s) now (user_ID user) (user_Username user) isGuest of
         Inl e \<Rightarrow> Inl (ErrWrap ''generate token'' e) | Inr t \<Rightarrow> Inr t) }"

definition auth_Register :: "authService \<Rightarrow> string \<Rightarrow> string \<Rightarrow> (goerr + string) dbm" where
  "auth_Register s username0 password = (let username = TrimSpace username0 in
     if length username < 3 \<or> length username > 32 then return (Inl auth_ErrInvalidUsername)
     else if length password < 6 then return (Inl auth_ErrInvalidPassword)
     else do {
       existing \<leftarrow> GetUserByUsername username;
       if \<not> isl existing then return (Inl auth_ErrUserExists)
       else (case HashPassword (as_lib s) password of
           Inl e \<Rightarrow> return (Inl (ErrWrap ''hash password'' e))
         | Inr hashedPassword \<Rightarrow> do {
             user \<leftarrow> CreateUser username hashedPassword;
             case user of
               Inl e \<Rightarrow> return (Inl (ErrWrap ''create user'' e))
             | Inr user \<Rightarrow> new_token s user False }) })"

definition auth_Login :: "authService \<Rightarrow> string \<Rightarrow> string \<Rightarrow> (goerr + string) dbm" where
  "auth_Login s username password = do {
     user \<leftarrow> GetUserByUsername username;
     case user of
       Inl _ \<Rightarrow> return (Inl auth_ErrInvalidCredentials)
     | Inr user \<Rightarrow>
       if ComparePassword (as_lib s) (user_PasswordHash user) password \<noteq> None
       then return (Inl auth_ErrInvalidCredentials)
       else new_token s user False }"

definition generateSessionID :: "authLib \<Rightarrow> goerr + string" where
  "generateSessionID lib = (case lib_rand lib of Inl e \<Rightarrow> Inl e | Inr b \<Rightarrow> Inr (hex_encode b))"

text \<open>A panic of the store's slice expression leaves the function as it is.\<close>

definition auth_CreateGuestUser :: "authService \<Rightarrow> (goerr + string \<times> string) dbm" where
  "auth_CreateGuestUser s = (case generateSessionID (as_lib s) of
       Inl e \<Rightarrow> return (Inl (ErrWrap ''generate session ID'' e))
     | Inr sessionID \<Rightarrow> do {
         user \<leftarrow> CreateGuestUser sessionID;
         case user of
           Inl (GoPanic m) \<Rightarrow> return (Inl (GoPanic m))
         | Inl e \<Rightarrow> return (Inl (ErrWrap ''create guest user'' e))
         | Inr user \<Rightarrow> do {
             t \<leftarrow> new_token s user True;
             return (case t of Inl e \<Rightarrow> Inl e | Inr t \<Rightarrow> Inr (t, sessionID)) } })"

definition auth_ValidateToken :: "authService \<Rightarrow> time \<Rightarrow> string \<Rightarrow> goerr + Claims" where
  "auth_ValidateToken s now tokenString = ValidateToken (as_lib s) (as_jwtConfig s) now tokenString"

section \<open>What the code relies on\<close>

text \<open>A token signed with a secret parses, until it expires, when the key function answers with that
  secret, and gives back its claims.\<close>

definition jwt_signs :: "authLib \<Rightarrow> bool" where
  "jwt_signs lib \<longleftrightarrow> (\<forall>secret c t keyfunc now. lib_SignedString lib secret c = Inr t \<longrightarrow>
     keyfunc \<lparr>tok_HMAC = True, tok_alg = ''HS256'', tok_Claims = c, tok_Valid = False\<rparr> = Inr secret \<longrightarrow>
     now < claims_ExpiresAt c * 1000000000 \<longrightarrow>
     lib_Parse lib keyfunc now t = Inr \<lparr>tok_HMAC = True, tok_alg = ''HS256'', tok_Claims = c, tok_Valid = True\<rparr>)"

text \<open>A token that parses has a signature that verifies under the key the key function gave for it, by
  the method it names, and has not expired.\<close>

definition jwt_verifies :: "(bool \<Rightarrow> string \<Rightarrow> string \<Rightarrow> bool) \<Rightarrow> authLib \<Rightarrow> bool" where
  "jwt_verifies signature lib \<longleftrightarrow> (\<forall>keyfunc now t tok. lib_Parse lib keyfunc now t = Inr tok \<longrightarrow>
     (\<exists>key. keyfunc (tok\<lparr>tok_Valid := False\<rparr>) = Inr key \<and> signature (tok_HMAC tok) key t)
     \<and> now < claims_ExpiresAt (tok_Claims tok) * 1000000000)"

text \<open>A password matches its own hash.\<close>

definition bcrypt_matches :: "authLib \<Rightarrow> bool" where
  "bcrypt_matches lib \<longleftrightarrow> (\<forall>password cost h. lib_bcrypt lib password cost = Inr h \<longrightarrow> lib_compare lib h password = None)"

text \<open>A library for one user, one secret and one password.\<close>

definition demo_cfg :: JWTConfig where
  "demo_cfg = \<lparr>jwt_Secret = ''key'', jwt_Issuer = ''wirechat'', jwt_Audience = ''chat'', jwt_TTL = 3600000000000\<rparr>"

definition demo_claims :: Claims where
  "demo_claims = token_claims demo_cfg 0 1 ''alice'' False"

definition demo_parse :: "(jwtToken \<Rightarrow> goerr + string) \<Rightarrow> time \<Rightarrow> string \<Rightarrow> goerr + jwtToken" where
  "demo_parse keyfunc now t = (let tok = \<lparr>tok_HMAC = True, tok_alg = ''HS256'', tok_Claims = demo_claims, tok_Valid = False\<rparr> in
     if t \<noteq> ''token'' then Inl (ErrText ''token is malformed'')
     else if keyfunc tok \<noteq> Inr ''key'' then Inl (ErrText ''signature is invalid'')
     else if now \<ge> claims_ExpiresAt demo_claims * 1000000000 then Inl (ErrText ''token is expired'')
     else Inr (tok\<lparr>tok_Valid := True\<rparr>))"

definition demo_lib :: authLib where
  "demo_lib = \<lparr>lib_SignedString = (\<lambda>secret c. if secret = ''key'' \<and> c = demo_claims then Inr ''token''
       else Inl (ErrText ''unsupported'')),
     lib_Parse = demo_parse,
     lib_bcrypt = (\<lambda>password _. Inr (''#'' @ password)),
     lib_compare = (\<lambda>h password. if h = ''#'' @ password then None else Some (ErrText ''mismatch'')),
     lib_rand = Inr (replicate 16 7)\<rparr>"

lemma demo_lib_laws: "jwt_signs demo_lib" "bcrypt_matches demo_lib"
    "jwt_verifies (\<lambda>hmac key t. hmac \<and> key = ''key'' \<and> t = ''token'') demo_lib"
  by (auto simp: jwt_signs_def bcrypt_matches_def jwt_verifies_def demo_lib_def demo_parse_def Let_def split: if_splits)

section \<open>Tokens are what they say\<close>

text \<open>(C15) Tokens survive the round trip. A token the server generates for a user is accepted, at every
  instant before the second it expires in, by a server with the same configuration, whatever issuer
  and audience are configured, empty ones included, and gives back the user's id, name and whether
  the user is a guest.\<close>

theorem token_roundtrip:
  assumes "jwt_signs lib" and "GenerateToken lib cfg now u name guest = Inr t"
    and "now' < Unix (now + jwt_TTL cfg) * 1000000000"
  shows "\<exists>c. ValidateToken lib cfg now' t = Inr c \<and> claims_UserID c = u \<and> claims_Username c = name
    \<and> claims_IsGuest c = guest"
proof -
  let ?c = "token_claims cfg now u name guest"
  have "lib_Parse lib (key_func cfg) now' t = Inr \<lparr>tok_HMAC = True, tok_alg = ''HS256'', tok_Claims = ?c, tok_Valid = True\<rparr>"
    using assms unfolding jwt_signs_def GenerateToken_def
    by (auto simp: key_func_def token_claims_def)
  then show ?thesis
    by (simp add: ValidateToken_def Let_def token_claims_def)
qed

theorem token_roundtrip_witness:
  "\<exists>c. ValidateToken demo_lib demo_cfg 5 ''token'' = Inr c \<and> claims_UserID c = 1 \<and> claims_Username c = ''alice''
    \<and> claims_IsGuest c = False"
  using token_roundtrip[OF demo_lib_laws(1), of demo_cfg 0 1 "''alice''" False "''token''" 5]
  by (simp add: GenerateToken_def demo_lib_def demo_claims_def Unix_def) (simp add: demo_cfg_def)



section \<open>Registration, login and guests\<close>

definition new_user_row :: "db \<Rightarrow> string \<Rightarrow> string \<Rightarrow> bool \<Rightarrow> string option \<Rightarrow> user_row" where
  "new_user_row d name hash guest sess = \<lparr>u_id = s_users d + 1, u_username = name, u_password_hash = hash,
     u_is_guest = guest, u_session_id = sess, u_created_at = current_timestamp d,
     u_allow_calls_from = AllowCallsFromEveryone\<rparr>"

definition with_user :: "user_row \<Rightarrow> db \<Rightarrow> db" where
  "with_user u d = d\<lparr>t_users := t_users d @ [u], s_users := u_id u\<rparr>"

lemma with_user_simps [simp]:
  "t_users (with_user u d) = t_users d @ [u]" "faults (with_user u d) = faults d" "clock (with_user u d) = clock d"
  by (simp_all add: with_user_def)

text \<open>Inserting a user and reading the new row back.\<close>

lemma insert_user_new:
  "n \<notin> u_username ` set (t_users d) \<Longrightarrow>
    insert_user n h g s d = Inr (s_users d + 1, with_user (new_user_row d n h g s) d)"
  by (simp add: insert_user_def with_user_def new_user_row_def Let_def)

lemma new_id_fresh: "db_ok d \<Longrightarrow> filter (\<lambda>u. u_id u = s_users d + 1) (t_users d) = []"
  by (force simp: db_ok_def users_ok_def table_ok_def filter_empty_conv)

lemma GetUserByID_new:
  assumes "db_ok d" and "faults d = []"
  shows "run_state (GetUserByID (s_users d + 1)) (with_user (new_user_row d n h g s) d) =
    (Inr (scan_user (new_user_row d n h g s)), with_user (new_user_row d n h g s) d)"
  using assms new_id_fresh[OF assms(1)] by (simp add: run_db new_user_row_def)

lemma CreateUser_run:
  assumes "db_ok d" and "faults d = []"
  shows "run_state (CreateUser n h) d =
    (if n \<in> u_username ` set (t_users d) then (Inl (ErrWrap ''insert user'' (unique_failed ''users.username'')), d)
     else (Inr (scan_user (new_user_row d n h False None)), with_user (new_user_row d n h False None) d))"
proof (cases "n \<in> u_username ` set (t_users d)")
  case True
  then show ?thesis using assms by (simp add: CreateUser_def run_exec_stmt insert_user_def)
next
  case False
  then show ?thesis
    using assms by (simp add: CreateUser_def run_exec_stmt insert_user_new GetUserByID_new)
qed

lemma new_token_run:
  "run_state (new_token s user g) d = ((case GenerateToken (as_lib s) (as_jwtConfig s) (clock d) (user_ID user)
      (user_Username user) g of Inl e \<Rightarrow> Inl (ErrWrap ''generate token'' e) | Inr t \<Rightarrow> Inr t), d)"
  by (simp add: new_token_def run_db)

lemma GetUserByUsername_run:
  assumes "faults d = []"
  shows "run_state (GetUserByUsername n) d = ((case filter (\<lambda>u. u_username u = n \<and> \<not> u_is_guest u) (t_users d) of
      [] \<Rightarrow> Inl (ErrWrap ''user not found'' sql_ErrNoRows) | u # _ \<Rightarrow> Inr (scan_user u)), d)"
  using assms by (auto simp: run_db split: list.split)

definition member_named :: "db \<Rightarrow> string \<Rightarrow> bool" where
  "member_named d n \<longleftrightarrow> (\<exists>u \<in> set (t_users d). u_username u = n \<and> \<not> u_is_guest u)"

lemma GetUserByUsername_isl:
  "faults d = [] \<Longrightarrow> isl (result_of (GetUserByUsername n) d) \<longleftrightarrow> \<not> member_named d n"
  by (auto simp: GetUserByUsername_run member_named_def filter_empty_conv split: list.split
      dest: filter_eq_ConsD)

lemma Register_run:
  assumes "db_ok d" and "faults d = []"
  shows "run_state (auth_Register s u p) d = (let n = TrimSpace u in
     if length n < 3 \<or> length n > 32 then (Inl auth_ErrInvalidUsername, d)
     else if length p < 6 then (Inl auth_ErrInvalidPassword, d)
     else if member_named d n then (Inl auth_ErrUserExists, d)
     else case HashPassword (as_lib s) p of
       Inl e \<Rightarrow> (Inl (ErrWrap ''hash password'' e), d)
     | Inr h \<Rightarrow>
       if n \<in> u_username ` set (t_users d)
       then (Inl (ErrWrap ''create user'' (ErrWrap ''insert user'' (unique_failed ''users.username''))), d)
       else run_state (new_token s (scan_user (new_user_row d n h False None)) False)
              (with_user (new_user_row d n h False None) d))"
  using assms GetUserByUsername_isl[OF assms(2), of "TrimSpace u"]
  by (simp add: auth_Register_def Let_def CreateUser_run GetUserByUsername_run case_prod_beta split: sum.split)


lemma TrimSpace_alice: "TrimSpace '' alice '' = ''alice''" "TrimSpace ''alice'' = ''alice''"
  by code_simp+

lemma init_db_facts: "faults (init_db t) = []" "t_users (init_db t) = []" "s_users (init_db t) = 0" "clock (init_db t) = t"
  by (simp_all add: init_db_def)


text \<open>Who can log in. Whatever the driver does, if a login succeeds then there is a user with exactly
  that name who is not a guest, the password matches the stored hash, the token is one for that user
  and not marked as a guest's, and no table has changed.\<close>

theorem login_sound:
  assumes "run_state (auth_Login s n p) d = (Inr t, d')"
  shows "tables d' = tables d \<and> (\<exists>u \<in> set (t_users d). u_username u = n \<and> \<not> u_is_guest u
    \<and> lib_compare (as_lib s) (u_password_hash u) p = None
    \<and> GenerateToken (as_lib s) (as_jwtConfig s) (clock d) (u_id u) n False = Inr t)"
proof -
  obtain x where x: "result_of (GetUserByUsername n) d = Inr x"
    using assms by (cases "result_of (GetUserByUsername n) d") (auto simp: auth_Login_def run_lookups)
  then obtain u where u: "u \<in> set (t_users d)" "u_username u = n" "\<not> u_is_guest u" "x = scan_user u"
    by (auto simp: run_lookups dest!: query_row_Inr(2))
  show ?thesis
    using assms x u
    by (auto simp: auth_Login_def run_lookups new_token_run ComparePassword_def scan_user_def
        split: if_splits sum.splits intro!: bexI[of _ u])
qed

theorem login_sound_witness:
  "\<exists>u :: user_row. u_username u = ''alice'' \<and> lib_compare demo_lib (u_password_hash u) ''secret'' = None"
proof -
  let ?d = "with_user (new_user_row (init_db 0) ''alice'' ''#secret'' False None) (init_db 0)"
  have "run_state (auth_Login (auth_NewService demo_lib demo_cfg) ''alice'' ''secret'') ?d = (Inr ''token'', ?d)"
    by (simp add: auth_Login_def GetUserByUsername_run new_token_run ComparePassword_def auth_NewService_def
        demo_lib_def GenerateToken_def demo_claims_def scan_user_def new_user_row_def init_db_facts) (simp add: demo_cfg_def)
  from login_sound[OF this] obtain u :: user_row where "u_username u = ''alice''"
      "lib_compare demo_lib (u_password_hash u) ''secret'' = None"
    unfolding auth_NewService_def by auto
  then show ?thesis by blast
qed

lemma CreateGuestUser_run:
  assumes "8 \<le> length sid"
  shows "run_state (CreateGuestUser sid) d = run_state (do {
      r \<leftarrow> exec_stmt ''insert guest user'' (Some ''get last insert id'')
             (insert_user (''guest_'' @ take 8 sid) '''' True (Some sid));
      case r of Inl e \<Rightarrow> return (Inl e) | Inr i \<Rightarrow> GetUserByID i }) d"
  using assms by (simp add: CreateGuestUser_def)

lemma exec_no_panic: "result_of (exec_stmt sm rm st) d \<noteq> Inl (GoPanic m)"
  by (auto simp: run_exec_stmt split: option.splits fault.splits sum.splits prod.splits)

lemma GetUserByID_no_panic: "result_of (GetUserByID i) d \<noteq> Inl (GoPanic m)"
  by (auto simp: run_lookups not_found_or_def split: sum.split)

lemma then_no_panic:
  assumes "\<And>x. result_of m d \<noteq> Inl (GoPanic x)" and "\<And>i d'. result_of (f i) d' \<noteq> Inl (GoPanic x)"
  shows "result_of (do { r \<leftarrow> m; case r of Inl e \<Rightarrow> return (Inl e) | Inr i \<Rightarrow> f i }) d \<noteq> Inl (GoPanic x)"
  using assms by (cases "result_of m d") (auto simp: case_prod_beta)

lemma CreateGuestUser_no_panic: "8 \<le> length sid \<Longrightarrow> result_of (CreateGuestUser sid) d \<noteq> Inl (GoPanic m)"
  unfolding CreateGuestUser_run by (rule then_no_panic) (simp_all add: exec_no_panic GetUserByID_no_panic)

text \<open>Guests get a guest's account. With 16 random bytes from the system, \<open>CreateGuestUser\<close> never
  panics on the slice of the session id, whatever the driver does; on a consistent database without
  faults, if the name made from the session id is free, it adds exactly one user, marked as a guest
  and without a password, returns the session id, 32 hexadecimal digits, and a token marked as a
  guest's; and nobody can log in under that name.\<close>

theorem guest_accounts:
  assumes "lib_rand (as_lib s) = Inr b" and "length b = 16"
  shows "(\<forall>m. result_of (auth_CreateGuestUser s) d \<noteq> Inl (GoPanic m)) \<and>
    (db_ok d \<and> faults d = [] \<and> ''guest_'' @ take 8 (hex_encode b) \<notin> u_username ` set (t_users d) \<longrightarrow>
     (let name = ''guest_'' @ take 8 (hex_encode b); d' = with_user (new_user_row d name '''' True (Some (hex_encode b))) d in
      run_state (auth_CreateGuestUser s) d = ((case GenerateToken (as_lib s) (as_jwtConfig s) (clock d) (s_users d + 1) name True of
           Inl e \<Rightarrow> Inl (ErrWrap ''generate token'' e) | Inr t \<Rightarrow> Inr (t, hex_encode b)), d')
      \<and> length (hex_encode b) = 32
      \<and> result_of (auth_Login s name p) d' = Inl auth_ErrInvalidCredentials))"
proof (intro conjI impI)
  have gen: "generateSessionID (as_lib s) = Inr (hex_encode b)" and len: "8 \<le> length (hex_encode b)"
    using assms by (simp_all add: generateSessionID_def)
  obtain r d1 where 1: "run_state (CreateGuestUser (hex_encode b)) d = (r, d1)" by (rule prod.exhaust)
  have "r \<noteq> Inl (GoPanic m)" for m
    using CreateGuestUser_no_panic[OF len, of d m] 1 by simp
  then show "\<forall>m. result_of (auth_CreateGuestUser s) d \<noteq> Inl (GoPanic m)"
    by (auto simp: auth_CreateGuestUser_def gen 1 new_token_run split: sum.split goerr.split)
next
  assume d: "db_ok d \<and> faults d = [] \<and> ''guest_'' @ take 8 (hex_encode b) \<notin> u_username ` set (t_users d)"
  let ?n = "''guest_'' @ take 8 (hex_encode b)"
  let ?d = "with_user (new_user_row d ?n '''' True (Some (hex_encode b))) d"
  have gen: "generateSessionID (as_lib s) = Inr (hex_encode b)" and len: "8 \<le> length (hex_encode b)"
    using assms by (simp_all add: generateSessionID_def)
  have user: "run_state (CreateGuestUser (hex_encode b)) d = (Inr (scan_user (new_user_row d ?n '''' True (Some (hex_encode b)))), ?d)"
    unfolding CreateGuestUser_run[OF len]
    using d by (simp add: run_exec_stmt insert_user_new GetUserByID_new)
  have "run_state (auth_CreateGuestUser s) d = ((case GenerateToken (as_lib s) (as_jwtConfig s) (clock d) (s_users d + 1) ?n True of
           Inl e \<Rightarrow> Inl (ErrWrap ''generate token'' e) | Inr t \<Rightarrow> Inr (t, hex_encode b)), ?d)"
    by (simp add: auth_CreateGuestUser_def gen user new_token_run scan_user_def new_user_row_def split: sum.split)
  moreover have "result_of (auth_Login s ?n p) ?d = Inl auth_ErrInvalidCredentials"
  proof -
    have "filter (\<lambda>u. u_username u = ?n \<and> \<not> u_is_guest u) (t_users ?d) = []"
      using d by (auto simp: filter_empty_conv image_iff new_user_row_def)
    then have "result_of (GetUserByUsername ?n) ?d = Inl (ErrWrap ''user not found'' sql_ErrNoRows)"
      using d by (simp add: GetUserByUsername_run)
    then show ?thesis by (simp add: auth_Login_def case_prod_beta)
  qed
  ultimately show "let name = ?n; d' = with_user (new_user_row d name '''' True (Some (hex_encode b))) d in
      run_state (auth_CreateGuestUser s) d = ((case GenerateToken (as_lib s) (as_jwtConfig s) (clock d) (s_users d + 1) name True of
           Inl e \<Rightarrow> Inl (ErrWrap ''generate token'' e) | Inr t \<Rightarrow> Inr (t, hex_encode b)), d')
      \<and> length (hex_encode b) = 32
      \<and> result_of (auth_Login s name p) d' = Inl auth_ErrInvalidCredentials"
    using assms(2) by (simp add: Let_def)
qed

theorem guest_accounts_witness:
  "u_username (last (t_users (after (auth_CreateGuestUser (auth_NewService demo_lib demo_cfg)) (init_db 0)))) = ''guest_07070707''"
proof -
  have hex: "take 8 (hex_encode (replicate 16 7)) = ''07070707''" by code_simp
  show ?thesis
    using guest_accounts[of "auth_NewService demo_lib demo_cfg" "replicate 16 7" "init_db 0" "''''"]
    by (auto simp: auth_NewService_def demo_lib_def hex db_ok_init init_db_facts Let_def new_user_row_def)
qed

end
