(* ===== verification/Config.thy ===== *)
theory Config
  imports CallEngine Auth
begin

text \<open>
  Configuration (\<open>internal/config\<close>), the log level (\<open>internal/log\<close>) and what \<open>app.New\<close> builds from them.
  Durations are nanoseconds. Reading and writing the configuration file is the viper library and the
  operating system; the path it is read from is \<open>resolveConfigPath\<close>, with the answers of the operating
  system as arguments.
\<close>

record LiveKitConfig =
  lk_Enabled :: bool
  lk_APIKey :: string
  lk_APISecret :: string
  lk_WSURL :: string

record Config =
  cfg_Addr :: string
  cfg_DatabasePath :: string
  cfg_ReadHeaderTimeout :: int
  cfg_ShutdownTimeout :: int
  cfg_MaxMessageBytes :: int64
  cfg_RateLimitJoinPerMin :: int
  cfg_RateLimitMsgPerMin :: int
  cfg_PingInterval :: int
  cfg_ClientIdleTimeout :: int
  cfg_JWTSecret :: string
  cfg_JWTAudience :: string
  cfg_JWTIssuer :: string
  cfg_JWTRequired :: bool
  cfg_LiveKit :: LiveKitConfig

definition seconds :: "int \<Rightarrow> int" where
  "seconds n = n * 1000000000"

definition config_Default :: Config where
  "config_Default = \<lparr>cfg_Addr = '':8080'', cfg_DatabasePath = ''data/wirechat.db'',
     cfg_ReadHeaderTimeout = seconds 5, cfg_ShutdownTimeout = seconds 5, cfg_MaxMessageBytes = 2 ^ 20,
     cfg_RateLimitJoinPerMin = 60, cfg_RateLimitMsgPerMin = 300, cfg_PingInterval = seconds 30,
     cfg_ClientIdleTimeout = seconds 90, cfg_JWTSecret = ''dev-secret-change-in-production'',
     cfg_JWTAudience = ''wirechat'', cfg_JWTIssuer = ''wirechat-server'', cfg_JWTRequired = False,
     cfg_LiveKit = \<lparr>lk_Enabled = False, lk_APIKey = '''', lk_APISecret = '''', lk_WSURL = ''ws://localhost:7880''\<rparr>\<rparr>"

text \<open>One field: taken over unless it has its zero value.\<close>

definition overwrite :: "'a \<Rightarrow> 'a \<Rightarrow> 'a \<Rightarrow> 'a" where
  "overwrite zero mine other = (if other \<noteq> zero then other else mine)"

definition UpdateFrom :: "Config \<Rightarrow> Config option \<Rightarrow> Config" where
  "UpdateFrom c p = (case p of None \<Rightarrow> c | Some other \<Rightarrow>
     \<lparr>cfg_Addr = overwrite '''' (cfg_Addr c) (cfg_Addr other),
      cfg_DatabasePath = overwrite '''' (cfg_DatabasePath c) (cfg_DatabasePath other),
      cfg_ReadHeaderTimeout = overwrite 0 (cfg_ReadHeaderTimeout c) (cfg_ReadHeaderTimeout other),
      cfg_ShutdownTimeout = overwrite 0 (cfg_ShutdownTimeout c) (cfg_ShutdownTimeout other),
      cfg_MaxMessageBytes = overwrite 0 (cfg_MaxMessageBytes c) (cfg_MaxMessageBytes other),
      cfg_RateLimitJoinPerMin = overwrite 0 (cfg_RateLimitJoinPerMin c) (cfg_RateLimitJoinPerMin other),
      cfg_RateLimitMsgPerMin = overwrite 0 (cfg_RateLimitMsgPerMin c) (cfg_RateLimitMsgPerMin other),
      cfg_PingInterval = overwrite 0 (cfg_PingInterval c) (cfg_PingInterval other),
      cfg_ClientIdleTimeout = overwrite 0 (cfg_ClientIdleTimeout c) (cfg_ClientIdleTimeout other),
      cfg_JWTSecret = overwrite '''' (cfg_JWTSecret c) (cfg_JWTSecret other),
      cfg_JWTAudience = overwrite '''' (cfg_JWTAudience c) (cfg_JWTAudience other),
      cfg_JWTIssuer = overwrite '''' (cfg_JWTIssuer c) (cfg_JWTIssuer other),
      cfg_JWTRequired = overwrite False (cfg_JWTRequired c) (cfg_JWTRequired other),
      cfg_LiveKit =
       \<lparr>lk_Enabled = overwrite False (lk_Enabled (cfg_LiveKit c)) (lk_Enabled (cfg_LiveKit other)),
        lk_APIKey = overwrite '''' (lk_APIKey (cfg_LiveKit c)) (lk_APIKey (cfg_LiveKit other)),
        lk_APISecret = overwrite '''' (lk_APISecret (cfg_LiveKit c)) (lk_APISecret (cfg_LiveKit other)),
        lk_WSURL = overwrite '''' (lk_WSURL (cfg_LiveKit c)) (lk_WSURL (cfg_LiveKit other))\<rparr>\<rparr>)"

text \<open>
  \<open>base\<close> is the environment variable \<open>WIRECHAT_CONFIG_DEFAULT_PATH\<close>, \<open>mkdir\<close> whether its directory could
  be made, \<open>cwd\<close> the working directory if it could be read, \<open>filepath_Join\<close> the function of the package
  \<open>filepath\<close>.
\<close>

definition defaultConfigName :: string where "defaultConfigName = ''config.yaml''"

definition resolveConfigPath ::
    "(string \<Rightarrow> string \<Rightarrow> string) \<Rightarrow> string \<Rightarrow> bool \<Rightarrow> string option \<Rightarrow> string \<Rightarrow> string" where
  "resolveConfigPath filepath_Join base mkdir cwd explicitPath =
     (if explicitPath \<noteq> '''' then explicitPath
      else if base \<noteq> '''' \<and> mkdir then filepath_Join base defaultConfigName
      else case cwd of None \<Rightarrow> defaultConfigName | Some d \<Rightarrow> filepath_Join d defaultConfigName)"

section \<open>The log level\<close>

datatype logLevel = DebugLevel | InfoLevel | WarnLevel | ErrorLevel

definition ascii_lower :: "char \<Rightarrow> char" where
  "ascii_lower c = (if 65 \<le> (of_char c :: nat) \<and> (of_char c :: nat) \<le> 90 then char_of ((of_char c :: nat) + 32) else c)"

text \<open>\<open>strings.ToLower\<close> as far as the result can be ASCII: besides the capital letters, the dotted capital
  I (bytes C4 B0) becomes an i and the Kelvin sign (bytes E2 84 AA) a k.\<close>

fun to_lower :: "string \<Rightarrow> string" where
  "to_lower [] = []"
| "to_lower (c # cs) =
     (if c = CHR 0xC4 \<and> take 1 cs = [CHR 0xB0] then CHR ''i'' # to_lower (drop 1 cs)
      else if c = CHR 0xE2 \<and> take 2 cs = [CHR 0x84, CHR 0xAA] then CHR ''k'' # to_lower (drop 2 cs)
      else ascii_lower c # to_lower cs)"

definition parseLevel :: "string \<Rightarrow> logLevel" where
  "parseLevel level = (let l = to_lower level in
     if l = ''debug'' then DebugLevel
     else if l = ''info'' then InfoLevel
     else if l = ''warn'' \<or> l = ''warning'' then WarnLevel
     else if l = ''error'' then ErrorLevel
     else InfoLevel)"

section \<open>Wiring\<close>

definition app_jwtConfig :: "Config \<Rightarrow> JWTConfig" where
  "app_jwtConfig cfg = \<lparr>jwt_Secret = cfg_JWTSecret cfg, jwt_Issuer = cfg_JWTIssuer cfg,
     jwt_Audience = cfg_JWTAudience cfg, jwt_TTL = 24 * 3600 * 1000000000\<rparr>"

text \<open>The engine \<open>app.New\<close> builds, or its error.\<close>

definition app_callEngine :: "Config \<Rightarrow> goerr + livekitEngine option" where
  "app_callEngine cfg = (let lk = cfg_LiveKit cfg in
     if lk_Enabled lk then
       if lk_APIKey lk = '''' \<or> lk_APISecret lk = ''''
       then Inl (ErrText ''livekit is enabled but api_key or api_secret is not set'')
       else Inr (Some (livekit_New (lk_APIKey lk) (lk_APISecret lk) (lk_WSURL lk)))
     else Inr None)"

section \<open>Merging configurations\<close>

definition zero_config :: Config where
  "zero_config = \<lparr>cfg_Addr = '''', cfg_DatabasePath = '''', cfg_ReadHeaderTimeout = 0, cfg_ShutdownTimeout = 0,
     cfg_MaxMessageBytes = 0, cfg_RateLimitJoinPerMin = 0, cfg_RateLimitMsgPerMin = 0, cfg_PingInterval = 0,
     cfg_ClientIdleTimeout = 0, cfg_JWTSecret = '''', cfg_JWTAudience = '''', cfg_JWTIssuer = '''',
     cfg_JWTRequired = False,
     cfg_LiveKit = \<lparr>lk_Enabled = False, lk_APIKey = '''', lk_APISecret = '''', lk_WSURL = ''''\<rparr>\<rparr>"

lemma overwrite_laws:
  "overwrite z a z = a" "overwrite z z b = b" "overwrite z (overwrite z a b) c = overwrite z a (overwrite z b c)"
  "overwrite z a a = a"
  by (simp_all add: overwrite_def)

text \<open>Configurations merge as layers. Overwriting is associative, so defaults, file and overrides can be
  applied in order or merged first; an absent or all-zero layer changes nothing and a layer applied
  twice is applied once; and with the built-in defaults below, every field that must not be empty for
  the server to start stays set.\<close>

theorem config_layers:
  "UpdateFrom (UpdateFrom a (Some b)) (Some c) = UpdateFrom a (Some (UpdateFrom b (Some c)))
   \<and> UpdateFrom a (Some zero_config) = a \<and> UpdateFrom zero_config (Some a) = a \<and> UpdateFrom a None = a
   \<and> UpdateFrom (UpdateFrom a (Some b)) (Some b) = UpdateFrom a (Some b)
   \<and> cfg_Addr (UpdateFrom config_Default p) \<noteq> '''' \<and> cfg_DatabasePath (UpdateFrom config_Default p) \<noteq> ''''
   \<and> cfg_JWTSecret (UpdateFrom config_Default p) \<noteq> '''' \<and> cfg_JWTIssuer (UpdateFrom config_Default p) \<noteq> ''''
   \<and> cfg_JWTAudience (UpdateFrom config_Default p) \<noteq> ''''"
proof -
  have assoc: "UpdateFrom (UpdateFrom a (Some b)) (Some c) = UpdateFrom a (Some (UpdateFrom b (Some c)))" for a b c
    by (simp add: UpdateFrom_def overwrite_laws)
  have idem: "UpdateFrom b (Some b) = b"
    by (simp add: UpdateFrom_def overwrite_laws)
  have "UpdateFrom (UpdateFrom a (Some b)) (Some b) = UpdateFrom a (Some b)"
    by (simp add: assoc idem)
  moreover have "UpdateFrom a (Some zero_config) = a" "UpdateFrom zero_config (Some a) = a" "UpdateFrom a None = a"
    by (simp_all add: UpdateFrom_def zero_config_def overwrite_laws)
  ultimately show ?thesis
    using assoc by (auto simp: UpdateFrom_def config_Default_def overwrite_def split: option.split)
qed

end
