(* ===== verification/WebSocket.thy ===== *)
theory WebSocket
  imports Mapper Config
begin

text \<open>
  The WebSocket handler (\<open>internal/transport/http/ws_handler.go\<close>, \<open>ratelimit.go\<close>). A connection is its
  client, its two rate limiters and whether it has been authenticated. \<open>readLoop\<close> runs over the
  sequence of what happens to the connection: frames (what \<open>wsjson.Read\<close> returned, and what a write
  will return) and the minute ticks that reset a limiter. The WebSocket library's \<open>CloseStatus\<close> is a
  parameter; a frame is the JSON document it carries, which \<open>wsjson.Read\<close> unmarshals.
\<close>

section \<open>Rate limiting\<close>

record rateLimiter =
  rl_limit :: int
  rl_counter :: int
  rl_reset :: bool \<comment> \<open>whether the ticker was made\<close>

definition newRateLimiter :: "int \<Rightarrow> rateLimiter" where
  "newRateLimiter limit =
     (if limit \<le> 0 then \<lparr>rl_limit = 0, rl_counter = 0, rl_reset = False\<rparr>
      else \<lparr>rl_limit = limit, rl_counter = 0, rl_reset = True\<rparr>)"

definition rl_allow :: "rateLimiter \<Rightarrow> bool \<times> rateLimiter" where
  "rl_allow r =
     (if rl_limit r \<le> 0 then (True, r)
      else let r = r\<lparr>rl_counter := rl_counter r + 1\<rparr> in (rl_counter r \<le> rl_limit r, r))"

text \<open>A tick of the goroutine of \<open>startReset\<close>, which only runs when there is a ticker.\<close>

definition rl_tick :: "rateLimiter \<Rightarrow> rateLimiter" where
  "rl_tick r = (if rl_reset r then r\<lparr>rl_counter := 0\<rparr> else r)"

section \<open>Hello\<close>

record wsHandler =
  ws_authService :: authService
  ws_config :: Config
  ws_CloseStatus :: "goerr option \<Rightarrow> int"

definition set_identity :: "userID \<Rightarrow> string \<Rightarrow> bool \<Rightarrow> Client \<Rightarrow> Client" where
  "set_identity u n g client = client\<lparr>cl_UserID := u, cl_Name := n, cl_IsGuest := g\<rparr>"

text \<open>Guest mode leaves the client's user id as it is.\<close>

definition guest_mode :: "HelloData \<Rightarrow> Client \<Rightarrow> (protoError option \<times> goerr option) \<times> Client" where
  "guest_mode hello client =
     (if hello_User hello \<noteq> '''' then ((None, None), client\<lparr>cl_Name := hello_User hello, cl_IsGuest := True\<rparr>)
      else if length (cl_ID client) < 8 then ((None, Some (GoPanic ''slice bounds out of range'')), client)
      else ((None, None), client\<lparr>cl_Name := ''guest-'' @ take 8 (cl_ID client), cl_IsGuest := True\<rparr>))"

definition handleHello ::
    "wsHandler \<Rightarrow> time \<Rightarrow> Client \<Rightarrow> Inbound \<Rightarrow> (protoError option \<times> goerr option) \<times> Client" where
  "handleHello h now client inbound = (case unmarshal_raw dec_HelloData (in_Data inbound) of
       Inl e \<Rightarrow> ((None, Some e), client)
     | Inr hello \<Rightarrow>
       if hello_Protocol hello \<noteq> 0 \<and> hello_Protocol hello \<noteq> ProtocolVersion
       then ((Some (proto_Error ''unsupported_version'' ''unsupported protocol version''), None), client)
       else if hello_Token hello \<noteq> '''' then
         (case auth_ValidateToken (ws_authService h) now (hello_Token hello) of
            Inr claims \<Rightarrow> ((None, None), set_identity (claims_UserID claims) (claims_Username claims)
                (claims_IsGuest claims) client)
          | Inl _ \<Rightarrow>
            if cfg_JWTRequired (ws_config h)
            then ((Some (proto_Error ''unauthorized'' ''invalid token''), None), client)
            else guest_mode hello client)
       else if cfg_JWTRequired (ws_config h)
       then ((Some (proto_Error ''unauthorized'' ''token required''), None), client)
       else guest_mode hello client)"

section \<open>The read loop\<close>

record wsConn =
  conn_client :: Client
  conn_join :: rateLimiter
  conn_msg :: rateLimiter
  conn_auth :: bool

definition start_conn :: "wsHandler \<Rightarrow> Client \<Rightarrow> wsConn" where
  "start_conn h client = \<lparr>conn_client = client, conn_join = newRateLimiter (cfg_RateLimitJoinPerMin (ws_config h)),
     conn_msg = newRateLimiter (cfg_RateLimitMsgPerMin (ws_config h)),
     conn_auth = (\<not> cfg_JWTRequired (ws_config h))\<rparr>"

text \<open>What an iteration of the loop ends with: an error envelope, a command for the hub, nothing, or the
  return of the loop.\<close>

datatype wsOutcome =
    WsReply protoError
  | WsCommand Command
  | WsNothing
  | WsReturn "goerr option"

definition canceled :: goerr where "canceled = ErrNew ''context.Canceled'' ''context canceled''"
definition io_EOF :: goerr where "io_EOF = ErrNew ''io.EOF'' ''EOF''"

definition StatusNormalClosure :: int where [simp]: "StatusNormalClosure = 1000"
definition StatusGoingAway :: int where [simp]: "StatusGoingAway = 1001"
definition StatusInternalError :: int where [simp]: "StatusInternalError = 1011"

definition isExpectedClose :: "wsHandler \<Rightarrow> goerr option \<Rightarrow> bool" where
  "isExpectedClose h err = (case err of None \<Rightarrow> False | Some e \<Rightarrow>
     errors_is e canceled \<or> errors_is e io_EOF \<or>
     ws_CloseStatus h err = StatusNormalClosure \<or> ws_CloseStatus h err = StatusGoingAway)"

text \<open>The rate limits and the guard of the call commands; the result is the error that replaces the one
  there was, if any.\<close>

definition command_limits :: "Command \<Rightarrow> wsConn \<Rightarrow> protoError option \<times> wsConn" where
  "command_limits cmd conn = (
     if cmd_Kind cmd = CommandJoinRoom then
       (case rl_allow (conn_join conn) of (ok, r) \<Rightarrow>
          (if ok then None else Some (proto_Error ''rate_limited'' ''too many join requests''), conn\<lparr>conn_join := r\<rparr>))
     else if cmd_Kind cmd = CommandSendRoomMessage then
       (case rl_allow (conn_msg conn) of (ok, r) \<Rightarrow>
          (if ok then None else Some (proto_Error ''rate_limited'' ''too many messages''), conn\<lparr>conn_msg := r\<rparr>))
     else if is_call_kind (cmd_Kind cmd) \<and> (cl_IsGuest (conn_client conn) \<or> cl_UserID (conn_client conn) = 0)
     then (Some (proto_Error ErrCodeUnauthorized ''calls require authentication''), conn)
     else (None, conn))"

text \<open>A join is only passed on for a room the client may enter.\<close>

definition check_room :: "Client \<Rightarrow> Command \<Rightarrow> wsOutcome dbm" where
  "check_room client cmd = do {
     room \<leftarrow> GetRoomByName (cmd_Room cmd);
     case room of
       Inl _ \<Rightarrow> return (WsReply (proto_Error ''room_not_found'' ''room does not exist''))
     | Inr room \<Rightarrow>
       if room_Type room = RoomTypePublic then return (WsCommand cmd)
       else if room_Type room = RoomTypePrivate \<or> room_Type room = RoomTypeDirect then do {
         isMember \<leftarrow> IsMember (cl_UserID client) (room_ID room);
         return (case isMember of
             Inl _ \<Rightarrow> WsReply (proto_Error ''internal_error'' ''internal server error'')
           | Inr b \<Rightarrow> if b then WsCommand cmd else WsReply (proto_Error ''access_denied'' ''access denied'')) }
       else return (WsReply (proto_Error ''access_denied'' ''access denied'')) }"

definition dispatch :: "wsConn \<Rightarrow> Command option \<Rightarrow> protoError option \<Rightarrow> wsOutcome dbm" where
  "dispatch conn cmd protoErr = (case protoErr of
       Some e \<Rightarrow> return (WsReply e)
     | None \<Rightarrow> (case cmd of
         None \<Rightarrow> return WsNothing
       | Some cmd \<Rightarrow> if cmd_Kind cmd = CommandJoinRoom then check_room (conn_client conn) cmd
                     else return (WsCommand cmd)))"

text \<open>The body of the loop once a message has been read.\<close>

definition handle_inbound :: "wsHandler \<Rightarrow> time \<Rightarrow> Inbound \<Rightarrow> wsConn \<Rightarrow> (wsOutcome \<times> wsConn) dbm" where
  "handle_inbound h now inbound conn = (let
     (cmd, protoErr, err) = inboundToCommand (conn_client conn) now inbound;
     hello = (in_Type inbound = InboundTypeHello \<and> err = None);
     ((protoErr, err), client) =
       (if hello then handleHello h now (conn_client conn) inbound else ((protoErr, err), conn_client conn));
     conn = conn\<lparr>conn_client := client, conn_auth := (conn_auth conn \<or> hello \<and> err = None \<and> protoErr = None)\<rparr>
     in case err of
       Some e \<Rightarrow> return (WsReturn (Some e), conn)
     | None \<Rightarrow> (let
         protoErr = (if \<not> conn_auth conn \<and> in_Type inbound \<noteq> InboundTypeHello \<and> cfg_JWTRequired (ws_config h)
           then Some (proto_Error ''unauthorized'' ''hello with valid token required'') else protoErr);
         (limited, conn) = (case cmd of None \<Rightarrow> (None, conn) | Some cmd \<Rightarrow> command_limits cmd conn);
         protoErr = (case limited of Some e \<Rightarrow> Some e | None \<Rightarrow> protoErr)
         in do {
           out \<leftarrow> dispatch conn cmd protoErr;
           return (out, conn) }))"

datatype wsInput =
    Frame time "goerr + json" "goerr option" \<comment> \<open>the instant, what was read, what a write returns\<close>
  | JoinTick
  | MsgTick

definition read_iteration ::
    "wsHandler \<Rightarrow> time \<Rightarrow> goerr + json \<Rightarrow> goerr option \<Rightarrow> wsConn \<Rightarrow> (wsOutcome \<times> wsConn) dbm" where
  "read_iteration h now read writeErr conn =
     (case (case read of Inl e \<Rightarrow> Inl e | Inr v \<Rightarrow> dec_Inbound v) of
        Inl e \<Rightarrow> return (WsReturn (if isExpectedClose h (Some e) then None else Some e), conn)
      | Inr inbound \<Rightarrow> do {
          (out, conn) \<leftarrow> handle_inbound h now inbound conn;
          return (case (out, writeErr) of
              (WsReply _, Some e) \<Rightarrow> (WsReturn (Some e), conn)
            | _ \<Rightarrow> (out, conn)) })"

text \<open>The outcomes of the iterations, in order, each with the client as it then was; the loop is left at
  the first \<open>WsReturn\<close>.\<close>

fun readLoop :: "wsHandler \<Rightarrow> wsInput list \<Rightarrow> wsConn \<Rightarrow> ((wsOutcome \<times> Client) list \<times> wsConn) dbm" where
  "readLoop h [] conn = return ([], conn)"
| "readLoop h (JoinTick # is) conn = readLoop h is (conn\<lparr>conn_join := rl_tick (conn_join conn)\<rparr>)"
| "readLoop h (MsgTick # is) conn = readLoop h is (conn\<lparr>conn_msg := rl_tick (conn_msg conn)\<rparr>)"
| "readLoop h (Frame now read writeErr # is) conn = do {
     (out, conn) \<leftarrow> read_iteration h now read writeErr conn;
     (case out of
        WsReturn e \<Rightarrow> return ([(WsReturn e, conn_client conn)], conn)
      | _ \<Rightarrow> do {
          (outs, conn') \<leftarrow> readLoop h is conn;
          return ((out, conn_client conn) # outs, conn') }) }"

section \<open>The write loop and the end of a connection\<close>

text \<open>What \<open>writeLoop\<close> does with what the \<open>select\<close> picked, given what a write or a ping will return:
  \<open>Inl\<close> the value it returns, \<open>Inr\<close> the frame it wrote, if any.\<close>

datatype wsPick = GotEvent Event | EventsClosed | PingTick | ContextDone goerr

definition write_iteration :: "wsPick \<Rightarrow> goerr option \<Rightarrow> goerr option + json option" where
  "write_iteration pick io = (case pick of
       EventsClosed \<Rightarrow> Inl None
     | GotEvent event \<Rightarrow> (case outboundFromEvent event of
           Inl e \<Rightarrow> Inl (Some e)
         | Inr outbound \<Rightarrow> (case io of Some e \<Rightarrow> Inl (Some e) | None \<Rightarrow> Inr (Some (enc_Outbound outbound))))
     | PingTick \<Rightarrow> (case io of Some e \<Rightarrow> Inl (Some e) | None \<Rightarrow> Inr None)
     | ContextDone e \<Rightarrow> Inl (Some e))"

definition commandKindString :: "CommandKind \<Rightarrow> string" where
  "commandKindString kind = (case kind of
       CommandJoinRoom \<Rightarrow> ''join'' | CommandLeaveRoom \<Rightarrow> ''leave'' | CommandSendRoomMessage \<Rightarrow> ''msg''
     | CommandCallInvite \<Rightarrow> ''call.invite'' | CommandCallAccept \<Rightarrow> ''call.accept''
     | CommandCallReject \<Rightarrow> ''call.reject'' | CommandCallJoin \<Rightarrow> ''call.join''
     | CommandCallLeave \<Rightarrow> ''call.leave'' | CommandCallEnd \<Rightarrow> ''call.end'' | UnknownCommand n \<Rightarrow> ''unknown'')"

text \<open>The status and reason \<open>ServeHTTP\<close> closes the connection with, given the error of the first loop to
  return.\<close>

definition close_with :: "wsHandler \<Rightarrow> goerr option \<Rightarrow> int \<times> string" where
  "close_with h err = (case err of
       None \<Rightarrow> (StatusNormalClosure, ''closing'')
     | Some e \<Rightarrow>
       if errors_is e canceled then (StatusNormalClosure, ''closing'')
       else let
         err = (if errors_is e io_EOF then None else Some e);
         s = ws_CloseStatus h err;
         status = (if s \<noteq> 0 then s else StatusNormalClosure);
         err = (if status = StatusNormalClosure \<or> status = StatusGoingAway then None else err)
         in case err of
           None \<Rightarrow> (status, ''closing'')
         | Some e \<Rightarrow> (if status = StatusNormalClosure then StatusInternalError else status, error_string e))"

text \<open>The client \<open>ServeHTTP\<close> makes for a new connection.\<close>

definition new_connection :: "goerr + nat list \<Rightarrow> time \<Rightarrow> Client" where
  "new_connection rand now = NewClient (NewID rand now) '''' 0 False"

end
