(* ===== verification/WebSocket_Props.thy ===== *)
theory WebSocket_Props
  imports WebSocket
begin

text \<open>
  What the WebSocket handler guarantees: which commands it lets through to the hub, how many, and for
  whom; what a greeting changes; and how a connection is closed.
\<close>

section \<open>One iteration\<close>

lemma inbound_Some:
  assumes "inboundToCommand c now inb = (Some cmd, pe, err)"
  shows "pe = None" and "err = None" and "wf_command cmd" and "in_Type inb \<noteq> InboundTypeHello"
proof -
  have "pe = None \<and> err = None \<and> wf_command cmd \<and> in_Type inb \<noteq> InboundTypeHello"
    using assms unfolding inboundToCommand_def room_command_def call_action_def call_invite_def decoded_def Let_def
    by (simp add: bad_request_def wf_command_def new_command_def new_callCommand_def zero_message_def
        split: sum.splits if_splits) auto
  then show "pe = None" and "err = None" and "wf_command cmd" and "in_Type inb \<noteq> InboundTypeHello" by auto
qed

text \<open>A greeting never reaches the hub; any other message leaves the client as it is.\<close>

lemma run_hello:
  assumes "in_Type inb = InboundTypeHello" and "handleHello h now (conn_client conn) inb = ((pe, err), cl)"
  shows "run_state (handle_inbound h now inb conn) d =
    (((case err of Some e \<Rightarrow> WsReturn (Some e) | None \<Rightarrow> (case pe of Some e \<Rightarrow> WsReply e | None \<Rightarrow> WsNothing)),
      conn\<lparr>conn_client := cl, conn_auth := conn_auth conn \<or> err = None \<and> pe = None\<rparr>), d)"
proof -
  have "inboundToCommand (conn_client conn) now inb =
      (None, Some (proto_Error ''invalid_message'' ''unknown message type''), None)"
    using assms(1) by (simp add: inboundToCommand_def)
  then show ?thesis
    using assms by (cases err; cases pe) (simp_all add: handle_inbound_def Let_def dispatch_def)
qed

lemma run_other:
  assumes "in_Type inb \<noteq> InboundTypeHello" and "inboundToCommand (conn_client conn) now inb = (cmd, pe, err)"
  shows "run_state (handle_inbound h now inb conn) d = (case err of
      Some e \<Rightarrow> ((WsReturn (Some e), conn), d)
    | None \<Rightarrow> (case (case cmd of None \<Rightarrow> (None, conn) | Some cmd \<Rightarrow> command_limits cmd conn) of (limited, conn') \<Rightarrow>
        (case run_state (dispatch conn' cmd (case limited of Some e \<Rightarrow> Some e | None \<Rightarrow>
            (if \<not> conn_auth conn \<and> cfg_JWTRequired (ws_config h)
             then Some (proto_Error ''unauthorized'' ''hello with valid token required'') else pe))) d of
          (out, d') \<Rightarrow> ((out, conn'), d'))))"
proof -
  have same: "conn\<lparr>conn_client := conn_client conn, conn_auth := conn_auth conn\<rparr> = conn" by simp
  show ?thesis
    using assms unfolding handle_inbound_def Let_def
    by (cases err; cases cmd) (simp_all add: same case_prod_beta cong: option.case_cong del: InboundTypeHello_def)
qed

lemma dispatch_command:
  assumes "run_state (dispatch conn c pe) d = (WsCommand cmd, d')"
  shows "c = Some cmd \<and> pe = None"
  using assms unfolding dispatch_def check_room_def
  by (auto simp: case_prod_beta split: option.splits if_splits sum.splits prod.splits)

text \<open>An iteration that passes a command on.\<close>

lemma handle_inbound_command:
  assumes run: "run_state (handle_inbound h now inb conn) d = ((WsCommand cmd, conn'), d')"
  shows "inboundToCommand (conn_client conn) now inb = (Some cmd, None, None)"
    and "command_limits cmd conn = (None, conn')"
    and "conn_auth conn \<or> \<not> cfg_JWTRequired (ws_config h)"
    and "run_state (dispatch conn' (Some cmd) None) d = (WsCommand cmd, d')"
proof -
  obtain c pe err where m: "inboundToCommand (conn_client conn) now inb = (c, pe, err)" by (rule prod_cases3)
  have hello: "in_Type inb \<noteq> InboundTypeHello"
  proof
    assume t: "in_Type inb = InboundTypeHello"
    obtain a b cl where "handleHello h now (conn_client conn) inb = ((a, b), cl)" by (metis prod.exhaust)
    from run_hello[OF t this, of d] run show False by (auto split: option.splits)
  qed
  obtain l k where l: "(case c of None \<Rightarrow> (None, conn) | Some cmd \<Rightarrow> command_limits cmd conn) = (l, k)"
    by (rule prod.exhaust)
  have out: "run_state (dispatch k c (case l of Some e \<Rightarrow> Some e | None \<Rightarrow>
            (if \<not> conn_auth conn \<and> cfg_JWTRequired (ws_config h)
             then Some (proto_Error ''unauthorized'' ''hello with valid token required'') else pe))) d
      = (WsCommand cmd, d')" "k = conn'" "err = None"
    using run unfolding run_other[OF hello m] l by (auto split: option.splits prod.splits)
  from dispatch_command[OF out(1)] have c: "c = Some cmd" and l0: "l = None"
    and auth: "conn_auth conn \<or> \<not> cfg_JWTRequired (ws_config h)" and pe: "pe = None"
    by (auto split: option.splits if_splits)
  show "inboundToCommand (conn_client conn) now inb = (Some cmd, None, None)" using m c pe out(3) by simp
  show "command_limits cmd conn = (None, conn')" using l c l0 out(2) by simp
  show "conn_auth conn \<or> \<not> cfg_JWTRequired (ws_config h)" by (rule auth)
  show "run_state (dispatch conn' (Some cmd) None) d = (WsCommand cmd, d')"
    using out(1) auth unfolding l0 pe c out(2) by auto
qed

lemma limits_client [simp]:
  "conn_client (snd (command_limits cmd conn)) = conn_client conn" "conn_auth (snd (command_limits cmd conn)) = conn_auth conn"
  by (auto simp: command_limits_def split: prod.split)

lemma read_iteration_run:
  assumes "run_state (read_iteration h now rd we conn) d = ((out, conn'), d')"
  shows "(\<exists>e. out = WsReturn e) \<and> conn' = conn \<and> d' = d
    \<or> (\<exists>inb out'. run_state (handle_inbound h now inb conn) d = ((out', conn'), d')
        \<and> (out = out' \<or> (\<exists>e. out = WsReturn e)))"
proof (cases "case rd of Inl e \<Rightarrow> Inl e | Inr v \<Rightarrow> dec_Inbound v")
  case (Inl e)
  then show ?thesis using assms by (auto simp: read_iteration_def)
next
  case (Inr inb)
  obtain o1 c1 d1 where run: "run_state (handle_inbound h now inb conn) d = ((o1, c1), d1)"
    by (metis prod.exhaust)
  have "c1 = conn' \<and> d1 = d' \<and> (out = o1 \<or> (\<exists>e. out = WsReturn e))"
    using assms unfolding read_iteration_def Inr
    by (auto simp: run split: wsOutcome.splits option.splits)
  then show ?thesis using run by blast
qed

lemma read_iteration_command:
  assumes "run_state (read_iteration h now rd we conn) d = ((WsCommand cmd, conn'), d')"
  shows "\<exists>inb. run_state (handle_inbound h now inb conn) d = ((WsCommand cmd, conn'), d')"
  using read_iteration_run[OF assms] by auto

lemma check_room_command:
  assumes "run_state (check_room client cmd) d = (WsCommand cmd', d')"
  shows "cmd' = cmd \<and> tables d' = tables d \<and> (\<exists>room \<in> set (t_rooms d). room_Name room = cmd_Room cmd
    \<and> (room_Type room = RoomTypePublic \<or> room_Type room \<in> {RoomTypePrivate, RoomTypeDirect}
        \<and> (\<exists>m \<in> set (t_room_members d). member_UserID m = cl_UserID client \<and> member_RoomID m = room_ID room)))"
proof (cases "result_of (GetRoomByName (cmd_Room cmd)) d")
  case (Inl e)
  then show ?thesis using assms by (simp add: check_room_def run_lookups)
next
  case (Inr room)
  then have room: "room \<in> set (t_rooms d)" "room_Name room = cmd_Room cmd"
    by (auto simp: run_lookups dest!: query_row_Inr(2))
  have "run_state (GetRoomByName (cmd_Room cmd)) d = (Inr room, pop_fault d)"
    using Inr by (simp add: run_lookups)
  then show ?thesis
    using assms room by (auto simp: check_room_def IsMember_run split: if_splits option.splits)
qed


definition demo_handler :: "bool \<Rightarrow> wsHandler" where
  "demo_handler required = \<lparr>ws_authService = auth_NewService demo_lib demo_cfg,
     ws_config = config_Default\<lparr>cfg_JWTRequired := required, cfg_RateLimitJoinPerMin := 2\<rparr>,
     ws_CloseStatus = (\<lambda>_. - 1)\<rparr>"

definition demo_client :: Client where
  "demo_client = new_connection (Inr (replicate 12 7)) 0"

definition join_frame :: json where
  "join_frame = enc_Inbound (request_inbound (JoinRequest ''general''))"

definition hello_frame :: "string \<Rightarrow> string \<Rightarrow> json" where
  "hello_frame name token = enc_Inbound \<lparr>in_Type = InboundTypeHello,
     in_Data = Some (enc_HelloData \<lparr>hello_User = name, hello_Token = token, hello_Protocol = 1\<rparr>)\<rparr>"

lemma join_frame_inbound:
  "dec_Inbound join_frame = Inr (request_inbound (JoinRequest ''general''))"
  unfolding join_frame_def by (rule inbound.dec_enc) simp

lemma hello_frame_inbound:
  "dec_Inbound (hello_frame n t) = Inr \<lparr>in_Type = InboundTypeHello,
     in_Data = Some (enc_HelloData \<lparr>hello_User = n, hello_Token = t, hello_Protocol = 1\<rparr>)\<rparr>"
  unfolding hello_frame_def by (rule inbound.dec_enc) simp

definition join_cmd :: Command where
  "join_cmd = (new_command CommandJoinRoom)\<lparr>cmd_Room := ''general''\<rparr>"

lemma join_mapped: "inboundToCommand cl now (request_inbound (JoinRequest ''general'')) = (Some join_cmd, None, None)"
  by (simp add: inboundToCommand_def room_command_def decoded_def join.raw_enc join_cmd_def)

lemma general_lookup:
  "\<exists>room. room_Type room = RoomTypePublic \<and> run_state (GetRoomByName ''general'') (init_db 0) = (Inr room, init_db 0)"
  by (simp add: run_db init_db_def)

lemma join_iteration:
  assumes "conn_auth conn" and "fst (rl_allow (conn_join conn))"
  shows "run_state (read_iteration h now (Inr join_frame) None conn) (init_db 0) =
    ((WsCommand join_cmd, conn\<lparr>conn_join := snd (rl_allow (conn_join conn))\<rparr>), init_db 0)"
proof -
  have "run_state (handle_inbound h now (request_inbound (JoinRequest ''general'')) conn) (init_db 0) =
    ((WsCommand join_cmd, conn\<lparr>conn_join := snd (rl_allow (conn_join conn))\<rparr>), init_db 0)"
    using assms general_lookup
    by (subst run_other[OF _ join_mapped])
      (auto simp: command_limits_def join_cmd_def new_command_def dispatch_def check_room_def case_prod_beta)
  then show ?thesis by (simp add: read_iteration_def join_frame_inbound)
qed


section \<open>Identity\<close>

text \<open>The client is who a token that the server accepted says it is.\<close>

definition vouched :: "wsHandler \<Rightarrow> Client \<Rightarrow> bool" where
  "vouched h cl \<longleftrightarrow> (\<exists>now t c. auth_ValidateToken (ws_authService h) now t = Inr c
     \<and> cl_UserID cl = claims_UserID c \<and> cl_Name cl = claims_Username c \<and> cl_IsGuest cl = claims_IsGuest c)"

definition vouched_conn :: "wsHandler \<Rightarrow> wsConn \<Rightarrow> bool" where
  "vouched_conn h conn \<longleftrightarrow> (conn_auth conn \<longrightarrow> vouched h (conn_client conn))"

lemma hello_required:
  assumes "cfg_JWTRequired (ws_config h)" and "handleHello h now cl inb = ((pe, err), cl')"
  shows "if pe = None \<and> err = None then vouched h cl' else cl' = cl"
proof -
  have "vouched h (set_identity (claims_UserID c) (claims_Username c) (claims_IsGuest c) cl)"
    if "auth_ValidateToken (ws_authService h) now t = Inr c" for t c
    using that unfolding vouched_def set_identity_def by auto
  then show ?thesis
    using assms by (auto simp: handleHello_def split: sum.splits if_splits)
qed

lemma handle_inbound_vouched:
  assumes "cfg_JWTRequired (ws_config h)" and "vouched_conn h conn"
    and run: "run_state (handle_inbound h now inb conn) d = ((out, conn'), d')"
  shows "vouched_conn h conn'"
proof (cases "in_Type inb = InboundTypeHello")
  case True
  obtain pe err cl where hello: "handleHello h now (conn_client conn) inb = ((pe, err), cl)" by (metis prod.exhaust)
  then show ?thesis
    using hello_required[OF assms(1) hello] assms(2) run unfolding run_hello[OF True hello]
    by (auto simp: vouched_conn_def split: if_splits)
next
  case False
  obtain c pe err where m: "inboundToCommand (conn_client conn) now inb = (c, pe, err)" by (rule prod_cases3)
  have "conn_client conn' = conn_client conn \<and> conn_auth conn' = conn_auth conn"
  proof (cases c)
    case (Some cmd)
    then show ?thesis
      using run limits_client[of cmd conn] unfolding run_other[OF False m]
      by (auto simp: case_prod_beta split: option.splits)
  qed (use run in \<open>auto simp: run_other[OF False m] case_prod_beta split: option.splits\<close>)
  then show ?thesis using assms(2) by (simp add: vouched_conn_def)
qed

lemma read_iteration_vouched:
  assumes "cfg_JWTRequired (ws_config h)" and "vouched_conn h conn"
    and "run_state (read_iteration h now rd we conn) d = ((out, conn'), d')"
  shows "vouched_conn h conn'"
  using read_iteration_run[OF assms(3)] handle_inbound_vouched[OF assms(1,2)] assms(2) by blast

lemma iteration_command_auth:
  assumes "cfg_JWTRequired (ws_config h)"
    and "run_state (read_iteration h now rd we conn) d = ((WsCommand cmd, conn'), d')"
  shows "conn_auth conn'"
proof -
  obtain inb where "run_state (handle_inbound h now inb conn) d = ((WsCommand cmd, conn'), d')"
    using read_iteration_command[OF assms(2)] by blast
  from handle_inbound_command(2,3)[OF this] limits_client(2)[of cmd conn] show ?thesis using assms(1) by simp
qed

text \<open>The shape of a run of the loop, for inductions over its iterations.\<close>

lemma readLoop_Frame:
  assumes "run_state (readLoop h (Frame now rd we # is) conn) d = ((outs, conn''), d'')"
  shows "\<exists>out conn' d'. run_state (read_iteration h now rd we conn) d = ((out, conn'), d')
    \<and> ((\<exists>e. out = WsReturn e) \<and> outs = [(out, conn_client conn')] \<and> conn'' = conn' \<and> d'' = d'
      \<or> (\<exists>outs'. outs = (out, conn_client conn') # outs' \<and> run_state (readLoop h is conn') d' = ((outs', conn''), d'')))"
proof -
  obtain out conn' d' where it: "run_state (read_iteration h now rd we conn) d = ((out, conn'), d')"
    by (metis prod.exhaust)
  obtain o2 c2 d2 where rest: "run_state (readLoop h is conn') d' = ((o2, c2), d2)" by (metis prod.exhaust)
  show ?thesis
    using assms by (intro exI[of _ out] exI[of _ conn'] exI[of _ d']) (auto simp: it rest split: wsOutcome.splits)
qed

lemma readLoop_vouched:
  assumes "cfg_JWTRequired (ws_config h)" and "vouched_conn h conn"
    and "run_state (readLoop h is conn) d = ((outs, conn'), d')" and "(WsCommand cmd, cl) \<in> set outs"
  shows "vouched h cl"
  using assms
proof (induction "is" arbitrary: conn d outs)
  case (Cons i "is")
  show ?case
  proof (cases i)
    case (Frame now rd we)
    obtain out c1 d1 where it: "run_state (read_iteration h now rd we conn) d = ((out, c1), d1)"
      and rest: "(\<exists>e. out = WsReturn e) \<and> outs = [(out, conn_client c1)] \<or>
        (\<exists>outs'. outs = (out, conn_client c1) # outs' \<and> run_state (readLoop h is c1) d1 = ((outs', conn'), d'))"
      using readLoop_Frame[OF Cons.prems(3)[unfolded Frame]] by blast
    have v: "vouched_conn h c1" by (rule read_iteration_vouched[OF Cons.prems(1,2) it])
    show ?thesis
    proof (cases "out = WsCommand cmd \<and> cl = conn_client c1")
      case True
      then show ?thesis
        using v iteration_command_auth[OF Cons.prems(1)] it by (auto simp: vouched_conn_def)
    next
      case False
      then show ?thesis using rest Cons.IH[OF Cons.prems(1) v] Cons.prems(4) by auto
    qed
  next
    case JoinTick
    then show ?thesis
      using Cons.IH[of "conn\<lparr>conn_join := rl_tick (conn_join conn)\<rparr>" d outs] Cons.prems by (simp add: vouched_conn_def)
  next
    case MsgTick
    then show ?thesis
      using Cons.IH[of "conn\<lparr>conn_msg := rl_tick (conn_msg conn)\<rparr>" d outs] Cons.prems by (simp add: vouched_conn_def)
  qed
qed simp

text \<open>(C12) No command without a token. On a server that requires tokens, every command a connection ever
  passes to the hub, over any sequence of frames, ticks, driver and write failures, is passed on for a
  client whose user id, name and guest flag are those of a token the server has accepted.\<close>

theorem commands_need_token:
  assumes "cfg_JWTRequired (ws_config h)"
    and "run_state (readLoop h is (start_conn h (new_connection rand t0))) d = ((outs, conn), d')"
    and "(WsCommand cmd, cl) \<in> set outs"
  shows "\<exists>now t c. auth_ValidateToken (ws_authService h) now t = Inr c
    \<and> cl_UserID cl = claims_UserID c \<and> cl_Name cl = claims_Username c \<and> cl_IsGuest cl = claims_IsGuest c"
proof -
  have "vouched_conn h (start_conn h (new_connection rand t0))"
    using assms(1) by (simp add: vouched_conn_def start_conn_def)
  from readLoop_vouched[OF assms(1) this assms(2,3)] show ?thesis by (simp add: vouched_def)
qed

lemma demo_hello:
  "handleHello (demo_handler req) 5 cl \<lparr>in_Type = InboundTypeHello, in_Data = Some (enc_HelloData
     \<lparr>hello_User = '''', hello_Token = ''token'', hello_Protocol = 1\<rparr>)\<rparr> = ((None, None), set_identity 1 ''alice'' False cl)"
proof -
  have "unmarshal_raw dec_HelloData (Some (enc_HelloData \<lparr>hello_User = '''', hello_Token = ''token'', hello_Protocol = 1\<rparr>))
      = Inr \<lparr>hello_User = '''', hello_Token = ''token'', hello_Protocol = 1\<rparr>"
    by (rule hello.raw_enc) (simp add: in_int64_def)
  moreover have "auth_ValidateToken (ws_authService (demo_handler req)) 5 ''token'' = Inr demo_claims"
    by (simp add: auth_ValidateToken_def demo_handler_def auth_NewService_def ValidateToken_def demo_lib_def demo_parse_def
        Let_def key_func_def demo_cfg_def demo_claims_def token_claims_def Unix_def)
  ultimately show ?thesis
    by (simp add: handleHello_def demo_claims_def token_claims_def)
qed

definition logged_in :: "wsConn" where
  "logged_in = (start_conn (demo_handler True) demo_client)\<lparr>conn_client := set_identity 1 ''alice'' False demo_client, conn_auth := True\<rparr>"

lemma demo_login_run:
  "run_state (readLoop (demo_handler True) [Frame 5 (Inr (hello_frame '''' ''token'')) None, Frame 6 (Inr join_frame) None]
      (start_conn (demo_handler True) demo_client)) (init_db 0) =
    (([(WsNothing, conn_client logged_in), (WsCommand join_cmd, conn_client logged_in)],
      logged_in\<lparr>conn_join := snd (rl_allow (conn_join logged_in))\<rparr>), init_db 0)"
proof -
  have 1: "run_state (read_iteration (demo_handler True) 5 (Inr (hello_frame '''' ''token'')) None
      (start_conn (demo_handler True) demo_client)) (init_db 0) = ((WsNothing, logged_in), init_db 0)"
    using run_hello[OF _ demo_hello, of True "start_conn (demo_handler True) demo_client" "init_db 0"]
    unfolding read_iteration_def sum.case hello_frame_inbound by (simp add: logged_in_def start_conn_def)
  have 2: "run_state (read_iteration (demo_handler True) 6 (Inr join_frame) None logged_in) (init_db 0) =
      ((WsCommand join_cmd, logged_in\<lparr>conn_join := snd (rl_allow (conn_join logged_in))\<rparr>), init_db 0)"
    by (rule join_iteration) (simp_all add: logged_in_def start_conn_def demo_handler_def newRateLimiter_def rl_allow_def Let_def)
  show ?thesis by (simp add: 1 2)
qed

theorem commands_need_token_witness:
  "\<exists>now t c. auth_ValidateToken (ws_authService (demo_handler True)) now t = Inr c \<and> claims_UserID c = 1"
proof -
  have "cfg_JWTRequired (ws_config (demo_handler True))" by (simp add: demo_handler_def)
  from commands_need_token[OF this demo_login_run[unfolded demo_client_def], of join_cmd "conn_client logged_in"]
  show ?thesis by (auto simp: logged_in_def set_identity_def)
qed

section \<open>Rate limits\<close>

fun is_kind :: "CommandKind \<Rightarrow> wsOutcome \<Rightarrow> bool" where
  "is_kind k (WsCommand cmd) = (cmd_Kind cmd = k)"
| "is_kind k _ = False"

definition passed :: "CommandKind \<Rightarrow> (wsOutcome \<times> Client) list \<Rightarrow> nat" where
  "passed k outs = length (filter (\<lambda>x. is_kind k (fst x)) outs)"

text \<open>How a limiter moves: it is left alone or asked once, and asked with success when a command of its
  kind is passed on.\<close>

definition asked :: "bool \<Rightarrow> rateLimiter \<Rightarrow> rateLimiter \<Rightarrow> bool" where
  "asked pass r r' \<longleftrightarrow> (if pass then rl_allow r = (True, r') else r' = r \<or> r' = snd (rl_allow r))"

lemma limits_asked:
  "asked (fst (command_limits cmd conn) = None \<and> cmd_Kind cmd = CommandJoinRoom) (conn_join conn)
     (conn_join (snd (command_limits cmd conn)))"
  "asked (fst (command_limits cmd conn) = None \<and> cmd_Kind cmd = CommandSendRoomMessage) (conn_msg conn)
     (conn_msg (snd (command_limits cmd conn)))"
  by (auto simp: asked_def command_limits_def split: prod.splits if_splits)

lemma asked_weaken: "asked b r r' \<Longrightarrow> (b' \<Longrightarrow> b) \<Longrightarrow> asked b' r r'"
  by (auto simp: asked_def split: if_splits)

lemma asked_none: "asked b r r' \<Longrightarrow> asked False r r'"
  by (rule asked_weaken) simp_all

lemma handle_inbound_limiters:
  assumes run: "run_state (handle_inbound h now inb conn) d = ((out, conn'), d')"
  shows "(conn_join conn', conn_msg conn') = (conn_join conn, conn_msg conn)
    \<or> (\<exists>cmd. conn' = snd (command_limits cmd conn))"
proof (cases "in_Type inb = InboundTypeHello")
  case True
  obtain pe err cl where hello: "handleHello h now (conn_client conn) inb = ((pe, err), cl)" by (metis prod.exhaust)
  then show ?thesis using run unfolding run_hello[OF True hello] by auto
next
  case False
  obtain c pe err where m: "inboundToCommand (conn_client conn) now inb = (c, pe, err)" by (rule prod_cases3)
  show ?thesis
    using run unfolding run_other[OF False m]
    by (cases c) (auto simp: case_prod_beta split: option.splits)
qed

lemma handle_inbound_asked:
  assumes run: "run_state (handle_inbound h now inb conn) d = ((out, conn'), d')"
  shows "asked (is_kind CommandJoinRoom out) (conn_join conn) (conn_join conn')
    \<and> asked (is_kind CommandSendRoomMessage out) (conn_msg conn) (conn_msg conn')"
proof (cases "\<exists>cmd. out = WsCommand cmd")
  case True
  then obtain cmd where out: "out = WsCommand cmd" by blast
  from handle_inbound_command(2)[OF run[unfolded out]] limits_asked[of cmd conn] show ?thesis
    by (auto simp: out intro: asked_weaken)
next
  case False
  then have no: "\<not> is_kind k out" for k by (cases out) auto
  from handle_inbound_limiters[OF run] show ?thesis
  proof
    assume "\<exists>cmd. conn' = snd (command_limits cmd conn)"
    then show ?thesis using limits_asked(1)[of _ conn, THEN asked_none] limits_asked(2)[of _ conn, THEN asked_none] no by auto
  qed (auto simp: no asked_def)
qed

lemma read_iteration_asked:
  assumes "run_state (read_iteration h now rd we conn) d = ((out, conn'), d')"
  shows "asked (is_kind CommandJoinRoom out) (conn_join conn) (conn_join conn')
    \<and> asked (is_kind CommandSendRoomMessage out) (conn_msg conn) (conn_msg conn')"
  using read_iteration_run[OF assms]
proof
  assume "\<exists>inb out'. run_state (handle_inbound h now inb conn) d = ((out', conn'), d')
      \<and> (out = out' \<or> (\<exists>e. out = WsReturn e))"
  then obtain inb out' where "run_state (handle_inbound h now inb conn) d = ((out', conn'), d')"
      "out = out' \<or> (\<exists>e. out = WsReturn e)" by blast
  note run = this
  from run(2) show ?thesis
  proof
    assume "out = out'"
    then show ?thesis using handle_inbound_asked[OF run(1)] by simp
  next
    assume "\<exists>e. out = WsReturn e"
    then show ?thesis using handle_inbound_asked[OF run(1)] asked_none by auto
  qed
qed (auto simp: asked_def)

text \<open>What a limiter still grants, with a number of minute ticks to come.\<close>

definition budget :: "rateLimiter \<Rightarrow> nat \<Rightarrow> int" where
  "budget r ticks = max 0 (rl_limit r - rl_counter r) + rl_limit r * int ticks"

lemma budget_asked:
  assumes "0 < rl_limit r" and "asked b r r'"
  shows "rl_limit r' = rl_limit r" and "budget r' n + (if b then 1 else 0) \<le> budget r n"
  using assms by (auto simp: asked_def rl_allow_def budget_def Let_def split: if_splits)

lemma budget_tick:
  assumes "0 < rl_limit r" and "0 \<le> rl_counter r"
  shows "rl_limit (rl_tick r) = rl_limit r" and "budget (rl_tick r) n \<le> budget r (Suc n)"
  using assms by (auto simp: rl_tick_def budget_def algebra_simps max_def)

lemma counter_nonneg: "0 \<le> rl_counter r \<Longrightarrow> asked b r r' \<Longrightarrow> 0 \<le> rl_counter r'" "0 \<le> rl_counter r \<Longrightarrow> 0 \<le> rl_counter (rl_tick r)"
  by (auto simp: asked_def rl_allow_def rl_tick_def Let_def split: if_splits)

text \<open>The two limiters are used alike; \<open>lim\<close> selects one, with its kind of command and its tick.\<close>

lemma readLoop_budget:
  assumes "(k, lim, tick) \<in> {(CommandJoinRoom, conn_join, JoinTick), (CommandSendRoomMessage, conn_msg, MsgTick)}"
    and "0 < rl_limit (lim conn)" and "0 \<le> rl_counter (lim conn)"
    and "run_state (readLoop h is conn) d = ((outs, conn'), d')"
  shows "int (passed k outs) \<le> budget (lim conn) (count_list is tick)"
  using assms(2-)
proof (induction "is" arbitrary: conn d outs)
  case Nil
  then show ?case by (simp add: passed_def budget_def)
next
  case (Cons i "is")
  show ?case
  proof (cases i)
    case (Frame now rd we)
    obtain out c1 d1 where it: "run_state (read_iteration h now rd we conn) d = ((out, c1), d1)"
      and rest: "(\<exists>e. out = WsReturn e) \<and> outs = [(out, conn_client c1)] \<or>
        (\<exists>outs'. outs = (out, conn_client c1) # outs' \<and> run_state (readLoop h is c1) d1 = ((outs', conn'), d'))"
      using readLoop_Frame[OF Cons.prems(3)[unfolded Frame]] by blast
    have ask: "asked (is_kind k out) (lim conn) (lim c1)"
      using read_iteration_asked[OF it] assms(1) by auto
    note b = budget_asked[OF Cons.prems(1) ask]
    have nn: "0 \<le> budget (lim c1) n" for n
      using b(1) Cons.prems(1) by (simp add: budget_def)
    have tick: "count_list (i # is) tick = count_list is tick" using Frame assms(1) by auto
    from rest show ?thesis
    proof
      assume "(\<exists>e. out = WsReturn e) \<and> outs = [(out, conn_client c1)]"
      then show ?thesis using b(2)[of "count_list is tick"] nn[of "count_list is tick"] tick
        by (auto simp: passed_def split: if_splits)
    next
      assume "\<exists>outs'. outs = (out, conn_client c1) # outs' \<and> run_state (readLoop h is c1) d1 = ((outs', conn'), d')"
      then obtain outs' where oo: "outs = (out, conn_client c1) # outs'" "run_state (readLoop h is c1) d1 = ((outs', conn'), d')"
        by blast
      have "int (passed k outs') \<le> budget (lim c1) (count_list is tick)"
        using Cons.IH[OF _ _ oo(2)] b(1) Cons.prems(1,2) counter_nonneg(1)[OF _ ask] by simp
      then show ?thesis using b(2)[of "count_list is tick"] tick by (auto simp: passed_def oo(1) split: if_splits)
    qed
  next
    case JoinTick
    let ?c = "conn\<lparr>conn_join := rl_tick (conn_join conn)\<rparr>"
    have run: "run_state (readLoop h is ?c) d = ((outs, conn'), d')" using Cons.prems(3) JoinTick by simp
    show ?thesis
      using Cons.IH[OF _ _ run] assms(1) Cons.prems(1,2) JoinTick counter_nonneg(2)[of "conn_join conn"]
        budget_tick(1)[of "conn_join conn"] budget_tick(2)[of "conn_join conn" "count_list is tick"] by auto
  next
    case MsgTick
    let ?c = "conn\<lparr>conn_msg := rl_tick (conn_msg conn)\<rparr>"
    have run: "run_state (readLoop h is ?c) d = ((outs, conn'), d')" using Cons.prems(3) MsgTick by simp
    show ?thesis
      using Cons.IH[OF _ _ run] assms(1) Cons.prems(1,2) MsgTick counter_nonneg(2)[of "conn_msg conn"]
        budget_tick(1)[of "conn_msg conn"] budget_tick(2)[of "conn_msg conn" "count_list is tick"] by auto
  qed
qed



section \<open>Greetings and goodbyes\<close>

text \<open>(C40) A greeting as a guest does not log out. Where tokens are not required, a second greeting without
  a token makes the client a guest with the name it chose but leaves its user id: the connection is
  still admitted to the private and direct rooms of that user.\<close>

theorem guest_hello_keeps_user_id:
  assumes "\<not> cfg_JWTRequired (ws_config h)" and "hello_User hello \<noteq> ''''" and "hello_Token hello = ''''"
    and "hello_Protocol hello = ProtocolVersion"
    and "in_Data inb = Some (enc_HelloData hello)"
    and "room \<in> set (t_rooms d)" and "db_ok d" and "faults d = []" and "room_Type room \<in> {RoomTypePrivate, RoomTypeDirect}"
    and "m \<in> set (t_room_members d)" and "member_UserID m = cl_UserID cl" and "member_RoomID m = room_ID room"
  shows "\<exists>cl'. handleHello h now cl inb = ((None, None), cl') \<and> cl_IsGuest cl' \<and> cl_Name cl' = hello_User hello
    \<and> cl_UserID cl' = cl_UserID cl
    \<and> result_of (check_room cl' ((new_command CommandJoinRoom)\<lparr>cmd_Room := room_Name room\<rparr>)) d =
        WsCommand ((new_command CommandJoinRoom)\<lparr>cmd_Room := room_Name room\<rparr>)"
proof -
  let ?cl = "cl\<lparr>cl_Name := hello_User hello, cl_IsGuest := True\<rparr>"
  have "unmarshal_raw dec_HelloData (in_Data inb) = Inr hello"
    unfolding assms(5) by (rule hello.raw_enc) (use assms(4) in \<open>simp add: in_int64_def\<close>)
  then have "handleHello h now cl inb = ((None, None), ?cl)"
    using assms(1-4) by (simp add: handleHello_def guest_mode_def)
  moreover have "run_state (GetRoomByName (room_Name room)) d = (Inr room, d)"
  proof -
    have "distinct (map room_Name (t_rooms d))" using assms(7) by (simp add: db_ok_def rooms_ok_def)
    from query_row_key[of d room_Name t_rooms room "room_Name room", OF assms(8) this assms(6) refl] show ?thesis using assms(8) by (simp add: run_lookups)
  qed
  moreover have "run_state (IsMember (cl_UserID cl) (room_ID room)) d = (Inr True, d)"
    using assms(8,10-12) by (auto simp: IsMember_run)
  ultimately show ?thesis
    using assms(9) by (auto simp: check_room_def new_command_def)
qed

text \<open>A private room with one member, user 1.\<close>

definition private_db :: db where
  "private_db = (init_db 0)\<lparr>
     t_rooms := t_rooms (init_db 0) @ [\<lparr>room_ID = 2, room_Name = ''den'', room_Type = RoomTypePrivate,
       room_OwnerID = Some 1, room_DirectKey = None, room_CreatedAt = 0\<rparr>], s_rooms := 2,
     t_room_members := [\<lparr>member_UserID = 1, member_RoomID = 2, member_JoinedAt = 0\<rparr>]\<rparr>"

theorem guest_hello_keeps_user_id_witness:
  "\<exists>cl'. cl_IsGuest cl' \<and> cl_Name cl' = ''mallory''
    \<and> result_of (check_room cl' ((new_command CommandJoinRoom)\<lparr>cmd_Room := ''den''\<rparr>)) private_db =
        WsCommand ((new_command CommandJoinRoom)\<lparr>cmd_Room := ''den''\<rparr>)"
proof -
  let ?hello = "\<lparr>hello_User = ''mallory'', hello_Token = '''', hello_Protocol = 1\<rparr>"
  have "db_ok private_db" "faults private_db = []"
    by (simp_all add: private_db_def init_db_def db_ok_def table_oks table_ok_def)
  then show ?thesis
    using guest_hello_keeps_user_id[of "demo_handler False" ?hello
        "\<lparr>in_Type = InboundTypeHello, in_Data = Some (enc_HelloData ?hello)\<rparr>" "last (t_rooms private_db)" private_db
        "hd (t_room_members private_db)" "set_identity 1 ''alice'' False demo_client" 0]
    by (auto simp: demo_handler_def private_db_def set_identity_def)
qed

lemma digits10_length: "10 ^ k \<le> n \<Longrightarrow> k < length (digits10 n)"
proof (induction k arbitrary: n)
  case (Suc k)
  then have "10 \<le> n" and "10 ^ k \<le> n div 10"
    by (auto simp: less_eq_div_iff_mult_less_eq mult.commute intro: order_trans[OF _ Suc.prems])
  with Suc.IH[of "n div 10"] show ?case by (subst digits10.simps) simp
qed simp

text \<open>The errors of decoding a struct are plain errors.\<close>

lemma unmarshal_members_error:
  assumes "\<And>f v a e. f \<in> set fs \<Longrightarrow> snd f v a = Inl e \<Longrightarrow> \<exists>t. e = ErrText t"
    and "e = None \<or> (\<exists>t. e = Some (ErrText t))"
  shows "snd (unmarshal_members fs kvs a e) = None \<or> (\<exists>t. snd (unmarshal_members fs kvs a e) = Some (ErrText t))"
  using assms(2)
proof (induction kvs arbitrary: a e)
  case (Cons kv kvs)
  obtain k v where kv: "kv = (k, v)" by (rule prod.exhaust)
  show ?case
  proof (cases "field_for fs k")
    case (Some f)
    then have "f \<in> set fs"
      by (auto simp: field_for_def find_Some_iff split: option.splits)
    then show ?thesis
      using Cons.IH[of e] Cons.IH[of "if e = None then Some _ else e"] Cons.prems assms(1)[of f v a]
      by (cases "snd f v a") (auto simp: kv Some)
  qed (use Cons in \<open>simp add: kv\<close>)
qed simp

lemma unmarshal_struct_error:
  assumes "\<And>f v a e. f \<in> set fs \<Longrightarrow> snd f v a = Inl e \<Longrightarrow> \<exists>t. e = ErrText t"
    and "unmarshal_struct st fs z v = Inl e"
  shows "\<exists>t. e = ErrText t"
proof (cases v)
  case (JObj kvs)
  obtain a e' where run: "unmarshal_members fs kvs z None = (a, e')" by (rule prod.exhaust)
  have "e' = None \<or> (\<exists>t. e' = Some (ErrText t))"
    using unmarshal_members_error[of fs None kvs z, OF assms(1)] run by simp
  then show ?thesis using assms(2) by (auto simp: unmarshal_struct_def JObj run)
qed (use assms(2) in \<open>auto simp: unmarshal_struct_def type_mismatch_def\<close>)

lemma field_errors:
  "snd (string_field st n upd) v a = Inl e \<Longrightarrow> \<exists>t. e = ErrText t"
  "snd (int_field st n ty upd') v a = Inl e \<Longrightarrow> \<exists>t. e = ErrText t"
  by (auto simp: string_field_def int_field_def type_mismatch_def split: json.splits option.splits)

lemma hello_decode_error:
  assumes "unmarshal_raw dec_HelloData raw = Inl e"
  shows "\<exists>t. e = ErrText t"
proof (cases raw)
  case (Some v)
  have "unmarshal_struct ''proto.HelloData''
     [string_field ''HelloData'' ''user'' (\<lambda>s x. x\<lparr>hello_User := s\<rparr>),
      string_field ''HelloData'' ''token'' (\<lambda>s x. x\<lparr>hello_Token := s\<rparr>),
      int_field ''HelloData'' ''protocol'' ''int'' (\<lambda>n x. x\<lparr>hello_Protocol := n\<rparr>)]
     \<lparr>hello_User = '''', hello_Token = '''', hello_Protocol = 0\<rparr> v = Inl e"
    using assms unfolding Some unmarshal_raw_def option.case dec_HelloData_def .
  then show ?thesis
    by (rule unmarshal_struct_error[rotated]) (auto dest: field_errors)
qed (use assms in \<open>auto simp: unmarshal_raw_def\<close>)

text \<open>A greeting never crashes the server. For every connection whose identifier was made from 12
  random bytes, or, when the random source failed, from the clock at any time later than ten
  milliseconds after the epoch, no greeting whatsoever, valid or not, makes the slice of the client's
  identifier panic.\<close>

theorem hello_never_panics:
  assumes "case rand of Inr buf \<Rightarrow> length buf = 12 | Inl _ \<Rightarrow> 10000000 \<le> t0"
  shows "snd (fst (handleHello h now (new_connection rand t0) inb)) \<noteq> Some (GoPanic m)"
proof -
  have "8 \<le> length (cl_ID (new_connection rand t0))"
  proof (cases rand)
    case (Inl e)
    have "10 ^ 7 \<le> nat t0" using assms Inl by simp
    from digits10_length[OF this] show ?thesis
      using assms Inl by (simp add: new_connection_def NewClient_def NewID_def itoa_def)
  qed (use assms in \<open>simp add: new_connection_def NewClient_def NewID_def\<close>)
  then show ?thesis
    using hello_decode_error[of "in_Data inb"]
    by (auto simp: handleHello_def guest_mode_def split: sum.split)
qed

theorem hello_never_panics_witness:
  "snd (fst (handleHello (demo_handler False) 0 demo_client \<lparr>in_Type = ''hello'', in_Data = Some JNull\<rparr>)) \<noteq> Some (GoPanic ''x'')"
  unfolding demo_client_def by (rule hello_never_panics) simp

text \<open>How a failed connection is closed. The code meant for failures, 1011, is never chosen by
  \<open>ServeHTTP\<close> itself: it is sent only if the WebSocket library reports it. In particular, with the
  library's answer of -1 for an error that is no close frame, a failed read or write is closed with
  the status -1.\<close>

theorem failure_close_status:
  "(fst (close_with h err) = StatusInternalError \<longrightarrow>
      ws_CloseStatus h err = StatusInternalError \<or> ws_CloseStatus h None = StatusInternalError)
   \<and> (ws_CloseStatus h (Some e) = - 1 \<and> \<not> errors_is e canceled \<and> \<not> errors_is e io_EOF \<longrightarrow>
      close_with h (Some e) = (- 1, error_string e))"
  by (auto simp: close_with_def Let_def split: option.splits if_splits)

theorem failure_close_status_witness:
  "close_with (demo_handler False) (Some (ErrText ''broken pipe'')) = (- 1, ''broken pipe'')"
  using failure_close_status[of "demo_handler False" None "ErrText ''broken pipe''"]
  by (simp add: demo_handler_def canceled_def io_EOF_def)

end
