(* ===== verification/Rest.thy ===== *)
theory Rest
  imports Hub_Database Auth Json
begin

text \<open>
  The REST handlers (\<open>internal/transport/http\<close>: \<open>middleware.go\<close>, \<open>api_handlers.go\<close>, \<open>room_handlers.go\<close>,
  \<open>user_handlers.go\<close>, \<open>friends_handlers.go\<close>, \<open>calls_handlers.go\<close>), one definition per handler. A handler is a
  function from the request to the response it writes, in the state monad of the database. Gin is not
  modelled: a request is what the handler gets from it (the path and query parameters, the values
  the middleware has stored, and the result of \<open>ShouldBindJSON\<close>, an argument \<open>bound\<close>). \<open>fmt_time\<close> is
  \<open>Time.Format\<close> with the layout of the code, whose result depends on the location of the instant.
\<close>

section \<open>Scanning and splitting\<close>

text \<open>\<open>fmt.Sscanf(s, "%d", &n)\<close>: white space is skipped, but a newline is an error; then an optional sign and
  as many digits as there are; what follows is ignored.\<close>

definition Sscanf_d :: "string \<Rightarrow> int64 option" where
  "Sscanf_d s = (let
     t = drop_runes (filter (\<lambda>r. r \<noteq> [CHR 0x0A]) space_runes) s;
     u = (if t \<noteq> [] \<and> (hd t = CHR ''-'' \<or> hd t = CHR ''+'') then tl t else t);
     ds = takeWhile is_digit u;
     n = int (atoi_digits ds);
     i = (if t \<noteq> [] \<and> hd t = CHR ''-'' then - n else n) in
     if ds = [] then None else if in_int64 i then Some i else None)"

text \<open>\<open>strings.SplitN(s, " ", 2)\<close>\<close>

definition SplitN2 :: "string \<Rightarrow> string list" where
  "SplitN2 s = (let a = takeWhile (\<lambda>c. c \<noteq> CHR '' '') s; b = dropWhile (\<lambda>c. c \<noteq> CHR '' '') s in
     if b = [] then [a] else [a, tl b])"

definition strings_Contains :: "string \<Rightarrow> string \<Rightarrow> bool" where
  "strings_Contains s needle \<longleftrightarrow> list_ex (prefix needle) (suffixes s)"

section \<open>Requests and responses\<close>

text \<open>A value stored in the context, of type \<open>any\<close>.\<close>

datatype ctxValue = CtxInt64 int64 | CtxString string | CtxBool bool

record ginContext =
  gc_UserID :: "ctxValue option"
  gc_Username :: "ctxValue option"
  gc_IsGuest :: "ctxValue option"
  gc_Param :: "string \<Rightarrow> string"
  gc_Query :: "string \<Rightarrow> string"

record RegisterRequest =
  reg_Username :: string
  reg_Password :: string

record LoginRequest =
  login_Username :: string
  login_Password :: string

record CreateRoomRequest =
  crr_Name :: string
  crr_Type :: string

record UserIDRequest =
  req_UserID :: int64

record RoomResponse =
  rr_ID :: int64
  rr_Name :: string
  rr_Type :: string
  rr_OwnerID :: "int64 option"
  rr_CreatedAt :: string

record MessageResponse =
  mr_ID :: int64
  mr_RoomID :: int64
  mr_UserID :: int64
  mr_User :: string
  mr_Body :: string
  mr_CreatedAt :: string

record UserResponse =
  ur_ID :: int64
  ur_Username :: string
  ur_Name :: string

record FriendResponse =
  fr_ID :: int64
  fr_UserID :: int64
  fr_FriendID :: int64
  fr_Status :: string
  fr_CreatedAt :: string
  fr_UpdatedAt :: string
  fr_FriendUsername :: string

record CallResponse =
  cr_ID :: string
  cr_Type :: string
  cr_Mode :: string
  cr_InitiatorUserID :: int64
  cr_RoomID :: "int64 option"
  cr_Status :: string
  cr_ExternalRoomID :: "string option"
  cr_CreatedAt :: string
  cr_UpdatedAt :: string
  cr_EndedAt :: "string option"

datatype respBody =
    ErrorBody string
  | TokenBody string
  | TokenCookieBody string string \<comment> \<open>the token, and the cookie \<open>guest_session\<close>\<close>
  | NoteBody string \<comment> \<open>\<open>gin.H{"message": \<dots>}\<close>\<close>
  | RoomBody RoomResponse
  | RoomsBody "RoomResponse list"
  | MessagesBody "MessageResponse list" bool
  | UsersBody "UserResponse list"
  | FriendBody FriendResponse
  | FriendsBody "FriendResponse list"
  | CallBody CallResponse
  | CallsBody "CallResponse list"
  | JoinInfoBody joinInfo

type_synonym response = "nat \<times> respBody"

abbreviation err_resp :: "nat \<Rightarrow> string \<Rightarrow> response" where
  "err_resp code msg \<equiv> (code, ErrorBody msg)"

abbreviation internal_error :: response where
  "internal_error \<equiv> err_resp 500 ''internal server error''"

section \<open>Middleware\<close>

text \<open>What \<open>AuthMiddleware\<close> does with the \<open>Authorization\<close> header: abort with a response, or go on with the
  user stored in the context.\<close>

definition AuthMiddleware :: "authService \<Rightarrow> time \<Rightarrow> string \<Rightarrow> ginContext \<Rightarrow> response + ginContext" where
  "AuthMiddleware auth now authHeader c =
     (if authHeader = '''' then Inl (err_resp 401 ''missing authorization header'')
      else let parts = SplitN2 authHeader in
        if length parts \<noteq> 2 \<or> parts ! 0 \<noteq> ''Bearer'' then Inl (err_resp 401 ''invalid authorization header format'')
        else case auth_ValidateToken auth now (parts ! 1) of
          Inl _ \<Rightarrow> Inl (err_resp 401 ''invalid token'')
        | Inr claims \<Rightarrow> Inr (c\<lparr>gc_UserID := Some (CtxInt64 (claims_UserID claims)),
            gc_Username := Some (CtxString (claims_Username claims)),
            gc_IsGuest := Some (CtxBool (claims_IsGuest claims))\<rparr>))"

text \<open>How every handler that needs the user starts.\<close>

definition current_user :: "ginContext \<Rightarrow> (userID \<Rightarrow> response dbm) \<Rightarrow> response dbm" where
  "current_user c k = (case gc_UserID c of
       None \<Rightarrow> return (err_resp 401 ''unauthorized'')
     | Some (CtxInt64 uid) \<Rightarrow> k uid
     | Some _ \<Rightarrow> return internal_error)"

definition path_id :: "ginContext \<Rightarrow> string \<Rightarrow> string \<Rightarrow> (int64 \<Rightarrow> response dbm) \<Rightarrow> response dbm" where
  "path_id c param msg k = (case Sscanf_d (gc_Param c param) of
       None \<Rightarrow> return (err_resp 400 msg) | Some i \<Rightarrow> k i)"

definition bound_json :: "goerr + 'a \<Rightarrow> ('a \<Rightarrow> response dbm) \<Rightarrow> response dbm" where
  "bound_json bound k = (case bound of Inl _ \<Rightarrow> return (err_resp 400 ''invalid request body'') | Inr req \<Rightarrow> k req)"

section \<open>Registration and login\<close>

definition rest_Register :: "authService \<Rightarrow> goerr + RegisterRequest \<Rightarrow> response dbm" where
  "rest_Register auth bound = bound_json bound (\<lambda>req. do {
     r \<leftarrow> auth_Register auth (reg_Username req) (reg_Password req);
     return (case r of
         Inl e \<Rightarrow>
           if errors_is e auth_ErrInvalidUsername then err_resp 400 ''username must be 3-32 characters''
           else if errors_is e auth_ErrInvalidPassword then err_resp 400 ''password must be at least 6 characters''
           else if errors_is e auth_ErrUserExists then err_resp 409 ''user already exists''
           else internal_error
       | Inr token \<Rightarrow> (201, TokenBody token)) })"

definition rest_Login :: "authService \<Rightarrow> goerr + LoginRequest \<Rightarrow> response dbm" where
  "rest_Login auth bound = bound_json bound (\<lambda>req. do {
     r \<leftarrow> auth_Login auth (login_Username req) (login_Password req);
     return (case r of
         Inl e \<Rightarrow> if errors_is e auth_ErrInvalidCredentials then err_resp 401 ''invalid credentials'' else internal_error
       | Inr token \<Rightarrow> (200, TokenBody token)) })"

definition rest_GuestLogin :: "authService \<Rightarrow> response dbm" where
  "rest_GuestLogin auth = do {
     r \<leftarrow> auth_CreateGuestUser auth;
     return (case r of Inl _ \<Rightarrow> internal_error | Inr (token, sessionID) \<Rightarrow> (200, TokenCookieBody token sessionID)) }"

section \<open>Rooms\<close>

definition room_response :: "(time \<Rightarrow> string) \<Rightarrow> room \<Rightarrow> RoomResponse" where
  "room_response fmt_time room = \<lparr>rr_ID = room_ID room, rr_Name = room_Name room, rr_Type = room_Type room,
     rr_OwnerID = room_OwnerID room, rr_CreatedAt = fmt_time (room_CreatedAt room)\<rparr>"

definition rest_CreateRoom :: "(time \<Rightarrow> string) \<Rightarrow> ginContext \<Rightarrow> goerr + CreateRoomRequest \<Rightarrow> response dbm" where
  "rest_CreateRoom fmt_time c bound = current_user c (\<lambda>uid. bound_json bound (\<lambda>req.
     if crr_Type req \<noteq> '''' \<and> crr_Type req \<noteq> ''public'' \<and> crr_Type req \<noteq> ''private''
     then return (err_resp 400 (''invalid room type, must be 'public' or 'private'' @ [CHR 0x27]))
     else do {
       let roomType = (if crr_Type req = ''private'' then RoomTypePrivate else RoomTypePublic);
       room \<leftarrow> CreateRoom (crr_Name req) roomType (Some uid);
       case room of
         Inl e \<Rightarrow> return (if strings_Contains (error_string e) ''UNIQUE constraint failed'' \<or>
                            strings_Contains (error_string e) ''UNIQUE''
                         then err_resp 409 ''room with this name already exists'' else internal_error)
       | Inr room \<Rightarrow> do {
           _ \<leftarrow> (if roomType = RoomTypePrivate then AddMember uid (room_ID room) else return (Inr ()));
           return (201, RoomBody (room_response fmt_time room)) } }))"

definition rest_ListRooms :: "(time \<Rightarrow> string) \<Rightarrow> ginContext \<Rightarrow> response dbm" where
  "rest_ListRooms fmt_time c = current_user c (\<lambda>uid. do {
     r \<leftarrow> ListRooms uid;
     return (if snd r \<noteq> None then internal_error else (200, RoomsBody (map (room_response fmt_time) (fst r)))) })"

definition rest_JoinRoom :: "ginContext \<Rightarrow> response dbm" where
  "rest_JoinRoom c = current_user c (\<lambda>uid. path_id c ''id'' ''invalid room id'' (\<lambda>rid. do {
     room \<leftarrow> GetRoomByID rid;
     case room of Inl _ \<Rightarrow> return (err_resp 404 ''room not found'') | Inr room \<Rightarrow>
     if room_Type room = RoomTypePrivate then return (err_resp 403 ''private rooms cannot be joined directly'')
     else do {
       r \<leftarrow> AddMember uid rid;
       return (case r of Inl _ \<Rightarrow> internal_error | Inr _ \<Rightarrow> (200, NoteBody ''joined room successfully'')) } }))"

definition rest_LeaveRoom :: "ginContext \<Rightarrow> response dbm" where
  "rest_LeaveRoom c = current_user c (\<lambda>uid. path_id c ''id'' ''invalid room id'' (\<lambda>rid. do {
     r \<leftarrow> RemoveMember uid rid;
     return (case r of Inl _ \<Rightarrow> internal_error | Inr _ \<Rightarrow> (200, NoteBody ''left room successfully'')) }))"

definition rest_AddMember :: "ginContext \<Rightarrow> goerr + UserIDRequest \<Rightarrow> response dbm" where
  "rest_AddMember c bound = current_user c (\<lambda>currentUID. path_id c ''id'' ''invalid room id'' (\<lambda>rid. do {
     room \<leftarrow> GetRoomByID rid;
     case room of Inl _ \<Rightarrow> return (err_resp 404 ''room not found'') | Inr room \<Rightarrow>
     if room_OwnerID room \<noteq> Some currentUID then return (err_resp 403 ''only room owner can add members'')
     else bound_json bound (\<lambda>req. do {
       r \<leftarrow> AddMember (req_UserID req) rid;
       return (case r of Inl _ \<Rightarrow> internal_error | Inr _ \<Rightarrow> (200, NoteBody ''member added successfully'')) }) }))"

definition rest_RemoveMember :: "ginContext \<Rightarrow> response dbm" where
  "rest_RemoveMember c = current_user c (\<lambda>currentUID. path_id c ''id'' ''invalid room id'' (\<lambda>rid.
     path_id c ''userId'' ''invalid user id'' (\<lambda>targetUID. do {
     room \<leftarrow> GetRoomByID rid;
     case room of Inl _ \<Rightarrow> return (err_resp 404 ''room not found'') | Inr room \<Rightarrow>
     if room_OwnerID room \<noteq> Some currentUID then return (err_resp 403 ''only room owner can remove members'')
     else do {
       r \<leftarrow> RemoveMember targetUID rid;
       return (case r of Inl _ \<Rightarrow> internal_error | Inr _ \<Rightarrow> (200, NoteBody ''member removed successfully'')) } })))"

definition direct_key :: "userID \<Rightarrow> userID \<Rightarrow> string" where
  "direct_key user1ID user2ID = ''dm:'' @ itoa user1ID @ '':'' @ itoa user2ID"

definition rest_CreateDirectRoom :: "(time \<Rightarrow> string) \<Rightarrow> ginContext \<Rightarrow> goerr + UserIDRequest \<Rightarrow> response dbm" where
  "rest_CreateDirectRoom fmt_time c bound = current_user c (\<lambda>currentUID. bound_json bound (\<lambda>req.
     if req_UserID req = currentUID then return (err_resp 400 ''cannot create direct room with yourself'')
     else do {
       let (user1ID, user2ID) = (if currentUID < req_UserID req then (currentUID, req_UserID req)
                                 else (req_UserID req, currentUID));
       room \<leftarrow> CreateDirectRoom (direct_key user1ID user2ID) user1ID user2ID;
       return (case room of Inl _ \<Rightarrow> internal_error | Inr room \<Rightarrow> (200, RoomBody (room_response fmt_time room))) }))"

definition message_response :: "(time \<Rightarrow> string) \<Rightarrow> message \<Rightarrow> MessageResponse" where
  "message_response fmt_time m = \<lparr>mr_ID = message_ID m, mr_RoomID = message_RoomID m, mr_UserID = message_UserID m,
     mr_User = '''', mr_Body = message_Body m, mr_CreatedAt = fmt_time (message_CreatedAt m)\<rparr>"

text \<open>The page size asked for: 50 unless a number is given, at most 100.\<close>

definition page_limit :: "string \<Rightarrow> int" where
  "page_limit limitStr = (if limitStr = '''' then 50
     else case Sscanf_d limitStr of
       None \<Rightarrow> 50
     | Some n \<Rightarrow> if n > 0 \<and> n \<le> 100 then n else if n > 100 then 100 else 50)"

definition rest_GetMessages :: "(time \<Rightarrow> string) \<Rightarrow> ginContext \<Rightarrow> response dbm" where
  "rest_GetMessages fmt_time c = path_id c ''id'' ''invalid room id'' (\<lambda>rid. do {
     let limit = page_limit (gc_Query c ''limit'');
     let beforeID = (if gc_Query c ''before'' = '''' then None else Sscanf_d (gc_Query c ''before''));
     r \<leftarrow> ListMessages rid (limit + 1) beforeID;
     if snd r \<noteq> None then return internal_error
     else do {
       let hasMore = int (length (fst r)) > limit;
       let messages = (if hasMore then take (nat limit) (fst r) else fst r);
       return (200, MessagesBody (map (message_response fmt_time) messages) hasMore) } })"

section \<open>Users\<close>

definition rest_SearchUsers :: "(string \<Rightarrow> string \<Rightarrow> bool) \<Rightarrow> ginContext \<Rightarrow> response dbm" where
  "rest_SearchUsers like c = (let trimmed = TrimSpace (gc_Query c ''q'') in
     if length trimmed < 3 then return (err_resp 400 ''search query must be at least 3 characters'')
     else current_user c (\<lambda>uid. do {
       r \<leftarrow> SearchUsers like trimmed;
       return (if snd r \<noteq> None then internal_error
         else (200, UsersBody (map (\<lambda>u. \<lparr>ur_ID = user_ID u, ur_Username = user_Username u, ur_Name = user_Username u\<rparr>)
                 (filter (\<lambda>u. user_ID u \<noteq> uid) (fst r))))) }))"

section \<open>Friends\<close>

text \<open>A \<open>switch\<close> over \<open>errors.Is\<close>, with an internal error as its default.\<close>

definition known_errors :: "(goerr \<times> nat \<times> string) list \<Rightarrow> goerr \<Rightarrow> response" where
  "known_errors errs e = (case List.find (\<lambda>(t, _, _). errors_is e t) errs of
       Some (_, code, msg) \<Rightarrow> err_resp code msg | None \<Rightarrow> internal_error)"

definition friendToResponse :: "(time \<Rightarrow> string) \<Rightarrow> userID \<Rightarrow> friend \<Rightarrow> FriendResponse dbm" where
  "friendToResponse fmt_time currentUserID f = do {
     let otherUserID = (if friend_FriendID f = currentUserID then friend_UserID f else friend_FriendID f);
     user \<leftarrow> GetUserByID otherUserID;
     return \<lparr>fr_ID = friend_ID f, fr_UserID = friend_UserID f, fr_FriendID = friend_FriendID f,
       fr_Status = friend_Status f, fr_CreatedAt = fmt_time (friend_CreatedAt f),
       fr_UpdatedAt = fmt_time (friend_UpdatedAt f),
       fr_FriendUsername = (case user of Inl _ \<Rightarrow> '''' | Inr u \<Rightarrow> user_Username u)\<rparr> }"

fun friendsToResponse :: "(time \<Rightarrow> string) \<Rightarrow> userID \<Rightarrow> friend list \<Rightarrow> FriendResponse list dbm" where
  "friendsToResponse fmt_time uid [] = return []"
| "friendsToResponse fmt_time uid (f # fs) = do {
     r \<leftarrow> friendToResponse fmt_time uid f;
     rs \<leftarrow> friendsToResponse fmt_time uid fs;
     return (r # rs) }"

definition rest_SendRequest :: "(time \<Rightarrow> string) \<Rightarrow> ginContext \<Rightarrow> goerr + UserIDRequest \<Rightarrow> response dbm" where
  "rest_SendRequest fmt_time c bound = current_user c (\<lambda>uid. bound_json bound (\<lambda>req. do {
     r \<leftarrow> SendRequest uid (req_UserID req);
     case r of
       Inl e \<Rightarrow> return (
         if errors_is e friends_ErrCannotFriendSelf then err_resp 400 ''cannot send friend request to yourself''
         else if errors_is e friends_ErrAlreadyFriends then err_resp 409 ''already friends''
         else if errors_is e friends_ErrRequestAlreadyExists then err_resp 409 ''friend request already exists''
         else if errors_is e friends_ErrUserNotFound then err_resp 404 ''user not found''
         else internal_error)
     | Inr friend \<Rightarrow> do {
         resp \<leftarrow> friendToResponse fmt_time uid friend;
         return (201, FriendBody resp) } }))"

text \<open>The two listings differ in the service's method only.\<close>

definition friend_listing ::
    "(userID \<Rightarrow> (goerr + friend list) dbm) \<Rightarrow> (time \<Rightarrow> string) \<Rightarrow> ginContext \<Rightarrow> response dbm" where
  "friend_listing list fmt_time c = current_user c (\<lambda>uid. do {
     r \<leftarrow> list uid;
     case r of Inl _ \<Rightarrow> return internal_error
     | Inr fs \<Rightarrow> do {
         rs \<leftarrow> friendsToResponse fmt_time uid fs;
         return (200, FriendsBody rs) } })"

definition rest_ListFriends :: "(time \<Rightarrow> string) \<Rightarrow> ginContext \<Rightarrow> response dbm" where
  "rest_ListFriends = friend_listing ListFriends"

definition rest_ListPendingRequests :: "(time \<Rightarrow> string) \<Rightarrow> ginContext \<Rightarrow> response dbm" where
  "rest_ListPendingRequests = friend_listing ListPendingRequests"

text \<open>An operation on the user named in the path, with the responses to the errors it knows.\<close>

definition friend_action ::
    "(userID \<Rightarrow> userID \<Rightarrow> (goerr + unit) dbm) \<Rightarrow> (goerr \<times> nat \<times> string) list \<Rightarrow> string \<Rightarrow> ginContext \<Rightarrow> response dbm" where
  "friend_action act errs note c = current_user c (\<lambda>uid. path_id c ''userId'' ''invalid user id'' (\<lambda>target. do {
     r \<leftarrow> act uid target;
     return (case r of
         Inl e \<Rightarrow> known_errors errs e
       | Inr _ \<Rightarrow> (200, NoteBody note)) }))"

definition rest_AcceptRequest :: "ginContext \<Rightarrow> response dbm" where
  "rest_AcceptRequest = friend_action AcceptRequest
     [(friends_ErrRequestNotFound, 404, ''friend request not found'')] ''friend request accepted''"

definition rest_RejectRequest :: "ginContext \<Rightarrow> response dbm" where
  "rest_RejectRequest = friend_action RejectRequest
     [(friends_ErrRequestNotFound, 404, ''friend request not found'')] ''friend request rejected''"

definition rest_BlockUser :: "ginContext \<Rightarrow> response dbm" where
  "rest_BlockUser = friend_action BlockUser
     [(friends_ErrCannotFriendSelf, 400, ''cannot block yourself''), (friends_ErrUserNotFound, 404, ''user not found'')]
     ''user blocked''"

definition rest_UnblockUser :: "ginContext \<Rightarrow> response dbm" where
  "rest_UnblockUser = friend_action UnblockUser [(friends_ErrNotBlocked, 404, ''user is not blocked'')] ''user unblocked''"

section \<open>Calls\<close>

definition callToResponse :: "(time \<Rightarrow> string) \<Rightarrow> call \<Rightarrow> CallResponse" where
  "callToResponse fmt_time c = \<lparr>cr_ID = call_ID c, cr_Type = call_Type c, cr_Mode = call_Mode c,
     cr_InitiatorUserID = call_InitiatorUserID c, cr_RoomID = call_RoomID c, cr_Status = call_Status c,
     cr_ExternalRoomID = call_ExternalRoomID c, cr_CreatedAt = fmt_time (call_CreatedAt c),
     cr_UpdatedAt = fmt_time (call_UpdatedAt c), cr_EndedAt = map_option fmt_time (call_EndedAt c)\<rparr>"

definition rest_CreateDirectCall ::
    "callsService \<Rightarrow> (time \<Rightarrow> string) \<Rightarrow> ginContext \<Rightarrow> goerr + UserIDRequest \<Rightarrow> response dbm" where
  "rest_CreateDirectCall s fmt_time c bound = current_user c (\<lambda>uid. bound_json bound (\<lambda>req. do {
     r \<leftarrow> CreateDirectCall s uid (req_UserID req);
     return (case r of
         Inl e \<Rightarrow> known_errors [(calls_ErrCannotCallSelf, 400, ''cannot call yourself''),
           (calls_ErrUserNotFound, 404, ''user not found''),
           (calls_ErrCallsNotAllowed, 403, ''user does not accept calls from non-friends''),
           (calls_ErrLiveKitNotEnabled, 503, ''calls are not available'')] e
       | Inr call \<Rightarrow> (201, CallBody (callToResponse fmt_time call))) }))"

text \<open>The bound request is its only field, \<open>room_id\<close>.\<close>

definition rest_CreateRoomCall ::
    "callsService \<Rightarrow> (time \<Rightarrow> string) \<Rightarrow> ginContext \<Rightarrow> goerr + roomID \<Rightarrow> response dbm" where
  "rest_CreateRoomCall s fmt_time c bound = current_user c (\<lambda>uid. bound_json bound (\<lambda>roomID. do {
     r \<leftarrow> CreateRoomCall s uid roomID;
     return (case r of
         Inl e \<Rightarrow> known_errors [(calls_ErrRoomNotFound, 404, ''room not found''),
           (calls_ErrNotRoomMember, 403, ''not a member of this room''),
           (calls_ErrLiveKitNotEnabled, 503, ''calls are not available'')] e
       | Inr call \<Rightarrow> (201, CallBody (callToResponse fmt_time call))) }))"

definition call_param :: "ginContext \<Rightarrow> (callID \<Rightarrow> response dbm) \<Rightarrow> response dbm" where
  "call_param c k = (if gc_Param c ''id'' = '''' then return (err_resp 400 ''call id required'') else k (gc_Param c ''id''))"

definition rest_GetCall :: "(time \<Rightarrow> string) \<Rightarrow> ginContext \<Rightarrow> response dbm" where
  "rest_GetCall fmt_time c = call_param c (\<lambda>callID. do {
     r \<leftarrow> GetCall callID;
     return (case r of
         Inl e \<Rightarrow> known_errors [(calls_ErrCallNotFound, 404, ''call not found'')] e
       | Inr call \<Rightarrow> (200, CallBody (callToResponse fmt_time call))) })"

definition rest_GetJoinInfo :: "callsService \<Rightarrow> ginContext \<Rightarrow> response dbm" where
  "rest_GetJoinInfo s c = current_user c (\<lambda>uid. call_param c (\<lambda>callID. do {
     r \<leftarrow> GetJoinInfo s callID uid;
     return (case r of
         Inl e \<Rightarrow> known_errors [(calls_ErrCallNotFound, 404, ''call not found''), (calls_ErrCallEnded, 410, ''call has ended''),
           (calls_ErrNotParticipant, 403, ''not a participant in this call''),
           (calls_ErrLiveKitNotEnabled, 503, ''calls are not available'')] e
       | Inr ji \<Rightarrow> (200, JoinInfoBody ji)) }))"

definition rest_EndCall :: "callsService \<Rightarrow> ginContext \<Rightarrow> response dbm" where
  "rest_EndCall s c = current_user c (\<lambda>uid. call_param c (\<lambda>callID. do {
     r \<leftarrow> EndCall s callID uid;
     return (case r of
         Inl e \<Rightarrow> known_errors [(calls_ErrCallNotFound, 404, ''call not found''),
           (calls_ErrNotParticipant, 403, ''not a participant in this call'')] e
       | Inr _ \<Rightarrow> (200, NoteBody ''call ended'')) }))"

definition rest_ListActiveCalls :: "(time \<Rightarrow> string) \<Rightarrow> ginContext \<Rightarrow> response dbm" where
  "rest_ListActiveCalls fmt_time c = current_user c (\<lambda>uid. do {
     r \<leftarrow> ListActiveCalls uid;
     return (case r of Inl _ \<Rightarrow> internal_error
       | Inr cs \<Rightarrow> (200, CallsBody (map (callToResponse fmt_time) cs))) })"

section \<open>Routes\<close>

text \<open>The requests the router passes to a handler (\<open>server.go\<close>); the binding of the body, and for the calls
  the identifier the service draws, belong to the request.\<close>

datatype api_request =
    POST_register "goerr + RegisterRequest"
  | POST_login "goerr + LoginRequest"
  | POST_guest
  | POST_rooms "goerr + CreateRoomRequest"
  | GET_rooms
  | POST_rooms_direct "goerr + UserIDRequest"
  | POST_rooms_join
  | DELETE_rooms_leave
  | POST_rooms_members "goerr + UserIDRequest"
  | DELETE_rooms_members
  | GET_rooms_messages
  | POST_friends_requests "goerr + UserIDRequest"
  | GET_friends
  | GET_friends_requests_incoming
  | POST_friends_accept
  | DELETE_friends_reject
  | POST_friends_block
  | DELETE_friends_unblock
  | GET_users_search
  | POST_calls_direct "goerr + UserIDRequest"
  | POST_calls_room "goerr + roomID"
  | GET_calls_active
  | GET_calls_id
  | GET_calls_join
  | PUT_calls_end

fun public_route :: "api_request \<Rightarrow> bool" where
  "public_route (POST_register b) = True"
| "public_route (POST_login b) = True"
| "public_route POST_guest = True"
| "public_route _ = False"

record apiServer =
  api_auth :: authService
  api_calls :: callsService
  api_fmt :: "time \<Rightarrow> string"
  api_like :: "string \<Rightarrow> string \<Rightarrow> bool"

fun api_handler :: "apiServer \<Rightarrow> api_request \<Rightarrow> ginContext \<Rightarrow> response dbm" where
  "api_handler s (POST_register b) c = rest_Register (api_auth s) b"
| "api_handler s (POST_login b) c = rest_Login (api_auth s) b"
| "api_handler s POST_guest c = rest_GuestLogin (api_auth s)"
| "api_handler s (POST_rooms b) c = rest_CreateRoom (api_fmt s) c b"
| "api_handler s GET_rooms c = rest_ListRooms (api_fmt s) c"
| "api_handler s (POST_rooms_direct b) c = rest_CreateDirectRoom (api_fmt s) c b"
| "api_handler s POST_rooms_join c = rest_JoinRoom c"
| "api_handler s DELETE_rooms_leave c = rest_LeaveRoom c"
| "api_handler s (POST_rooms_members b) c = rest_AddMember c b"
| "api_handler s DELETE_rooms_members c = rest_RemoveMember c"
| "api_handler s GET_rooms_messages c = rest_GetMessages (api_fmt s) c"
| "api_handler s (POST_friends_requests b) c = rest_SendRequest (api_fmt s) c b"
| "api_handler s GET_friends c = rest_ListFriends (api_fmt s) c"
| "api_handler s GET_friends_requests_incoming c = rest_ListPendingRequests (api_fmt s) c"
| "api_handler s POST_friends_accept c = rest_AcceptRequest c"
| "api_handler s DELETE_friends_reject c = rest_RejectRequest c"
| "api_handler s POST_friends_block c = rest_BlockUser c"
| "api_handler s DELETE_friends_unblock c = rest_UnblockUser c"
| "api_handler s GET_users_search c = rest_SearchUsers (api_like s) c"
| "api_handler s (POST_calls_direct b) c = rest_CreateDirectCall (api_calls s) (api_fmt s) c b"
| "api_handler s (POST_calls_room b) c = rest_CreateRoomCall (api_calls s) (api_fmt s) c b"
| "api_handler s GET_calls_active c = rest_ListActiveCalls (api_fmt s) c"
| "api_handler s GET_calls_id c = rest_GetCall (api_fmt s) c"
| "api_handler s GET_calls_join c = rest_GetJoinInfo (api_calls s) c"
| "api_handler s PUT_calls_end c = rest_EndCall (api_calls s) c"

text \<open>The chain of a route: the middleware first, on every route but the three that issue tokens.\<close>

definition serve_api :: "apiServer \<Rightarrow> api_request \<Rightarrow> string \<Rightarrow> ginContext \<Rightarrow> response dbm" where
  "serve_api s req authHeader c =
     (if public_route req then api_handler s req c
      else do {
        now \<leftarrow> time_Now;
        case AuthMiddleware (api_auth s) now authHeader c of
          Inl resp \<Rightarrow> return resp
        | Inr c \<Rightarrow> api_handler s req c })"

end
