(* ===== verification/Rest_Props.thy ===== *)
theory Rest_Props
  imports Rest
begin

text \<open>
  What the REST interface does to the database and to whom it answers. \<open>api_reader\<close> is the interface
  between the handlers and the store and services they call: a relation between databases that every
  method but the two that enter members respects; \<open>api_client\<close> adds those two, and then every request
  respects the relation.
\<close>

section \<open>The handlers as clients of the store\<close>

text \<open>The requests that can enter members of a room.\<close>

fun enters_members :: "api_request \<Rightarrow> bool" where
  "enters_members (POST_rooms b) = True"
| "enters_members (POST_rooms_direct b) = True"
| "enters_members POST_rooms_join = True"
| "enters_members (POST_rooms_members b) = True"
| "enters_members _ = False"

locale api_reader = db_effect R for R :: "db \<Rightarrow> db \<Rightarrow> bool" +
  assumes R_users: "state_io_rel R (CreateUser n h)" "state_io_rel R (CreateGuestUser n)"
    and R_rooms: "state_io_rel R (CreateRoom n t ow)" "state_io_rel R (RemoveMember i j)"
    and R_friends: "state_io_rel R (SendRequest i j)" "state_io_rel R (AcceptRequest i j)"
      "state_io_rel R (RejectRequest i j)" "state_io_rel R (BlockUser i j)" "state_io_rel R (UnblockUser i j)"
    and R_calls: "state_io_rel R (CreateDirectCall s i j)" "state_io_rel R (CreateRoomCall s i j)"
      "state_io_rel R (GetJoinInfo s cid i)" "state_io_rel R (EndCall s cid i)"
begin

lemma ar_reads:
  "state_io_rel R (GetUserByID i)" "state_io_rel R (GetUserByUsername n)" "state_io_rel R (SearchUsers like n)"
  "state_io_rel R (GetRoomByID i)" "state_io_rel R (ListRooms i)" "state_io_rel R (ListMessages i lim b)"
  "state_io_rel R (ListFriends i)" "state_io_rel R (ListPendingRequests i)"
  "state_io_rel R (GetCall cid)" "state_io_rel R (ListActiveCalls i)"
  unfolding GetUserByID_def GetUserByUsername_def SearchUsers_def GetRoomByID_def ListRooms_def ListMessages_def
    ListFriends_def ListPendingRequests_def store_ListFriends_def GetCall_def store_GetCall_def
    ListActiveCalls_def store_ListActiveCalls_def
  by (intro de_rules)+

lemma ar_gates:
  "(\<And>uid. state_io_rel R (k uid)) \<Longrightarrow> state_io_rel R (current_user c k)"
  "(\<And>i. state_io_rel R (k i)) \<Longrightarrow> state_io_rel R (path_id c p msg k)"
  "(\<And>j. state_io_rel R (k' j)) \<Longrightarrow> state_io_rel R (call_param c k')"
  by (auto simp: current_user_def path_id_def call_param_def eb_return split: option.split ctxValue.split)

lemma ar_bound: "(\<And>v. state_io_rel R (k v)) \<Longrightarrow> state_io_rel R (bound_json b k)"
  by (auto simp: bound_json_def eb_return split: sum.split)

lemma ar_let: "(\<And>x. state_io_rel R (f x)) \<Longrightarrow> state_io_rel R (let x = t in f x)"
  by simp

lemmas ar_rules = de_rules ar_let ar_reads ar_gates ar_bound R_users R_rooms R_friends R_calls

lemma ar_token: "state_io_rel R (new_token s u g)"
  unfolding new_token_def by (intro de_rules)

lemma ar_auth:
  "state_io_rel R (auth_Register s u p)" "state_io_rel R (auth_Login s u p)" "state_io_rel R (auth_CreateGuestUser s)"
  unfolding auth_Register_def auth_Login_def auth_CreateGuestUser_def Let_def
  by (intro ar_rules ar_token | simp add: eb_return split: goerr.split)+

lemma ar_friend_responses: "state_io_rel R (friendToResponse f u x)" "state_io_rel R (friendsToResponse f u xs)"
proof -
  show one: "state_io_rel R (friendToResponse f u x)" for x
    unfolding friendToResponse_def Let_def by (intro ar_rules)
  show "state_io_rel R (friendsToResponse f u xs)"
    by (induction xs) (auto intro!: ar_rules one)
qed

lemma ar_handler:
  assumes "\<not> enters_members req"
  shows "state_io_rel R (api_handler s req c)"
  using assms
  by (cases req; simp only: api_handler.simps enters_members.simps not_True_eq_False rest_Register_def rest_Login_def rest_GuestLogin_def rest_ListRooms_def rest_LeaveRoom_def
      rest_RemoveMember_def rest_GetMessages_def rest_SearchUsers_def rest_SendRequest_def rest_ListFriends_def
      rest_ListPendingRequests_def friend_listing_def rest_AcceptRequest_def rest_RejectRequest_def
      rest_BlockUser_def rest_UnblockUser_def friend_action_def rest_CreateDirectCall_def rest_CreateRoomCall_def
      rest_ListActiveCalls_def rest_GetCall_def rest_GetJoinInfo_def rest_EndCall_def)
    (intro ar_rules ar_auth ar_friend_responses)+

end

locale api_client = api_reader +
  assumes R_add: "state_io_rel R (AddMember i j)"
    and R_direct: "state_io_rel R (CreateDirectRoom k i j)"
begin

lemma ac_handler: "state_io_rel R (api_handler s req c)"
proof (cases "enters_members req")
  case True
  then show ?thesis
    by (cases req; simp only: api_handler.simps enters_members.simps rest_CreateRoom_def rest_CreateDirectRoom_def rest_JoinRoom_def rest_AddMember_def)
      (intro ar_rules R_add R_direct)+
qed (rule ar_handler)

lemma ac_serve: "state_io_rel R (serve_api s req h c)"
  unfolding serve_api_def by (intro ar_rules ac_handler)

end

section \<open>What a request can touch\<close>

definition membership :: "db \<Rightarrow> (userID \<times> roomID) set" where
  "membership d = (\<lambda>m. (member_UserID m, member_RoomID m)) ` set (t_room_members d)"

text \<open>Messages stay, and no member is entered.\<close>

definition keeps_out :: "db \<Rightarrow> db \<Rightarrow> bool" where
  "keeps_out d d' \<longleftrightarrow> t_messages d' = t_messages d \<and> membership d' \<subseteq> membership d"

text \<open>The same, and the table of calls stays.\<close>

definition off_calls :: "db \<Rightarrow> db \<Rightarrow> bool" where
  "off_calls d d' \<longleftrightarrow> keeps_out d d' \<and> t_calls d' = t_calls d"

interpretation q: db_effect keeps_out
  by unfold_locales (simp_all add: keeps_out_def membership_def, blast)

interpretation oc: db_effect off_calls
  by unfold_locales (simp_all add: off_calls_def keeps_out_def membership_def, blast)

lemma off_calls_writes:
  "state_io_rel off_calls (CreateUser n h)" "state_io_rel off_calls (CreateGuestUser n)"
  "state_io_rel off_calls (CreateRoom n t ow)" "state_io_rel off_calls (RemoveMember i j)"
  unfolding CreateUser_def CreateGuestUser_def CreateRoom_def RemoveMember_def GetUserByID_def GetRoomByID_def
  by (intro oc.de_rules oc.de_exec; force simp: off_calls_def keeps_out_def membership_def insert_user_def insert_room_def
      Let_def split: if_splits)+

lemma off_calls_friends:
  "state_io_rel off_calls (SendRequest i j)" "state_io_rel off_calls (AcceptRequest i j)"
  "state_io_rel off_calls (RejectRequest i j)" "state_io_rel off_calls (BlockUser i j)"
  "state_io_rel off_calls (UnblockUser i j)"
  unfolding SendRequest_def AcceptRequest_def RejectRequest_def BlockUser_def UnblockUser_def Let_def
    CreateFriendRequest_def UpdateFriendStatus_def DeleteFriendship_def GetFriendship_def GetUserByID_def getFriendByID_def
  by (intro oc.de_rules oc.de_exec; force simp: off_calls_def keeps_out_def membership_def insert_friend_def
      Let_def split: if_splits)+

lemma keeps_out_if_off_calls: "state_io_rel off_calls m \<Longrightarrow> state_io_rel keeps_out m"
  by (auto simp: state_io_rel_def off_calls_def)

lemma keeps_out_call_store:
  "state_io_rel keeps_out (store_CreateCall c)" "state_io_rel keeps_out (UpdateCall c)"
  "state_io_rel keeps_out (AddParticipant p)" "state_io_rel keeps_out (UpdateParticipant p)"
  unfolding store_CreateCall_def UpdateCall_def AddParticipant_def UpdateParticipant_def
  by (intro q.de_rules q.de_exec; force simp: keeps_out_def membership_def Let_def split: if_splits)+

lemma keeps_out_calls:
  "state_io_rel keeps_out (CreateDirectCall s i j)" "state_io_rel keeps_out (CreateRoomCall s i j)"
  "state_io_rel keeps_out (GetJoinInfo s cid i)" "state_io_rel keeps_out (EndCall s cid i)"
proof -
  have parts: "state_io_rel keeps_out (add_participants c us)" for c us
    by (induction us) (auto intro!: q.de_rules keeps_out_call_store)
  show "state_io_rel keeps_out (CreateDirectCall s i j)" "state_io_rel keeps_out (CreateRoomCall s i j)"
    "state_io_rel keeps_out (GetJoinInfo s cid i)" "state_io_rel keeps_out (EndCall s cid i)"
    unfolding CreateDirectCall_def CreateRoomCall_def GetJoinInfo_def EndCall_def Let_def
      check_call_privacy_def mark_joined_def mark_active_def participant_for_join_def GetUserByID_def
      store_GetCall_def GetUserCallSettings_def GetRoomByID_def ListMembers_def GetParticipant_def IsMember_def
      GetActiveCallForRoom_def ListParticipants_def store_IsFriend_def IsFriend_def
    by (intro q.de_rules keeps_out_call_store parts)+
qed

interpretation calm: api_reader keeps_out
  by unfold_locales (intro keeps_out_if_off_calls off_calls_writes off_calls_friends keeps_out_calls)+

lemma calls_stay: "state_io_rel off_calls m \<Longrightarrow> state_io_rel (\<lambda>d d'. t_calls d' = t_calls d) m"
  by (auto simp: state_io_rel_def off_calls_def)

text \<open>The two methods that enter members.\<close>

lemma same_tables:
  "tables d' = tables d \<Longrightarrow>
    t_calls d' = t_calls d \<and> t_messages d' = t_messages d \<and> t_room_members d' = t_room_members d"
proof -
  have "t_calls (tables x) = t_calls x" "t_messages (tables x) = t_messages x"
    "t_room_members (tables x) = t_room_members x" for x
    by (simp_all add: tables_def)
  then show "tables d' = tables d \<Longrightarrow> ?thesis" by metis
qed

lemma direct_room_effect:
  assumes "d' = after (CreateDirectRoom k i j) d"
  shows "t_calls d' = t_calls d" and "t_messages d' = t_messages d"
    and "membership d' \<subseteq> membership d \<union> {i, j} \<times> {s_rooms d + 1}"
proof -
  have "tables d' = tables d \<or> tables d' = tables (with_direct_room k i j d)"
    using CreateDirectRoom_tables[of k i j d] by (simp add: assms)
  then show "t_calls d' = t_calls d" "t_messages d' = t_messages d"
      "membership d' \<subseteq> membership d \<union> {i, j} \<times> {s_rooms d + 1}"
    by (auto dest!: same_tables simp: with_direct_room_def membership_def Let_def)
qed

lemma AddMember_effect:
  assumes "d' = after (AddMember i j) d"
  shows "t_calls d' = t_calls d" and "t_messages d' = t_messages d" and "membership d' \<subseteq> membership d \<union> {(i, j)}"
  using assms
  by (auto simp: AddMember_def run_db insert_member_def membership_def image_iff
      split: option.splits fault.splits if_splits)

lemma members_off_calls:
  "state_io_rel (\<lambda>d d'. t_calls d' = t_calls d) (AddMember i j)"
  "state_io_rel (\<lambda>d d'. t_calls d' = t_calls d) (CreateDirectRoom k i j)"
  by (simp_all add: state_io_rel_def AddMember_effect(1)[OF refl] direct_room_effect(1)[OF refl])

interpretation served: api_client db_moves
  by unfold_locales
    (intro db_moves_frame calls_stay off_calls_writes off_calls_friends service_moves db_keeps members_off_calls)+

section \<open>Who is asking\<close>

definition as_user :: "Claims \<Rightarrow> ginContext \<Rightarrow> ginContext" where
  "as_user claims c = c\<lparr>gc_UserID := Some (CtxInt64 (claims_UserID claims)),
     gc_Username := Some (CtxString (claims_Username claims)), gc_IsGuest := Some (CtxBool (claims_IsGuest claims))\<rparr>"

lemma as_user_simps [simp]:
  "gc_UserID (as_user claims c) = Some (CtxInt64 (claims_UserID claims))"
  "gc_Param (as_user claims c) = gc_Param c" "gc_Query (as_user claims c) = gc_Query c"
  by (simp_all add: as_user_def)

lemma SplitN2_two: "length (SplitN2 h) = 2 \<Longrightarrow> h = SplitN2 h ! 0 @ '' '' @ SplitN2 h ! 1"
proof -
  let ?a = "takeWhile (\<lambda>c. c \<noteq> CHR '' '') h" and ?b = "dropWhile (\<lambda>c. c \<noteq> CHR '' '') h"
  assume "length (SplitN2 h) = 2"
  then have b: "?b \<noteq> []" by (auto simp: SplitN2_def Let_def split: if_splits)
  then have "?b = CHR '' '' # tl ?b" using hd_dropWhile[OF b] by (metis (mono_tags) list.collapse)
  moreover have "h = ?a @ ?b" by simp
  ultimately have "h = ?a @ CHR '' '' # tl ?b" by metis
  moreover from b have "SplitN2 h = [?a, tl ?b]" by (simp only: SplitN2_def Let_def if_False)
  ultimately show ?thesis by simp
qed

lemma SplitN2_Bearer: "length (SplitN2 h) = 2 \<and> SplitN2 h ! 0 = ''Bearer'' \<longleftrightarrow> (\<exists>t. h = ''Bearer '' @ t)"
proof
  assume "length (SplitN2 h) = 2 \<and> SplitN2 h ! 0 = ''Bearer''"
  then show "\<exists>t. h = ''Bearer '' @ t" using SplitN2_two[of h] by auto
qed (auto simp: SplitN2_def Let_def)

lemma AuthMiddleware_Inr:
  "AuthMiddleware a now h c = Inr c' \<longleftrightarrow>
     (\<exists>t claims. h = ''Bearer '' @ t \<and> auth_ValidateToken a now t = Inr claims \<and> c' = as_user claims c)"
proof (cases "\<exists>t. h = ''Bearer '' @ t")
  case True
  then obtain t where h: "h = ''Bearer '' @ t" by blast
  have "AuthMiddleware a now h c = (case auth_ValidateToken a now t of
      Inl _ \<Rightarrow> Inl (err_resp 401 ''invalid token'') | Inr claims \<Rightarrow> Inr (as_user claims c))"
    unfolding h by (simp add: AuthMiddleware_def SplitN2_def as_user_def Let_def split: sum.split)
  then show ?thesis by (auto simp: h split: sum.splits)
next
  case False
  then have "\<not> (length (SplitN2 h) = 2 \<and> SplitN2 h ! 0 = ''Bearer'')"
    using SplitN2_Bearer by blast
  with False show ?thesis by (auto simp: AuthMiddleware_def Let_def)
qed

lemma AuthMiddleware_Inl: "AuthMiddleware a now h c = Inl r \<Longrightarrow> \<exists>msg. r = err_resp 401 msg"
  by (auto simp: AuthMiddleware_def Let_def split: sum.splits if_splits)

lemma serve_api_run:
  "\<not> public_route req \<Longrightarrow> run_state (serve_api s req h c) d =
    (case AuthMiddleware (api_auth s) (clock d) h c of Inl r \<Rightarrow> (r, d) | Inr c' \<Rightarrow> run_state (api_handler s req c') d)"
  by (simp add: serve_api_def run_db split: sum.split)


text \<open>A server with one user, \<open>alice\<close>, whose token is the word \<open>token\<close>.\<close>

definition demo_api :: apiServer where
  "demo_api = \<lparr>api_auth = auth_NewService demo_lib demo_cfg, api_calls = calls_New None ''id'',
     api_fmt = \<lambda>_. ''t'', api_like = \<lambda>_ _. False\<rparr>"

definition demo_ctx :: "int64 \<Rightarrow> ginContext" where
  "demo_ctx i = \<lparr>gc_UserID = None, gc_Username = None, gc_IsGuest = None, gc_Param = \<lambda>_. itoa i, gc_Query = \<lambda>_. ''''\<rparr>"

lemma demo_token: "auth_ValidateToken (api_auth demo_api) 0 ''token'' = Inr demo_claims"
  by (simp add: demo_api_def auth_ValidateToken_def auth_NewService_def ValidateToken_def demo_lib_def demo_parse_def
      Let_def key_func_def demo_claims_def token_claims_def Unix_def)
    (simp add: demo_cfg_def)

lemma demo_served:
  assumes "\<not> public_route req" and "clock d = 0"
  shows "run_state (serve_api demo_api req ''Bearer token'' c) d = run_state (api_handler demo_api req (as_user demo_claims c)) d"
proof -
  have "AuthMiddleware (api_auth demo_api) 0 ''Bearer token'' c = Inr (as_user demo_claims c)"
    using demo_token by (auto simp: AuthMiddleware_Inr)
  then show ?thesis by (simp add: serve_api_run[OF assms(1)] assms(2))
qed

lemma clock_demo [simp]: "clock demo_db = 0"
  by (simp add: demo_db_def init_db_def)


section \<open>Numbers in paths and queries\<close>

text \<open>What the server prints as an identifier it reads back, whatever follows the digits.\<close>

lemma Sscanf_d_itoa:
  assumes "in_int64 i" and "rest = [] \<or> \<not> is_digit (hd rest)"
  shows "Sscanf_d (itoa i @ rest) = Some i"
proof -
  let ?ds = "digits10 (nat \<bar>i\<bar>)"
  have hd: "is_digit (hd (?ds @ rest))" using digits10_digits[of "hd ?ds" "nat \<bar>i\<bar>"] by simp
  have take: "takeWhile is_digit (?ds @ rest) = ?ds"
    using assms(2) digits10_digits by (cases rest) (auto simp: takeWhile_append2)
  have runes: "\<not> prefix r (itoa i @ rest)" if r: "r \<in> set space_runes" for r
  proof
    assume "prefix r (itoa i @ rest)"
    then have "hd r = hd (itoa i @ rest)" using r by (auto simp: space_runes_def prefix_def)
    moreover have "is_digit (hd (itoa i @ rest)) \<or> hd (itoa i @ rest) = CHR ''-''"
      using hd by (auto simp: itoa_def)
    moreover have "\<not> is_digit (hd r) \<and> hd r \<noteq> CHR ''-''"
      using r by (auto simp: space_runes_def is_digit_def)
    ultimately show False by simp
  qed
  have "drop_runes (filter (\<lambda>r. r \<noteq> [CHR 0x0A]) space_runes) (itoa i @ rest) = itoa i @ rest"
    by (rule drop_runes_id) (auto dest: runes)
  then show ?thesis
    using hd assms(1) take
    by (cases "i < 0") (auto simp: Sscanf_d_def Let_def itoa_def atoi_digits10 is_digit_def)
qed

lemma Sscanf_d_id [simp]: "in_int64 i \<Longrightarrow> Sscanf_d (itoa i) = Some i"
  using Sscanf_d_itoa[of i "[]"] by simp

lemma in_int64_one [simp]: "in_int64 1"
  by (simp add: in_int64_def)

section \<open>Who can become a member of a room\<close>

lemma members_pop [simp]: "membership (pop_fault d) = membership d"
  by (simp add: membership_def)

lemma AddMember_members: "run_state (AddMember i j) d = (x, d') \<Longrightarrow> membership d' \<subseteq> membership d \<union> {(i, j)}"
  using AddMember_effect(3)[of d' i j d] by simp

lemma AddMember_run:
  "faults d = [] \<Longrightarrow> run_state (AddMember i j) d = (Inr (), if (i, j) \<in> membership d then d
     else d\<lparr>t_room_members := t_room_members d @
       [\<lparr>member_UserID = i, member_RoomID = j, member_JoinedAt = current_timestamp d\<rparr>]\<rparr>)"
  by (auto simp: AddMember_def run_exec_stmt insert_member_def membership_def image_iff split: if_splits)

lemma GetRoomByID_run:
  assumes "db_ok d" and "faults d = []" and "room \<in> set (t_rooms d)"
  shows "run_state (GetRoomByID (room_ID room)) d = (Inr room, d)"
proof -
  have "distinct (map room_ID (t_rooms d))"
    using assms(1) by (simp add: db_ok_def rooms_ok_def table_ok_def strict_sorted_iff)
  then show ?thesis
    using query_row_key[of d room_ID t_rooms room] assms(2,3) by (simp add: run_lookups)
qed

lemma GetRoomByID_pop: "run_state (GetRoomByID r) d = (Inl e, d') \<Longrightarrow> d' = pop_fault d"
  by (simp add: run_lookups)

lemma JoinRoom_members:
  assumes "gc_UserID c = Some (CtxInt64 me)"
    and "x \<in> membership (after (rest_JoinRoom c) d)" and "x \<notin> membership d"
  shows "\<exists>room \<in> set (t_rooms d). x = (me, room_ID room) \<and> room_Type room \<noteq> RoomTypePrivate"
  using assms
  by (auto simp: rest_JoinRoom_def current_user_def path_id_def split: option.splits prod.splits sum.splits if_splits
      dest!: GetRoomByID_Inr GetRoomByID_pop AddMember_members)

text \<open>Any user can join a direct room, by its identifier: only private rooms are refused.\<close>

lemma direct_room_open:
  assumes "db_ok d" and "faults d = []" and "room \<in> set (t_rooms d)" and "room_Type room = RoomTypeDirect"
    and "gc_UserID c = Some (CtxInt64 me)" and "Sscanf_d (gc_Param c ''id'') = Some (room_ID room)"
  shows "result_of (rest_JoinRoom c) d = (200, NoteBody ''joined room successfully'')
    \<and> (me, room_ID room) \<in> membership (after (rest_JoinRoom c) d)"
  using assms GetRoomByID_run[OF assms(1-3)] by (simp add: rest_JoinRoom_def current_user_def path_id_def AddMember_run membership_def)

lemma rest_AddMember_members:
  assumes "gc_UserID c = Some (CtxInt64 me)"
    and "x \<in> membership (after (rest_AddMember c b) d)" and "x \<notin> membership d"
  shows "\<exists>body. b = Inr body \<and> (\<exists>room \<in> set (t_rooms d). x = (req_UserID body, room_ID room) \<and> room_OwnerID room = Some me)"
  using assms
  by (auto simp: rest_AddMember_def current_user_def path_id_def bound_json_def
      split: option.splits prod.splits sum.splits if_splits
      dest!: GetRoomByID_Inr GetRoomByID_pop AddMember_members)

lemma CreateDirectRoom_members:
  assumes "gc_UserID c = Some (CtxInt64 me)"
    and "x \<in> membership (after (rest_CreateDirectRoom f c b) d)" and "x \<notin> membership d"
  shows "\<exists>body. b = Inr body \<and> req_UserID body \<noteq> me \<and> x \<in> {me, req_UserID body} \<times> {s_rooms d + 1}"
proof -
  have grow: "membership d' \<subseteq> membership d \<union> {i, j} \<times> {s_rooms d + 1}"
    if "run_state (CreateDirectRoom k i j) d = (y, d')" for k i j y d'
    using direct_room_effect(3)[of d' k i j d] that by simp
  show ?thesis
    using assms
    by (auto simp: rest_CreateDirectRoom_def current_user_def bound_json_def Let_def
        split: prod.splits sum.splits if_splits dest!: grow)
qed

lemma CreateRoom_new:
  assumes "run_state (CreateRoom n t ow) d = (r, d')"
  shows "membership d' = membership d" and "r = Inr room \<Longrightarrow> room_ID room = s_rooms d + 1"
proof -
  show "membership d' = membership d"
    using assms by (auto simp: CreateRoom_def run_db insert_room_def membership_def Let_def
        split: option.splits fault.splits if_splits)
  show "r = Inr room \<Longrightarrow> room_ID room = s_rooms d + 1"
    using assms by (auto simp: CreateRoom_def run_exec_stmt insert_room_def Let_def
        split: option.splits fault.splits if_splits dest!: GetRoomByID_Inr)
qed

lemma CreateRoom_members:
  assumes "gc_UserID c = Some (CtxInt64 me)"
    and "x \<in> membership (after (rest_CreateRoom f c b) d)" and "x \<notin> membership d"
  shows "\<exists>body. b = Inr body \<and> crr_Type body = ''private'' \<and> x = (me, s_rooms d + 1)"
  using assms
  by (auto simp: rest_CreateRoom_def current_user_def bound_json_def Let_def
      split: prod.splits sum.splits if_splits dest: CreateRoom_new dest!: AddMember_members)

text \<open>(C9) How membership grows. Whatever the driver does, a request over REST enters a user into a room only if it
  carries a valid token, of a user \<open>me\<close> say, and: \<open>me\<close> creates a private room and becomes its first member;
  or \<open>me\<close> joins an existing room that is not private; or \<open>me\<close> owns the room and adds the user; or the room is
  a new direct room between \<open>me\<close> and another user, and the user is one of the two. In particular nobody enters an
  existing private room but by its owner.\<close>

theorem membership_growth:
  assumes "(u, r) \<in> membership (after (serve_api s req h c) d)" and "(u, r) \<notin> membership d"
  shows "\<exists>t claims me. h = ''Bearer '' @ t \<and> auth_ValidateToken (api_auth s) (clock d) t = Inr claims
    \<and> me = claims_UserID claims
    \<and> ((\<exists>body. req = POST_rooms (Inr body) \<and> crr_Type body = ''private'' \<and> u = me \<and> r = s_rooms d + 1)
      \<or> (req = POST_rooms_join \<and> u = me \<and> (\<exists>room \<in> set (t_rooms d). room_ID room = r \<and> room_Type room \<noteq> RoomTypePrivate))
      \<or> (\<exists>body. req = POST_rooms_members (Inr body) \<and> u = req_UserID body
          \<and> (\<exists>room \<in> set (t_rooms d). room_ID room = r \<and> room_OwnerID room = Some me))
      \<or> (\<exists>body. req = POST_rooms_direct (Inr body) \<and> me \<noteq> req_UserID body \<and> u \<in> {me, req_UserID body}
          \<and> r = s_rooms d + 1))"
proof -
  have enters: "enters_members req"
  proof (rule ccontr)
    assume "\<not> enters_members req"
    then have "state_io_rel keeps_out (serve_api s req h c)"
      unfolding serve_api_def by (intro calm.ar_rules calm.ar_handler)
    with assms show False by (auto simp: state_io_rel_def keeps_out_def)
  qed
  then have "\<not> public_route req" by (cases req) auto
  note run = serve_api_run[OF this, of s h c d]
  obtain c' where mw: "AuthMiddleware (api_auth s) (clock d) h c = Inr c'"
    using assms run by (cases "AuthMiddleware (api_auth s) (clock d) h c") auto
  then obtain t claims where c: "h = ''Bearer '' @ t" "auth_ValidateToken (api_auth s) (clock d) t = Inr claims"
      "c' = as_user claims c"
    by (auto simp: AuthMiddleware_Inr)
  have "(u, r) \<in> membership (after (api_handler s req (as_user claims c)) d)"
    using assms(1) by (simp add: run mw c(3))
  with enters show ?thesis
    using c(1,2)
    by (cases req) (auto dest!: CreateRoom_members[OF as_user_simps(1) _ assms(2)]
        JoinRoom_members[OF as_user_simps(1) _ assms(2)] rest_AddMember_members[OF as_user_simps(1) _ assms(2)]
        CreateDirectRoom_members[OF as_user_simps(1) _ assms(2)])
qed

theorem membership_growth_witness:
  "\<exists>t claims. ''Bearer token'' = ''Bearer '' @ t \<and> auth_ValidateToken (api_auth demo_api) (clock demo_db) t = Inr claims
    \<and> claims_UserID claims = 1"
proof -
  have "(1, 1) \<in> membership (after (serve_api demo_api POST_rooms_join ''Bearer token'' (demo_ctx 1)) demo_db)"
    by (simp add: demo_served rest_JoinRoom_def current_user_def path_id_def demo_ctx_def GetRoomByID_def run_query_row
        AddMember_run)
      (simp add: AddMember_run membership_def demo_db_def init_db_def demo_claims_def token_claims_def)
  with membership_growth[of 1 1 demo_api POST_rooms_join "''Bearer token''" "demo_ctx 1" demo_db]
  show ?thesis by (auto simp: membership_def)
qed

section \<open>Pages of history\<close>

lemma page_limit_bounds: "1 \<le> page_limit q \<and> page_limit q \<le> 100"
  by (simp add: page_limit_def split: option.split)



section \<open>One direct room per pair\<close>

lemma direct_key_inj: "direct_key a b = direct_key a' b' \<longleftrightarrow> a = a' \<and> b = b'"
  using append_sep_inj[OF itoa_no_colon[of a] itoa_no_colon[of a'], of "itoa b" "itoa b'"]
  by (simp add: direct_key_def itoa_inj)

definition pair_key :: "userID \<Rightarrow> userID \<Rightarrow> string" where
  "pair_key a b = direct_key (min a b) (max a b)"

lemma pair_key_inj: "pair_key a b = pair_key a' b' \<longleftrightarrow> {a, b} = {a', b'}"
  by (auto simp: pair_key_def direct_key_inj doubleton_eq_iff min_def max_def)

lemma rest_CreateDirectRoom_run:
  assumes "gc_UserID c = Some (CtxInt64 me)" and "req_UserID body \<noteq> me"
  shows "rest_CreateDirectRoom f c (Inr body) = do {
     room \<leftarrow> CreateDirectRoom (pair_key me (req_UserID body)) (min me (req_UserID body)) (max me (req_UserID body));
     return (case room of Inl _ \<Rightarrow> internal_error | Inr room \<Rightarrow> (200, RoomBody (room_response f room))) }"
  using assms
  by (auto simp: rest_CreateDirectRoom_def current_user_def bound_json_def pair_key_def min_def max_def Let_def)

text \<open>Without faults, the room that \<open>CreateDirectRoom\<close> returns is in the table, under its key, with all the rooms
  there were; looking it up again gives the same room.\<close>

lemma direct_room_tx_ok:
  assumes "faults d = []" and "run_state (direct_room_tx k a b) d = (Inr i, d')"
  shows "d' = with_direct_room k a b d \<and> i = s_rooms d + 1"
  using assms
  by (auto simp: direct_room_tx_def run_db insert_room_def insert_member_def with_direct_room_def
      current_timestamp_def Let_def split: if_splits option.splits fault.splits sum.splits prod.splits)

lemma CreateDirectRoom_Inr:
  assumes "db_ok d" and "faults d = []" and "run_state (CreateDirectRoom k a b) d = (Inr room, d')"
  shows "room \<in> set (t_rooms d') \<and> room_DirectKey room = Some k \<and> set (t_rooms d) \<subseteq> set (t_rooms d') \<and> faults d' = []"
proof (cases "result_of (GetRoomByDirectKey k) d")
  case (Inr y)
  then show ?thesis
    using assms by (auto simp: CreateDirectRoom_def run_lookups dest!: query_row_Inr(2))
next
  case (Inl e)
  have new: "filter (\<lambda>x. room_ID x = s_rooms d + 1) (t_rooms d) = []"
    using assms(1) by (auto simp: db_ok_def rooms_ok_def table_ok_def filter_empty_conv)
  show ?thesis
    using assms(3) Inl new
    by (auto simp: assms(2) CreateDirectRoom_def GetRoomByDirectKey_def GetRoomByID_def run_query_row run_in_tx run_tx_control
        split: prod.splits sum.splits if_splits list.splits dest!: direct_room_tx_ok[OF assms(2)])
      (auto simp: assms(2) with_direct_room_def Let_def)
qed

lemma CreateDirectRoom_again:
  assumes "db_ok d" and "faults d = []" and "room \<in> set (t_rooms d)" and "room_DirectKey room = Some k"
  shows "run_state (CreateDirectRoom k a b) d = (Inr room, d)"
proof -
  have "distinct (filter (\<lambda>k. k \<noteq> None) (map room_DirectKey (t_rooms d)))"
    using assms(1) by (simp add: db_ok_def rooms_ok_def)
  then have "distinct (map room_DirectKey (filter (\<lambda>x. room_DirectKey x \<noteq> None) (t_rooms d)))"
    by (simp add: filter_map comp_def)
  from filter_key_unique'[OF this, of room "Some k"] assms(3,4)
  have "filter (\<lambda>x. room_DirectKey x = Some k) (filter (\<lambda>x. room_DirectKey x \<noteq> None) (t_rooms d)) = [room]"
    by simp
  then have "filter (\<lambda>x. room_DirectKey x = Some k) (t_rooms d) = [room]"
    by (simp add: filter_filter) (metis (mono_tags, lifting) filter_cong option.distinct(1))
  then show ?thesis
    using assms(2) by (simp add: CreateDirectRoom_def GetRoomByDirectKey_def run_query_row)
qed

lemma other_pair_other_room:
  assumes "db_ok d" and "faults d = []" and "r \<in> set (t_rooms d)" and "room_DirectKey r = Some (pair_key a b)"
    and "gc_UserID c = Some (CtxInt64 x)"
    and "run_state (rest_CreateDirectRoom f c (Inr \<lparr>req_UserID = y\<rparr>)) d = ((200, RoomBody room), d')"
    and "{x, y} \<noteq> {a, b}"
  shows "rr_ID room \<noteq> room_ID r"
proof -
  have "y \<noteq> x" using assms(5,6) by (auto simp: rest_CreateDirectRoom_def current_user_def bound_json_def)
  then obtain r' where r': "run_state (CreateDirectRoom (pair_key x y) (min x y) (max x y)) d = (Inr r', d')"
      "room = room_response f r'"
    using assms(5,6) by (auto simp: rest_CreateDirectRoom_run split: prod.splits sum.splits)
  have ok: "db_ok d'"
    using CreateDirectRoom_keeps[of "pair_key x y" "min x y" "max x y"] assms(1) dbk.eb_run r'(1) by blast
  have snd: "r' \<in> set (t_rooms d')" "room_DirectKey r' = Some (pair_key x y)" "r \<in> set (t_rooms d')"
    using CreateDirectRoom_Inr[OF assms(1,2) r'(1)] assms(3) by auto
  have "room_DirectKey r' \<noteq> room_DirectKey r"
    using assms(4,7) snd(2) by (simp add: pair_key_inj)
  moreover have "inj_on room_ID (set (t_rooms d'))"
    using ok table_ok_distinct by (auto simp: db_ok_def rooms_ok_def distinct_map)
  ultimately show ?thesis
    using snd(1,3) r'(2) by (auto simp: room_response_def inj_on_def)
qed

text \<open>(C26) One direct room per pair of users. The request of \<open>a\<close> for a room with \<open>b\<close> is the same computation as the
  request of \<open>b\<close> for a room with \<open>a\<close>. On a consistent database and without driver faults, once such a request
  has been answered with a room, asking again, from either side, answers with that room and changes
  nothing, and a request for any other pair that succeeds answers with a different room.\<close>

theorem direct_room_per_pair:
  assumes "db_ok d" and "faults d = []" and "a \<noteq> b"
    and "gc_UserID ca = Some (CtxInt64 a)" and "gc_UserID cb = Some (CtxInt64 b)" and "gc_UserID cx = Some (CtxInt64 x)"
    and "run_state (rest_CreateDirectRoom f ca (Inr \<lparr>req_UserID = b\<rparr>)) d = ((200, RoomBody room), d')"
  shows "rest_CreateDirectRoom f ca (Inr \<lparr>req_UserID = b\<rparr>) = rest_CreateDirectRoom f cb (Inr \<lparr>req_UserID = a\<rparr>)
    \<and> run_state (rest_CreateDirectRoom f ca (Inr \<lparr>req_UserID = b\<rparr>)) d' = ((200, RoomBody room), d')
    \<and> (\<forall>y room' d''. run_state (rest_CreateDirectRoom f cx (Inr \<lparr>req_UserID = y\<rparr>)) d' = ((200, RoomBody room'), d'')
        \<and> {x, y} \<noteq> {a, b} \<longrightarrow> rr_ID room' \<noteq> rr_ID room)"
proof -
  let ?k = "pair_key a b"
  have same: "rest_CreateDirectRoom f ca (Inr \<lparr>req_UserID = b\<rparr>) = rest_CreateDirectRoom f cb (Inr \<lparr>req_UserID = a\<rparr>)"
    using assms(3-5) by (simp add: rest_CreateDirectRoom_run pair_key_def min.commute max.commute)
  obtain r where r: "run_state (CreateDirectRoom ?k (min a b) (max a b)) d = (Inr r, d')" "room = room_response f r"
    using assms(3,4,7) by (auto simp: rest_CreateDirectRoom_run split: prod.splits sum.splits)
  note fst = CreateDirectRoom_Inr[OF assms(1,2) r(1)]
  have ok: "db_ok d'"
    using CreateDirectRoom_keeps[of ?k "min a b" "max a b"] assms(1) dbk.eb_run r(1) by blast
  have "run_state (CreateDirectRoom ?k (min a b) (max a b)) d' = (Inr r, d')"
    using CreateDirectRoom_again[OF ok] fst by blast
  then have again: "run_state (rest_CreateDirectRoom f ca (Inr \<lparr>req_UserID = b\<rparr>)) d' = ((200, RoomBody room), d')"
    using assms(3,4) r(2) by (simp add: rest_CreateDirectRoom_run)
  have "rr_ID room' \<noteq> rr_ID room"
    if "run_state (rest_CreateDirectRoom f cx (Inr \<lparr>req_UserID = y\<rparr>)) d' = ((200, RoomBody room'), d'')" "{x, y} \<noteq> {a, b}"
    for y room' d''
    using other_pair_other_room[OF ok _ _ _ assms(6) that(1), of r a b] fst that(2) r(2) by (simp add: room_response_def)
  with same again show ?thesis by blast
qed

theorem direct_room_per_pair_witness:
  "\<exists>room d'. run_state (rest_CreateDirectRoom (\<lambda>_. ''t'') ((demo_ctx 0)\<lparr>gc_UserID := Some (CtxInt64 2)\<rparr>)
       (Inr \<lparr>req_UserID = 1\<rparr>)) d' = ((200, RoomBody room), d') \<and> (1, rr_ID room) \<in> membership d'"
proof -
  let ?c = "\<lambda>u. (demo_ctx 0)\<lparr>gc_UserID := Some (CtxInt64 u)\<rparr>"
  have ids: "gc_UserID (?c u) = Some (CtxInt64 u)" for u by simp
  have "\<exists>room d'. run_state (rest_CreateDirectRoom (\<lambda>_. ''t'') (?c 1) (Inr \<lparr>req_UserID = 2\<rparr>)) demo_db = ((200, RoomBody room), d')
      \<and> (1, rr_ID room) \<in> membership d'"
    by (simp add: rest_CreateDirectRoom_run CreateDirectRoom_def direct_room_tx_def run_db insert_room_def insert_member_def
        Let_def membership_def room_response_def demo_db_def init_db_def)
  then obtain room d' where first: "run_state (rest_CreateDirectRoom (\<lambda>_. ''t'') (?c 1) (Inr \<lparr>req_UserID = 2\<rparr>)) demo_db
      = ((200, RoomBody room), d')" "(1, rr_ID room) \<in> membership d'"
    by blast
  have one_neq_two: "(1::int) \<noteq> 2" by simp
  let ?ask = "\<lambda>u v. rest_CreateDirectRoom (\<lambda>_. ''t'') (?c u) (Inr \<lparr>req_UserID = v\<rparr>)"
  have "?ask 1 2 = ?ask 2 1 \<and> run_state (?ask 1 2) d' = ((200, RoomBody room), d')"
    using direct_room_per_pair[OF demo_db_simps(6,3) one_neq_two ids ids ids[of 3] first(1)] by blast
  then have "run_state (?ask 2 1) d' = ((200, RoomBody room), d')" by (elim conjE) (erule subst)
  with first(2) show ?thesis by blast
qed

end
