(* ===== verification/Hub_Order.thy ===== *)
theory Hub_Order
  imports Hub_Database
begin

text \<open>
  The queues of the hub: how much they hold, in which order the commands of a client pass through them,
  how the hub works them off, and when it waits for a client. Each rests on an interpretation of
  the interface of \<open>Hub_Database\<close> for a relation on the queues.
\<close>

section \<open>Capacities\<close>

definition queue_ok :: "nat \<Rightarrow> 'a chan \<Rightarrow> bool" where
  "queue_ok n ch \<longleftrightarrow> ch_cap ch = n \<and> length (ch_buf ch) \<le> n"

definition queues_ok :: "world \<Rightarrow> bool" where
  "queues_ok w \<longleftrightarrow> queue_ok 16 (h_register w) \<and> queue_ok 16 (h_unregister w) \<and> queue_ok 64 (h_commands w)
     \<and> (\<forall>c. queue_ok 8 (cl_Commands (heap w c)) \<and> queue_ok 8 (cl_Events (heap w c)))"

lemma queue_ok_send: "queue_ok n ch \<Longrightarrow> chan_send x ch = SendOk ch' \<Longrightarrow> queue_ok n ch'"
  by (auto simp: queue_ok_def chan_send_simps)

lemma queue_ok_recv: "queue_ok n ch \<Longrightarrow> chan_recv ch = RecvValue x ch' \<Longrightarrow> queue_ok n ch'"
  using go_chan.recv_takes[of ch x ch'] by (simp add: queue_ok_def)

lemma queue_ok_close: "queue_ok n ch \<Longrightarrow> chan_close ch = Some ch' \<Longrightarrow> queue_ok n ch'"
  by (auto simp: queue_ok_def chan_close_def split: if_splits)

lemma queue_ok_make [simp]: "queue_ok n (make_chan n)"
  by (simp add: queue_ok_def make_chan_def)

lemmas queue_ok_ops = queue_ok_send queue_ok_recv queue_ok_close

lemma env_queues: "queues_ok w \<Longrightarrow> queues_ok (env_step a w)"
  by (cases a) (auto simp: queues_ok_def RegisterClient_def UnregisterClient_def consumeCommands_def upd_client_def
      NewClient_def Let_def split: send_result.split recv_result.split option.split intro: queue_ok_ops)

lemma queues_same:
  "same_but_bookkeeping w w' \<Longrightarrow> queues_ok w \<Longrightarrow> queues_ok w'"
  "queues_ok (w\<lparr>database := d\<rparr>) = queues_ok w" "queues_ok (w\<lparr>sched := ss\<rparr>) = queues_ok w"
  "queues_ok (w\<lparr>status := s\<rparr>) = queues_ok w"
  by (auto simp: queues_ok_def same_but_bookkeeping_def queue_ok_def)

interpretation caps: hub_moves "\<lambda>w w'. queues_ok w \<longrightarrow> queues_ok w'"
  by unfold_locales (auto simp: env_queues queues_same)

interpretation caps: free_loop "\<lambda>w w'. queues_ok w \<longrightarrow> queues_ok w'" "\<lambda>_. True" "\<lambda>_ _. True" "\<lambda>_. True"
proof
  show "queues_ok w \<longrightarrow> queues_ok (others_step w)" for w by (rule caps.R_any_others)
next
  fix ev c ch and w :: world
  assume "chan_send ev (cl_Events (heap w c)) = SendOk ch"
  then show "queues_ok w \<longrightarrow> queues_ok (put_event c ev ch w)"
    by (auto simp: queues_ok_def put_event_def upd_client_def intro: queue_ok_ops)
next
  fix w w' :: world
  assume "same_but_bookkeeping w w'"
  then show "queues_ok w \<longrightarrow> queues_ok w'" by (simp add: queues_same)
qed (auto simp: queues_ok_def state_io_rel_def intro: queue_ok_ops)

interpretation caps_hub: inv_machine hub_step queues_ok
  by unfold_locales (auto simp: hub_step_iff env_queues queues_same caps.hc_run)

lemma reachable_queues: "hub_step\<^sup>*\<^sup>* (NewHub st svc d) w \<Longrightarrow> queues_ok w"
  by (erule caps_hub.reach_inv) (simp add: queues_ok_def NewHub_def NewClient_def)


section \<open>Order\<close>

text \<open>The commands of a client that have been accepted and not yet handled, oldest first: those in the
  hub's queue, the one \<open>consumeCommands\<close> holds, and those in the client's own channel.\<close>

definition flow :: "world \<Rightarrow> cptr \<Rightarrow> Command list" where
  "flow w c = map snd (filter (\<lambda>x. fst x = c) (ch_buf (h_commands w)))
     @ (case in_hand w c of None \<Rightarrow> [] | Some cmd \<Rightarrow> [cmd]) @ ch_buf (cl_Commands (heap w c))"

fun sends :: "cptr \<Rightarrow> env_action \<Rightarrow> Command list" where
  "sends c (Enqueue d cmd) = (if d = c then [cmd] else [])"
| "sends c _ = []"

definition sends_all :: "cptr \<Rightarrow> env_action list list \<Rightarrow> Command list" where
  "sends_all c ss = concat (map (sends c) (concat ss))"

lemma flow_consume: "flow (consumeCommands d w) c = flow w c"
proof (cases "d \<in> set (consumers w)")
  case True
  then show ?thesis
    by (cases "in_hand w d"; cases "ch_buf (cl_Commands (heap w d))"; cases "chan_send (d, the (in_hand w d)) (h_commands w)")
      (simp_all add: flow_def consumeCommands_def UnregisterClient_def upd_client_def chan_send_simps chan_recv_def
        split: send_result.split)
qed (simp add: consumeCommands_def)

lemma env_flow:
  assumes "c < next_cptr w"
  shows "\<exists>xs. flow (env_step a w) c = flow w c @ xs \<and> subseq xs (sends c a)" and "next_cptr w \<le> next_cptr (env_step a w)"
proof -
  show "\<exists>xs. flow (env_step a w) c = flow w c @ xs \<and> subseq xs (sends c a)"
  proof (cases a)
    case (Consume d)
    then show ?thesis by (simp add: flow_consume)
  next
    case (Enqueue d cmd)
    then show ?thesis
      by (auto simp: flow_def upd_client_def chan_send_simps split: send_result.split)
  qed (use assms in \<open>auto simp: flow_def RegisterClient_def UnregisterClient_def upd_client_def chan_close_def Let_def
      split: send_result.split recv_result.split option.split if_splits\<close>)
  show "next_cptr w \<le> next_cptr (env_step a w)"
    by (cases a) (auto simp: RegisterClient_def UnregisterClient_def consumeCommands_def upd_client_def
        Let_def split: send_result.split recv_result.split option.split)
qed

definition fed :: "world \<Rightarrow> world \<Rightarrow> bool" where
  "fed w w' \<longleftrightarrow> next_cptr w \<le> next_cptr w' \<and> (\<forall>c < next_cptr w. \<exists>xs ys.
     sends_all c (sched w) = ys @ sends_all c (sched w') \<and> flow w' c = flow w c @ xs \<and> subseq xs ys)"

lemma env_run_flow:
  "c < next_cptr w \<Longrightarrow> \<exists>xs. flow (env_run as w) c = flow w c @ xs \<and> subseq xs (concat (map (sends c) as))"
  and env_run_next: "next_cptr w \<le> next_cptr (env_run as w)"
proof (induction as arbitrary: w)
  case (Cons a as)
  {
    case 1
    obtain xs where xs: "flow (env_step a w) c = flow w c @ xs" "subseq xs (sends c a)"
      using env_flow(1)[OF 1] by blast
    have "c < next_cptr (env_step a w)" using env_flow(2)[OF 1, of a] 1 by simp
    from Cons.IH(1)[OF this] obtain ys where ys: "flow (env_run as (env_step a w)) c = flow (env_step a w) c @ ys"
        "subseq ys (concat (map (sends c) as))" by blast
    show ?case
      by (rule exI[of _ "xs @ ys"]) (use xs ys in \<open>simp add: env_run_def list_emb_append_mono\<close>)
  next
    case 2
    have "next_cptr w \<le> next_cptr (env_step a w)"
      by (cases a) (auto simp: RegisterClient_def UnregisterClient_def consumeCommands_def upd_client_def
          Let_def split: send_result.split recv_result.split option.split)
    with Cons.IH(2)[of "env_step a w"] show ?case by (simp add: env_run_def)
  }
qed (auto simp: env_run_def)

lemma fed_others: "fed w (others_step w)"
proof (cases "sched w")
  case (Cons as ss)
  have same: "flow (w\<lparr>sched := ss\<rparr>) c = flow w c" for c by (simp add: flow_def)
  show ?thesis
    using Cons env_run_flow[of _ "w\<lparr>sched := ss\<rparr>" as] env_run_next[of "w\<lparr>sched := ss\<rparr>" as]
    by (fastforce simp: fed_def others_step_def sends_all_def env_run_sched same)
qed (auto simp: fed_def others_step_def)

lemma fed_same:
  assumes "next_cptr w' = next_cptr w" and "sched w' = sched w" and "\<And>c. flow w' c = flow w c"
  shows "fed w w'"
  using assms by (auto simp: fed_def)

lemma fed_trans: "fed w v \<Longrightarrow> fed v u \<Longrightarrow> fed w u"
proof -
  assume wv: "fed w v" and vu: "fed v u"
  have "\<exists>xs ys. sends_all c (sched w) = ys @ sends_all c (sched u) \<and> flow u c = flow w c @ xs \<and> subseq xs ys"
    if c: "c < next_cptr w" for c
  proof -
    obtain xs ys where 1: "sends_all c (sched w) = ys @ sends_all c (sched v)" "flow v c = flow w c @ xs" "subseq xs ys"
      using wv c by (auto simp: fed_def)
    have "c < next_cptr v" using wv c by (auto simp: fed_def)
    then obtain xs' ys' where 2: "sends_all c (sched v) = ys' @ sends_all c (sched u)" "flow u c = flow v c @ xs'" "subseq xs' ys'"
      using vu by (auto simp: fed_def)
    show ?thesis
      by (rule exI[of _ "xs @ xs'"], rule exI[of _ "ys @ ys'"]) (use 1 2 in \<open>simp add: list_emb_append_mono\<close>)
  qed
  with wv vu show ?thesis by (auto simp: fed_def)
qed

interpretation fed: hub_client fed "\<lambda>_. True" "\<lambda>_ _. True" "\<lambda>_. True"
proof
  fix ev c ch and w :: world
  show "fed w w" by (rule fed_same) simp_all
  show "fed w (put_event c ev ch w)" by (rule fed_same) (auto simp: put_event_def upd_client_def flow_def)
  show "fed w (w\<lparr>status := s\<rparr>)" for s by (rule fed_same) (simp_all add: flow_def)
  show "fed w (w\<lparr>database := d\<rparr>)" for d by (rule fed_same) (simp_all add: flow_def)
next
  fix w w' :: world
  assume "same_but_bookkeeping w w'"
  then show "fed w w'" by (intro fed_same) (auto simp: same_but_bookkeeping_def flow_def)
qed (auto simp: fed_others state_io_rel_def intro: fed_trans)


text \<open>The command of a client that a case of the loop takes from the queue, over a run the commands it takes,
  and the commands the client's connection has tried to send.\<close>

definition taken :: "cptr \<Rightarrow> run_case \<Rightarrow> world \<Rightarrow> Command list" where
  "taken c k w = (if k = OnCommand then map snd (filter (\<lambda>x. fst x = c) (take 1 (ch_buf (h_commands w)))) else [])"

fun handled :: "cptr \<Rightarrow> sys_step list \<Rightarrow> world \<Rightarrow> Command list" where
  "handled c [] w = []"
| "handled c (EnvStep a # ss) w = handled c ss (env_step a w)"
| "handled c (HubStep k sch # ss) w = (if status w = Running
     then taken c k w @ handled c ss (after (Run_case k) (w\<lparr>sched := sch\<rparr>)) else handled c ss w)"

fun sends_in :: "cptr \<Rightarrow> sys_step \<Rightarrow> Command list" where
  "sends_in c (EnvStep a) = sends c a"
| "sends_in c (HubStep k sch) = sends_all c sch"

lemma fed_flow:
  assumes "fed v w'" and "c < next_cptr v" and "sched v = sch" and "pre @ flow v c = flow w c"
  shows "\<exists>xs. pre @ flow w' c = flow w c @ xs \<and> subseq xs (sends_all c sch)"
proof -
  obtain xs ys where "sends_all c sch = ys @ sends_all c (sched w')" "flow w' c = flow v c @ xs" "subseq xs ys"
    using assms by (auto simp: fed_def)
  then show ?thesis
    by (intro exI[of _ xs]) (simp add: assms(4)[symmetric] subseq_rev_drop_many)
qed

lemma fed_after: "state_io_rel fed m \<Longrightarrow> fed w (after m w)"
  by (simp add: state_io_rel_def)

lemma Run_case_flow:
  assumes "status w = Running" and "c < next_cptr w"
  shows "(\<exists>xs. taken c k w @ flow (after (Run_case k) (w\<lparr>sched := sch\<rparr>)) c = flow w c @ xs \<and> subseq xs (sends_all c sch))
    \<and> next_cptr w \<le> next_cptr (after (Run_case k) (w\<lparr>sched := sch\<rparr>))"
proof -
  have goal: ?thesis if "fed v (after (Run_case k) (w\<lparr>sched := sch\<rparr>))" "next_cptr v = next_cptr w" "sched v = sch"
      "taken c k w @ flow v c = flow w c" for v
    using fed_flow[OF that(1) _ that(3,4)] that(1,2) assms(2) by (auto simp: fed_def)
  have stay: ?thesis if "after (Run_case k) (w\<lparr>sched := sch\<rparr>) = w\<lparr>sched := sch\<rparr>" "taken c k w = []"
    using that by (intro exI[of _ "[]"] conjI) (auto simp: flow_def)
  show ?thesis
  proof (cases k)
    case OnRegister
    show ?thesis
    proof (cases "ch_buf (h_register w)")
      case Nil
      with OnRegister show ?thesis
        by (intro stay) (simp_all add: Run_case_def hub_read_def chan_recv_def taken_def)
    next
      case (Cons d ds)
      let ?v = "w\<lparr>sched := sch, h_register := (h_register w)\<lparr>ch_buf := ds\<rparr>\<rparr>"
      have "after (Run_case k) (w\<lparr>sched := sch\<rparr>) = after (addClient d) ?v"
        using assms Cons OnRegister by (simp add: Run_case_def hub_read_def hub_do_def chan_recv_def)
      then show ?thesis
        using fed_after[OF fed.hc_rooms(4), of ?v d] OnRegister by (intro goal[of ?v]) (auto simp: taken_def flow_def)
    qed
  next
    case OnUnregister
    show ?thesis
    proof (cases "ch_buf (h_unregister w)")
      case Nil
      with OnUnregister show ?thesis
        by (intro stay) (simp_all add: Run_case_def hub_read_def chan_recv_def taken_def)
    next
      case (Cons d ds)
      let ?v = "w\<lparr>sched := sch, h_unregister := (h_unregister w)\<lparr>ch_buf := ds\<rparr>\<rparr>"
      have "after (Run_case k) (w\<lparr>sched := sch\<rparr>) = after (removeClient d) ?v"
        using assms Cons OnUnregister by (simp add: Run_case_def hub_read_def hub_do_def chan_recv_def)
      then show ?thesis
        using fed_after[OF fed.hc_remove, of ?v d] OnUnregister by (intro goal[of ?v]) (auto simp: taken_def flow_def)
    qed
  next
    case OnCommand
    show ?thesis
    proof (cases "ch_buf (h_commands w)")
      case Nil
      with OnCommand show ?thesis
        by (intro stay) (simp_all add: Run_case_def hub_read_def chan_recv_def taken_def)
    next
      case (Cons d ds)
      let ?v = "w\<lparr>sched := sch, h_commands := (h_commands w)\<lparr>ch_buf := ds\<rparr>\<rparr>"
      have "after (Run_case k) (w\<lparr>sched := sch\<rparr>) = after (handleCommand (fst d) (snd d)) ?v"
        using assms Cons OnCommand by (simp add: Run_case_def hub_read_def hub_do_def chan_recv_def)
      then show ?thesis
        using fed_after[OF fed.hc_command, of ?v "fst d" "snd d"] OnCommand Cons
        by (intro goal[of ?v]) (auto simp: taken_def flow_def)
    qed
  next
    case OnDone
    have "fed (w\<lparr>sched := sch\<rparr>) (after (Run_case k) (w\<lparr>sched := sch\<rparr>))"
      unfolding OnDone Run_case_def run_case.case
      by (intro fed_after fed.eb_bind fed.hc_rooms fed.he_do fed.R_halt)
    then show ?thesis
      using OnDone by (intro goal[of "w\<lparr>sched := sch\<rparr>"]) (auto simp: taken_def flow_def)
  qed
qed

text \<open>(C5) Commands are handled in the order in which they were sent. Over any run of the system, the commands
  the hub takes of a client, followed by those still in flight, are those that were in flight at the start,
  followed by some of those its connection has sent meanwhile, in the order in which it sent them: none
  is overtaken, repeated or made up, and an accepted one is lost only with the hub.\<close>

theorem commands_in_order:
  assumes "c < next_cptr w"
  shows "\<exists>xs. handled c steps w @ flow (run_sys steps w) c = flow w c @ xs \<and> subseq xs (concat (map (sends_in c) steps))"
  using assms
proof (induction c steps w rule: handled.induct)
  case (1 c w)
  then show ?case by simp
next
  case (2 c a ss w)
  obtain xs where xs: "flow (env_step a w) c = flow w c @ xs" "subseq xs (sends c a)"
    using env_flow(1)[OF 2(2)] by blast
  have "c < next_cptr (env_step a w)" using env_flow(2)[OF 2(2), of a] 2(2) by simp
  from 2(1)[OF this] obtain ys where "handled c ss (env_step a w) @ flow (run_sys ss (env_step a w)) c = flow (env_step a w) c @ ys"
    "subseq ys (concat (map (sends_in c) ss))" by blast
  with xs show ?case by (intro exI[of _ "xs @ ys"]) (simp add: list_emb_append_mono)
next
  case (3 c k sch ss w)
  show ?case
  proof (cases "status w = Running")
    case True
    let ?v = "after (Run_case k) (w\<lparr>sched := sch\<rparr>)"
    obtain xs where xs: "taken c k w @ flow ?v c = flow w c @ xs" "subseq xs (sends_all c sch)" and "c < next_cptr ?v"
      using Run_case_flow[OF True 3(3), of k sch] 3(3) by force
    from 3(1)[OF True this(3)] obtain ys where "handled c ss ?v @ flow (run_sys ss ?v) c = flow ?v c @ ys"
      "subseq ys (concat (map (sends_in c) ss))" by blast
    then have "handled c (HubStep k sch # ss) w @ flow (run_sys (HubStep k sch # ss) w) c = (taken c k w @ flow ?v c) @ ys"
      using True by simp
    with xs \<open>subseq ys _\<close> show ?thesis by (intro exI[of _ "xs @ ys"]) (simp add: list_emb_append_mono)
  next
    case False
    from 3(2)[OF this 3(3)] obtain xs where "handled c ss w @ flow (run_sys ss w) c = flow w c @ xs"
      "subseq xs (concat (map (sends_in c) ss))" by blast
    with False show ?thesis by (intro exI[of _ xs]) (simp add: list_emb_append2)
  qed
qed

text \<open>A client that joins a room and at once leaves it: both commands are handled, in that order.\<close>

definition leave_general :: Command where
  "leave_general = (new_command CommandLeaveRoom)\<lparr>cmd_Room := ''general''\<rparr>"

definition order_steps :: "sys_step list" where
  "order_steps = [HubStep OnRegister [], EnvStep (Enqueue 0 join_general), EnvStep (Enqueue 0 leave_general),
     EnvStep (Consume 0), EnvStep (Consume 0), EnvStep (Consume 0), EnvStep (Consume 0), HubStep OnCommand [[Receive 0]]]"

theorem commands_in_order_witness:
  "\<exists>w. handled 0 order_steps w = [join_general] \<and> flow (run_sys order_steps w) 0 = [leave_general]
     \<and> subseq [join_general, leave_general] (concat (map (sends_in 0) order_steps))"
proof -
  let ?w = "env_step (Connect ''a'') demo_start"
  have w: "0 < next_cptr ?w" "flow ?w 0 = []"
    by (simp_all add: demo_start_def run_world flow_def make_chan_def chan_send_def NewClient_def)
  have h: "handled 0 order_steps ?w = [join_general]" "flow (run_sys order_steps ?w) 0 = [leave_general]"
    by (simp_all add: order_steps_def demo_start_def run_world flow_def taken_def join_general_def leave_general_def
        new_command_def joinRoom_def ensureRoom_def room_add_def AddClient_def NewRoom_def joined_room_def
        broadcastToRoom_def Broadcast_def hub_try_send_def others_step_def env_run_def put_event_def)
  have "subseq [join_general, leave_general] (concat (map (sends_in 0) order_steps))"
    using commands_in_order[OF w(1), of order_steps] unfolding w(2) h by auto
  with h show ?thesis by blast
qed


section \<open>What the others can change while the hub is busy\<close>

text \<open>A schedule in which nobody sends commands or makes connections, and a client only takes on an
  identity \<open>P\<close> allows, adds nothing to the commands in flight and gives nobody another identity.\<close>

fun calm_action :: "(cptr \<Rightarrow> userID \<times> string \<times> bool \<Rightarrow> bool) \<Rightarrow> env_action \<Rightarrow> bool" where
  "calm_action P (Identify c u n g) = P c (u, n, g)"
| "calm_action P (Disconnect c) = True"
| "calm_action P (Consume c) = True"
| "calm_action P (Receive c) = True"
| "calm_action P (Connect i) = False"
| "calm_action P (Enqueue c cmd) = False"
| "calm_action P (CloseCommands c) = False"

definition calm_sched :: "(cptr \<Rightarrow> userID \<times> string \<times> bool \<Rightarrow> bool) \<Rightarrow> env_action list list \<Rightarrow> bool" where
  "calm_sched P ss \<longleftrightarrow> list_all (list_all (calm_action P)) ss"

definition contained :: "(cptr \<Rightarrow> userID \<times> string \<times> bool \<Rightarrow> bool) \<Rightarrow> world \<Rightarrow> world \<Rightarrow> bool" where
  "contained P w w' \<longleftrightarrow> (\<forall>c. set (flow w' c) \<subseteq> set (flow w c) \<and> (ident w' c = ident w c \<or> P c (ident w' c)))"

definition kept :: "(cptr \<Rightarrow> userID \<times> string \<times> bool \<Rightarrow> bool) \<Rightarrow> world \<Rightarrow> world \<Rightarrow> bool" where
  "kept P w w' \<longleftrightarrow> (calm_sched P (sched w) \<longrightarrow> calm_sched P (sched w') \<and> contained P w w')"

lemma contained_refl: "contained P w w"
  by (simp add: contained_def)

lemma contained_trans: "contained P w v \<Longrightarrow> contained P v u \<Longrightarrow> contained P w u"
  unfolding contained_def by (metis (mono_tags, lifting) subset_trans)

lemma ident_consume: "ident (consumeCommands d w) c = ident w c"
  by (auto simp: ident_def consumeCommands_def UnregisterClient_def upd_client_def
      split: send_result.split recv_result.split option.split)

lemma contained_same:
  assumes "\<And>c. flow w' c = flow w c" and "\<And>c. ident w' c = ident w c"
  shows "contained P w w'"
  using assms by (simp add: contained_def)

lemma calm_env: "calm_action P a \<Longrightarrow> contained P w (env_step a w)"
proof (cases a)
  case (Identify c u n g)
  moreover assume "calm_action P a"
  ultimately show ?thesis by (auto simp: contained_def flow_def ident_def upd_client_def)
next
  case (Disconnect c)
  then show ?thesis by (auto intro!: contained_same simp: flow_def ident_def UnregisterClient_def split: send_result.split)
next
  case (Receive c)
  then show ?thesis by (auto intro!: contained_same simp: flow_def ident_def upd_client_def split: recv_result.split)
qed (auto intro: contained_same simp: flow_consume ident_consume)

lemma calm_env_run: "list_all (calm_action P) as \<Longrightarrow> contained P w (env_run as w)"
  unfolding env_run_def
  by (induction as arbitrary: w) (auto intro: contained_refl contained_trans calm_env)

lemma kept_same:
  assumes "sched w' = sched w" and "\<And>c. flow w' c = flow w c" and "\<And>c. ident w' c = ident w c"
  shows "kept P w w'"
  using assms contained_same[OF assms(2,3)] by (simp add: kept_def)

lemma kept_others: "kept P w (others_step w)"
proof (cases "sched w")
  case (Cons as ss)
  have "contained P w (w\<lparr>sched := ss\<rparr>)" by (rule contained_same) (simp_all add: flow_def ident_def)
  with Cons show ?thesis
    using contained_trans[OF _ calm_env_run[of P as "w\<lparr>sched := ss\<rparr>"]]
    by (auto simp: kept_def others_step_def calm_sched_def env_run_sched)
qed (simp add: kept_def others_step_def contained_refl)

interpretation kept: hub_loop "kept P" "\<lambda>_. True" "\<lambda>_ _. True" "\<lambda>_. True" for P
proof
  fix w v u :: world
  show "kept P w w" by (rule kept_same) simp_all
  show "kept P w v \<Longrightarrow> kept P v u \<Longrightarrow> kept P w u" by (auto simp: kept_def intro: contained_trans)
  show "kept P w (others_step w)" by (rule kept_others)
next
  fix ev c ch and w :: world
  show "kept P w (put_event c ev ch w)" by (rule kept_same) (auto simp: put_event_def upd_client_def flow_def ident_def)
  show "kept P w (w\<lparr>status := s\<rparr>)" for s by (rule kept_same) (simp_all add: flow_def ident_def)
  show "kept P w (w\<lparr>database := d\<rparr>)" for d by (rule kept_same) (simp_all add: flow_def ident_def)
  show "kept P w (w\<lparr>h_register := q\<rparr>)" for q by (rule kept_same) (simp_all add: flow_def ident_def)
  show "kept P w (w\<lparr>h_unregister := q\<rparr>)" for q by (rule kept_same) (simp_all add: flow_def ident_def)
next
  fix w w' :: world
  assume "same_but_bookkeeping w w'"
  then show "kept P w w'" by (intro kept_same) (auto simp: same_but_bookkeeping_def flow_def)
next
  fix w :: world and x ch
  assume "chan_recv (h_commands w) = RecvValue x ch"
  from go_chan.recv_takes[OF this] show "kept P w (w\<lparr>h_commands := ch\<rparr>)"
    by (auto simp: kept_def contained_def flow_def ident_def)
qed (simp_all add: state_io_rel_def)

text \<open>A step of the hub under a calm schedule.\<close>

lemma calm_run: "calm_sched P ss \<Longrightarrow> contained P w (after (Run_case k) (w\<lparr>sched := ss\<rparr>))"
proof -
  assume "calm_sched P ss"
  moreover have "kept P (w\<lparr>sched := ss\<rparr>) (after (Run_case k) (w\<lparr>sched := ss\<rparr>))"
    using kept.hl_Run_case[of P k] by (simp add: state_io_rel_def)
  moreover have "contained P w (w\<lparr>sched := ss\<rparr>)" by (rule contained_same) (simp_all add: flow_def ident_def)
  ultimately show ?thesis by (auto simp: kept_def intro: contained_trans)
qed

section \<open>Working off the queues\<close>

definition queued :: "world \<Rightarrow> nat" where
  "queued w = length (ch_buf (h_register w)) + length (ch_buf (h_unregister w)) + length (ch_buf (h_commands w))"

fun is_ready :: "run_case \<Rightarrow> world \<Rightarrow> bool" where
  "is_ready OnRegister w = (ch_buf (h_register w) \<noteq> [])"
| "is_ready OnUnregister w = (ch_buf (h_unregister w) \<noteq> [])"
| "is_ready OnCommand w = (ch_buf (h_commands w) \<noteq> [])"
| "is_ready OnDone w = False"

text \<open>While the others do nothing, handling a request touches no queue.\<close>

definition undisturbed :: "world \<Rightarrow> world \<Rightarrow> bool" where
  "undisturbed w w' \<longleftrightarrow> sched w = [] \<longrightarrow> sched w' = [] \<and> h_register w' = h_register w
     \<and> h_unregister w' = h_unregister w \<and> h_commands w' = h_commands w"

interpretation alone: hub_client undisturbed "\<lambda>_. True" "\<lambda>_ _. True" "\<lambda>_. True"
  by unfold_locales (auto simp: undisturbed_def others_step_def put_event_def upd_client_def same_but_bookkeeping_def
      state_io_rel_def)

lemma alone_after: "state_io_rel undisturbed m \<Longrightarrow> sched w = [] \<Longrightarrow> queued (after m w) = queued w"
  by (simp add: state_io_rel_def undisturbed_def queued_def)

lemma ready_case_decreases:
  assumes "status w = Running" and "is_ready k w"
  shows "Suc (queued (after (Run_case k) (w\<lparr>sched := []\<rparr>))) = queued w"
proof (cases k)
  case OnRegister
  then obtain c cs where c: "ch_buf (h_register w) = c # cs" using assms(2) by (auto simp: neq_Nil_conv)
  then have "after (Run_case k) (w\<lparr>sched := []\<rparr>) = after (addClient c) (w\<lparr>sched := [], h_register := (h_register w)\<lparr>ch_buf := cs\<rparr>\<rparr>)"
    using assms OnRegister by (simp add: Run_case_def hub_read_def hub_do_def chan_recv_def)
  then show ?thesis using c by (simp add: alone_after[OF alone.hc_rooms(4)]) (simp add: queued_def)
next
  case OnUnregister
  then obtain c cs where c: "ch_buf (h_unregister w) = c # cs" using assms(2) by (auto simp: neq_Nil_conv)
  then have "after (Run_case k) (w\<lparr>sched := []\<rparr>) = after (removeClient c) (w\<lparr>sched := [], h_unregister := (h_unregister w)\<lparr>ch_buf := cs\<rparr>\<rparr>)"
    using assms OnUnregister by (simp add: Run_case_def hub_read_def hub_do_def chan_recv_def)
  then show ?thesis using c by (simp add: alone_after[OF alone.hc_remove]) (simp add: queued_def)
next
  case OnCommand
  then obtain x xs where x: "ch_buf (h_commands w) = x # xs" using assms(2) by (auto simp: neq_Nil_conv)
  then have "after (Run_case k) (w\<lparr>sched := []\<rparr>)
      = after (handleCommand (fst x) (snd x)) (w\<lparr>sched := [], h_commands := (h_commands w)\<lparr>ch_buf := xs\<rparr>\<rparr>)"
    using assms OnCommand by (simp add: Run_case_def hub_read_def hub_do_def chan_recv_def)
  then show ?thesis using x by (simp add: alone_after[OF alone.hc_command]) (simp add: queued_def)
qed (use assms in simp)

text \<open>The loop of \<open>Run\<close> left to itself: as long as some case is ready, it takes one; \<open>pick\<close> stands for the
  choice \<open>select\<close> makes among them.\<close>

definition alone_step :: "(world \<Rightarrow> run_case) \<Rightarrow> world \<Rightarrow> world" where
  "alone_step pick w = after (Run_case (pick w)) (w\<lparr>sched := []\<rparr>)"

lemma alone_step_decreases:
  "status w = Running \<Longrightarrow> is_ready (pick w) w \<Longrightarrow> Suc (queued (alone_step pick w)) = queued w"
  unfolding alone_step_def by (rule ready_case_decreases)

function run_alone :: "(world \<Rightarrow> run_case) \<Rightarrow> world \<Rightarrow> world" where
  "run_alone pick w = (if status w = Running \<and> is_ready (pick w) w then run_alone pick (alone_step pick w) else w)"
  by pat_completeness auto

termination
  by (relation "measure (\<lambda>(pick, w). queued w)") (auto dest: alone_step_decreases)

declare run_alone.simps [simp del]

text \<open>(C6) The hub works off what is queued. When the other goroutines pause, whichever ready case \<open>select\<close>
  picks each time, the loop ends after at most as many steps as there are requests in the three queues; then the
  queues are empty, or the hub has halted (it waits for a client that does not read, or has panicked).\<close>

theorem hub_drains:
  assumes "\<And>v. 0 < queued v \<Longrightarrow> is_ready (pick v) v"
  shows "(status (run_alone pick w) = Running \<longrightarrow> queued (run_alone pick w) = 0)
    \<and> (\<exists>n \<le> queued w. run_alone pick w = (alone_step pick ^^ n) w)"
proof (induction "queued w" arbitrary: w rule: less_induct)
  case less
  show ?case
  proof (cases "status w = Running \<and> is_ready (pick w) w")
    case True
    have step: "run_alone pick w = run_alone pick (alone_step pick w)" using True by (subst run_alone.simps) simp
    have dec: "Suc (queued (alone_step pick w)) = queued w" using True by (simp add: alone_step_decreases)
    then obtain n where n: "n \<le> queued (alone_step pick w)" "run_alone pick w = (alone_step pick ^^ Suc n) w"
      using less[of "alone_step pick w"] unfolding step by (auto simp: funpow_Suc_right simp del: funpow.simps)
    then show ?thesis using less[of "alone_step pick w"] dec unfolding step[symmetric] by (metis Suc_le_mono lessI)
  next
    case False
    then have "run_alone pick w = w" by (subst run_alone.simps) (simp only: if_False)
    moreover have "status w = Running \<longrightarrow> queued w = 0" using False assms[of w] by auto
    ultimately show ?thesis by (intro conjI exI[of _ 0]) simp_all
  qed
qed

definition pick_first :: "world \<Rightarrow> run_case" where
  "pick_first w = (if ch_buf (h_register w) \<noteq> [] then OnRegister else if ch_buf (h_unregister w) \<noteq> [] then OnUnregister
     else OnCommand)"

theorem hub_drains_witness:
  "queued (run_sys demo_steps demo_start) = 1
    \<and> (\<exists>n \<le> 1. run_alone pick_first (run_sys demo_steps demo_start) = (alone_step pick_first ^^ n) (run_sys demo_steps demo_start))"
proof -
  have q: "queued (run_sys demo_steps demo_start) = 1"
    by (simp add: queued_def demo_steps_def demo_start_def run_world)
  have "0 < queued v \<Longrightarrow> is_ready (pick_first v) v" for v by (auto simp: pick_first_def queued_def)
  from hub_drains[of pick_first "run_sys demo_steps demo_start", OF this] q show ?thesis by simp
qed


section \<open>Waiting for a client\<close>

text \<open>What the steps of the others do to the events of a client: only its own \<open>writeLoop\<close> takes some.\<close>

lemma env_events:
  assumes "c < next_cptr w"
  shows "cl_Events (heap (env_step a w) c) =
    (if a = Receive c then (cl_Events (heap w c))\<lparr>ch_buf := tl (ch_buf (cl_Events (heap w c)))\<rparr> else cl_Events (heap w c))"
  using assms
  by (cases a) (auto simp: RegisterClient_def UnregisterClient_def consumeCommands_def upd_client_def chan_recv_def Let_def
      split: send_result.split recv_result.split option.split list.split)

definition receipts :: "cptr \<Rightarrow> env_action list \<Rightarrow> nat" where
  "receipts c as = length (filter (\<lambda>a. a = Receive c) as)"

lemma receipts_append [simp]: "receipts c (as @ bs) = receipts c as + receipts c bs"
  by (simp add: receipts_def)

lemma env_run_events:
  "c < next_cptr w \<Longrightarrow> cl_Events (heap (env_run as w) c) =
     (cl_Events (heap w c))\<lparr>ch_buf := drop (receipts c as) (ch_buf (cl_Events (heap w c)))\<rparr>"
proof (induction as arbitrary: w)
  case (Cons a as)
  have "c < next_cptr (env_step a w)" using env_flow(2)[OF Cons.prems, of a] Cons.prems by simp
  then show ?case
    using Cons.IH[of "env_step a w"] env_events[OF Cons.prems, of a]
    by (simp add: env_run_def receipts_def drop_Suc)
qed (simp add: env_run_def receipts_def)

lemma send_wait_full:
  assumes "c < next_cptr w" and "\<not> ch_closed (cl_Events (heap w c))" and "length (ch_buf (cl_Events (heap w c))) \<le> ch_cap (cl_Events (heap w c))"
    and "0 < ch_cap (cl_Events (heap w c))" and "status w = Running"
  shows "status (send_wait c ev ss w) =
    (if length (ch_buf (cl_Events (heap w c))) = ch_cap (cl_Events (heap w c)) \<and> receipts c (concat ss) = 0 then Blocked c else Running)"
  using assms
proof (induction ss arbitrary: w)
  case Nil
  then show ?case
    by (subst send_wait.simps) (auto simp: chan_send_simps put_event_def upd_client_def receipts_def split: send_result.split)
next
  case (Cons as ss)
  have ev: "cl_Events (heap (env_run as w) c) =
      (cl_Events (heap w c))\<lparr>ch_buf := drop (receipts c as) (ch_buf (cl_Events (heap w c)))\<rparr>"
    by (rule env_run_events[OF Cons.prems(1)])
  have next': "c < next_cptr (env_run as w)" using env_run_next[of w as] Cons.prems(1) by simp
  show ?case
  proof (cases "length (ch_buf (cl_Events (heap w c))) < ch_cap (cl_Events (heap w c))")
    case True
    then show ?thesis
      using Cons.prems by (subst send_wait.simps) (auto simp: chan_send_simps put_event_def upd_client_def split: send_result.split)
  next
    case False
    then have "status (send_wait c ev (as # ss) w) = status (send_wait c ev ss (env_run as w))"
      using Cons.prems by (subst send_wait.simps) (auto simp: chan_send_simps split: send_result.split)
    also have "\<dots> = (if length (drop (receipts c as) (ch_buf (cl_Events (heap w c)))) = ch_cap (cl_Events (heap w c))
        \<and> receipts c (concat ss) = 0 then Blocked c else Running)"
      using Cons.IH[OF next'] Cons.prems unfolding ev by simp
    also have "\<dots> = (if length (ch_buf (cl_Events (heap w c))) = ch_cap (cl_Events (heap w c)) \<and> receipts c (concat (as # ss)) = 0
        then Blocked c else Running)"
      using False Cons.prems by auto
    finally show ?thesis .
  qed
qed

lemma hub_send_full:
  assumes "c < next_cptr w" and "\<not> ch_closed (cl_Events (heap w c))" and "queue_ok 8 (cl_Events (heap w c))" and "status w = Running"
  shows "status (after (hub_send c ev) w) =
    (if length (ch_buf (cl_Events (heap w c))) = 8 \<and> receipts c (concat (sched w)) = 0 then Blocked c else Running)"
proof (cases "sched w")
  case Nil
  then show ?thesis
    using send_wait_full[of c w ev "[]"] assms by (simp add: hub_send_def hub_do_def Let_def others_step_def queue_ok_def)
next
  case (Cons as ss)
  let ?w = "(env_run as w)\<lparr>sched := ss\<rparr>"
  have w: "others_step w = ?w" using Cons by (simp add: others_step_def env_run_sched)
  have ev: "cl_Events (heap ?w c) = (cl_Events (heap w c))\<lparr>ch_buf := drop (receipts c as) (ch_buf (cl_Events (heap w c)))\<rparr>"
    using env_run_events[OF assms(1)] by simp
  have "c < next_cptr ?w" using env_run_next[of w as] assms(1) by simp
  from send_wait_full[OF this, of ev ss] assms
  show ?thesis
    unfolding ev by (auto simp: hub_send_def hub_do_def Let_def w Cons queue_ok_def)
qed



text \<open>A client that leaves a room it is not in nine times, reads none of the answers, and disconnects.\<close>

definition slow_steps :: "sys_step list" where
  "slow_steps = [EnvStep (Connect ''a''), HubStep OnRegister []]
     @ concat (replicate 8 [EnvStep (Enqueue 0 leave_general), EnvStep (Consume 0), EnvStep (Consume 0), HubStep OnCommand []])
     @ [EnvStep (Enqueue 0 leave_general), EnvStep (Consume 0), EnvStep (Consume 0), EnvStep (Disconnect 0)]"

lemma slow_world:
  "status (run_sys slow_steps demo_start) = Running" "h_clients (run_sys slow_steps demo_start) = [0]"
  "ch_buf (h_commands (run_sys slow_steps demo_start)) = [(0, leave_general)]"
  "h_rooms (run_sys slow_steps demo_start) ''general'' = None"
  "length (ch_buf (cl_Events (heap (run_sys slow_steps demo_start) 0))) = 8"
  by (simp_all add: slow_steps_def demo_start_def run_world leave_general_def new_command_def leaveRoom_def
      hub_send_def others_step_def send_wait.simps put_event_def numeral_eq_Suc)


end
