(* ===== verification/Server.thy ===== *)
theory Server
  imports WebSocket_Props Rest_Props Hub_Order
begin

text \<open>
  The whole server (\<open>internal/app/app.go\<close>, \<open>cmd/server/main.go\<close>): \<open>app.New\<close> puts the store, the services, the
  hub and the two transports together, and the process then interleaves the hub's loop, the goroutines of
  the connections, the REST requests and the passing of time over one database. A REST request and the
  handling of one frame are each one step: the interleaving of the statements of two requests is not
  modelled here (\<open>Call_Race\<close> has the one case where it matters most, two requests for a call in one room).
\<close>

section \<open>Putting the parts together\<close>

text \<open>What is not the program's own: the libraries for tokens and passwords, the token signer of LiveKit, the formats of
  the times in the responses, the match of \<open>LIKE\<close>, the WebSocket library's \<open>CloseStatus\<close>, and \<open>uuid.New\<close>.\<close>

record platform =
  pf_auth :: authLib
  pf_signer :: token_signer
  pf_fmt :: "time \<Rightarrow> string"
  pf_like :: "string \<Rightarrow> string \<Rightarrow> bool"
  pf_CloseStatus :: "goerr option \<Rightarrow> int"
  pf_uuid :: "db \<Rightarrow> string"

record App =
  app_api :: apiServer
  app_ws :: wsHandler
  app_engine :: "engine option"
  app_hub :: world

text \<open>\<open>opened\<close> is what \<open>sqlite.New\<close> returns: the database as it is, or an error. The migrations are applied
  beforehand, by a tool of their own.\<close>

definition app_New :: "platform \<Rightarrow> goerr + db \<Rightarrow> Config \<Rightarrow> goerr + App" where
  "app_New pf opened cfg = (case opened of
       Inl e \<Rightarrow> Inl (ErrWrap ''init store'' e)
     | Inr d \<Rightarrow> (case app_callEngine cfg of
         Inl e \<Rightarrow> Inl e
       | Inr lk \<Rightarrow> (let
           authService = auth_NewService (pf_auth pf) (app_jwtConfig cfg);
           eng = map_option (livekit_engine (pf_signer pf)) lk
           in Inr \<lparr>
             app_api = \<lparr>api_auth = authService, api_calls = calls_New eng '''', api_fmt = pf_fmt pf, api_like = pf_like pf\<rparr>,
             app_ws = \<lparr>ws_authService = authService, ws_config = cfg, ws_CloseStatus = pf_CloseStatus pf\<rparr>,
             app_engine = eng,
             app_hub = NewHub True (Some (calls_service eng (pf_uuid pf))) d\<rparr>)))"

section \<open>The running server\<close>

text \<open>A connection, with the command its read loop is waiting to send, if any.\<close>

record server =
  srv_world :: world
  srv_conns :: "cptr \<Rightarrow> (wsConn \<times> Command option) option"

definition app_Run :: "App \<Rightarrow> server" where
  "app_Run a = \<lparr>srv_world = app_hub a, srv_conns = (\<lambda>_. None)\<rparr>"

definition with_uuid :: "string \<Rightarrow> App \<Rightarrow> apiServer" where
  "with_uuid uuid a = (app_api a)\<lparr>api_calls := calls_New (app_engine a) uuid\<rparr>"

text \<open>The client of a connection is the object the hub has: a frame is handled with the client as it is in the
  heap, and what \<open>handleHello\<close> writes into it is written there.\<close>

definition handle_frame :: "App \<Rightarrow> cptr \<Rightarrow> wsConn \<Rightarrow> goerr + json \<Rightarrow> goerr option \<Rightarrow> server \<Rightarrow> wsOutcome \<times> server" where
  "handle_frame a c conn read writeErr s = (let
     w = srv_world s;
     ((out, conn'), d) = run_state (read_iteration (app_ws a) (clock (database w)) read writeErr
        (conn\<lparr>conn_client := heap w c\<rparr>)) (database w);
     cl = conn_client conn'
     in (out, s\<lparr>srv_world := env_step (Identify c (cl_UserID cl) (cl_Name cl) (cl_IsGuest cl)) (w\<lparr>database := d\<rparr>),
        srv_conns := (srv_conns s)(c \<mapsto> (conn', case out of WsCommand cmd \<Rightarrow> Some cmd | _ \<Rightarrow> None))\<rparr>))"

text \<open>What a greeting of a client can make it, while the hub is busy.\<close>

definition greeting :: "App \<Rightarrow> server \<Rightarrow> cptr \<Rightarrow> userID \<times> string \<times> bool \<Rightarrow> bool" where
  "greeting a s c i \<longleftrightarrow> (\<exists>now inbound cl. handleHello (app_ws a) now (heap (srv_world s) c) inbound = ((None, None), cl)
     \<and> i = (cl_UserID cl, cl_Name cl, cl_IsGuest cl))"

text \<open>
  While the hub handles a request, at every channel operation of its own, \<open>consumeCommands\<close> and \<open>writeLoop\<close> go
  on, connections end, and greetings change the clients the hub may be looking at. Commands that are sent
  meanwhile and connections that are made meanwhile are steps before or after: the hub does not look at the
  channels they change until it takes the next request. No code closes \<open>client.Commands\<close>.
\<close>

inductive server_step :: "App \<Rightarrow> server \<Rightarrow> server \<Rightarrow> bool" for a where
  hub_case: "status (srv_world s) = Running \<Longrightarrow> calm_sched (greeting a s) ss \<Longrightarrow>
    server_step a s (s\<lparr>srv_world := after (Run_case k) ((srv_world s)\<lparr>sched := ss\<rparr>)\<rparr>)"
| rest_request: "server_step a s (s\<lparr>srv_world := (srv_world s)\<lparr>database :=
    after (serve_api (with_uuid uuid a) req authHeader c) (database (srv_world s))\<rparr>\<rparr>)"
| connected: "client = new_connection rand (clock (database (srv_world s))) \<Longrightarrow>
    server_step a s (s\<lparr>srv_world := env_step (Connect (cl_ID client)) (srv_world s),
      srv_conns := (srv_conns s)(next_cptr (srv_world s) \<mapsto> (start_conn (app_ws a) client, None))\<rparr>)"
| frame: "srv_conns s c = Some (conn, None) \<Longrightarrow> handle_frame a c conn read writeErr s = (out, s') \<Longrightarrow> \<nexists>e. out = WsReturn e \<Longrightarrow>
    server_step a s s'"
| submit: "srv_conns s c = Some (conn, Some cmd) \<Longrightarrow> chan_send cmd (cl_Commands (heap (srv_world s) c)) = SendOk ch \<Longrightarrow>
    server_step a s (s\<lparr>srv_world := env_step (Enqueue c cmd) (srv_world s), srv_conns := (srv_conns s)(c \<mapsto> (conn, None))\<rparr>)"
| minute: "srv_conns s c = Some (conn, p) \<Longrightarrow>
    conn' \<in> {conn\<lparr>conn_join := rl_tick (conn_join conn)\<rparr>, conn\<lparr>conn_msg := rl_tick (conn_msg conn)\<rparr>} \<Longrightarrow>
    server_step a s (s\<lparr>srv_conns := (srv_conns s)(c \<mapsto> (conn', p))\<rparr>)"
| pumped: "act \<in> {Consume c, Receive c} \<Longrightarrow> server_step a s (s\<lparr>srv_world := env_step act (srv_world s)\<rparr>)"
| disconnected: "srv_conns s c = Some (conn, None) \<Longrightarrow>
    server_step a s (s\<lparr>srv_world := env_step (Disconnect c) (srv_world s), srv_conns := (srv_conns s)(c := None)\<rparr>)"
| elapsed: "clock (database (srv_world s)) \<le> now \<Longrightarrow> server_step a s (s\<lparr>srv_world := (srv_world s)\<lparr>database :=
    (database (srv_world s))\<lparr>clock := now, faults := fs\<rparr>\<rparr>\<rparr>)"

inductive_cases server_stepE: "server_step a s s'"

section \<open>The hub inside the server\<close>

lemma handle_frame_world:
  assumes "handle_frame a c conn read writeErr s = (out, s')"
  shows "\<exists>u n g conn'. srv_world s' = env_step (Identify c u n g) ((srv_world s)\<lparr>database := after
      (read_iteration (app_ws a) (clock (database (srv_world s))) read writeErr conn') (database (srv_world s))\<rparr>)"
  using assms by (auto simp: handle_frame_def Let_def simp del: env_step.simps split: prod.splits)
    (metis snd_conv)

lemma server_runs_hub:
  assumes "server_step a s s'"
  shows "hub_step\<^sup>*\<^sup>* (srv_world s) (srv_world s')"
  using assms
proof cases
  case (frame c conn read writeErr out)
  then show ?thesis
    using handle_frame_world[OF frame(2)] hub_step.intros(2,3) by (metis converse_rtranclp_into_rtranclp r_into_rtranclp)
qed (auto intro!: r_into_rtranclp intro: hub_step.intros simp del: env_step.simps)

section \<open>The database under the server\<close>

lemma read_iteration_moves: "state_io_rel db_moves (read_iteration h now read writeErr conn)"
proof -
  have member: "state_io_rel db_moves (IsMember u r)" for u r
    unfolding IsMember_def by (intro mv.de_rules)
  have dispatch: "state_io_rel db_moves (dispatch conn cmd e)" for conn cmd e
    unfolding dispatch_def check_room_def by (intro mv.de_rules store_moves member)
  have "state_io_rel db_moves (handle_inbound h now inbound conn)" for inbound
    unfolding handle_inbound_def Let_def
    by (auto split: prod.splits option.splits intro!: mv.de_rules dispatch)
  then show ?thesis
    unfolding read_iteration_def by (intro mv.de_rules)
qed

lemma served_world:
  "state_io_rel db_moves m \<Longrightarrow> served_by svc w (w\<lparr>database := after m (database w)\<rparr>)"
  by (simp add: served_by_def state_io_rel_def)

lemma served_time: "served_by svc w (w\<lparr>database := (database w)\<lparr>clock := t, faults := fs\<rparr>\<rparr>)"
  by (simp add: served_by_def db_moves_def db_ok_def table_oks)

lemma server_step_served:
  assumes "server_step a s s'"
  shows "served_by (calls_service eng draw) (srv_world s) (srv_world s')"
  using assms
proof cases
  case (frame c conn read writeErr out)
  then show ?thesis
    using handle_frame_world[OF frame(2)] live.R_trans[OF served_world[OF read_iteration_moves] live.R_env] by metis
qed (auto simp: live.hc_run served_world[OF served.ac_serve] live.R_env served_time live.R_refl simp del: env_step.simps)

lemma server_run:
  assumes "(server_step a)\<^sup>*\<^sup>* s s'"
  shows "hub_step\<^sup>*\<^sup>* (srv_world s) (srv_world s') \<and> served_by (calls_service eng draw) (srv_world s) (srv_world s')"
  using assms
proof (induction rule: rtranclp_induct)
  case base
  then show ?case by (simp add: live.R_refl)
next
  case (step t u)
  then show ?case
    using server_runs_hub[OF step(2)] live.R_trans[OF _ server_step_served[OF step(2)]] by (meson rtranclp_trans)
qed

lemma app_New_hub:
  "app_New pf (Inr d) cfg = Inr a \<Longrightarrow> app_hub a = NewHub True (Some (calls_service (app_engine a) (pf_uuid pf))) d"
  by (auto simp: app_New_def Let_def split: sum.splits)


definition demo_platform :: platform where
  "demo_platform = \<lparr>pf_auth = demo_lib, pf_signer = (\<lambda>_ _ _. Inr ''jwt''), pf_fmt = (\<lambda>_. ''t''), pf_like = (\<lambda>_ _. False),
     pf_CloseStatus = (\<lambda>_. -1), pf_uuid = (\<lambda>_. ''id'')\<rparr>"


end
