(* ===== verification/Config_Load.thy ===== *)
theory Config_Load
  imports Config
begin

text \<open>
  Where the configuration comes from: \<open>config.Load\<close> and \<open>writeDefaultConfig\<close>
  (\<open>internal/config/loader.go\<close>) and the flags of the command line (\<open>cmd/server/main.go\<close>). The viper and
  yaml libraries are parameters, collected in \<open>configLib\<close>; what their documentation promises is stated
  by \<open>viper_reads\<close>, \<open>viper_unmarshals\<close> and \<open>yaml_roundtrips\<close>, which the theorems name as
  hypotheses. Directories are not part of the state: making one succeeds or fails.
\<close>

section \<open>Settings\<close>

datatype setting = SString string | SInt int | SBool bool | SDuration int

datatype settingKind = KString | KInt | KBool | KDuration

fun kind_of :: "setting \<Rightarrow> settingKind" where
  "kind_of (SString s) = KString"
| "kind_of (SInt n) = KInt"
| "kind_of (SBool b) = KBool"
| "kind_of (SDuration d) = KDuration"

text \<open>The fields of a configuration under the keys their tags give them.\<close>

definition config_settings :: "Config \<Rightarrow> (string \<times> setting) list" where
  "config_settings c = [
     (''addr'', SString (cfg_Addr c)),
     (''database_path'', SString (cfg_DatabasePath c)),
     (''read_header_timeout'', SDuration (cfg_ReadHeaderTimeout c)),
     (''shutdown_timeout'', SDuration (cfg_ShutdownTimeout c)),
     (''max_message_bytes'', SInt (cfg_MaxMessageBytes c)),
     (''rate_limit_join_per_min'', SInt (cfg_RateLimitJoinPerMin c)),
     (''rate_limit_msg_per_min'', SInt (cfg_RateLimitMsgPerMin c)),
     (''ping_interval'', SDuration (cfg_PingInterval c)),
     (''client_idle_timeout'', SDuration (cfg_ClientIdleTimeout c)),
     (''jwt_secret'', SString (cfg_JWTSecret c)),
     (''jwt_audience'', SString (cfg_JWTAudience c)),
     (''jwt_issuer'', SString (cfg_JWTIssuer c)),
     (''jwt_required'', SBool (cfg_JWTRequired c)),
     (''livekit.enabled'', SBool (lk_Enabled (cfg_LiveKit c))),
     (''livekit.api_key'', SString (lk_APIKey (cfg_LiveKit c))),
     (''livekit.api_secret'', SString (lk_APISecret (cfg_LiveKit c))),
     (''livekit.ws_url'', SString (lk_WSURL (cfg_LiveKit c)))]"

section \<open>The operating system and the libraries\<close>

record osState =
  os_files :: "string \<Rightarrow> string option"
  os_env :: "string \<Rightarrow> string"
  os_cwd :: "string option"
  os_mkdir :: "string \<Rightarrow> goerr option"
  os_write :: "string \<Rightarrow> goerr option"

definition os_ErrNotExist :: goerr where
  "os_ErrNotExist = ErrNew ''os.ErrNotExist'' ''file does not exist''"

text \<open>What \<open>Load\<close> has told a viper instance, and the settings it has read from the file.\<close>

record viper =
  vp_type :: string
  vp_defaults :: "(string \<times> setting) list"
  vp_prefix :: string
  vp_replacer :: "(string \<times> string) list"
  vp_automaticEnv :: bool
  vp_file :: string
  vp_config :: "string \<Rightarrow> setting option"

text \<open>
  \<open>lib_Getenv v env key\<close> is the value of the environment variable viper looks up for a key, if it is
  set and not empty; \<open>lib_ReadInConfig\<close> gives the settings of the file, nested keys joined by dots;
  \<open>lib_conv\<close> is the conversion of a setting to the type of a field; \<open>lib_notFound\<close> is whether
  \<open>errors.As\<close> finds a \<open>viper.ConfigFileNotFoundError\<close>.
\<close>

record configLib =
  lib_Join :: "string \<Rightarrow> string \<Rightarrow> string"
  lib_Dir :: "string \<Rightarrow> string"
  lib_Getenv :: "viper \<Rightarrow> (string \<Rightarrow> string) \<Rightarrow> string \<Rightarrow> string option"
  lib_ReadInConfig :: "viper \<Rightarrow> osState \<Rightarrow> goerr + (string \<Rightarrow> setting option)"
  lib_notFound :: "goerr \<Rightarrow> bool"
  lib_conv :: "settingKind \<Rightarrow> setting \<Rightarrow> goerr + setting"
  lib_Unmarshal :: "viper \<Rightarrow> osState \<Rightarrow> Config \<Rightarrow> goerr option \<times> Config"
  lib_Marshal :: "Config \<Rightarrow> goerr + string"

section \<open>Loading\<close>

definition envConfigDefaultPath :: string where
  "envConfigDefaultPath = ''WIRECHAT_CONFIG_DEFAULT_PATH''"

definition default_settings :: "Config \<Rightarrow> (string \<times> setting) list" where
  "default_settings cfg = [
     (''addr'', SString (cfg_Addr cfg)),
     (''database_path'', SString (cfg_DatabasePath cfg)),
     (''read_header_timeout'', SDuration (cfg_ReadHeaderTimeout cfg)),
     (''shutdown_timeout'', SDuration (cfg_ShutdownTimeout cfg)),
     (''max_message_bytes'', SInt (cfg_MaxMessageBytes cfg)),
     (''rate_limit_join_per_min'', SInt (cfg_RateLimitJoinPerMin cfg)),
     (''rate_limit_msg_per_min'', SInt (cfg_RateLimitMsgPerMin cfg)),
     (''ping_interval'', SDuration (cfg_PingInterval cfg)),
     (''client_idle_timeout'', SDuration (cfg_ClientIdleTimeout cfg)),
     (''livekit.enabled'', SBool (lk_Enabled (cfg_LiveKit cfg))),
     (''livekit.api_key'', SString (lk_APIKey (cfg_LiveKit cfg))),
     (''livekit.api_secret'', SString (lk_APISecret (cfg_LiveKit cfg))),
     (''livekit.ws_url'', SString (lk_WSURL (cfg_LiveKit cfg)))]"

definition load_viper :: "Config \<Rightarrow> string \<Rightarrow> viper" where
  "load_viper cfg configPath = \<lparr>vp_type = ''yaml'', vp_defaults = default_settings cfg, vp_prefix = ''WIRECHAT'',
     vp_replacer = [(''.'', ''_'')], vp_automaticEnv = True, vp_file = configPath, vp_config = (\<lambda>_. None)\<rparr>"

definition writeDefaultConfig :: "configLib \<Rightarrow> string \<Rightarrow> Config \<Rightarrow> osState \<Rightarrow> goerr option \<times> osState" where
  "writeDefaultConfig lib path cfg os = (case os_mkdir os (lib_Dir lib path) of
       Some e \<Rightarrow> (Some e, os)
     | None \<Rightarrow> (case lib_Marshal lib cfg of
         Inl e \<Rightarrow> (Some e, os)
       | Inr data \<Rightarrow> (case os_write os path of
           Some e \<Rightarrow> (Some e, os)
         | None \<Rightarrow> (None, os\<lparr>os_files := (os_files os)(path \<mapsto> data)\<rparr>))))"

definition unmarshal_config ::
    "configLib \<Rightarrow> viper \<Rightarrow> string \<Rightarrow> osState \<Rightarrow> Config \<Rightarrow> (Config \<times> string \<times> goerr option) \<times> osState" where
  "unmarshal_config lib v configPath os cfg = (case lib_Unmarshal lib v os cfg of
       (Some e, cfg') \<Rightarrow> ((cfg', configPath, Some (ErrWrap ''unmarshal config'' e)), os)
     | (None, cfg') \<Rightarrow> ((cfg', configPath, None), os))"

definition config_Load :: "configLib \<Rightarrow> string \<Rightarrow> osState \<Rightarrow> (Config \<times> string \<times> goerr option) \<times> osState" where
  "config_Load lib explicitPath os = (let
     cfg = config_Default;
     base = os_env os envConfigDefaultPath;
     configPath = resolveConfigPath (lib_Join lib) base (os_mkdir os base = None) (os_cwd os) explicitPath;
     v = load_viper cfg configPath
     in case lib_ReadInConfig lib v os of
       Inr m \<Rightarrow> unmarshal_config lib (v\<lparr>vp_config := m\<rparr>) configPath os cfg
     | Inl e \<Rightarrow>
         if lib_notFound lib e \<or> errors_is e os_ErrNotExist then
           let (writeErr, os) = writeDefaultConfig lib configPath cfg os
           in case lib_ReadInConfig lib v os of
             Inr m \<Rightarrow> unmarshal_config lib (v\<lparr>vp_config := m\<rparr>) configPath os cfg
           | Inl readErr \<Rightarrow> unmarshal_config lib v configPath os cfg
         else ((cfg, configPath, Some (ErrWrap ''read config'' e)), os))"

text \<open>\<open>changed\<close> says which flags were given on the command line.\<close>

record serverFlags =
  fl_addr :: string
  fl_readHeaderTimeout :: int
  fl_shutdownTimeout :: int
  fl_logLevel :: string
  fl_configPath :: string

definition apply_flags :: "serverFlags \<Rightarrow> (string \<Rightarrow> bool) \<Rightarrow> Config \<Rightarrow> Config" where
  "apply_flags flags changed cfg = (let
     cfg = (if changed ''addr'' then cfg\<lparr>cfg_Addr := fl_addr flags\<rparr> else cfg);
     cfg = (if changed ''read-header-timeout'' then cfg\<lparr>cfg_ReadHeaderTimeout := fl_readHeaderTimeout flags\<rparr> else cfg)
     in (if changed ''shutdown-timeout'' then cfg\<lparr>cfg_ShutdownTimeout := fl_shutdownTimeout flags\<rparr> else cfg))"

section \<open>What the libraries promise\<close>

text \<open>
  A key is known to viper when it has a default or is in the file. For a known key the environment
  comes before the file and the file before the default; a key that is not known is not looked up at all.
\<close>

definition bound_value :: "configLib \<Rightarrow> viper \<Rightarrow> osState \<Rightarrow> string \<Rightarrow> setting option" where
  "bound_value lib v os k =
     (if map_of (vp_defaults v) k = None \<and> vp_config v k = None then None
      else case lib_Getenv lib v (os_env os) k of
        Some t \<Rightarrow> Some (SString t)
      | None \<Rightarrow> (case vp_config v k of Some x \<Rightarrow> Some x | None \<Rightarrow> map_of (vp_defaults v) k))"

definition convertible :: "configLib \<Rightarrow> viper \<Rightarrow> osState \<Rightarrow> Config \<Rightarrow> bool" where
  "convertible lib v os c \<longleftrightarrow> (\<forall>k x y. map_of (config_settings c) k = Some x \<longrightarrow> bound_value lib v os k = Some y \<longrightarrow>
     (\<exists>z. lib_conv lib (kind_of x) y = Inr z))"

definition settings_decoded :: "configLib \<Rightarrow> viper \<Rightarrow> osState \<Rightarrow> Config \<Rightarrow> Config \<Rightarrow> bool" where
  "settings_decoded lib v os c c' \<longleftrightarrow> (\<forall>k x. map_of (config_settings c) k = Some x \<longrightarrow> (case bound_value lib v os k of
       None \<Rightarrow> map_of (config_settings c') k = Some x
     | Some y \<Rightarrow> (\<exists>z. lib_conv lib (kind_of x) y = Inr z \<and> map_of (config_settings c') k = Some z)))"

definition viper_unmarshals :: "configLib \<Rightarrow> bool" where
  "viper_unmarshals lib \<longleftrightarrow> (\<forall>x. lib_conv lib (kind_of x) x = Inr x)
     \<and> (\<forall>v os c. convertible lib v os c \<longrightarrow> (\<exists>c'. lib_Unmarshal lib v os c = (None, c') \<and> settings_decoded lib v os c c'))"

definition viper_reads :: "configLib \<Rightarrow> bool" where
  "viper_reads lib \<longleftrightarrow> (\<forall>v os. os_files os (vp_file v) = None \<longrightarrow>
     (\<exists>e. lib_ReadInConfig lib v os = Inl e \<and> errors_is e os_ErrNotExist))"

text \<open>The text of a configuration reads back as settings that convert to the fields it was made from.\<close>

definition yaml_roundtrips :: "configLib \<Rightarrow> Config \<Rightarrow> bool" where
  "yaml_roundtrips lib c \<longleftrightarrow> (\<exists>yml m. lib_Marshal lib c = Inr yml
     \<and> (\<forall>v os. os_files os (vp_file v) = Some yml \<longrightarrow> lib_ReadInConfig lib v os = Inr m)
     \<and> (\<forall>k x. map_of (config_settings c) k = Some x \<longrightarrow> (\<exists>y. m k = Some y \<and> lib_conv lib (kind_of x) y = Inr x)))"

section \<open>Facts about settings\<close>

lemma config_settings_inj:
  assumes "\<And>k x. map_of (config_settings c) k = Some x \<Longrightarrow> map_of (config_settings c') k = Some x"
  shows "c' = c"
proof -
  have "config_settings c' = config_settings c"
    using assms[of "''addr''"] assms[of "''database_path''"] assms[of "''read_header_timeout''"]
      assms[of "''shutdown_timeout''"] assms[of "''max_message_bytes''"] assms[of "''rate_limit_join_per_min''"]
      assms[of "''rate_limit_msg_per_min''"] assms[of "''ping_interval''"] assms[of "''client_idle_timeout''"]
      assms[of "''jwt_secret''"] assms[of "''jwt_audience''"] assms[of "''jwt_issuer''"] assms[of "''jwt_required''"]
      assms[of "''livekit.enabled''"] assms[of "''livekit.api_key''"] assms[of "''livekit.api_secret''"]
      assms[of "''livekit.ws_url''"]
    by (simp add: config_settings_def)
  then show ?thesis
    by (cases c; cases c'; cases "cfg_LiveKit c"; cases "cfg_LiveKit c'") (simp add: config_settings_def)
qed

abbreviation jwt_keys :: "string set" where
  "jwt_keys \<equiv> {''jwt_secret'', ''jwt_audience'', ''jwt_issuer'', ''jwt_required''}"

text \<open>Every field but those for tokens has a default that viper knows.\<close>

lemma default_settings_keys:
  assumes "map_of (config_settings c) k = Some x"
  shows "map_of (default_settings c) k = (if k \<in> jwt_keys then None else Some x)"
  using assms by (auto simp: config_settings_def default_settings_def split: if_splits)

lemma load_viper_simps [simp]:
  "vp_defaults (load_viper c p) = default_settings c" "vp_file (load_viper c p) = p" "vp_config (load_viper c p) k = None"
  by (simp_all add: load_viper_def)


section \<open>The first start\<close>

abbreviation load_path :: "configLib \<Rightarrow> string \<Rightarrow> osState \<Rightarrow> string" where
  "load_path lib p os \<equiv> resolveConfigPath (lib_Join lib) (os_env os envConfigDefaultPath)
     (os_mkdir os (os_env os envConfigDefaultPath) = None) (os_cwd os) p"

lemma load_file:
  assumes "lib_ReadInConfig lib (load_viper config_Default (load_path lib p os)) os = Inr m"
    and "viper_unmarshals lib"
    and "convertible lib ((load_viper config_Default (load_path lib p os))\<lparr>vp_config := m\<rparr>) os config_Default"
  shows "\<exists>c. config_Load lib p os = ((c, load_path lib p os, None), os)
    \<and> settings_decoded lib ((load_viper config_Default (load_path lib p os))\<lparr>vp_config := m\<rparr>) os config_Default c"
proof -
  let ?v = "(load_viper config_Default (load_path lib p os))\<lparr>vp_config := m\<rparr>"
  obtain c where "lib_Unmarshal lib ?v os config_Default = (None, c)" "settings_decoded lib ?v os config_Default c"
    using assms(2,3) unfolding viper_unmarshals_def by blast
  with assms(1) show ?thesis by (simp add: config_Load_def unmarshal_config_def Let_def)
qed

lemma bound_default:
  assumes "map_of (config_settings config_Default) k = Some x" and "m k = Some y"
    and "lib_Getenv lib (v\<lparr>vp_config := m\<rparr>) (os_env os) k = None"
  shows "bound_value lib (v\<lparr>vp_config := m\<rparr>) os k = Some y"
  using assms by (simp add: bound_value_def)

lemma written_default_loads:
  assumes lib: "viper_unmarshals lib" and m: "lib_ReadInConfig lib (load_viper config_Default (load_path lib p os)) os = Inr m"
    and env: "\<And>v k. lib_Getenv lib v (os_env os) k = None"
    and conv: "\<And>k x. map_of (config_settings config_Default) k = Some x \<Longrightarrow>
      \<exists>y. m k = Some y \<and> lib_conv lib (kind_of x) y = Inr x"
  shows "config_Load lib p os = ((config_Default, load_path lib p os, None), os)"
proof -
  let ?v = "(load_viper config_Default (load_path lib p os))\<lparr>vp_config := m\<rparr>"
  have val: "\<exists>y. bound_value lib ?v os k = Some y \<and> lib_conv lib (kind_of x) y = Inr x"
    if "map_of (config_settings config_Default) k = Some x" for k x
    using conv[OF that] bound_default[of k x m _ lib] that env by blast
  then have "convertible lib ?v os config_Default" by (force simp: convertible_def)
  then obtain c where c: "config_Load lib p os = ((c, load_path lib p os, None), os)" and d: "settings_decoded lib ?v os config_Default c"
    using load_file[OF m lib] by blast
  have "c = config_Default"
    by (rule config_settings_inj) (use d val in \<open>force simp: settings_decoded_def\<close>)
  with c show ?thesis by simp
qed

text \<open>The first start. When there is no configuration file, it can be written and no variable of the
  environment is set, \<open>Load\<close> returns the defaults without an error and leaves a file with them; every
  later start reads that file, changes nothing and returns the same.\<close>

theorem config_first_start:
  assumes "viper_reads lib" and "viper_unmarshals lib" and "yaml_roundtrips lib config_Default"
    and "os_files os (load_path lib p os) = None" and "os_mkdir os (lib_Dir lib (load_path lib p os)) = None"
    and "os_write os (load_path lib p os) = None" and "\<And>v k. lib_Getenv lib v (os_env os) k = None"
  shows "\<exists>yml. lib_Marshal lib config_Default = Inr yml
    \<and> (let os' = os\<lparr>os_files := (os_files os)(load_path lib p os \<mapsto> yml)\<rparr> in
        config_Load lib p os = ((config_Default, load_path lib p os, None), os')
      \<and> config_Load lib p os' = ((config_Default, load_path lib p os, None), os'))"
proof -
  let ?p = "load_path lib p os"
  let ?v = "load_viper config_Default ?p"
  obtain yml m where yml: "lib_Marshal lib config_Default = Inr yml"
    and read: "\<And>v os. os_files os (vp_file v) = Some yml \<Longrightarrow> lib_ReadInConfig lib v os = Inr m"
    and conv: "\<And>k x. map_of (config_settings config_Default) k = Some x \<Longrightarrow>
      \<exists>y. m k = Some y \<and> lib_conv lib (kind_of x) y = Inr x"
    using assms(3) by (auto simp: yaml_roundtrips_def)
  let ?os = "os\<lparr>os_files := (os_files os)(?p \<mapsto> yml)\<rparr>"
  have path: "load_path lib p ?os = ?p" by simp
  have m: "lib_ReadInConfig lib ?v ?os = Inr m" by (rule read) simp
  have second: "config_Load lib p ?os = ((config_Default, ?p, None), ?os)"
    using written_default_loads[OF assms(2), of ?os p m] m assms(7) conv by simp
  obtain e where e: "lib_ReadInConfig lib ?v os = Inl e" "errors_is e os_ErrNotExist"
    using assms(1,4) by (force simp: viper_reads_def)
  have "writeDefaultConfig lib ?p config_Default os = (None, ?os)"
    using assms(5,6) yml by (simp add: writeDefaultConfig_def)
  then have "config_Load lib p os = config_Load lib p ?os"
    using e m by (simp add: config_Load_def Let_def)
  with second yml show ?thesis by (auto simp: Let_def)
qed

section \<open>Precedence\<close>



section \<open>Libraries with this behaviour\<close>

text \<open>A viper that only takes values of the right type, and a yaml format with two documents.\<close>

fun demo_string :: "setting \<Rightarrow> string" where "demo_string (SString s) = s" | "demo_string x = ''''"
fun demo_int :: "setting \<Rightarrow> int" where "demo_int (SInt n) = n" | "demo_int (SDuration n) = n" | "demo_int x = 0"
fun demo_bool :: "setting \<Rightarrow> bool" where "demo_bool (SBool b) = b" | "demo_bool x = False"

definition demo_conv :: "settingKind \<Rightarrow> setting \<Rightarrow> goerr + setting" where
  "demo_conv kd x = (if kind_of x = kd then Inr x else Inl (ErrText ''cannot convert''))"

definition config_of :: "(string \<Rightarrow> setting) \<Rightarrow> Config" where
  "config_of f = \<lparr>cfg_Addr = demo_string (f ''addr''), cfg_DatabasePath = demo_string (f ''database_path''),
     cfg_ReadHeaderTimeout = demo_int (f ''read_header_timeout''), cfg_ShutdownTimeout = demo_int (f ''shutdown_timeout''),
     cfg_MaxMessageBytes = demo_int (f ''max_message_bytes''), cfg_RateLimitJoinPerMin = demo_int (f ''rate_limit_join_per_min''),
     cfg_RateLimitMsgPerMin = demo_int (f ''rate_limit_msg_per_min''), cfg_PingInterval = demo_int (f ''ping_interval''),
     cfg_ClientIdleTimeout = demo_int (f ''client_idle_timeout''), cfg_JWTSecret = demo_string (f ''jwt_secret''),
     cfg_JWTAudience = demo_string (f ''jwt_audience''), cfg_JWTIssuer = demo_string (f ''jwt_issuer''),
     cfg_JWTRequired = demo_bool (f ''jwt_required''),
     cfg_LiveKit = \<lparr>lk_Enabled = demo_bool (f ''livekit.enabled''), lk_APIKey = demo_string (f ''livekit.api_key''),
       lk_APISecret = demo_string (f ''livekit.api_secret''), lk_WSURL = demo_string (f ''livekit.ws_url'')\<rparr>\<rparr>"

lemma kind_of_iff:
  "kind_of x = KString \<longleftrightarrow> (\<exists>s. x = SString s)" "kind_of x = KInt \<longleftrightarrow> (\<exists>n. x = SInt n)"
  "kind_of x = KBool \<longleftrightarrow> (\<exists>b. x = SBool b)" "kind_of x = KDuration \<longleftrightarrow> (\<exists>d. x = SDuration d)"
  by (cases x; simp)+

lemma config_of_settings:
  assumes "\<And>k x. map_of (config_settings c) k = Some x \<Longrightarrow> kind_of (f k) = kind_of x"
    and "map_of (config_settings c) k = Some x"
  shows "map_of (config_settings (config_of f)) k = Some (f k)"
  using assms(1)[OF assms(2)] assms(2)
  by (auto simp: config_settings_def config_of_def kind_of_iff split: if_splits)

definition demo_getenv :: "viper \<Rightarrow> (string \<Rightarrow> string) \<Rightarrow> string \<Rightarrow> string option" where
  "demo_getenv v env k = (let t = env (vp_prefix v @ ''_'' @ k) in if t = '''' then None else Some t)"

definition demo_read :: "viper \<Rightarrow> osState \<Rightarrow> goerr + (string \<Rightarrow> setting option)" where
  "demo_read v os = (case os_files os (vp_file v) of
       None \<Rightarrow> Inl (ErrWrap ''open'' os_ErrNotExist)
     | Some t \<Rightarrow> if t = ''defaults'' then Inr (map_of (config_settings config_Default))
                else if t = ''addr only'' then Inr [''addr'' \<mapsto> SString '':9000'']
                else Inl (ErrText ''yaml: did not find expected key''))"

definition demo_viper :: configLib where
  "demo_viper = \<lparr>lib_Join = (\<lambda>d f. d @ ''/'' @ f), lib_Dir = (\<lambda>p. p), lib_Getenv = demo_getenv, lib_ReadInConfig = demo_read,
     lib_notFound = (\<lambda>_. False), lib_conv = demo_conv, lib_Unmarshal = (\<lambda>v os c. (None, c)),
     lib_Marshal = (\<lambda>_. Inr ''defaults'')\<rparr>"

definition demo_field :: "viper \<Rightarrow> osState \<Rightarrow> Config \<Rightarrow> string \<Rightarrow> setting" where
  "demo_field v os c k = (case map_of (config_settings c) k of
       None \<Rightarrow> SInt 0
     | Some x \<Rightarrow> (case bound_value demo_viper v os k of
         None \<Rightarrow> x | Some y \<Rightarrow> (case demo_conv (kind_of x) y of Inr z \<Rightarrow> z | Inl _ \<Rightarrow> x)))"

definition demo_config_lib :: configLib where
  "demo_config_lib = demo_viper\<lparr>lib_Unmarshal := (\<lambda>v os c. (None, config_of (demo_field v os c)))\<rparr>"

lemma demo_bound: "bound_value demo_config_lib = bound_value demo_viper"
  by (simp add: bound_value_def demo_config_lib_def fun_eq_iff)

lemma demo_lib_fields:
  "lib_conv demo_config_lib = demo_conv" "lib_Getenv demo_config_lib = demo_getenv"
  "lib_ReadInConfig demo_config_lib = demo_read" "lib_Marshal demo_config_lib c = Inr ''defaults''"
  "lib_Unmarshal demo_config_lib v os c = (None, config_of (demo_field v os c))"
  "lib_Join demo_config_lib d f = d @ ''/'' @ f" "lib_notFound demo_config_lib e = False"
  by (simp_all add: demo_config_lib_def demo_viper_def)

lemma demo_unmarshals: "viper_unmarshals demo_config_lib"
proof -
  have kind: "kind_of (demo_field v os c k) = kind_of x" if "map_of (config_settings c) k = Some x" for v os c k x
    using that by (auto simp: demo_field_def demo_conv_def split: option.split)
  have "settings_decoded demo_config_lib v os c (config_of (demo_field v os c))" if "convertible demo_config_lib v os c" for v os c
    unfolding settings_decoded_def
  proof (intro allI impI)
    fix k x
    assume k: "map_of (config_settings c) k = Some x"
    have z: "map_of (config_settings (config_of (demo_field v os c))) k = Some (demo_field v os c k)"
      by (rule config_of_settings[OF kind k])
    show "case bound_value demo_config_lib v os k of
        None \<Rightarrow> map_of (config_settings (config_of (demo_field v os c))) k = Some x
      | Some y \<Rightarrow> \<exists>z. lib_conv demo_config_lib (kind_of x) y = Inr z
          \<and> map_of (config_settings (config_of (demo_field v os c))) k = Some z"
      using that[unfolded convertible_def, rule_format, OF k] k unfolding z
      by (fastforce simp: demo_field_def demo_bound demo_lib_fields split: option.split)
  qed
  then show ?thesis
    by (auto simp: viper_unmarshals_def demo_lib_fields demo_conv_def)
qed

lemma demo_reads: "viper_reads demo_config_lib"
  by (simp add: viper_reads_def demo_lib_fields demo_read_def)

lemma demo_roundtrips: "yaml_roundtrips demo_config_lib config_Default"
  by (auto simp: yaml_roundtrips_def demo_lib_fields demo_read_def demo_conv_def)

definition demo_os :: osState where
  "demo_os = \<lparr>os_files = [''old.yaml'' \<mapsto> ''addr only''], os_env = (\<lambda>_. ''''), os_cwd = Some ''/srv'', os_mkdir = (\<lambda>_. None),
     os_write = (\<lambda>_. None)\<rparr>"

theorem config_first_start_witness:
  "\<exists>os'. os_files os' ''/srv/config.yaml'' = Some ''defaults''
     \<and> config_Load demo_config_lib '''' demo_os = ((config_Default, ''/srv/config.yaml'', None), os')
     \<and> config_Load demo_config_lib '''' os' = ((config_Default, ''/srv/config.yaml'', None), os')"
  using config_first_start[OF demo_reads demo_unmarshals demo_roundtrips, of demo_os "''''"]
  by (auto simp: demo_lib_fields demo_os_def resolveConfigPath_def defaultConfigName_def demo_getenv_def Let_def)

text \<open>A file that only sets the address, and an environment that sets the secret.\<close>

definition demo_os_env :: osState where
  "demo_os_env = demo_os\<lparr>os_env := (\<lambda>n. if n = ''WIRECHAT_jwt_secret'' then ''s3cret'' else '''')\<rparr>"


end
