(* ===== verification/Store_Contract.thy ===== *)
theory Store_Contract
  imports Rest_Props
begin

text \<open>
  The storage interfaces of \<open>internal/store/store.go\<close> as records of their methods, and the SQLite store as
  an instance. What the rest of the server relies on for access to rooms is the contract
  \<open>membership_store\<close>: a store of pairs of a user and a room. Its clients see a set that is changed by
  exactly the calls that report success, whatever the driver does.
\<close>

section \<open>The interfaces\<close>

record UserStore =
  us_CreateUser :: "string \<Rightarrow> string \<Rightarrow> (goerr + user) dbm"
  us_CreateGuestUser :: "string \<Rightarrow> (goerr + user) dbm"
  us_GetUserByID :: "userID \<Rightarrow> (goerr + user) dbm"
  us_GetUserByUsername :: "string \<Rightarrow> (goerr + user) dbm"
  us_GetUserBySessionID :: "string \<Rightarrow> (goerr + user) dbm"
  us_GetUserCallSettings :: "userID \<Rightarrow> (goerr + string) dbm"
  us_UpdateUserCallSettings :: "userID \<Rightarrow> string \<Rightarrow> (goerr + unit) dbm"
  us_SearchUsers :: "string \<Rightarrow> user rows dbm"

record RoomStore =
  rs_CreateRoom :: "string \<Rightarrow> string \<Rightarrow> userID option \<Rightarrow> (goerr + room) dbm"
  rs_CreateDirectRoom :: "string \<Rightarrow> userID \<Rightarrow> userID \<Rightarrow> (goerr + room) dbm"
  rs_GetRoomByID :: "roomID \<Rightarrow> (goerr + room) dbm"
  rs_GetRoomByName :: "string \<Rightarrow> (goerr + room) dbm"
  rs_GetRoomByDirectKey :: "string \<Rightarrow> (goerr + room) dbm"
  rs_ListRooms :: "userID \<Rightarrow> room rows dbm"
  rs_AddMember :: "userID \<Rightarrow> roomID \<Rightarrow> (goerr + unit) dbm"
  rs_RemoveMember :: "userID \<Rightarrow> roomID \<Rightarrow> (goerr + unit) dbm"
  rs_IsMember :: "userID \<Rightarrow> roomID \<Rightarrow> (goerr + bool) dbm"
  rs_ListMembers :: "roomID \<Rightarrow> userID rows dbm"

text \<open>\<open>SaveMessage\<close> and \<open>AddParticipant\<close> write the new id into the struct they are given: the methods return it.\<close>

record MessageStore =
  ms_SaveMessage :: "message \<Rightarrow> (goerr + message) dbm"
  ms_ListMessages :: "roomID \<Rightarrow> int \<Rightarrow> int64 option \<Rightarrow> message rows dbm"

record FriendStore =
  fs_CreateFriendRequest :: "userID \<Rightarrow> userID \<Rightarrow> (goerr + friend) dbm"
  fs_UpdateFriendStatus :: "userID \<Rightarrow> userID \<Rightarrow> string \<Rightarrow> (goerr + unit) dbm"
  fs_GetFriendship :: "userID \<Rightarrow> userID \<Rightarrow> (goerr + friend) dbm"
  fs_ListFriends :: "userID \<Rightarrow> string option \<Rightarrow> friend rows dbm"
  fs_IsFriend :: "userID \<Rightarrow> userID \<Rightarrow> (goerr + bool) dbm"
  fs_DeleteFriendship :: "userID \<Rightarrow> userID \<Rightarrow> (goerr + unit) dbm"

record CallStore =
  cst_CreateCall :: "call \<Rightarrow> (goerr + unit) dbm"
  cst_UpdateCall :: "call \<Rightarrow> (goerr + unit) dbm"
  cst_GetCall :: "callID \<Rightarrow> (goerr + call) dbm"
  cst_ListActiveCalls :: "userID \<Rightarrow> call rows dbm"
  cst_GetActiveCallForRoom :: "roomID \<Rightarrow> (goerr + call option) dbm"
  cst_AddParticipant :: "callParticipant \<Rightarrow> (goerr + callParticipant) dbm"
  cst_UpdateParticipant :: "callParticipant \<Rightarrow> (goerr + unit) dbm"
  cst_GetParticipant :: "callID \<Rightarrow> userID \<Rightarrow> (goerr + callParticipant) dbm"
  cst_ListParticipants :: "callID \<Rightarrow> callParticipant rows dbm"

record storeAPI =
  store_users :: UserStore
  store_rooms :: RoomStore
  store_messages :: MessageStore
  store_friends :: FriendStore
  store_calls :: CallStore

text \<open>\<open>like\<close> is the match of the SQL operator \<open>LIKE\<close>.\<close>

definition sqlite_store :: "(string \<Rightarrow> string \<Rightarrow> bool) \<Rightarrow> storeAPI" where
  "sqlite_store like = \<lparr>
     store_users = \<lparr>us_CreateUser = CreateUser, us_CreateGuestUser = CreateGuestUser, us_GetUserByID = GetUserByID,
       us_GetUserByUsername = GetUserByUsername, us_GetUserBySessionID = GetUserBySessionID,
       us_GetUserCallSettings = GetUserCallSettings, us_UpdateUserCallSettings = UpdateUserCallSettings,
       us_SearchUsers = SearchUsers like\<rparr>,
     store_rooms = \<lparr>rs_CreateRoom = CreateRoom, rs_CreateDirectRoom = CreateDirectRoom, rs_GetRoomByID = GetRoomByID,
       rs_GetRoomByName = GetRoomByName, rs_GetRoomByDirectKey = GetRoomByDirectKey, rs_ListRooms = ListRooms,
       rs_AddMember = AddMember, rs_RemoveMember = RemoveMember, rs_IsMember = IsMember, rs_ListMembers = ListMembers\<rparr>,
     store_messages = \<lparr>ms_SaveMessage = SaveMessage, ms_ListMessages = ListMessages\<rparr>,
     store_friends = \<lparr>fs_CreateFriendRequest = CreateFriendRequest, fs_UpdateFriendStatus = UpdateFriendStatus,
       fs_GetFriendship = GetFriendship, fs_ListFriends = store_ListFriends, fs_IsFriend = store_IsFriend,
       fs_DeleteFriendship = DeleteFriendship\<rparr>,
     store_calls = \<lparr>cst_CreateCall = store_CreateCall, cst_UpdateCall = UpdateCall, cst_GetCall = store_GetCall,
       cst_ListActiveCalls = store_ListActiveCalls, cst_GetActiveCallForRoom = GetActiveCallForRoom,
       cst_AddParticipant = AddParticipant, cst_UpdateParticipant = UpdateParticipant,
       cst_GetParticipant = GetParticipant, cst_ListParticipants = ListParticipants\<rparr>\<rparr>"

section \<open>Membership as a set\<close>

datatype member_op = Add userID roomID | Remove userID roomID

fun member_call :: "RoomStore \<Rightarrow> member_op \<Rightarrow> (goerr + unit) dbm" where
  "member_call st (Add u r) = rs_AddMember st u r"
| "member_call st (Remove u r) = rs_RemoveMember st u r"

fun member_spec :: "member_op \<Rightarrow> (userID \<times> roomID) set \<Rightarrow> (userID \<times> roomID) set" where
  "member_spec (Add u r) M = insert (u, r) M"
| "member_spec (Remove u r) M = M - {(u, r)}"

text \<open>A sequence of calls, and which of them reported success.\<close>

fun member_calls :: "RoomStore \<Rightarrow> member_op list \<Rightarrow> (member_op \<times> bool) list dbm" where
  "member_calls st [] = return []"
| "member_calls st (op # ops) = do {
     x \<leftarrow> member_call st op;
     log \<leftarrow> member_calls st ops;
     return ((op, x = Inr ()) # log) }"

definition spec_log :: "(member_op \<times> bool) list \<Rightarrow> (userID \<times> roomID) set \<Rightarrow> (userID \<times> roomID) set" where
  "spec_log log M = fold (\<lambda>(op, ok). if ok then member_spec op else id) log M"

locale membership_store =
  fixes st :: RoomStore and M :: "db \<Rightarrow> (userID \<times> roomID) set" and ok :: "db \<Rightarrow> bool"
  assumes call_done: "run_state (member_call st op) d = (Inr x, d') \<Longrightarrow> M d' = member_spec op (M d)"
    and call_failed: "run_state (member_call st op) d = (Inl e, d') \<Longrightarrow> M d' = M d"
    and call_ok: "ok d \<Longrightarrow> ok (after (member_call st op) d)"
    and is_member: "run_state (rs_IsMember st u r) d = (Inr b, d') \<Longrightarrow> b \<longleftrightarrow> (u, r) \<in> M d"
    and list_members: "run_state (rs_ListMembers st r) d = ((us, None), d') \<Longrightarrow> ok d \<Longrightarrow>
      distinct us \<and> set us = {u. (u, r) \<in> M d}"
begin

lemma calls_log:
  "run_state (member_calls st ops) d = (log, d') \<Longrightarrow>
     map fst log = ops \<and> M d' = spec_log log (M d) \<and> (ok d \<longrightarrow> ok d')"
proof (induction ops arbitrary: d log)
  case (Cons op ops)
  obtain x d1 where 1: "run_state (member_call st op) d = (x, d1)" by (rule prod.exhaust)
  obtain l where l: "run_state (member_calls st ops) d1 = (l, d')" and log: "log = (op, x = Inr ()) # l"
    using Cons.prems 1 by (auto split: prod.splits)
  have "M d1 = (if x = Inr () then member_spec op (M d) else M d)"
    using 1 call_done[of op d _ d1] call_failed[of op d _ d1] by (cases x) auto
  moreover have "ok d \<Longrightarrow> ok d1" using call_ok[of d op] 1 by simp
  ultimately show ?case
    using Cons.IH[OF l] by (auto simp: log spec_log_def)
qed (simp add: spec_log_def)

lemma answers_after:
  assumes "run_state (member_calls st ops) d = (log, d')"
  shows "run_state (rs_IsMember st u r) d' = (Inr b, d'') \<Longrightarrow> b \<longleftrightarrow> (u, r) \<in> spec_log log (M d)"
    and "run_state (rs_ListMembers st r) d' = ((us, None), d'') \<Longrightarrow> ok d \<Longrightarrow>
      distinct us \<and> set us = {u. (u, r) \<in> spec_log log (M d)}"
  using calls_log[OF assms] is_member[of u r d'] list_members[of r d'] by auto

end

lemma sqlite_call:
  "run_state (member_call (store_rooms (sqlite_store like)) op) d = (x, d') \<Longrightarrow>
     membership d' = (case x of Inr _ \<Rightarrow> member_spec op (membership d) | Inl _ \<Rightarrow> membership d)"
  by (cases op) (auto simp: sqlite_store_def AddMember_def RemoveMember_def run_db insert_member_def membership_def image_iff
      split: option.splits fault.splits sum.splits if_splits)

interpretation sqlite_rooms: membership_store "store_rooms (sqlite_store like)" membership members_ok for like
proof
  fix op d x d' e
  show "run_state (member_call (store_rooms (sqlite_store like)) op) d = (Inr x, d') \<Longrightarrow>
      membership d' = member_spec op (membership d)"
    and "run_state (member_call (store_rooms (sqlite_store like)) op) d = (Inl e, d') \<Longrightarrow> membership d' = membership d"
    by (drule sqlite_call; simp)+
next
  fix d op
  assume "members_ok d"
  then show "members_ok (after (member_call (store_rooms (sqlite_store like)) op) d)"
    by (cases op) (auto simp: sqlite_store_def AddMember_def RemoveMember_def run_db insert_member_def members_ok_def
        distinct_map_filter image_iff split: option.splits fault.splits sum.splits if_splits)
next
  fix u r d b d'
  assume "run_state (rs_IsMember (store_rooms (sqlite_store like)) u r) d = (Inr b, d')"
  then show "b \<longleftrightarrow> (u, r) \<in> membership d"
    by (force simp: sqlite_store_def IsMember_run membership_def split: option.splits)
next
  fix r d us d'
  assume "run_state (rs_ListMembers (store_rooms (sqlite_store like)) r) d = ((us, None), d')" and "members_ok d"
  then show "distinct us \<and> set us = {u. (u, r) \<in> membership d}"
    by (auto simp: sqlite_store_def ListMembers_def run_db membership_def members_ok_def distinct_map image_iff
        inj_on_def split: option.splits fault.splits)
qed

text \<open>(C36) The store keeps membership. Take any sequence of calls of \<open>AddMember\<close> and \<open>RemoveMember\<close>, with any
  faults of the driver. Afterwards \<open>IsMember\<close>, when it answers, and \<open>ListMembers\<close>, when it reports no error,
  speak of exactly the set that the calls that reported success make of the initial one, and
  \<open>ListMembers\<close> lists nobody twice; without faults every call succeeds.\<close>

theorem membership_refines_set:
  assumes "run_state (member_calls (store_rooms (sqlite_store like)) ops) d = (log, d')" and "db_ok d"
  shows "map fst log = ops \<and> (faults d = [] \<longrightarrow> (\<forall>x \<in> set log. snd x))
    \<and> (\<forall>u r b. result_of (IsMember u r) d' = Inr b \<longrightarrow> b = ((u, r) \<in> spec_log log (membership d)))
    \<and> (\<forall>r us. result_of (ListMembers r) d' = (us, None) \<longrightarrow>
         distinct us \<and> set us = {u. (u, r) \<in> spec_log log (membership d)})"
proof -
  let ?st = "store_rooms (sqlite_store like)"
  have fields: "rs_IsMember ?st = IsMember" "rs_ListMembers ?st = ListMembers" by (simp_all add: sqlite_store_def)
  have one: "fst (run_state (member_call ?st op) e) = Inr () \<and> faults (after (member_call ?st op) e) = []"
    if "faults e = []" for op e
    using that by (cases op) (auto simp: sqlite_store_def AddMember_def RemoveMember_def run_db insert_member_def
        split: sum.splits)
  have ok: "faults e = [] \<Longrightarrow> \<forall>x \<in> set (fst (run_state (member_calls ?st ops) e)). snd x" for ops e
  proof (induction ops arbitrary: e)
    case (Cons op ops)
    obtain d1 where 1: "run_state (member_call ?st op) e = (Inr (), d1)" "faults d1 = []"
      using one[OF Cons.prems, of op] by (metis prod.collapse)
    then show ?case using Cons.IH[OF 1(2)] by (auto split: prod.splits)
  qed simp
  have "members_ok d" using assms(2) by (simp add: db_ok_def)
  note answers = sqlite_rooms.answers_after[OF assms(1), unfolded fields]
  show ?thesis
    using sqlite_rooms.calls_log[OF assms(1)] answers(1)[OF prod.collapse[symmetric, THEN trans]] ok[of d ops] assms(1)
      answers(2) \<open>members_ok d\<close>
    by (metis fst_conv prod.collapse)
qed


text \<open>The second of three calls fails: the user it would have removed is still a member.\<close>

definition demo_faulty :: db where
  "demo_faulty = (init_db 0)\<lparr>faults := [None, Some (FaultStmt ''disk I/O error''), None, None]\<rparr>"

theorem membership_refines_set_witness:
  "\<exists>log d'. run_state (member_calls (store_rooms (sqlite_store (\<lambda>_ _. False))) [Add 1 7, Remove 1 7, Add 2 7]) demo_faulty = (log, d')
     \<and> log = [(Add 1 7, True), (Remove 1 7, False), (Add 2 7, True)]
     \<and> set (fst (result_of (ListMembers 7) d')) = {1, 2}"
proof -
  let ?st = "store_rooms (sqlite_store (\<lambda>_ _. False))"
  obtain log d' where run: "run_state (member_calls ?st [Add 1 7, Remove 1 7, Add 2 7]) demo_faulty = (log, d')"
    by (rule prod.exhaust)
  have "db_ok demo_faulty"
    using db_ok_init[of 0] by (simp add: demo_faulty_def db_ok_def table_oks)
  note facts = membership_refines_set[OF run this]
  have log: "log = [(Add 1 7, True), (Remove 1 7, False), (Add 2 7, True)] \<and> snd (result_of (ListMembers 7) d') = None"
    using run by (auto simp: sqlite_store_def AddMember_def RemoveMember_def ListMembers_def run_db insert_member_def
        demo_faulty_def init_db_def fault_now_def pop_fault_def)
  then have "result_of (ListMembers 7) d' = (fst (result_of (ListMembers 7) d'), None)" by (metis prod.collapse)
  then have "set (fst (result_of (ListMembers 7) d')) = {u. (u, 7) \<in> spec_log log (membership demo_faulty)}"
    using facts by blast
  also have "\<dots> = {1, 2}"
    using log by (auto simp: spec_log_def membership_def demo_faulty_def init_db_def)
  finally have "set (fst (result_of (ListMembers 7) d')) = {1, 2}" .
  with run log show ?thesis by blast
qed

end
