(* ===== verification/Process.thy ===== *)
theory Process
  imports Server Config_Load Store_Contract
begin

text \<open>
  The process around the server (\<open>cmd/server/main.go\<close>, \<open>internal/app/app.go\<close>, the outer layer of
  \<open>internal/transport/http/server.go\<close>, and opening and closing the database in
  \<open>internal/store/sqlite/sqlite.go\<close>): which handler a request reaches, how the process starts, and how it
  ends. The operating system, the SQL driver, gin's matching of routes and the HTTP server's own results are
  parameters. Logging is left out, but for \<open>logger.Fatal\<close>, which ends the process.
\<close>

section \<open>Opening and closing the store\<close>

text \<open>A handle of \<open>database/sql\<close> with its limits; zero is the library's default. The state is the
  list of the handles that are open.\<close>

record sqlDB =
  sd_dsn :: string
  sd_MaxOpenConns :: nat
  sd_MaxIdleConns :: nat

record sqlDriver =
  drv_Open :: "string \<Rightarrow> goerr option"
  drv_Ping :: "string \<Rightarrow> goerr option"
  drv_Close :: "string \<Rightarrow> goerr option"
  drv_contents :: "string \<Rightarrow> db"

definition sqlite_dsn :: "string \<Rightarrow> string" where
  "sqlite_dsn dbPath = dbPath @ ''?_journal_mode=WAL&_busy_timeout=5000''"

definition sqlite_New :: "sqlDriver \<Rightarrow> string \<Rightarrow> sqlDB list \<Rightarrow> (goerr + sqlDB) \<times> sqlDB list" where
  "sqlite_New drv dbPath open_dbs = (let
     h = \<lparr>sd_dsn = sqlite_dsn dbPath, sd_MaxOpenConns = 0, sd_MaxIdleConns = 0\<rparr>
     in case drv_Open drv (sd_dsn h) of
       Some e \<Rightarrow> (Inl (ErrWrap ''open sqlite'' e), open_dbs)
     | None \<Rightarrow> (case drv_Ping drv (sd_dsn h) of
         Some e \<Rightarrow> (Inl (ErrWrap ''ping sqlite'' e), h # open_dbs)
       | None \<Rightarrow> (let h = h\<lparr>sd_MaxOpenConns := 1, sd_MaxIdleConns := 1\<rparr> in (Inr h, h # open_dbs))))"

definition sqlite_NewWithSetup ::
    "sqlDriver \<Rightarrow> string \<Rightarrow> (sqlDB \<Rightarrow> goerr option) option \<Rightarrow> sqlDB list \<Rightarrow> (goerr + sqlDB) \<times> sqlDB list" where
  "sqlite_NewWithSetup drv dbPath setup open_dbs = (let
     h = \<lparr>sd_dsn = sqlite_dsn dbPath, sd_MaxOpenConns = 1, sd_MaxIdleConns = 1\<rparr>
     in case drv_Open drv (sd_dsn h) of
       Some e \<Rightarrow> (Inl (ErrWrap ''open sqlite'' e), open_dbs)
     | None \<Rightarrow> (case (case setup of None \<Rightarrow> None | Some f \<Rightarrow> f h) of
         Some e \<Rightarrow> (Inl (ErrWrap ''setup'' e), open_dbs)
       | None \<Rightarrow> (case drv_Ping drv (sd_dsn h) of
           Some e \<Rightarrow> (Inl (ErrWrap ''ping sqlite'' e), open_dbs)
         | None \<Rightarrow> (Inr h, h # open_dbs))))"

definition sqlite_Close :: "sqlDriver \<Rightarrow> sqlDB \<Rightarrow> sqlDB list \<Rightarrow> goerr option \<times> sqlDB list" where
  "sqlite_Close drv h open_dbs = (drv_Close drv (sd_dsn h), remove1 h open_dbs)"

section \<open>Requests\<close>

text \<open>The patterns of the main multiplexer, on a path without \<open>.\<close>, \<open>..\<close> and empty elements: a pattern that
  ends in a slash matches every path below it, and \<open>net/http\<close> redirects the path without the slash.\<close>

datatype httpHandler = HealthHandler | WebSocketHandler | GinHandler | RedirectTo string | NotFoundHandler

definition mux_handler :: "string \<Rightarrow> httpHandler" where
  "mux_handler path =
     (if path = ''/health'' then HealthHandler
      else if path = ''/ws'' then WebSocketHandler
      else if take 5 path = ''/api/'' then GinHandler
      else if path = ''/api'' then RedirectTo ''/api/''
      else NotFoundHandler)"

text \<open>The routes of the REST interface in the order of registration: method, pattern, and whether the
  authentication middleware is in the chain.\<close>

definition api_routes :: "(string \<times> string \<times> bool) list" where
  "api_routes = [
     (''GET'', ''/api/ping'', False),
     (''POST'', ''/api/register'', False),
     (''POST'', ''/api/login'', False),
     (''POST'', ''/api/guest'', False),
     (''POST'', ''/api/rooms'', True),
     (''GET'', ''/api/rooms'', True),
     (''POST'', ''/api/rooms/direct'', True),
     (''POST'', ''/api/rooms/:id/join'', True),
     (''DELETE'', ''/api/rooms/:id/leave'', True),
     (''POST'', ''/api/rooms/:id/members'', True),
     (''DELETE'', ''/api/rooms/:id/members/:userId'', True),
     (''GET'', ''/api/rooms/:id/messages'', True),
     (''POST'', ''/api/friends/requests'', True),
     (''GET'', ''/api/friends'', True),
     (''GET'', ''/api/friends/requests/incoming'', True),
     (''POST'', ''/api/friends/:userId/accept'', True),
     (''DELETE'', ''/api/friends/:userId/reject'', True),
     (''POST'', ''/api/friends/:userId/block'', True),
     (''DELETE'', ''/api/friends/:userId/unblock'', True),
     (''GET'', ''/api/users/search'', True),
     (''POST'', ''/api/calls/direct'', True),
     (''POST'', ''/api/calls/room'', True),
     (''GET'', ''/api/calls/active'', True),
     (''GET'', ''/api/calls/:id'', True),
     (''GET'', ''/api/calls/:id/join'', True),
     (''PUT'', ''/api/calls/:id/end'', True)]"

fun request_route :: "api_request \<Rightarrow> string \<times> string" where
  "request_route (POST_register b) = (''POST'', ''/api/register'')"
| "request_route (POST_login b) = (''POST'', ''/api/login'')"
| "request_route POST_guest = (''POST'', ''/api/guest'')"
| "request_route (POST_rooms b) = (''POST'', ''/api/rooms'')"
| "request_route GET_rooms = (''GET'', ''/api/rooms'')"
| "request_route (POST_rooms_direct b) = (''POST'', ''/api/rooms/direct'')"
| "request_route POST_rooms_join = (''POST'', ''/api/rooms/:id/join'')"
| "request_route DELETE_rooms_leave = (''DELETE'', ''/api/rooms/:id/leave'')"
| "request_route (POST_rooms_members b) = (''POST'', ''/api/rooms/:id/members'')"
| "request_route DELETE_rooms_members = (''DELETE'', ''/api/rooms/:id/members/:userId'')"
| "request_route GET_rooms_messages = (''GET'', ''/api/rooms/:id/messages'')"
| "request_route (POST_friends_requests b) = (''POST'', ''/api/friends/requests'')"
| "request_route GET_friends = (''GET'', ''/api/friends'')"
| "request_route GET_friends_requests_incoming = (''GET'', ''/api/friends/requests/incoming'')"
| "request_route POST_friends_accept = (''POST'', ''/api/friends/:userId/accept'')"
| "request_route DELETE_friends_reject = (''DELETE'', ''/api/friends/:userId/reject'')"
| "request_route POST_friends_block = (''POST'', ''/api/friends/:userId/block'')"
| "request_route DELETE_friends_unblock = (''DELETE'', ''/api/friends/:userId/unblock'')"
| "request_route GET_users_search = (''GET'', ''/api/users/search'')"
| "request_route (POST_calls_direct b) = (''POST'', ''/api/calls/direct'')"
| "request_route (POST_calls_room b) = (''POST'', ''/api/calls/room'')"
| "request_route GET_calls_active = (''GET'', ''/api/calls/active'')"
| "request_route GET_calls_id = (''GET'', ''/api/calls/:id'')"
| "request_route GET_calls_join = (''GET'', ''/api/calls/:id/join'')"
| "request_route PUT_calls_end = (''PUT'', ''/api/calls/:id/end'')"

definition cors_headers :: "(string \<times> string) list" where
  "cors_headers = [
     (''Access-Control-Allow-Origin'', ''*''),
     (''Access-Control-Allow-Methods'', ''GET, POST, PUT, DELETE, OPTIONS''),
     (''Access-Control-Allow-Headers'', ''Content-Type, Authorization, X-Client-Type'')]"

record httpResponse =
  hr_Header :: "(string \<times> string) list"
  hr_Status :: nat
  hr_Body :: "respBody option"

text \<open>What gin found for a request: \<open>match\<close> stands for its router, the parameters of the path and the query,
  and the binding of the body.\<close>

datatype matchedRoute = NoRoute | PingRoute | ApiRoute api_request ginContext

definition gin_serve ::
    "(string \<Rightarrow> string \<Rightarrow> matchedRoute) \<Rightarrow> apiServer \<Rightarrow> string \<Rightarrow> string \<Rightarrow> string \<Rightarrow> httpResponse dbm" where
  "gin_serve match s method path authHeader =
     (if method = ''OPTIONS'' then return \<lparr>hr_Header = cors_headers, hr_Status = 204, hr_Body = None\<rparr>
      else case match method path of
        NoRoute \<Rightarrow> return \<lparr>hr_Header = cors_headers, hr_Status = 404, hr_Body = None\<rparr>
      | PingRoute \<Rightarrow> return \<lparr>hr_Header = cors_headers, hr_Status = 200, hr_Body = Some (NoteBody ''pong'')\<rparr>
      | ApiRoute req c \<Rightarrow> do {
          resp \<leftarrow> serve_api s req authHeader c;
          return \<lparr>hr_Header = cors_headers, hr_Status = fst resp, hr_Body = Some (snd resp)\<rparr> })"

section \<open>Running and stopping\<close>

definition ErrServerClosed :: goerr where
  "ErrServerClosed = ErrNew ''http.ErrServerClosed'' ''http: Server closed''"

text \<open>What the goroutine of the server sends on \<open>serverErr\<close> when \<open>ListenAndServe\<close> returns.\<close>

definition server_result :: "goerr option \<Rightarrow> goerr option" where
  "server_result err = (if err \<noteq> None \<and> err \<noteq> Some ErrServerClosed then err else None)"

text \<open>Which case of the \<open>select\<close> was taken: the server ended by itself, or the context was cancelled, and
  then what \<open>Shutdown\<close> returned.\<close>

datatype run_wait = ServerEnded | ContextDone "goerr option"

definition app_cleanup :: "sqlDriver \<Rightarrow> sqlDB option \<Rightarrow> sqlDB list \<Rightarrow> sqlDB list" where
  "app_cleanup drv st open_dbs = (case st of None \<Rightarrow> open_dbs | Some h \<Rightarrow> snd (sqlite_Close drv h open_dbs))"

definition app_Run_ends ::
    "sqlDriver \<Rightarrow> sqlDB option \<Rightarrow> run_wait \<Rightarrow> goerr option \<Rightarrow> sqlDB list \<Rightarrow> goerr option \<times> sqlDB list" where
  "app_Run_ends drv st wait listenErr open_dbs = (case wait of
       ServerEnded \<Rightarrow> (server_result listenErr, app_cleanup drv st open_dbs)
     | ContextDone (Some err) \<Rightarrow> (Some err, app_cleanup drv st open_dbs)
     | ContextDone None \<Rightarrow> (server_result listenErr, app_cleanup drv st open_dbs))"

text \<open>How \<open>run\<close> ends: \<open>logger.Fatal\<close> leaves the process at once with status 1.\<close>

datatype run_end = Fatal goerr | Returned "goerr option"

fun exit_code :: "run_end \<Rightarrow> nat" where
  "exit_code (Fatal e) = 1"
| "exit_code (Returned (Some e)) = 1"
| "exit_code (Returned None) = 0"

definition main_flags :: serverFlags where
  "main_flags = \<lparr>fl_addr = cfg_Addr config_Default, fl_readHeaderTimeout = cfg_ReadHeaderTimeout config_Default,
     fl_shutdownTimeout = cfg_ShutdownTimeout config_Default, fl_logLevel = ''info'', fl_configPath = ''''\<rparr>"

text \<open>An error of \<open>config.Load\<close> is only logged. The result also has the configuration and the application
  that was started, if any.\<close>

definition main_run ::
    "configLib \<Rightarrow> platform \<Rightarrow> sqlDriver \<Rightarrow> serverFlags \<Rightarrow> (string \<Rightarrow> bool) \<Rightarrow> run_wait \<Rightarrow> goerr option \<Rightarrow> osState \<Rightarrow> sqlDB list \<Rightarrow>
     (run_end \<times> Config \<times> App option) \<times> osState \<times> sqlDB list" where
  "main_run lib pf drv flags changed wait listenErr os open_dbs = (let
     ((cfg, cfgPath, err), os) = config_Load lib (fl_configPath flags) os;
     cfg = apply_flags flags changed cfg;
     (st, open_dbs) = sqlite_New drv (cfg_DatabasePath cfg) open_dbs;
     opened = (case st of Inl e \<Rightarrow> Inl e | Inr h \<Rightarrow> Inr (drv_contents drv (sd_dsn h)))
     in case app_New pf opened cfg of
       Inl e \<Rightarrow> ((Fatal e, cfg, None), os, open_dbs)
     | Inr a \<Rightarrow> (let (runErr, open_dbs) = app_Run_ends drv (case st of Inl e \<Rightarrow> None | Inr h \<Rightarrow> Some h) wait listenErr open_dbs
         in ((Returned runErr, cfg, Some a), os, open_dbs)))"


section \<open>What the outer layer guarantees\<close>

text \<open>Every request has exactly one route, and the middleware is in the chain of exactly the routes that
  \<open>serve_api\<close> protects.\<close>

lemma routes_complete:
  "distinct (map (\<lambda>(m, p, _). (m, p)) api_routes)"
  "(fst (request_route req), snd (request_route req), \<not> public_route req) \<in> set api_routes"
  by (simp add: api_routes_def) (cases req; simp add: api_routes_def)

lemma gin_serve_headers: "hr_Header (result_of (gin_serve match s m path hdr) d) = cors_headers"
  by (auto simp: gin_serve_def split: matchedRoute.split prod.splits)

text \<open>A preflight request needs no token and does nothing.\<close>

lemma gin_preflight: "run_state (gin_serve match s ''OPTIONS'' path hdr) d = (\<lparr>hr_Header = cors_headers, hr_Status = 204, hr_Body = None\<rparr>, d)"
  by (simp add: gin_serve_def)

lemma exit_code_0 [simp]: "exit_code (Returned e) = 0 \<longleftrightarrow> e = None"
  by (cases e) simp_all

lemma app_New_fails:
  "app_New pf (Inl e) cfg = Inl (ErrWrap ''init store'' e)"
  "(\<exists>e. app_New pf (Inr d) cfg = Inl e) \<longleftrightarrow> lk_Enabled (cfg_LiveKit cfg) \<and> (lk_APIKey (cfg_LiveKit cfg) = '''' \<or> lk_APISecret (cfg_LiveKit cfg) = '''')"
  by (auto simp: app_New_def app_callEngine_def Let_def split: sum.splits)

lemma app_Run_ends_store:
  "app_Run_ends drv (Some h) wait listenErr (h # hs) = (runErr, hs') \<Longrightarrow> hs' = hs
     \<and> runErr = (case wait of ContextDone (Some err) \<Rightarrow> Some err | _ \<Rightarrow> server_result listenErr)"
  by (auto simp: app_Run_ends_def app_cleanup_def sqlite_Close_def split: run_wait.splits option.splits)

text \<open>How the process ends. It stops with a fatal error exactly if the database cannot be opened or
  answers no ping, or LiveKit is enabled without its key or secret; an unusable configuration file alone
  does not stop it. Once the application has been started, the store is closed on every way out, and the process
  reports success exactly if the HTTP server was shut down in time and had no error of its own. On a fatal
  error after the driver has opened the database, its handle is left open.\<close>

theorem process_ends:
  assumes "main_run lib pf drv flags changed wait listenErr os hs = ((ending, cfg, started), os', hs')"
  shows "((\<exists>e. ending = Fatal e) \<longleftrightarrow> drv_Open drv (sqlite_dsn (cfg_DatabasePath cfg)) \<noteq> None
        \<or> drv_Ping drv (sqlite_dsn (cfg_DatabasePath cfg)) \<noteq> None
        \<or> lk_Enabled (cfg_LiveKit cfg) \<and> (lk_APIKey (cfg_LiveKit cfg) = '''' \<or> lk_APISecret (cfg_LiveKit cfg) = ''''))
    \<and> cfg = apply_flags flags changed (fst (fst (config_Load lib (fl_configPath flags) os)))
    \<and> (case ending of
         Returned runErr \<Rightarrow> hs' = hs \<and> (\<exists>a. started = Some a
           \<and> app_New pf (Inr (drv_contents drv (sqlite_dsn (cfg_DatabasePath cfg)))) cfg = Inr a)
           \<and> (exit_code ending = 0 \<longleftrightarrow> wait \<in> {ServerEnded, ContextDone None} \<and> listenErr \<in> {None, Some ErrServerClosed})
       | Fatal e \<Rightarrow> exit_code ending = 1 \<and> started = None
           \<and> (if drv_Open drv (sqlite_dsn (cfg_DatabasePath cfg)) = None then \<exists>h. hs' = h # hs else hs' = hs))"
proof -
  obtain c path err os1 where load: "config_Load lib (fl_configPath flags) os = ((c, path, err), os1)"
    by (metis prod.collapse)
  have cfg: "cfg = apply_flags flags changed c"
    using assms load by (auto simp: main_run_def Let_def split: prod.splits sum.splits)
  let ?dsn = "sqlite_dsn (cfg_DatabasePath cfg)"
  let ?d = "drv_contents drv ?dsn"
  let ?h = "\<lparr>sd_dsn = ?dsn, sd_MaxOpenConns = 1, sd_MaxIdleConns = 1\<rparr>"
  show ?thesis
  proof (cases "drv_Open drv ?dsn \<noteq> None \<or> drv_Ping drv ?dsn \<noteq> None")
    case True
    then show ?thesis
      using assms load cfg
      by (auto simp: main_run_def sqlite_New_def app_New_fails(1) Let_def split: option.splits if_splits)
  next
    case False
    then have new: "sqlite_New drv (cfg_DatabasePath cfg) hs = (Inr ?h, ?h # hs)"
      by (simp add: sqlite_New_def Let_def)
    show ?thesis
    proof (cases "app_New pf (Inr ?d) cfg")
      case (Inl e)
      then show ?thesis
        using assms load cfg new False app_New_fails(2)[of pf ?d cfg] by (auto simp: main_run_def Let_def)
    next
      case (Inr a)
      obtain runErr hs1 where run: "app_Run_ends drv (Some ?h) wait listenErr (?h # hs) = (runErr, hs1)" by (rule prod.exhaust)
      have ending: "ending = Returned runErr" "started = Some a" "hs' = hs"
        using assms load cfg new run Inr app_Run_ends_store[OF run] by (auto simp: main_run_def Let_def)
      then show ?thesis
        using app_Run_ends_store[OF run] app_New_fails(2)[of pf ?d cfg] Inr False ending load cfg
        by (auto simp: server_result_def split: run_wait.splits option.splits if_splits)
    qed
  qed
qed

text \<open>A start on the default configuration file that ends with an orderly shutdown.\<close>

definition demo_driver :: sqlDriver where
  "demo_driver = \<lparr>drv_Open = (\<lambda>_. None), drv_Ping = (\<lambda>_. None), drv_Close = (\<lambda>_. None), drv_contents = (\<lambda>_. init_db 0)\<rparr>"

definition demo_os_file :: osState where
  "demo_os_file = demo_os\<lparr>os_files := [''/srv/config.yaml'' \<mapsto> ''defaults'']\<rparr>"

lemma demo_load: "config_Load demo_config_lib '''' demo_os_file = ((config_Default, ''/srv/config.yaml'', None), demo_os_file)"
proof -
  have path: "load_path demo_config_lib '''' demo_os_file = ''/srv/config.yaml''"
    by (simp add: demo_os_file_def demo_os_def resolveConfigPath_def demo_lib_fields defaultConfigName_def)
  have "lib_ReadInConfig demo_config_lib (load_viper config_Default ''/srv/config.yaml'') demo_os_file
      = Inr (map_of (config_settings config_Default))"
    by (simp add: demo_lib_fields demo_read_def demo_os_file_def)
  from written_default_loads[OF demo_unmarshals this[folded path]] show ?thesis
    unfolding path by (auto simp: demo_lib_fields demo_getenv_def demo_os_file_def demo_os_def demo_conv_def)
qed

theorem process_ends_witness:
  "\<exists>cfg a os'. main_run demo_config_lib demo_platform demo_driver main_flags (\<lambda>_. False) (ContextDone None) (Some ErrServerClosed)
     demo_os_file [] = ((Returned None, cfg, Some a), os', []) \<and> app_New demo_platform (Inr (init_db 0)) cfg = Inr a"
proof -
  obtain ending cfg started os' hs' where run: "main_run demo_config_lib demo_platform demo_driver main_flags (\<lambda>_. False)
      (ContextDone None) (Some ErrServerClosed) demo_os_file [] = ((ending, cfg, started), os', hs')"
    by (metis prod.collapse)
  have "cfg = config_Default"
    using process_ends[OF run] by (simp add: main_flags_def demo_load apply_flags_def Let_def)
  with process_ends[OF run] run show ?thesis
    by (auto simp: demo_driver_def config_Default_def split: run_end.splits)
qed

end
