(* ===== verification/Room_Privacy.thy ===== *)
theory Room_Privacy
  imports Server
begin

text \<open>
  Who gets into a room, over whole runs of the server: the checks are made by the connection, when a
  message is read, and the room is entered later, by the hub, when the command has passed through three
  queues. A trace keeps the states, newest first, so that the state in which the check was made can be named.
\<close>

section \<open>Traces\<close>

inductive server_trace :: "App \<Rightarrow> server list \<Rightarrow> bool" for a where
  start: "server_trace a [app_Run a]"
| step: "server_trace a (s # tr) \<Longrightarrow> server_step a s s' \<Longrightarrow> server_trace a (s' # s # tr)"

lemma trace_run: "server_trace a tr \<Longrightarrow> tr \<noteq> [] \<and> (server_step a)\<^sup>*\<^sup>* (app_Run a) (hd tr)"
  by (induction rule: server_trace.induct) auto

section \<open>Entitlement\<close>

text \<open>In that state the client may enter the room: there is a room of that name that is public, or the user of the client
  is a member of it; and where tokens are required, the client's identity is that of an accepted token.\<close>

definition entitled :: "App \<Rightarrow> server \<Rightarrow> cptr \<Rightarrow> string \<Rightarrow> bool" where
  "entitled a s c r \<longleftrightarrow> (let d = database (srv_world s); cl = heap (srv_world s) c in
     (\<exists>room \<in> set (t_rooms d). room_Name room = r
        \<and> (room_Type room = RoomTypePublic
           \<or> room_Type room \<in> {RoomTypePrivate, RoomTypeDirect} \<and> (cl_UserID cl, room_ID room) \<in> membership d))
     \<and> (cfg_JWTRequired (ws_config (app_ws a)) \<longrightarrow> vouched (app_ws a) cl))"

text \<open>Where tokens are required, an authenticated connection belongs to a client with an accepted token.\<close>

definition conns_vouched :: "App \<Rightarrow> server \<Rightarrow> bool" where
  "conns_vouched a s \<longleftrightarrow> (\<forall>c conn p. cfg_JWTRequired (ws_config (app_ws a)) \<longrightarrow> srv_conns s c = Some (conn, p) \<longrightarrow>
     conn_auth conn \<longrightarrow> vouched (app_ws a) (heap (srv_world s) c))"

text \<open>The joins on their way to the hub, from the connection on.\<close>

definition joins :: "server \<Rightarrow> (cptr \<times> string) set" where
  "joins s = {(c, cmd_Room cmd) | c cmd. cmd_Kind cmd = CommandJoinRoom
     \<and> (cmd \<in> set (flow (srv_world s) c) \<or> (\<exists>conn. srv_conns s c = Some (conn, Some cmd)))}"

definition inside :: "server \<Rightarrow> (cptr \<times> string) set" where
  "inside s = {(c, r). c \<in> members (view (srv_world s)) r}"

lemma vouched_ident: "ident w c = ident w' c \<Longrightarrow> vouched h (heap w c) = vouched h (heap w' c)"
  by (simp add: ident_def vouched_def)

lemma greeting_vouched:
  assumes "cfg_JWTRequired (ws_config (app_ws a))" and "greeting a s c (ident w c)"
  shows "vouched (app_ws a) (heap w c)"
proof -
  obtain now inb cl where hello: "handleHello (app_ws a) now (heap (srv_world s) c) inb = ((None, None), cl)"
    and i: "ident w c = (cl_UserID cl, cl_Name cl, cl_IsGuest cl)"
    using assms(2) by (auto simp: greeting_def)
  have "vouched (app_ws a) cl" using hello_required[OF assms(1) hello] by simp
  with i show ?thesis by (simp add: vouched_def ident_def)
qed


section \<open>A frame\<close>

lemma handle_frame_run:
  assumes "handle_frame a c conn rd we s = (out, s')"
  shows "\<exists>conn' d. run_state (read_iteration (app_ws a) (clock (database (srv_world s))) rd we
        (conn\<lparr>conn_client := heap (srv_world s) c\<rparr>)) (database (srv_world s)) = ((out, conn'), d)
    \<and> srv_world s' = env_step (Identify c (cl_UserID (conn_client conn')) (cl_Name (conn_client conn')) (cl_IsGuest (conn_client conn')))
        ((srv_world s)\<lparr>database := d\<rparr>)
    \<and> srv_conns s' = (srv_conns s)(c \<mapsto> (conn', case out of WsCommand cmd \<Rightarrow> Some cmd | _ \<Rightarrow> None))"
  using assms by (auto simp: handle_frame_def Let_def simp del: env_step.simps split: prod.splits)

lemma join_admitted:
  assumes "run_state (read_iteration h now rd we conn) d = ((WsCommand cmd, conn'), d')" and "cmd_Kind cmd = CommandJoinRoom"
  shows "\<exists>room \<in> set (t_rooms d). room_Name room = cmd_Room cmd
    \<and> (room_Type room = RoomTypePublic \<or> room_Type room \<in> {RoomTypePrivate, RoomTypeDirect}
      \<and> (cl_UserID (conn_client conn), room_ID room) \<in> membership d)"
    and "cfg_JWTRequired (ws_config h) \<Longrightarrow> conn_auth conn"
proof -
  obtain inb where inb: "run_state (handle_inbound h now inb conn) d = ((WsCommand cmd, conn'), d')"
    using read_iteration_command[OF assms(1)] by blast
  note step = handle_inbound_command[OF inb]
  have "conn_client conn' = conn_client conn" using limits_client(1)[of cmd conn] step(2) by simp
  then show "\<exists>room \<in> set (t_rooms d). room_Name room = cmd_Room cmd
    \<and> (room_Type room = RoomTypePublic \<or> room_Type room \<in> {RoomTypePrivate, RoomTypeDirect}
      \<and> (cl_UserID (conn_client conn), room_ID room) \<in> membership d)"
    using step(4) check_room_command[of "conn_client conn'" cmd d cmd d'] assms(2)
    by (force simp: dispatch_def membership_def)
  show "cfg_JWTRequired (ws_config h) \<Longrightarrow> conn_auth conn" using step(3) by blast
qed

lemma frame_joins:
  assumes "conns_vouched a s" and "srv_conns s c = Some (conn, None)" and "handle_frame a c conn rd we s = (out, s')"
  shows "joins s' \<subseteq> joins s \<union> {(c, r). entitled a s c r}"
proof -
  obtain conn' d where run: "run_state (read_iteration (app_ws a) (clock (database (srv_world s))) rd we
        (conn\<lparr>conn_client := heap (srv_world s) c\<rparr>)) (database (srv_world s)) = ((out, conn'), d)"
    and w: "srv_world s' = env_step (Identify c (cl_UserID (conn_client conn')) (cl_Name (conn_client conn')) (cl_IsGuest (conn_client conn')))
        ((srv_world s)\<lparr>database := d\<rparr>)"
    and conns: "srv_conns s' = (srv_conns s)(c \<mapsto> (conn', case out of WsCommand cmd \<Rightarrow> Some cmd | _ \<Rightarrow> None))"
    using handle_frame_run[OF assms(3)] by blast
  have flow: "flow (srv_world s') e = flow (srv_world s) e" for e
    by (simp add: w flow_def upd_client_def)
  have "entitled a s c (cmd_Room cmd)" if "out = WsCommand cmd" "cmd_Kind cmd = CommandJoinRoom" for cmd
    using join_admitted[OF run[unfolded that(1)] that(2)] assms(1,2)
    by (auto simp: entitled_def Let_def conns_vouched_def)
  then show ?thesis
    by (auto simp: joins_def flow conns split: if_splits wsOutcome.splits)
qed

lemma frame_vouched:
  assumes "conns_vouched a s" and "srv_conns s c = Some (conn, None)" and "handle_frame a c conn rd we s = (out, s')"
  shows "conns_vouched a s'"
proof -
  let ?conn = "conn\<lparr>conn_client := heap (srv_world s) c\<rparr>"
  obtain conn' d where run: "run_state (read_iteration (app_ws a) (clock (database (srv_world s))) rd we ?conn)
        (database (srv_world s)) = ((out, conn'), d)"
    and w: "srv_world s' = env_step (Identify c (cl_UserID (conn_client conn')) (cl_Name (conn_client conn')) (cl_IsGuest (conn_client conn')))
        ((srv_world s)\<lparr>database := d\<rparr>)"
    and conns: "srv_conns s' = (srv_conns s)(c \<mapsto> (conn', case out of WsCommand cmd \<Rightarrow> Some cmd | _ \<Rightarrow> None))"
    using handle_frame_run[OF assms(3)] by blast
  have same: "vouched h (heap (srv_world s') c) = vouched h (conn_client conn')" for h
    by (simp add: w upd_client_def vouched_def)
  have "vouched_conn (app_ws a) conn'" if "cfg_JWTRequired (ws_config (app_ws a))"
    using assms(1,2) that by (intro read_iteration_vouched[OF that _ run]) (auto simp: vouched_conn_def conns_vouched_def)
  moreover have "heap (srv_world s') e = heap (srv_world s) e" if "e \<noteq> c" for e
    using that by (simp add: w upd_client_def)
  ultimately show ?thesis
    using assms(1) by (auto simp: conns_vouched_def conns same vouched_conn_def split: if_splits)
qed

section \<open>The other steps\<close>

text \<open>Nothing new has come from the connections.\<close>

definition conns_stay :: "server \<Rightarrow> server \<Rightarrow> bool" where
  "conns_stay s s' \<longleftrightarrow> (\<forall>c conn p. srv_conns s' c = Some (conn, p) \<longrightarrow> (\<exists>conn0 q. srv_conns s c = Some (conn0, q)
     \<and> conn_auth conn = conn_auth conn0 \<and> (p = None \<or> p = q)))"

lemma step_contained:
  assumes "contained (greeting a s) (srv_world s) (srv_world s')" and "conns_vouched a s" and "conns_stay s s'"
  shows "conns_vouched a s' \<and> joins s' \<subseteq> joins s \<union> {(c, r). entitled a s c r}"
proof -
  have "vouched (app_ws a) (heap (srv_world s') c)"
    if "cfg_JWTRequired (ws_config (app_ws a))" "vouched (app_ws a) (heap (srv_world s) c)" for c
    using assms(1) that greeting_vouched[OF that(1), of s c "srv_world s'"] vouched_ident[of "srv_world s'" c "srv_world s" "app_ws a"]
    by (auto simp: contained_def)
  with assms(2,3) have "conns_vouched a s'" unfolding conns_vouched_def conns_stay_def by metis
  moreover have "joins s' \<subseteq> joins s"
    using assms(1,3) by (fastforce simp: joins_def contained_def conns_stay_def)
  ultimately show ?thesis by blast
qed

lemma server_step_joins:
  assumes "server_step a s s'" and "conns_vouched a s"
  shows "conns_vouched a s' \<and> joins s' \<subseteq> joins s \<union> {(c, r). entitled a s c r}"
  using assms(1)
proof cases
  case (hub_case ss k)
  have "contained (greeting a s) (srv_world s) (srv_world s')"
    using calm_run[OF hub_case(3)] by (simp add: hub_case(1))
  moreover have "conns_stay s s'" using hub_case by (auto simp: conns_stay_def split: if_splits)
  ultimately show ?thesis using step_contained assms(2) by blast
next
  case (rest_request uuid req hdr c)
  have "contained (greeting a s) (srv_world s) (srv_world s')"
    by (rule contained_same) (simp_all add: rest_request flow_def ident_def)
  moreover have "conns_stay s s'" using rest_request by (auto simp: conns_stay_def split: if_splits)
  ultimately show ?thesis using step_contained assms(2) by blast
next
  case (connected client rand)
  let ?w = "srv_world s" and ?c = "next_cptr (srv_world s)"
  have w: "heap (srv_world s') e = (if e = ?c then NewClient (cl_ID client) '''' 0 False else heap ?w e)"
    "h_commands (srv_world s') = h_commands ?w" "in_hand (srv_world s') = in_hand ?w" for e
    by (auto simp: connected(1) RegisterClient_def Let_def split: send_result.split)
  have "set (flow (srv_world s') e) \<subseteq> set (flow ?w e)" for e
    by (auto simp: flow_def w NewClient_def make_chan_def)
  then have "joins s' \<subseteq> joins s"
    by (fastforce simp: joins_def connected(1) split: if_splits)
  moreover have "conns_vouched a s'"
    using assms(2) by (auto simp: conns_vouched_def w start_conn_def) (auto simp: connected(1) start_conn_def split: if_splits)
  ultimately show ?thesis by blast
next
  case (frame c conn rd we out)
  then show ?thesis using frame_joins[OF assms(2)] frame_vouched[OF assms(2)] by blast
next
  case (submit c conn cmd ch)
  let ?w = "srv_world s"
  have w: "srv_world s' = upd_client c (\<lambda>cl. cl\<lparr>cl_Commands := ch\<rparr>) ?w"
    using submit by simp
  have "set (flow (srv_world s') e) \<subseteq> set (flow ?w e) \<union> (if e = c then {cmd} else {})" for e
    using submit(3) by (auto simp: flow_def w upd_client_def chan_send_simps)
  then have "joins s' \<subseteq> joins s"
    using submit(1,2) by (fastforce simp: joins_def split: if_splits)
  moreover have "conns_vouched a s'"
    using assms(2) submit(2) by (auto simp: conns_vouched_def w upd_client_def vouched_def) (auto simp: submit(1) split: if_splits)
  ultimately show ?thesis by blast
next
  case (minute c conn p conn')
  have "contained (greeting a s) (srv_world s) (srv_world s')"
    by (rule contained_same) (simp_all add: minute)
  moreover have "conns_stay s s'" using minute by (auto simp: conns_stay_def split: if_splits)
  ultimately show ?thesis using step_contained assms(2) by blast
next
  case (pumped act c)
  have "contained (greeting a s) (srv_world s) (srv_world s')"
    using pumped calm_env[of "greeting a s" act "srv_world s"] by auto
  moreover have "conns_stay s s'" using pumped by (auto simp: conns_stay_def split: if_splits)
  ultimately show ?thesis using step_contained assms(2) by blast
next
  case (disconnected c conn)
  have "contained (greeting a s) (srv_world s) (srv_world s')"
    using disconnected(1) calm_env[of "greeting a s" "Disconnect c" "srv_world s"] by simp
  moreover have "conns_stay s s'" using disconnected by (auto simp: conns_stay_def split: if_splits)
  ultimately show ?thesis using step_contained assms(2) by blast
next
  case (elapsed now fs)
  have "contained (greeting a s) (srv_world s) (srv_world s')"
    by (rule contained_same) (simp_all add: elapsed flow_def ident_def)
  moreover have "conns_stay s s'" using elapsed by (auto simp: conns_stay_def split: if_splits)
  ultimately show ?thesis using step_contained assms(2) by blast
qed


section \<open>Entering a room\<close>

lemma inside_abs: "inside s = {(c, r). c \<in> snd (abs_world (srv_world s)) r}"
  by (simp add: inside_def abs_world_def abs_hub_def)

lemma spec_enters:
  assumes "c \<in> snd (run_spec k w v) r"
  shows "c \<in> snd v r \<or> (\<exists>cmd. cmd \<in> set (flow w c) \<and> cmd_Kind cmd = CommandJoinRoom \<and> cmd_Room cmd = r)"
proof (cases k)
  case OnCommand
  show ?thesis
  proof (cases "ch_buf (h_commands w)")
    case (Cons x xs)
    have "c = fst x \<Longrightarrow> snd x \<in> set (flow w c)" by (simp add: flow_def Cons)
    with assms Cons OnCommand show ?thesis
      by (auto simp: run_spec_def spec_command_def spec_join_def spec_leave_def split: CommandKind.splits if_splits)
  qed (use assms OnCommand in \<open>simp add: run_spec_def\<close>)
qed (use assms in \<open>auto simp: run_spec_def spec_remove_def split: list.splits\<close>)

lemma hub_case_inside:
  assumes "bookkeeping w" "room_inv (view w)" "status w = Running" "status (after (Run_case k) (w\<lparr>sched := ss\<rparr>)) = Running"
    and "c \<in> snd (abs_world (after (Run_case k) (w\<lparr>sched := ss\<rparr>))) r"
  shows "c \<in> snd (abs_world w) r \<or> (\<exists>cmd. cmd \<in> set (flow w c) \<and> cmd_Kind cmd = CommandJoinRoom \<and> cmd_Room cmd = r)"
proof -
  obtain x w' where run: "run_state (Run_case k) (w\<lparr>sched := ss\<rparr>) = (x, w')" by (rule prod.exhaust)
  have "abs_world w' = run_spec k (w\<lparr>sched := ss\<rparr>) (abs_world (w\<lparr>sched := ss\<rparr>))"
    using Run_case_refines[OF _ _ _ run] assms run by (simp add: sched_hub_inv)
  moreover have "abs_world (w\<lparr>sched := ss\<rparr>) = abs_world w" "flow (w\<lparr>sched := ss\<rparr>) c = flow w c"
    by (simp_all add: abs_world_def sched_hub_inv flow_def)
  ultimately show ?thesis using spec_enters[of c k "w\<lparr>sched := ss\<rparr>" "abs_world w" r] assms(5) run by simp
qed

lemma quiet_inside:
  assumes "hub_inv (srv_world s)" and "quiet (srv_world s) w'" and "status w' = status (srv_world s)" and "status w' = Running"
  shows "abs_world w' = abs_world (srv_world s)"
  using assms by (simp add: hub_inv_def quiet_def abs_world_def)

lemma server_step_running:
  assumes "server_step a s s'" and "status (srv_world s') = Running"
  shows "status (srv_world s) = Running"
  using assms(1)
proof cases
  case (frame c conn rd we out)
  obtain u n g and d :: db where "srv_world s' = env_step (Identify c u n g) ((srv_world s)\<lparr>database := d\<rparr>)"
    using handle_frame_run[OF frame(2)] by blast
  then show ?thesis using assms(2) by (simp del: env_step.simps)
qed (use assms(2) in \<open>simp_all del: env_step.simps\<close>)

lemma server_step_inside:
  assumes "server_step a s s'" and "hub_inv (srv_world s)" and "status (srv_world s') = Running"
  shows "inside s' \<subseteq> inside s \<union> joins s"
  using assms(1)
proof cases
  case (hub_case ss k)
  then show ?thesis
    using hub_case_inside[of "srv_world s" k ss] assms(2,3)
    by (fastforce simp: inside_abs joins_def hub_inv_def)
next
  case (frame c conn rd we out)
  let ?w = "srv_world s"
  obtain u n g d where w: "srv_world s' = env_step (Identify c u n g) (?w\<lparr>database := d\<rparr>)"
    using handle_frame_run[OF frame(2)] by blast
  have "quiet ?w (srv_world s')"
    unfolding w by (rule quiet.R_trans[OF _ quiet.R_env]) (rule quietI, simp_all add: view_def)
  from quiet_inside[OF assms(2) this] assms(3) show ?thesis by (simp add: inside_abs w del: env_step.simps)
next
  case (rest_request uuid req hdr c)
  then show ?thesis by (simp add: inside_def view_def)
next
  case (minute c conn p conn')
  then show ?thesis by (simp add: inside_def)
next
  case (elapsed now fs)
  then show ?thesis by (simp add: inside_def view_def)
qed (use assms(2,3) quiet_inside[OF assms(2) quiet.R_env] in \<open>simp_all add: inside_abs del: env_step.simps\<close>)

text \<open>The invariant: who is in a room, or about to enter it, was entitled to in an earlier state.\<close>

lemma trace_entitled:
  assumes "server_trace a (s # tr)" and "\<exists>st svc d. srv_world (app_Run a) = NewHub st svc d"
  shows "conns_vouched a s \<and> (\<forall>(c, r) \<in> joins s. \<exists>t \<in> set tr. entitled a t c r)
    \<and> (status (srv_world s) = Running \<longrightarrow> (\<forall>(c, r) \<in> inside s. \<exists>t \<in> set tr. entitled a t c r))"
  using assms(1)
proof (induction "s # tr" arbitrary: s tr rule: server_trace.induct)
  case start
  then show ?case
    using assms(2)
    by (auto simp: conns_vouched_def joins_def inside_def app_Run_def flow_def NewHub_def NewClient_def make_chan_def
        members_def view_def)
next
  case (step s tr s')
  have "hub_step\<^sup>*\<^sup>* (srv_world (app_Run a)) (srv_world s)"
    using trace_run[OF step(1)] server_run[of a "app_Run a" s] by auto
  then have inv: "hub_inv (srv_world s)"
    using assms(2) hub.reach_inv[OF _ hub_inv_init] by auto
  have "conns_vouched a s'" "joins s' \<subseteq> joins s \<union> {(c, r). entitled a s c r}"
    using server_step_joins[OF step(3)] step(2) by auto
  moreover have "inside s' \<subseteq> inside s \<union> joins s" "status (srv_world s) = Running" if "status (srv_world s') = Running"
    using server_step_inside[OF step(3) inv that] server_step_running[OF step(3) that] by auto
  ultimately show ?case using step(2) by fastforce
qed


lemma app_New_starts:
  assumes "app_New pf (Inr d) cfg = Inr a"
  shows "\<exists>st svc d. srv_world (app_Run a) = NewHub st svc d" and "ws_config (app_ws a) = cfg"
  using app_New_hub[OF assms] assms by (auto simp: app_Run_def app_New_def Let_def split: sum.splits)

text \<open>(C2) Nobody gets into a private room who was not let in. In every trace of the running server, under every
  interleaving of the hub, the connections, the REST requests and faults, whoever the hub has in a room was
  entitled to it in an earlier state: there was a room of that name, and it was public or the client's user
  was a member of it; and where the server requires tokens, the client's identity was that of an accepted token.\<close>

theorem private_rooms_private:
  assumes "app_New pf (Inr d) cfg = Inr a" and "server_trace a (s # tr)" and "status (srv_world s) = Running"
    and "h_rooms (srv_world s) r = Some m" and "c \<in> set (rm_clients m)"
  shows "\<exists>t \<in> set tr. (\<exists>room \<in> set (t_rooms (database (srv_world t))). room_Name room = r
        \<and> (room_Type room = RoomTypePublic
          \<or> room_Type room \<in> {RoomTypePrivate, RoomTypeDirect}
            \<and> (cl_UserID (heap (srv_world t) c), room_ID room) \<in> membership (database (srv_world t))))
    \<and> (cfg_JWTRequired cfg \<longrightarrow> vouched (app_ws a) (heap (srv_world t) c))"
proof -
  have "(c, r) \<in> inside s" using assms(4,5) by (simp add: inside_def members_def)
  then obtain t where "t \<in> set tr" "entitled a t c r"
    using trace_entitled[OF assms(2) app_New_starts(1)[OF assms(1)]] assms(3) by blast
  then show ?thesis
    by (intro bexI[of _ t]) (auto simp: entitled_def Let_def app_New_starts(2)[OF assms(1)])
qed

section \<open>A run that enters a room\<close>

definition walk_conn :: "App \<Rightarrow> wsConn" where
  "walk_conn a = start_conn (app_ws a) (new_connection (Inr [1]) 0)"

definition walk1 :: "App \<Rightarrow> server" where
  "walk1 a = (app_Run a)\<lparr>srv_world := env_step (Connect (cl_ID (new_connection (Inr [1]) 0))) (srv_world (app_Run a)),
     srv_conns := (srv_conns (app_Run a))(0 \<mapsto> (walk_conn a, None))\<rparr>"

definition walk2 :: "App \<Rightarrow> server" where
  "walk2 a = (walk1 a)\<lparr>srv_world := after (Run_case OnRegister) ((srv_world (walk1 a))\<lparr>sched := []\<rparr>)\<rparr>"

definition walk3 :: "App \<Rightarrow> server" where
  "walk3 a = snd (handle_frame a 0 (walk_conn a) (Inr join_frame) None (walk2 a))"

definition walk4 :: "App \<Rightarrow> server" where
  "walk4 a = (walk3 a)\<lparr>srv_world := env_step (Enqueue 0 join_cmd) (srv_world (walk3 a)),
     srv_conns := (srv_conns (walk3 a))(0 \<mapsto> (fst (the (srv_conns (walk3 a) 0)), None))\<rparr>"

definition walk6 :: "App \<Rightarrow> server" where
  "walk6 a = (walk4 a)\<lparr>srv_world := env_step (Consume 0) (env_step (Consume 0) (srv_world (walk4 a)))\<rparr>"

definition walk7 :: "App \<Rightarrow> server" where
  "walk7 a = (walk6 a)\<lparr>srv_world := after (Run_case OnCommand) ((srv_world (walk6 a))\<lparr>sched := []\<rparr>)\<rparr>"


lemma walk_worlds:
  assumes "app_New demo_platform (Inr (init_db 0)) config_Default = Inr a"
  shows "srv_world (app_Run a) = NewHub True (Some (calls_service (app_engine a) (pf_uuid demo_platform))) (init_db 0)"
    and "srv_world (walk2 a) = run_sys [EnvStep (Connect (NewID (Inr [1]) 0)), HubStep OnRegister []] (srv_world (app_Run a))"
    and "srv_world (walk3 a) = run_sys [EnvStep (Connect (NewID (Inr [1]) 0)), HubStep OnRegister [],
          EnvStep (Identify 0 0 (NewID (Inr [1]) 0) False)] (srv_world (app_Run a))"
    and "handle_frame a 0 (walk_conn a) (Inr join_frame) None (walk2 a) = (WsCommand join_cmd, walk3 a)"
    and "\<exists>conn. srv_conns (walk3 a) 0 = Some (conn, Some join_cmd)"
    and "status (srv_world (walk7 a)) = Running"
    and "h_rooms (srv_world (walk7 a)) ''general'' = Some \<lparr>rm_Name = ''general'', rm_clients = [0]\<rparr>"
proof -
  show start: "srv_world (app_Run a) = NewHub True (Some (calls_service (app_engine a) (pf_uuid demo_platform))) (init_db 0)"
    using app_New_hub[OF assms] by (simp add: app_Run_def)
  show w2: "srv_world (walk2 a) = run_sys [EnvStep (Connect (NewID (Inr [1]) 0)), HubStep OnRegister []] (srv_world (app_Run a))"
    by (simp add: walk2_def walk1_def new_connection_def start run_world)
  let ?i = "NewID (Inr [1]) 0"
  let ?conn = "(walk_conn a)\<lparr>conn_client := heap (srv_world (walk2 a)) 0\<rparr>"
  have heap: "heap (srv_world (walk2 a)) 0 = NewClient ?i '''' 0 False" "database (srv_world (walk2 a)) = init_db 0"
    unfolding w2 start by (simp_all add: run_world)
  have conn: "conn_auth ?conn" "fst (rl_allow (conn_join ?conn))"
    using app_New_starts(2)[OF assms] by (simp_all add: walk_conn_def start_conn_def config_Default_def newRateLimiter_def rl_allow_def Let_def)
  note it = join_iteration[OF conn, of "app_ws a" "clock (init_db 0)"]
  have client: "cl_UserID (NewClient i '''' 0 False) = 0" "cl_Name (NewClient i '''' 0 False) = i"
      "cl_IsGuest (NewClient i '''' 0 False) = False" for i by (simp_all add: NewClient_def)
  have db: "(srv_world (walk2 a))\<lparr>database := init_db 0\<rparr> = srv_world (walk2 a)" by (simp flip: heap(2))
  have frame: "handle_frame a 0 (walk_conn a) (Inr join_frame) None (walk2 a) = (WsCommand join_cmd,
      (walk2 a)\<lparr>srv_world := env_step (Identify 0 0 ?i False) (srv_world (walk2 a)),
        srv_conns := (srv_conns (walk2 a))(0 \<mapsto> (?conn\<lparr>conn_join := snd (rl_allow (conn_join ?conn))\<rparr>, Some join_cmd))\<rparr>)"
    using it unfolding handle_frame_def heap Let_def by (simp add: client db del: env_step.simps)
  then show "handle_frame a 0 (walk_conn a) (Inr join_frame) None (walk2 a) = (WsCommand join_cmd, walk3 a)"
    by (simp add: walk3_def)
  show "\<exists>conn. srv_conns (walk3 a) 0 = Some (conn, Some join_cmd)" unfolding walk3_def frame by simp
  show w3: "srv_world (walk3 a) = run_sys [EnvStep (Connect ?i), HubStep OnRegister [], EnvStep (Identify 0 0 ?i False)] (srv_world (app_Run a))"
    unfolding walk3_def frame by (simp add: w2 del: env_step.simps)
  note defs = walk7_def walk6_def walk4_def w3 start run_world join_cmd_def new_command_def joinRoom_def
      ensureRoom_def room_add_def AddClient_def NewRoom_def joined_room_def broadcastToRoom_def Broadcast_def
      hub_try_send_def others_step_def put_event_def send_history_def hub_db_def GetRoomByName_def
      run_db init_db_def not_found_or_def ListMessages_def reverse_in_place_def sql_limit_def
  show "status (srv_world (walk7 a)) = Running"
    and "h_rooms (srv_world (walk7 a)) ''general'' = Some \<lparr>rm_Name = ''general'', rm_clients = [0]\<rparr>"
    by (simp_all add: defs)
qed


theorem private_rooms_private_witness:
  "\<exists>a s tr room t. app_New demo_platform (Inr (init_db 0)) config_Default = Inr a \<and> server_trace a (s # tr)
     \<and> h_rooms (srv_world s) ''general'' = Some \<lparr>rm_Name = ''general'', rm_clients = [0]\<rparr>
     \<and> t \<in> set tr \<and> room \<in> set (t_rooms (database (srv_world t))) \<and> room_Name room = ''general''"
proof -
  obtain a where a: "app_New demo_platform (Inr (init_db 0)) config_Default = Inr a"
    by (simp add: app_New_def app_callEngine_def config_Default_def Let_def)
  note w = walk_worlds[OF a]
  let ?s5 = "(walk4 a)\<lparr>srv_world := env_step (Consume 0) (srv_world (walk4 a))\<rparr>"
  obtain conn where conn: "srv_conns (walk3 a) 0 = Some (conn, Some join_cmd)" using w(5) by blast
  have "server_step a (app_Run a) (walk1 a)"
    using connected[of "new_connection (Inr [1]) 0" "Inr [1]" "app_Run a" a]
    by (simp add: walk1_def walk_conn_def w(1) NewHub_def init_db_def)
  moreover have "server_step a (walk1 a) (walk2 a)"
    unfolding walk2_def by (rule hub_case) (simp_all add: walk1_def w(1) NewHub_def calm_sched_def del: env_step.simps)
  moreover have "server_step a (walk2 a) (walk3 a)"
    by (rule frame[OF _ w(4)]) (simp_all add: walk2_def walk1_def)
  moreover have "server_step a (walk3 a) (walk4 a)"
    unfolding walk4_def conn option.sel fst_conv
    by (rule submit[OF conn]) (simp add: w(1,3) run_world)
  moreover have "server_step a (walk4 a) ?s5" by (rule pumped) blast
  moreover have "server_step a ?s5 (walk6 a)" using pumped[of "Consume 0" 0 a ?s5] by (simp add: walk6_def del: env_step.simps)
  moreover have "server_step a (walk6 a) (walk7 a)"
    unfolding walk7_def by (rule hub_case) (simp_all add: walk6_def walk4_def w(1,3) run_world calm_sched_def)
  ultimately have tr: "server_trace a [walk7 a, walk6 a, ?s5, walk4 a, walk3 a, walk2 a, walk1 a, app_Run a]"
    by (blast intro: server_trace.intros)
  have "0 \<in> set (rm_clients \<lparr>rm_Name = ''general'', rm_clients = [0]\<rparr>)" by simp
  from private_rooms_private[OF a tr w(6,7) this] obtain t room where
    "t \<in> set [walk6 a, ?s5, walk4 a, walk3 a, walk2 a, walk1 a, app_Run a]"
    "room \<in> set (t_rooms (database (srv_world t)))" "room_Name room = ''general''" by blast
  with a tr w(7) show ?thesis by blast
qed

end
