(* ===== verification/Call_Race.thy ===== *)
theory Call_Race
  imports Rest_Props
begin

text \<open>
  Two requests for a call in the same room at the same time. \<open>CreateRoomCall\<close> looks for a live call of the room
  and, when there is none, makes one; the store runs each statement by itself, and nothing holds the two
  parts together. Elsewhere a request is one step; here the part before and the part after the lookup are
  two.
\<close>

section \<open>The two halves of CreateRoomCall\<close>

definition room_call_lookup :: "userID \<Rightarrow> roomID \<Rightarrow> (goerr + room \<times> call option) dbm" where
  "room_call_lookup initiatorUserID roomID = do {
     room \<leftarrow> GetRoomByID roomID;
     case room of Inl _ \<Rightarrow> return (Inl calls_ErrRoomNotFound) | Inr room \<Rightarrow> do {
     isMember \<leftarrow> IsMember initiatorUserID roomID;
     case isMember of Inl e \<Rightarrow> return (Inl (ErrWrap ''check membership'' e)) | Inr b \<Rightarrow>
     if \<not> b then return (Inl calls_ErrNotRoomMember)
     else do {
     existing \<leftarrow> GetActiveCallForRoom roomID;
     return (case existing of Inl e \<Rightarrow> Inl (ErrWrap ''check existing call'' e) | Inr c \<Rightarrow> Inr (room, c)) }}}"

definition room_call_create :: "callsService \<Rightarrow> engine \<Rightarrow> userID \<Rightarrow> room \<Rightarrow> call option \<Rightarrow> (goerr + call) dbm" where
  "room_call_create s eng initiatorUserID room existing = (case existing of
       Some existingCall \<Rightarrow> enter_existing existingCall initiatorUserID
     | None \<Rightarrow> do {
       now \<leftarrow> time_Now;
       let call = \<lparr>call_ID = svc_uuid s, call_Type = CallTypeRoom, call_Mode = CallModeLiveKit,
         call_InitiatorUserID = initiatorUserID, call_RoomID = Some (room_ID room),
         call_Status = CallStatusRinging, call_ExternalRoomID = None, call_CreatedAt = now,
         call_UpdatedAt = now, call_EndedAt = None\<rparr>;
       case eng_CreateCall eng call of
         Inl e \<Rightarrow> return (Inl (ErrWrap ''create external room'' e))
       | Inr ext \<Rightarrow> do {
       let call = call\<lparr>call_ExternalRoomID := Some ext\<rparr>;
       r \<leftarrow> store_CreateCall call;
       case r of Inl e \<Rightarrow> return (Inl (ErrWrap ''save call'' e)) | Inr _ \<Rightarrow> do {
       r \<leftarrow> AddParticipant (new_participant (svc_uuid s) initiatorUserID);
       case r of Inl e \<Rightarrow> return (Inl (ErrWrap ''add initiator participant'' e))
               | Inr _ \<Rightarrow> return (Inr call) }}})"

lemma CreateRoomCall_halves:
  "CreateRoomCall s u r = (case svc_engine s of
     None \<Rightarrow> return (Inl calls_ErrLiveKitNotEnabled)
   | Some eng \<Rightarrow> do {
       x \<leftarrow> room_call_lookup u r;
       case x of Inl e \<Rightarrow> return (Inl e) | Inr (room, existing) \<Rightarrow> room_call_create s eng u room existing })"
proof (cases "svc_engine s")
  case (Some eng)
  have "run_state (CreateRoomCall s u r) d = run_state (do {
       x \<leftarrow> room_call_lookup u r;
       case x of Inl e \<Rightarrow> return (Inl e) | Inr (room, existing) \<Rightarrow> room_call_create s eng u room existing }) d" for d
    unfolding CreateRoomCall_def room_call_lookup_def room_call_create_def enter_existing_def Some option.case
    by (simp add: case_prod_beta split: sum.split option.split)
  then show ?thesis by (simp add: Some state.expand fun_eq_iff)
qed (simp add: CreateRoomCall_def)


section \<open>Two requests\<close>

lemma room_call_lookup_none:
  assumes "db_ok d" and "faults d = []" and "room \<in> set (t_rooms d)" and "(u, room_ID room) \<in> membership d"
    and "live_in_room (t_calls d) (room_ID room) = []"
  shows "run_state (room_call_lookup u (room_ID room)) d = (Inr (room, None), d)"
proof -
  have "\<exists>m \<in> set (t_room_members d). member_UserID m = u \<and> member_RoomID m = room_ID room"
    using assms(4) by (auto simp: membership_def)
  then have "run_state (IsMember u (room_ID room)) d = (Inr True, d)" using assms(2) by (simp add: IsMember_run)
  moreover have "run_state (GetActiveCallForRoom (room_ID room)) d = (Inr None, d)"
    using assms(2,5) by (simp add: GetActiveCallForRoom_def run_query_row live_in_room_def sql_limit_def)
  ultimately show ?thesis using GetRoomByID_run[OF assms(1-3)] by (simp add: room_call_lookup_def)
qed

definition fresh_call :: "db \<Rightarrow> callID \<Rightarrow> bool" where
  "fresh_call d i \<longleftrightarrow> i \<notin> call_ID ` set (t_calls d) \<and> i \<notin> part_CallID ` set (t_call_participants d)"

text \<open>With no live call found, the second half makes one, whatever has happened since.\<close>

lemma room_call_create_new:
  assumes "faults d = []" and "fresh_call d (svc_uuid s)" and "\<And>c. \<exists>x. eng_CreateCall eng c = Inr x"
  shows "\<exists>c d'. run_state (room_call_create s eng u room None) d = (Inr c, d') \<and> faults d' = []
    \<and> call_ID c = svc_uuid s \<and> call_RoomID c = Some (room_ID room) \<and> live_status c
    \<and> t_calls d' = t_calls d @ [c\<lparr>call_CreatedAt := current_timestamp d, call_UpdatedAt := current_timestamp d\<rparr>]
    \<and> (\<forall>i. i \<noteq> svc_uuid s \<longrightarrow> fresh_call d i \<longrightarrow> fresh_call d' i)"
proof -
  let ?c = "\<lparr>call_ID = svc_uuid s, call_Type = CallTypeRoom, call_Mode = CallModeLiveKit, call_InitiatorUserID = u,
      call_RoomID = Some (room_ID room), call_Status = CallStatusRinging, call_ExternalRoomID = None, call_CreatedAt = clock d,
      call_UpdatedAt = clock d, call_EndedAt = None\<rparr>"
  obtain x where x: "eng_CreateCall eng ?c = Inr x" using assms(3) by blast
  let ?d1 = "d\<lparr>t_calls := t_calls d @ [?c\<lparr>call_ExternalRoomID := Some x, call_CreatedAt := current_timestamp d,
      call_UpdatedAt := current_timestamp d\<rparr>]\<rparr>"
  have 1: "run_state (store_CreateCall (?c\<lparr>call_ExternalRoomID := Some x\<rparr>)) d = (Inr (), ?d1)"
    using assms(1,2) by (simp add: store_CreateCall_def run_exec_stmt fresh_call_def)
  let ?p = "(new_participant (svc_uuid s) u)\<lparr>part_ID := s_call_participants d + 1\<rparr>"
  let ?d2 = "?d1\<lparr>t_call_participants := t_call_participants d @ [?p], s_call_participants := s_call_participants d + 1\<rparr>"
  have 2: "run_state (AddParticipant (new_participant (svc_uuid s) u)) ?d1 = (Inr ?p, ?d2)"
    using assms(1,2) by (auto simp: AddParticipant_def run_exec_stmt fresh_call_def new_participant_def Let_def)
  have "run_state (room_call_create s eng u room None) d = (Inr (?c\<lparr>call_ExternalRoomID := Some x\<rparr>), ?d2)"
    using x 1 2 by (simp add: room_call_create_def run_time_Now Let_def)
  then show ?thesis
    using assms(1) by (intro exI[of _ "?c\<lparr>call_ExternalRoomID := Some x\<rparr>"] exI[of _ ?d2])
      (auto simp: live_status_def fresh_call_def new_participant_def)
qed

text \<open>Both lookups first, then both halves that create; a request whose lookup fails ends there.\<close>

definition two_requests ::
    "callsService \<Rightarrow> callsService \<Rightarrow> engine \<Rightarrow> userID \<Rightarrow> userID \<Rightarrow> roomID \<Rightarrow> ((goerr + call) \<times> (goerr + call)) dbm" where
  "two_requests s s' eng u v r = do {
     x \<leftarrow> room_call_lookup u r;
     y \<leftarrow> room_call_lookup v r;
     c \<leftarrow> (case x of Inl e \<Rightarrow> return (Inl e) | Inr (room, existing) \<Rightarrow> room_call_create s eng u room existing);
     c' \<leftarrow> (case y of Inl e \<Rightarrow> return (Inl e) | Inr (room, existing) \<Rightarrow> room_call_create s' eng v room existing);
     return (c, c') }"

text \<open>(C31) Two calls in one room. When two requests to start a call in the same room both make their lookup before either of
  them has created its call, both succeed and the room has two live calls, although every single request leaves
  a room with at most one: \<open>CreateRoomCall\<close> neither holds a lock or a transaction over its lookup and its insert, nor
  has the table a constraint.\<close>

theorem concurrent_room_calls:
  assumes "db_ok d" and "faults d = []" and "room \<in> set (t_rooms d)" and "live_in_room (t_calls d) (room_ID room) = []"
    and "(u, room_ID room) \<in> membership d" and "(v, room_ID room) \<in> membership d"
    and "fresh_call d (svc_uuid s)" and "fresh_call d (svc_uuid s')" and "svc_uuid s \<noteq> svc_uuid s'"
    and "\<And>c. \<exists>x. eng_CreateCall eng c = Inr x"
  shows "\<exists>c c' d'. run_state (two_requests s s' eng u v (room_ID room)) d = ((Inr c, Inr c'), d')
    \<and> call_ID c \<noteq> call_ID c' \<and> length (live_in_room (t_calls d') (room_ID room)) = 2 \<and> \<not> one_live_call (t_calls d')"
proof -
  obtain c d1 where 1: "run_state (room_call_create s eng u room None) d = (Inr c, d1)" "faults d1 = []"
      "call_ID c = svc_uuid s" "call_RoomID c = Some (room_ID room)" "live_status c"
      "t_calls d1 = t_calls d @ [c\<lparr>call_CreatedAt := current_timestamp d, call_UpdatedAt := current_timestamp d\<rparr>]"
      "fresh_call d1 (svc_uuid s')"
    using room_call_create_new[OF assms(2,7,10), of u room] assms(8,9) by (elim exE conjE) (drule spec[of _ "svc_uuid s'"], simp)
  obtain c' d2 where 2: "run_state (room_call_create s' eng v room None) d1 = (Inr c', d2)"
      "call_ID c' = svc_uuid s'" "call_RoomID c' = Some (room_ID room)" "live_status c'"
      "t_calls d2 = t_calls d1 @ [c'\<lparr>call_CreatedAt := current_timestamp d1, call_UpdatedAt := current_timestamp d1\<rparr>]"
    using room_call_create_new[OF 1(2,7) assms(10), of v room] by blast
  have "length (live_in_room (t_calls d2) (room_ID room)) = 2"
    using assms(4) 1 2 by (simp add: live_in_room_def live_status_def)
  moreover have "run_state (two_requests s s' eng u v (room_ID room)) d = ((Inr c, Inr c'), d2)"
    using room_call_lookup_none[OF assms(1-3,5,4)] room_call_lookup_none[OF assms(1-3,6,4)] 1(1) 2(1)
    by (simp add: two_requests_def)
  moreover have "call_ID c \<noteq> call_ID c'" using 1(3) 2(2) assms(9) by simp
  moreover have "\<not> one_live_call (t_calls d2)"
    using \<open>length _ = 2\<close> by (auto simp: one_live_call_def intro!: exI[of _ "room_ID room"])
  ultimately show ?thesis by blast
qed

definition race_db :: db where
  "race_db = demo_db\<lparr>t_room_members := [\<lparr>member_UserID = 1, member_RoomID = 1, member_JoinedAt = 0\<rparr>,
     \<lparr>member_UserID = 2, member_RoomID = 1, member_JoinedAt = 0\<rparr>]\<rparr>"

theorem concurrent_room_calls_witness:
  "\<not> one_live_call (t_calls (after (two_requests demo_svc (calls_New (Some demo_engine) ''c2'') demo_engine 1 2 1) race_db))
    \<and> one_live_call (t_calls race_db)"
proof -
  obtain room where room: "room \<in> set (t_rooms race_db)" "room_ID room = 1"
    by (simp add: race_db_def demo_db_def init_db_def)
  have ok: "db_ok race_db"
    using demo_db_simps(6) by (simp add: race_db_def db_ok_def table_oks)
  have rest: "faults race_db = []" "live_in_room (t_calls race_db) 1 = []" "(1, 1) \<in> membership race_db" "(2, 1) \<in> membership race_db"
      "fresh_call race_db i" "one_live_call (t_calls race_db)" for i
    by (simp_all add: race_db_def demo_db_def init_db_def live_in_room_def membership_def fresh_call_def one_live_call_def)
  have "\<exists>x. eng_CreateCall demo_engine c = Inr x" for c
    by (simp add: demo_engine_def livekit_engine_def livekit_CreateCall_def)
  then show ?thesis
    using concurrent_room_calls[OF ok rest(1) room(1), of 1 2 demo_svc "calls_New (Some demo_engine) ''c2''" demo_engine] rest
    by (auto simp: room(2) demo_svc_def calls_New_def)
qed

end
