(* ===== verification/Spec2Isabelle.thy ===== *)
theory Spec2Isabelle
  imports Process Room_Privacy Call_Race
begin

text \<open>
  A verification of the WireChat server, a chat server in Go with rooms, friends, direct messages and
  calls over a WebSocket and a REST interface. Paths below are under \<open>src/\<close>.

  \<^bold>\<open>The program.\<close> \<open>internal/app\<close> opens the SQLite store (\<open>internal/store\<close>), makes the authentication, friend and
  call services on it (\<open>internal/auth\<close>, \<open>internal/service\<close>), the hub (\<open>internal/core\<close>) and the two transports
  (\<open>internal/transport/http\<close>). The hub is one goroutine that owns the rooms; every connection has a read loop,
  a write loop and a goroutine that forwards its commands, and talks to the hub over channels only. The
  REST handlers use the store and the services directly. All of them share the database.

  \<^bold>\<open>The model.\<close> Each theory follows one part of the code, one definition per function or method, with the names of the
  source.

  \<^item> \<open>Prelude\<close>: errors (\<open>errors.Is\<close>, wrapping), decimal formatting, generic lemmas, and the interfaces shared by the
    components: \<open>effect_bound\<close> (a relation every step of a program respects), \<open>inv_machine\<close> (invariants of step
    relations), \<open>simulation\<close> (functional refinement), and pre- and postconditions (\<open>hoare\<close>).
  \<^item> \<open>Store\<close>, \<open>Sqlite\<close>: the tables of \<open>migrations\<close> and the structs of \<open>store.go\<close> as records; every method of
    \<open>sqlite.go\<close> in the state monad of the database. The driver may fail at every statement: a schedule of faults
    in the state says where and how. \<open>Sqlite_Props\<close>: every method keeps the invariant \<open>db_ok\<close> under all faults, direct
    rooms are created atomically, and what the listings return. \<open>Store_Contract\<close>: the interfaces of \<open>store.go\<close> as records of
    methods, the SQLite store as their instance, and \<open>membership_store\<close>, the contract of a set of members.
  \<^item> \<open>Friends\<close>: \<open>service/friends/service.go\<close>, refined against a state machine per pair of users.
  \<^item> \<open>CallEngine\<close>, \<open>Calls\<close>: \<open>callengine\<close>, \<open>livekit.go\<close> and \<open>service/calls/service.go\<close>. \<open>Calls_Props\<close>, \<open>Call_Cycle\<close>: the life
    cycle of calls over every run, who gets join credentials, and what each operation does on every branch.
  \<^item> \<open>Channels\<close>, \<open>Core_Types\<close>, \<open>Hub\<close>, \<open>Hub_Calls\<close>: Go channels, and \<open>core/*.go\<close>. The state \<open>world\<close> holds the clients, the hub's
    maps and queues, the database and a log of what was sent. A handler runs in a state monad; at every
    channel operation the other goroutines may take any number of steps, given by a schedule in the state.
    Blocking for ever and panicking are values of \<open>status\<close>. \<open>hub_step\<close> is the step relation of the whole.
  \<^item> \<open>Hub_Frame\<close>, \<open>Hub_Inv\<close>, \<open>Hub_Props\<close>: the invariant of rooms and clients, the refinement of the hub to a specification
    over sets, and when the hub panics. \<open>Hub_Messages\<close>: who gets a message, and that it is stored and delivered.
    \<open>Hub_Database\<close>: the interfaces \<open>hub_scheduled\<close>, \<open>hub_client\<close>, \<open>hub_loop\<close> and \<open>free_loop\<close> that carry a relation from the
    primitive actions of the hub, and from the store and services it calls, to every case of its loop;
    interpreted for the database, the events in the channels and, in \<open>Hub_Order\<close>, the queues: the commands of a client are
    handled in the order it sent them, the hub works off what is queued, and when it waits for a client.
  \<^item> \<open>Json\<close>, \<open>Proto\<close>, \<open>Mapper\<close>: \<open>proto/message.go\<close> with the coding of each struct (interface \<open>codec\<close>) and \<open>mapper.go\<close>.
  \<^item> \<open>Strings\<close>, \<open>Auth\<close>: \<open>strings.TrimSpace\<close>, \<open>utils/id.go\<close>, and \<open>internal/auth\<close>. \<open>Config\<close>, \<open>Config_Load\<close>: \<open>internal/config\<close>
    (which of flags, environment, file and defaults wins), \<open>log\<close> and the flags of \<open>main.go\<close>.
  \<^item> \<open>WebSocket\<close>, \<open>WebSocket_Props\<close>: \<open>ws_handler.go\<close> and \<open>ratelimit.go\<close>; what is admitted to the hub, rate limits, and how
    connections end.
  \<^item> \<open>Rest\<close>, \<open>Rest_Props\<close>: the middleware, all handlers and the routes. The interfaces \<open>api_reader\<close> and \<open>api_client\<close> carry a
    relation between databases from the store and the services to every request; they are interpreted for
    the invariant of the database, and for the tables a request must leave alone.
  \<^item> \<open>Server\<close>: \<open>app.New\<close> and the running process, \<open>server_step\<close>, in which the hub, the connections, the requests, the clock and
    the faults interleave; its steps are steps of the hub's system, so what is shown of every reachable
    state of the hub holds in the server, and the database stays consistent. \<open>Room_Privacy\<close>: whoever is in a room was
    entitled to it in an earlier state of the run. \<open>Call_Race\<close>: two requests for a call in one room, with the
    lookup and the insertion of each as two steps.
  \<^item> \<open>Process\<close>: \<open>main.go\<close>, the end of \<open>app.Run\<close>, \<open>sqlite.New\<close>, and which handler a request reaches; how the process starts and
    ends.

  \<^bold>\<open>Loops and bounds.\<close> All loops of the model are structural or have a termination proof: \<open>digits10\<close>, \<open>drop_runes\<close>, and
  \<open>readLoop\<close> over the sequence of what happens to the connection. There is no fuel. The hub's loop is a relation, a
  step per case; that it comes to rest when nothing new arrives is a theorem, with the number of queued requests
  as the measure (\<open>run_alone\<close>). Identifiers and instants are unbounded integers; a number that comes from outside is read
  with the bounds of \<open>int64\<close> (\<open>in_int64\<close>), and the counters of \<open>AUTOINCREMENT\<close> keys are taken not to reach them.
  Strings are sequences of bytes.

  \<^bold>\<open>Not modelled.\<close> Third-party code is a parameter: the JWT library, bcrypt, random bytes and \<open>uuid.New\<close>, the signer of
  LiveKit tokens, the match of \<open>LIKE\<close>, \<open>Time.Format\<close>, \<open>CloseStatus\<close>, viper and yaml, the SQL driver, gin's matching of
  routes, the operating system's part in listening and signals; what a theorem needs of them is one of its
  hypotheses. Gin's binding of bodies, the framing of WebSocket messages, the migration runner and
  logging are I/O and left out, as are the development tools under \<open>scripts\<close> and \<open>infra\<close>. Two requests are not interleaved
  statement by statement: each is one step of the server, but for the two of \<open>Call_Race\<close>.
\<close>

end
